(* ===== verification/EPS_Prelude.thy ===== *)
theory EPS_Prelude
  imports Main
begin

text \<open>
  What every component of the development shares: the errors the code throws, the type of a
  computation that may throw and that changes a state, its combinators, and the two lemma
  collections the component proofs use.

  An \<open>async\<close> function of the program is a function from its arguments and the state it
  works on to a pair: the value it returns or the error it throws, and the state it leaves
  behind. A throw keeps the writes made before it; only \<open>transaction\<close>, the model of
  \<open>prisma.$transaction\<close>, undoes them.
\<close>

named_theorems act_simps \<open>unfolding of the combinators of throwing computations\<close>

named_theorems lookup_simps \<open>what a table lookup returns after an update of the database\<close>

subsection \<open>Errors\<close>

text \<open>
  The reason of \<open>InvalidRecipientError\<close> (lib/solana/validate-address.ts) and the errors the
  code throws or receives. \<open>P2002\<close>, \<open>P2003\<close> and \<open>P2025\<close> are Prisma's codes for a violated
  unique constraint, for a violated foreign key and for an update of (or a connection to) a row
  that does not exist; \<open>PrismaValidation\<close> is its
  rejection of a query whose arguments do not fit the schema.
\<close>

datatype recipient_reason = Malformed | Off_Curve

datatype chain_error_code =
    NOT_IMPLEMENTED | INVALID_ADDRESS | BROADCAST_FAILED | CONFIRMATION_FAILED | MAINNET_FORBIDDEN
  | MEMO_MISMATCH | UNKNOWN

datatype eps_error =
    UnauthorizedError string
  | ForbiddenError string
  | NoActiveSubscriptionError string
  | QuotaExceededError string int
  | InvalidRecipientError string recipient_reason
  | MemoMismatchError string string
  | ChainError chain_error_code string
  | P2002
  | P2003
  | P2025
  | PrismaValidation
  | TypeError string
  | PlainError string

type_synonym 'a result = "eps_error + 'a"

type_synonym ('s, 'a) act = "'s \<Rightarrow> 'a result \<times> 's"

text \<open>\<open>process.env\<close>: a variable that is not set is \<open>None\<close>.\<close>

type_synonym env = "string \<Rightarrow> string option"

text \<open>A JavaScript string is falsy when it is empty; \<open>!x\<close> on a variable that may be unset.\<close>

definition truthy :: "string option \<Rightarrow> bool" where
  "truthy x = (case x of None \<Rightarrow> False | Some s \<Rightarrow> s \<noteq> [])"

lemma truthy_simps [simp]:
  "\<not> truthy None" "truthy (Some s) \<longleftrightarrow> s \<noteq> []"
  by (simp_all add: truthy_def)

lemma truthy_iff: "truthy x \<longleftrightarrow> (\<exists>s. x = Some s \<and> s \<noteq> [])"
  by (cases x) auto

subsection \<open>Computations that throw\<close>

definition ret :: "'a \<Rightarrow> ('s, 'a) act" where
  "ret x s = (Inr x, s)"

definition throw :: "eps_error \<Rightarrow> ('s, 'a) act" where
  "throw e s = (Inl e, s)"

definition andThen :: "('s, 'a) act \<Rightarrow> ('a \<Rightarrow> ('s, 'b) act) \<Rightarrow> ('s, 'b) act" where
  "andThen m f s = (case m s of (Inl e, s') \<Rightarrow> (Inl e, s') | (Inr x, s') \<Rightarrow> f x s')"

definition catch :: "('s, 'a) act \<Rightarrow> (eps_error \<Rightarrow> ('s, 'a) act) \<Rightarrow> ('s, 'a) act" where
  "catch m h s = (case m s of (Inl e, s') \<Rightarrow> h e s' | (Inr x, s') \<Rightarrow> (Inr x, s'))"

text \<open>\<open>prisma.$transaction(fn)\<close>: all writes of the body commit, or none does.\<close>

definition transaction :: "('s, 'a) act \<Rightarrow> ('s, 'a) act" where
  "transaction m s = (case m s of (Inl e, s') \<Rightarrow> (Inl e, s) | (Inr x, s') \<Rightarrow> (Inr x, s'))"

text \<open>
  A call that reaches the database or another service can be refused for reasons of its own (a
  lost connection, a constraint the model does not hold). \<open>faulty\<close> is a call with the
  fault it meets, if any.
\<close>

definition faulty :: "eps_error option \<Rightarrow> ('s, 'a) act \<Rightarrow> ('s, 'a) act" where
  "faulty fault m = (case fault of None \<Rightarrow> m | Some e \<Rightarrow> throw e)"

lemma faulty_simps [act_simps]: "faulty None m = m" "faulty (Some e) m = throw e"
  by (simp_all add: faulty_def)

lemma faulty_Inr_iff: "faulty fault m s = (Inr x, s') \<longleftrightarrow> fault = None \<and> m s = (Inr x, s')"
  by (cases fault) (simp_all add: faulty_def throw_def)

lemma act_laws [act_simps]:
  "ret x s = (Inr x, s)"
  "throw e s = (Inl e, s)"
  "andThen (ret x) f s = f x s"
  "andThen (throw e) f s = (Inl e, s)"
  by (simp_all add: ret_def throw_def andThen_def)

lemma andThen_Inl [act_simps]: "m s = (Inl e, s') \<Longrightarrow> andThen m f s = (Inl e, s')"
  by (simp add: andThen_def)

lemma andThen_Inr [act_simps]: "m s = (Inr x, s') \<Longrightarrow> andThen m f s = f x s'"
  by (simp add: andThen_def)

lemma andThen_assoc: "andThen (andThen m f) g = andThen m (\<lambda>x. andThen (f x) g)"
  by (rule ext) (simp add: andThen_def split: prod.split sum.split)

lemma andThen_Inr_iff:
  "andThen m f s = (Inr y, s'') \<longleftrightarrow> (\<exists>x s'. m s = (Inr x, s') \<and> f x s' = (Inr y, s''))"
  by (auto simp: andThen_def split: prod.splits sum.splits)

lemma andThen_Inl_iff:
  "andThen m f s = (Inl e, s'') \<longleftrightarrow>
     m s = (Inl e, s'') \<or> (\<exists>x s'. m s = (Inr x, s') \<and> f x s' = (Inl e, s''))"
  by (auto simp: andThen_def split: prod.splits sum.splits)

lemma catch_Inr [act_simps]: "m s = (Inr x, s') \<Longrightarrow> catch m h s = (Inr x, s')"
  by (simp add: catch_def)

lemma catch_Inl [act_simps]: "m s = (Inl e, s') \<Longrightarrow> catch m h s = h e s'"
  by (simp add: catch_def)

lemma transaction_Inr_iff: "transaction m s = (Inr x, s') \<longleftrightarrow> m s = (Inr x, s')"
  by (auto simp: transaction_def split: prod.splits sum.splits)

lemma transaction_Inl_iff: "transaction m s = (Inl e, s') \<longleftrightarrow> s' = s \<and> (\<exists>s''. m s = (Inl e, s''))"
  by (auto simp: transaction_def split: prod.splits sum.splits)

lemma transaction_Inl [act_simps]: "m s = (Inl e, s') \<Longrightarrow> transaction m s = (Inl e, s)"
  by (simp add: transaction_def)

lemma transaction_Inr [act_simps]: "m s = (Inr x, s') \<Longrightarrow> transaction m s = (Inr x, s')"
  by (simp add: transaction_def)

text \<open>A state invariant that every part of a computation keeps is kept by the whole.\<close>

definition keeps :: "('s \<Rightarrow> bool) \<Rightarrow> ('s, 'a) act \<Rightarrow> bool" where
  "keeps I m \<longleftrightarrow> (\<forall>s. I s \<longrightarrow> I (snd (m s)))"

lemma keepsD: "keeps I m \<Longrightarrow> I s \<Longrightarrow> m s = (r, s') \<Longrightarrow> I s'"
  unfolding keeps_def by (metis snd_conv)

lemma keeps_andThen:
  assumes "keeps I m" and "\<And>x. keeps I (f x)"
  shows "keeps I (andThen m f)"
  unfolding keeps_def
proof (intro allI impI)
  fix s
  assume "I s"
  obtain r s' where m: "m s = (r, s')" by (cases "m s")
  with assms(1) \<open>I s\<close> have "I s'" by (rule keepsD)
  with assms(2) m show "I (snd (andThen m f s))"
    by (cases r) (simp_all add: andThen_def keeps_def)
qed

lemma keeps_transaction:
  assumes "keeps I m"
  shows "keeps I (transaction m)"
  unfolding keeps_def
proof (intro allI impI)
  fix s
  assume "I s"
  obtain r s' where m: "m s = (r, s')" by (cases "m s")
  with assms \<open>I s\<close> have "I s'" by (rule keepsD)
  with \<open>I s\<close> m show "I (snd (transaction m s))"
    by (cases r) (simp_all add: transaction_def)
qed

lemma keeps_faulty: "keeps I m \<Longrightarrow> keeps I (faulty fault m)"
  by (cases fault) (simp_all add: faulty_def keeps_def throw_def)

lemma keeps_ret [simp]: "keeps I (ret x)" and keeps_throw [simp]: "keeps I (throw e)"
  by (simp_all add: keeps_def ret_def throw_def)

subsection \<open>Guarded operations\<close>

text \<open>
  Several operations that move value refuse to run in an environment that points at a main network.
  What their callers rely on: a refusal is an error, and it happens before anything else does.
\<close>

locale guarded_op =
  fixes run :: "env \<Rightarrow> ('s, 'a) act"
    and forbidden :: "env \<Rightarrow> bool"
  assumes refuses: "forbidden env \<Longrightarrow> \<exists>e. run env s = (Inl e, s)"
begin

lemma never_returns: "forbidden env \<Longrightarrow> run env s \<noteq> (Inr x, s')"
  using refuses [of env s] by auto

lemma attempts_harmless: "forbidden env \<Longrightarrow> fold (\<lambda>_ s. snd (run env s)) xs s = s"
proof (induction xs)
  case (Cons x xs)
  then show ?case using refuses [of env s] by auto
qed simp

end

subsection \<open>Escaping\<close>

text \<open>A translation of characters that a reader can undo one character at a time is injective.\<close>

lemma concat_map_inject:
  assumes "\<And>c d x y. f c @ x = f d @ y \<Longrightarrow> c = d" and "\<And>c. f c \<noteq> []"
    and "concat (map f s) = concat (map f t)"
  shows "s = t"
  using assms(3)
proof (induction s arbitrary: t)
  case Nil
  then show ?case using assms(2) by (cases t) auto
next
  case (Cons c s)
  from Cons.prems assms(2) obtain d u where t: "t = d # u" by (cases t) auto
  with Cons.prems assms(1) [of c _ d] have "c = d" by simp
  with Cons t show ?case by simp
qed

subsection \<open>Object literals as dictionaries\<close>

text \<open>
  A lookup \<open>OBJ[key]\<close> on an object literal does not only see the literal's own keys: a key
  such as \<open>constructor\<close> finds the property inherited from \<open>Object.prototype\<close>. The result
  tells the three cases apart; code that tests for \<open>undefined\<close> sees \<open>Undefined\<close> only.
\<close>

datatype 'a js_lookup = Own 'a | Inherited | Undefined

definition object_prototype_keys :: "string list" where
  "object_prototype_keys =
     [''constructor'', ''__defineGetter__'', ''__defineSetter__'', ''hasOwnProperty'',
      ''__lookupGetter__'', ''__lookupSetter__'', ''isPrototypeOf'', ''propertyIsEnumerable'',
      ''toString'', ''valueOf'', ''__proto__'', ''toLocaleString'']"

definition js_object_get :: "(string \<times> 'a) list \<Rightarrow> string \<Rightarrow> 'a js_lookup" where
  "js_object_get obj key =
     (case map_of obj key of
        Some v \<Rightarrow> Own v
      | None \<Rightarrow> if key \<in> set object_prototype_keys then Inherited else Undefined)"

lemma js_object_get_Own: "map_of obj key = Some v \<Longrightarrow> js_object_get obj key = Own v"
  by (simp add: js_object_get_def)

lemma js_object_get_Own_iff: "js_object_get obj key = Own v \<longleftrightarrow> map_of obj key = Some v"
  by (simp add: js_object_get_def split: option.split)

end
