(* ===== verification/JS_Strings.thy ===== *)
theory JS_Strings
  imports EPS_Prelude "HOL-Library.Sublist"
begin

text \<open>
  The string operations of the language that the program uses, and the regular expressions it
  tests. A string is a list of code units; \<^typ>\<open>char\<close> holds the units below 256, the range
  of every string the modelled code inspects, and each operation is the ECMAScript one on it.
\<close>

definition code_unit :: "char \<Rightarrow> nat" where
  "code_unit c = of_char c"

lemma code_unit_inject [simp]: "code_unit c = code_unit d \<longleftrightarrow> c = d"
  by (simp add: code_unit_def)

lemma code_unit_less [simp]: "code_unit c < 256"
  unfolding code_unit_def by (rule nat_of_char_less_256)

lemma code_unit_char_of: "n < 256 \<Longrightarrow> code_unit (char_of n) = n"
  by (simp add: code_unit_def)

subsection \<open>Character classes\<close>

definition is_digit :: "char \<Rightarrow> bool" where
  "is_digit c = (48 \<le> code_unit c \<and> code_unit c \<le> 57)"

definition is_lower_hex :: "char \<Rightarrow> bool" where
  "is_lower_hex c = (is_digit c \<or> 97 \<le> code_unit c \<and> code_unit c \<le> 102)"

definition is_hex :: "char \<Rightarrow> bool" where
  "is_hex c = (is_lower_hex c \<or> 65 \<le> code_unit c \<and> code_unit c \<le> 70)"

definition is_space :: "char \<Rightarrow> bool" where
  "is_space c = (code_unit c \<in> {9, 10, 11, 12, 13, 32, 160})"

lemma is_digit_hex: "is_digit c \<Longrightarrow> is_lower_hex c" and is_lower_hex_hex: "is_lower_hex c \<Longrightarrow> is_hex c"
  by (simp_all add: is_lower_hex_def is_hex_def)

lemma is_hex_not_space: "is_hex c \<Longrightarrow> \<not> is_space c"
  by (auto simp: is_hex_def is_lower_hex_def is_digit_def is_space_def)

subsection \<open>trim, toLowerCase, slice\<close>

definition js_trim :: "string \<Rightarrow> string" where
  "js_trim s = rev (dropWhile is_space (rev (dropWhile is_space s)))"

definition lower_char :: "char \<Rightarrow> char" where
  "lower_char c =
     (let n = code_unit c
      in if 65 \<le> n \<and> n \<le> 90 \<or> 192 \<le> n \<and> n \<le> 222 \<and> n \<noteq> 215 then char_of (n + 32) else c)"

definition js_lower :: "string \<Rightarrow> string" where
  "js_lower s = map lower_char s"

definition slice_last :: "nat \<Rightarrow> string \<Rightarrow> string" where
  "slice_last n s = drop (length s - n) s"

lemma code_unit_lower_char:
  "code_unit (lower_char c) =
     (let n = code_unit c
      in if 65 \<le> n \<and> n \<le> 90 \<or> 192 \<le> n \<and> n \<le> 222 \<and> n \<noteq> 215 then n + 32 else n)"
  by (auto simp: lower_char_def Let_def code_unit_char_of)

lemma lower_char_idem [simp]: "lower_char (lower_char c) = lower_char c"
proof -
  have "code_unit (lower_char (lower_char c)) = code_unit (lower_char c)"
    by (auto simp: code_unit_lower_char Let_def split: if_splits)
  then show ?thesis by simp
qed

lemma js_lower_idem [simp]: "js_lower (js_lower s) = js_lower s"
  by (simp add: js_lower_def)

lemma length_js_lower [simp]: "length (js_lower s) = length s"
  by (simp add: js_lower_def)

lemma lower_char_lower_hex: "is_lower_hex c \<Longrightarrow> lower_char c = c"
  by (auto simp: lower_char_def Let_def is_lower_hex_def is_digit_def)

lemma is_hex_lower_char: "is_hex c \<Longrightarrow> is_lower_hex (lower_char c)"
  by (auto simp: is_hex_def is_lower_hex_def is_digit_def code_unit_lower_char Let_def)

lemma dropWhile_all_not: "\<forall>x\<in>set xs. \<not> P x \<Longrightarrow> dropWhile P xs = xs"
  by (cases xs) auto

lemma takeWhile_stop: "\<forall>x\<in>set xs. P x \<Longrightarrow> \<not> P y \<Longrightarrow> takeWhile P (xs @ y # ys) = xs"
  by (induction xs) auto

lemma dropWhile_stop: "\<forall>x\<in>set xs. P x \<Longrightarrow> \<not> P y \<Longrightarrow> dropWhile P (xs @ y # ys) = y # ys"
  by (induction xs) auto

lemma js_trim_no_space: "\<forall>c\<in>set s. \<not> is_space c \<Longrightarrow> js_trim s = s"
  by (simp add: js_trim_def dropWhile_all_not)

lemma js_trim_pad:
  assumes "\<forall>c\<in>set s. \<not> is_space c" and "\<forall>c\<in>set l. is_space c" and "\<forall>c\<in>set r. is_space c"
  shows "js_trim (l @ s @ r) = s"
proof -
  have l: "dropWhile is_space (l @ s @ r) = dropWhile is_space (s @ r)"
    using assms(2) by (simp add: dropWhile_append2)
  show ?thesis
  proof (cases s)
    case Nil
    with l assms(3) show ?thesis
      by (simp add: js_trim_def dropWhile_eq_Nil_conv [THEN iffD2])
  next
    case (Cons c cs)
    with assms(1) have "dropWhile is_space (s @ r) = s @ r" by simp
    moreover have "dropWhile is_space (rev r @ rev s) = dropWhile is_space (rev s)"
      by (rule dropWhile_append2) (use assms(3) in simp)
    ultimately show ?thesis
      using l assms(1) by (simp add: js_trim_def dropWhile_all_not)
  qed
qed

lemma js_trim_keeps: "c \<in> set s \<Longrightarrow> \<not> is_space c \<Longrightarrow> c \<in> set (js_trim s)"
proof -
  assume c: "c \<in> set s" "\<not> is_space c"
  have "c \<in> set (dropWhile is_space t)" if "c \<in> set t" for t
    using that c(2) by (induction t) auto
  with c(1) show ?thesis by (simp add: js_trim_def)
qed

lemma dropWhile_idem [simp]: "dropWhile P (dropWhile P xs) = dropWhile P xs"
  by (induction xs) auto

lemma js_trim_idem [simp]: "js_trim (js_trim s) = js_trim s"
proof -
  let ?t = "dropWhile is_space s" and ?u = "js_trim s"
  have "\<exists>v. ?t = ?u @ v"
    unfolding js_trim_def by (metis rev_append rev_rev_ident takeWhile_dropWhile_id)
  then obtain v where v: "?t = ?u @ v" by blast
  have "dropWhile is_space ?u = ?u"
  proof (cases ?u)
    case (Cons c cs)
    with v have "?t = c # cs @ v" by simp
    then have "\<not> is_space c" using hd_dropWhile [of is_space s] by simp
    with Cons show ?thesis by simp
  qed simp
  then show ?thesis
    unfolding js_trim_def [of "js_trim s"] by (simp add: js_trim_def)
qed

subsection \<open>split and join on one character\<close>

fun split_on :: "char \<Rightarrow> string \<Rightarrow> string list" where
  "split_on d [] = [[]]"
| "split_on d (c # cs) =
     (if c = d then [] # split_on d cs
      else case split_on d cs of [] \<Rightarrow> [[c]] | w # ws \<Rightarrow> (c # w) # ws)"

fun join_with :: "string \<Rightarrow> string list \<Rightarrow> string" where
  "join_with d [] = []"
| "join_with d [w] = w"
| "join_with d (w # v # ws) = w @ d @ join_with d (v # ws)"

lemma split_on_not_Nil [simp]: "split_on d s \<noteq> []"
  by (induction s) (auto split: list.split)

lemma join_split_on: "join_with [d] (split_on d s) = s"
proof (induction s)
  case Nil
  then show ?case by simp
next
  case (Cons c cs)
  then show ?case
    by (cases "split_on d cs"; cases "tl (split_on d cs)") auto
qed

lemma split_on_append: "d \<notin> set w \<Longrightarrow> split_on d (w @ d # s) = w # split_on d s"
  by (induction w) auto

lemma split_on_free: "d \<notin> set s \<Longrightarrow> split_on d s = [s]"
  by (induction s) auto

lemma split_on_parts_free: "w \<in> set (split_on d s) \<Longrightarrow> d \<notin> set w"
proof (induction s arbitrary: w)
  case Nil
  then show ?case by simp
next
  case (Cons c cs)
  then show ?case
    by (cases "split_on d cs") (auto split: if_splits)
qed

lemma split_join:
  "ws \<noteq> [] \<Longrightarrow> \<forall>w\<in>set ws. d \<notin> set w \<Longrightarrow> split_on d (join_with [d] ws) = ws"
  by (induction "[d]" ws rule: join_with.induct) (auto simp: split_on_free split_on_append)

lemma split_on_has: "d \<in> set s \<Longrightarrow> 2 \<le> length (split_on d s)"
proof (induction s)
  case Nil
  then show ?case by simp
next
  case (Cons c cs)
  then show ?case
    by (cases "split_on d cs") (auto simp: Suc_le_eq neq_Nil_conv)
qed

subsection \<open>Regular expressions of the code\<close>

definition re_evm_address :: "string \<Rightarrow> bool" where
  \<comment> \<open>\<open>/^0x[0-9a-fA-F]{40}$/\<close>\<close>
  "re_evm_address s = (length s = 42 \<and> take 2 s = ''0x'' \<and> list_all is_hex (drop 2 s))"

definition re_digits :: "string \<Rightarrow> bool" where
  \<comment> \<open>\<open>/^\d+$/\<close>\<close>
  "re_digits s = (s \<noteq> [] \<and> list_all is_digit s)"

definition re_notice_token :: "string \<Rightarrow> bool" where
  \<comment> \<open>\<open>/^[0-9a-f]{32}$/\<close>\<close>
  "re_notice_token s = (length s = 32 \<and> list_all is_lower_hex s)"

definition re_digits_dots :: "string \<Rightarrow> bool" where
  \<comment> \<open>\<open>/^[0-9.]+$/\<close>\<close>
  "re_digits_dots s = (s \<noteq> [] \<and> list_all (\<lambda>c. is_digit c \<or> c = CHR ''.'') s)"

subsection \<open>Numbers as strings\<close>

definition digit_char :: "nat \<Rightarrow> char" where
  "digit_char n = char_of (48 + n)"

fun string_of_nat :: "nat \<Rightarrow> string" where
  "string_of_nat n =
     (if n < 10 then [digit_char n] else string_of_nat (n div 10) @ [digit_char (n mod 10)])"

declare string_of_nat.simps [simp del]

definition string_of_int :: "int \<Rightarrow> string" where
  "string_of_int i = (if i < 0 then ''-'' @ string_of_nat (nat (- i)) else string_of_nat (nat i))"

fun nat_of_digits :: "nat \<Rightarrow> string \<Rightarrow> nat" where
  "nat_of_digits acc [] = acc"
| "nat_of_digits acc (c # cs) = nat_of_digits (10 * acc + (code_unit c - 48)) cs"

lemma code_unit_digit_char: "n < 10 \<Longrightarrow> code_unit (digit_char n) = 48 + n"
  by (simp add: digit_char_def code_unit_char_of)

lemma is_digit_digit_char: "n < 10 \<Longrightarrow> is_digit (digit_char n)"
  by (simp add: is_digit_def code_unit_digit_char)

lemma nat_of_digits_snoc: "nat_of_digits acc (s @ [c]) = 10 * nat_of_digits acc s + (code_unit c - 48)"
  by (induction s arbitrary: acc) auto

lemma nat_of_string_of_nat [simp]: "nat_of_digits 0 (string_of_nat n) = n"
proof (induction n rule: string_of_nat.induct)
  case (1 n)
  then show ?case
    by (subst string_of_nat.simps)
       (auto simp: nat_of_digits_snoc code_unit_digit_char)
qed

lemma string_of_nat_inject [simp]: "string_of_nat m = string_of_nat n \<longleftrightarrow> m = n"
  by (metis nat_of_string_of_nat)

lemma string_of_nat_digits: "list_all is_digit (string_of_nat n)"
proof (induction n rule: string_of_nat.induct)
  case (1 n)
  then show ?case
    by (subst string_of_nat.simps) (auto simp: is_digit_digit_char)
qed

lemma string_of_nat_not_Nil [simp]: "string_of_nat n \<noteq> []"
  by (subst string_of_nat.simps) simp

end
