(* ===== verification/Encodings.thy ===== *)
theory Encodings
  imports JS_Strings "HOL-Library.Word"
begin

text \<open>
  Node's byte encodings as the program uses them: \<open>toString("hex")\<close> of random bytes and digests
  (lib/intake.ts, lib/storage.ts), base64 of stored certificates (lib/certificate-store.ts), and the
  UTF-8 of on-chain memos (lib/chain). A buffer is a list of bytes. Decoding is as lenient as
  Node's: hex stops at the first bad pair, base64 skips foreign characters, UTF-8 replaces
  ill-formed input by U+FFFD.
\<close>

type_synonym byte = "8 word"

type_synonym bytes = "byte list"

locale codec =
  fixes encode :: "'a \<Rightarrow> 'b"
    and decode :: "'b \<Rightarrow> 'a"
  assumes decode_encode: "decode (encode x) = x"
begin

lemma encode_inject: "encode x = encode y \<longleftrightarrow> x = y"
  by (metis decode_encode)

lemma encode_only_source: "encode x = c \<Longrightarrow> x = decode c"
  by (metis decode_encode)

end

lemma unat_byte_less [simp]: "unat (b :: byte) < 256"
  using unsigned_less [of b, where ?'a = nat] by simp

subsection \<open>Hexadecimal\<close>

definition hex_digit :: "nat \<Rightarrow> char" where
  "hex_digit n = char_of (if n < 10 then 48 + n else 87 + n)"

definition hex_value :: "char \<Rightarrow> nat option" where
  "hex_value c =
     (let n = code_unit c
      in if 48 \<le> n \<and> n \<le> 57 then Some (n - 48)
         else if 97 \<le> n \<and> n \<le> 102 then Some (n - 87)
         else if 65 \<le> n \<and> n \<le> 70 then Some (n - 55)
         else None)"

fun hex_encode :: "bytes \<Rightarrow> string" where
  "hex_encode [] = []"
| "hex_encode (b # bs) = hex_digit (unat b div 16) # hex_digit (unat b mod 16) # hex_encode bs"

fun hex_decode :: "string \<Rightarrow> bytes" where
  "hex_decode (c # d # s) =
     (case (hex_value c, hex_value d) of
        (Some x, Some y) \<Rightarrow> word_of_nat (16 * x + y) # hex_decode s
      | _ \<Rightarrow> [])"
| "hex_decode _ = []"

lemma code_unit_hex_digit: "n < 16 \<Longrightarrow> code_unit (hex_digit n) = (if n < 10 then 48 + n else 87 + n)"
  by (simp add: hex_digit_def code_unit_char_of)

lemma hex_value_digit [simp]: "n < 16 \<Longrightarrow> hex_value (hex_digit n) = Some n"
  by (auto simp: hex_value_def code_unit_hex_digit Let_def)

lemma hex_digit_lower: "n < 16 \<Longrightarrow> is_lower_hex (hex_digit n)"
  by (auto simp: is_lower_hex_def is_digit_def code_unit_hex_digit)

lemma hex_nibbles: "unat (b :: byte) div 16 < 16"
  using unat_byte_less [of b] by (simp add: div_less_iff_less_mult)

lemma hex_decode_encode: "hex_decode (hex_encode bs) = bs"
proof (induction bs)
  case Nil
  then show ?case by simp
next
  case (Cons b bs)
  have "16 * (unat b div 16) + unat b mod 16 = unat b" by simp
  with Cons show ?case by (simp add: hex_nibbles)
qed

lemma length_hex_encode [simp]: "length (hex_encode bs) = 2 * length bs"
  by (induction bs) auto

lemma hex_encode_lower: "list_all is_lower_hex (hex_encode bs)"
  by (induction bs) (auto simp: hex_digit_lower hex_nibbles)

interpretation hex: codec hex_encode hex_decode
  by unfold_locales (rule hex_decode_encode)

subsection \<open>Base64\<close>

definition b64_char :: "nat \<Rightarrow> char" where
  "b64_char n =
     char_of (if n < 26 then 65 + n else if n < 52 then 71 + n else if n < 62 then n - 4
              else if n = 62 then 43 else 47)"

definition b64_value :: "char \<Rightarrow> nat option" where
  "b64_value c =
     (let n = code_unit c
      in if 65 \<le> n \<and> n \<le> 90 then Some (n - 65)
         else if 97 \<le> n \<and> n \<le> 122 then Some (n - 71)
         else if 48 \<le> n \<and> n \<le> 57 then Some (n + 4)
         else if n = 43 \<or> n = 45 then Some 62
         else if n = 47 \<or> n = 95 then Some 63
         else None)"

fun b64_encode :: "bytes \<Rightarrow> string" where
  "b64_encode [] = []"
| "b64_encode [a] =
     [b64_char (unat a div 4), b64_char (unat a mod 4 * 16), CHR ''='', CHR ''='']"
| "b64_encode [a, b] =
     [b64_char (unat a div 4), b64_char (unat a mod 4 * 16 + unat b div 16),
      b64_char (unat b mod 16 * 4), CHR ''='']"
| "b64_encode (a # b # c # bs) =
     b64_char (unat a div 4) # b64_char (unat a mod 4 * 16 + unat b div 16) #
     b64_char (unat b mod 16 * 4 + unat c div 64) # b64_char (unat c mod 64) # b64_encode bs"

fun b64_bytes :: "nat list \<Rightarrow> bytes" where
  "b64_bytes (w # x # y # z # s) =
     word_of_nat (w * 4 + x div 16) # word_of_nat (x mod 16 * 16 + y div 4) #
     word_of_nat (y mod 4 * 64 + z) # b64_bytes s"
| "b64_bytes [w, x, y] = [word_of_nat (w * 4 + x div 16), word_of_nat (x mod 16 * 16 + y div 4)]"
| "b64_bytes [w, x] = [word_of_nat (w * 4 + x div 16)]"
| "b64_bytes _ = []"

definition b64_decode :: "string \<Rightarrow> bytes" where
  "b64_decode s = b64_bytes (List.map_filter b64_value s)"

lemma b64_value_char [simp]:
  assumes "n < 64"
  shows "b64_value (b64_char n) = Some n"
proof -
  have "code_unit (b64_char n) =
      (if n < 26 then 65 + n else if n < 52 then 71 + n else if n < 62 then n - 4
       else if n = 62 then 43 else 47)"
    using assms by (simp add: b64_char_def code_unit_char_of)
  then show ?thesis
    using assms by (auto simp: b64_value_def Let_def)
qed

lemma b64_value_pad [simp]: "b64_value (CHR ''='') = None"
  by (simp add: b64_value_def code_unit_def)

lemma b64_sextets:
  assumes "a < 256" "b < 256" "c < 256"
  shows "a div 4 < (64::nat)" "a mod 4 * 16 + b div 16 < (64::nat)"
    "b mod 16 * 4 + c div 64 < (64::nat)" "(a mod 4 * 16 + b div 16) div 16 = a mod 4"
    "(a mod 4 * 16 + b div 16) mod 16 = b div 16" "(b mod 16 * 4 + c div 64) div 4 = b mod 16"
    "(b mod 16 * 4 + c div 64) mod 4 = c div 64"
  using assms by (simp_all add: div_less_iff_less_mult)

lemma b64_decode_encode: "b64_decode (b64_encode bs) = bs"
proof (induction bs rule: b64_encode.induct)
  case 1
  then show ?case by (simp add: b64_decode_def)
next
  case (2 a)
  have "unat a div 4 * 4 + unat a mod 4 = unat a" by simp
  then show ?case
    using b64_sextets [of "unat a" 0 0] by (simp add: b64_decode_def map_filter_simps)
next
  case (3 a b)
  have "unat a div 4 * 4 + unat a mod 4 = unat a" "unat b div 16 * 16 + unat b mod 16 = unat b" by simp_all
  then show ?case
    using b64_sextets [of "unat a" "unat b" 0] by (simp add: b64_decode_def map_filter_simps)
next
  case (4 a b c bs)
  have "unat a div 4 * 4 + unat a mod 4 = unat a" "unat b div 16 * 16 + unat b mod 16 = unat b"
    "unat c div 64 * 64 + unat c mod 64 = unat c" by simp_all
  moreover have "unat b div 16 mod 16 = unat b div 16" "unat c div 64 mod 4 = unat c div 64"
    by (simp_all add: div_less_iff_less_mult)
  ultimately have w: "word_of_nat (unat a div 4 * 4 + unat a mod 4) = a"
      "word_of_nat (unat b div 16 mod 16 * 16 + unat b mod 16) = b"
      "word_of_nat (unat c div 64 mod 4 * 64 + unat c mod 64) = c"
    by simp_all
  show ?case
    using b64_sextets [of "unat a" "unat b" "unat c"] 4 w
    by (simp add: b64_decode_def map_filter_simps del: of_nat_add of_nat_mult)
qed

interpretation b64: codec b64_encode b64_decode
  by unfold_locales (rule b64_decode_encode)

subsection \<open>UTF-8\<close>

definition utf8_char :: "char \<Rightarrow> bytes" where
  "utf8_char c =
     (let n = code_unit c
      in if n < 128 then [word_of_nat n] else [word_of_nat (192 + n div 64), word_of_nat (128 + n mod 64)])"

definition utf8_encode :: "string \<Rightarrow> bytes" where
  "utf8_encode s = concat (map utf8_char s)"

text \<open>
  The decoder yields code points. Its state is the number of continuation bytes still needed,
  the range of the next one, and the value collected so far; an ill-formed byte ends the sequence
  with U+FFFD and is read again as the start of the next one.
\<close>

fun utf8_run :: "nat \<Rightarrow> nat \<Rightarrow> nat \<Rightarrow> nat \<Rightarrow> bytes \<Rightarrow> nat list" where
  "utf8_run need lo up cp [] = (if need = 0 then [] else [65533])"
| "utf8_run need lo up cp (w # ws) =
     (let b = unat w
      in if need \<noteq> 0 \<and> lo \<le> b \<and> b \<le> up then
           (let cp' = cp * 64 + (b - 128)
            in if need = 1 then cp' # utf8_run 0 128 191 0 ws else utf8_run (need - 1) 128 191 cp' ws)
         else
           (if need = 0 then [] else [65533]) @
           (if b < 128 then b # utf8_run 0 128 191 0 ws
            else if 194 \<le> b \<and> b \<le> 223 then utf8_run 1 128 191 (b - 192) ws
            else if 224 \<le> b \<and> b \<le> 239 then
              utf8_run 2 (if b = 224 then 160 else 128) (if b = 237 then 159 else 191) (b - 224) ws
            else if 240 \<le> b \<and> b \<le> 244 then
              utf8_run 3 (if b = 240 then 144 else 128) (if b = 244 then 143 else 191) (b - 240) ws
            else 65533 # utf8_run 0 128 191 0 ws))"

definition utf8_decode :: "bytes \<Rightarrow> nat list" where
  "utf8_decode bs = utf8_run 0 128 191 0 bs"

definition code_points :: "string \<Rightarrow> nat list" where
  "code_points s = map code_unit s"

lemma code_points_inject [simp]: "code_points s = code_points t \<longleftrightarrow> s = t"
proof
  assume "code_points s = code_points t"
  then have "map code_unit s = map code_unit t" by (simp add: code_points_def)
  moreover have "inj code_unit" by (rule injI) simp
  ultimately show "s = t" using map_injective by blast
qed simp

lemma unat_byte_of_nat: "n < 256 \<Longrightarrow> unat (word_of_nat n :: byte) = n"
  by (simp add: unat_of_nat take_bit_nat_eq_self_iff)

lemma utf8_run_pair:
  assumes "unat a = 192 + h" "h = 2 \<or> h = 3" "unat b = 128 + m" "m < 64"
  shows "utf8_run 0 128 191 0 (a # b # ws) = (h * 64 + m) # utf8_run 0 128 191 0 ws"
  using assms by auto

lemma utf8_run_char: "utf8_run 0 128 191 0 (utf8_char c @ ws) = code_unit c # utf8_run 0 128 191 0 ws"
proof (cases "code_unit c < 128")
  case True
  then show ?thesis by (simp add: utf8_char_def unat_byte_of_nat Let_def)
next
  case False
  define n where "n = code_unit c"
  have n: "128 \<le> n" "n < 256" using False by (simp_all add: n_def)
  then have d: "n div 64 = 2 \<or> n div 64 = 3" by linarith
  have m: "n mod 64 < 64" by simp
  have e: "n div 64 * 64 + n mod 64 = n" by simp
  have u: "unat (word_of_nat (192 + n div 64) :: byte) = 192 + n div 64"
          "unat (word_of_nat (128 + n mod 64) :: byte) = 128 + n mod 64"
    by (rule unat_byte_of_nat, use d m in linarith)+
  have c: "utf8_char c = [word_of_nat (192 + n div 64), word_of_nat (128 + n mod 64)]"
    using False by (simp only: utf8_char_def Let_def n_def if_False)
  have "utf8_run 0 128 191 0 (utf8_char c @ ws) = n # utf8_run 0 128 191 0 ws"
    by (simp only: c append_Cons append_Nil utf8_run_pair [OF u(1) d u(2) m] e)
  then show ?thesis by (simp only: n_def)
qed

lemma utf8_decode_encode: "utf8_decode (utf8_encode s) = code_points s"
  unfolding utf8_decode_def utf8_encode_def code_points_def
  by (induction s) (simp_all add: utf8_run_char)

interpretation utf8: codec utf8_encode "\<lambda>bs. map char_of (utf8_decode bs)"
  by unfold_locales (simp add: utf8_decode_encode code_points_def code_unit_def comp_def)

end
