(* ===== verification/Chain_Solana.thy ===== *)
theory Chain_Solana
  imports Encodings
begin

text \<open>
  Delivery on Solana: lib/chain/types.ts, lib/chain/tx-builder.ts, lib/chain/solana.ts and
  lib/solana/validate-address.ts. The web3.js SDK, the cluster behind it and base58 are
  parameters, the fields of \<open>solana_sdk\<close>: functions on keys, and actions on the state
  \<open>'c\<close> of the cluster. A decoded memo is a list of code points, so comparing it with a
  string compares what JavaScript compares.
\<close>

subsection \<open>Data\<close>

datatype instruction =
    SystemTransfer bytes bytes int       \<comment> \<open>from, to, lamports\<close>
  | MemoInstruction string "bytes list"  \<comment> \<open>text, signers\<close>

record keypair =
  kp_public :: bytes
  kp_secret :: bytes

record transaction_tx =
  tx_instructions :: "instruction list"
  tx_feePayer :: "bytes option"

record tx_message =
  tm_accountKeys :: "bytes list option"
  tm_staticAccountKeys :: "bytes list option"
  tm_instructions :: "(nat \<times> string) list option"          \<comment> \<open>base58 data\<close>
  tm_compiledInstructions :: "(nat \<times> bytes) list option"

record chain_tx =
  ct_message :: "tx_message option"
  ct_slot :: int
  ct_blockTime :: "int option"
  ct_err :: "string option"   \<comment> \<open>\<open>meta.err\<close>: the transaction landed but failed\<close>

record 'c solana_sdk =
  sdk_public_key :: "string \<Rightarrow> bytes option"         \<comment> \<open>\<open>new PublicKey\<close>; \<open>None\<close>: throws\<close>
  sdk_to_base58 :: "bytes \<Rightarrow> string"
  sdk_on_curve :: "bytes \<Rightarrow> bool"
  sdk_bs58_decode :: "string \<Rightarrow> bytes option"
  sdk_keypair :: "bytes \<Rightarrow> keypair option"            \<comment> \<open>\<open>Keypair.fromSecretKey\<close>\<close>
  sdk_memo_program :: bytes
  sdk_send :: "string \<Rightarrow> keypair \<Rightarrow> transaction_tx \<Rightarrow> ('c, string) act"
  sdk_confirm :: "string \<Rightarrow> string \<Rightarrow> ('c, string option) act" \<comment> \<open>\<open>value.err\<close> of the response\<close>
  sdk_get_tx :: "string \<Rightarrow> string \<Rightarrow> ('c, chain_tx option) act"
  sdk_rent :: "string \<Rightarrow> nat \<Rightarrow> ('c, int) act"

record confirmation_result =
  cf_slot :: int
  cf_blockTime :: "int option"

record deliver_params =
  dp_recipientWallet :: string
  dp_lamports :: int
  dp_memoParts :: "string list"

record solana_adapter =
  ad_rpcUrl :: string
  ad_signer :: keypair

subsection \<open>validate-address.ts\<close>

definition assertValidRecipient :: "'c solana_sdk \<Rightarrow> string \<Rightarrow> bytes result" where
  "assertValidRecipient sdk addr =
     (case sdk_public_key sdk addr of
        None \<Rightarrow> Inl (InvalidRecipientError addr Malformed)
      | Some pubkey \<Rightarrow>
          if \<not> sdk_on_curve sdk pubkey then Inl (InvalidRecipientError addr Off_Curve) else Inr pubkey)"

subsection \<open>tx-builder.ts\<close>

record service_memo_fields =
  mf_sha256 :: string
  mf_noticeToken :: string
  mf_serviceId :: string

definition buildServiceMemo :: "service_memo_fields \<Rightarrow> string" where
  "buildServiceMemo f = mf_sha256 f @ ''|'' @ mf_noticeToken f @ ''|'' @ mf_serviceId f"

definition buildServiceTx ::
  "'c solana_sdk \<Rightarrow> string \<Rightarrow> keypair \<Rightarrow> bytes \<Rightarrow> service_memo_fields \<Rightarrow> ('c, transaction_tx) act" where
  "buildServiceTx sdk rpcUrl fromKeypair recipient memo =
     (if \<not> sdk_on_curve sdk recipient then
        throw (PlainError (''Invalid recipient '' @ sdk_to_base58 sdk recipient @
          '': key is off-curve (e.g. a PDA) and cannot hold a signable balance.''))
      else
        andThen (sdk_rent sdk rpcUrl 0) (\<lambda>lamports.
          ret \<lparr>tx_instructions =
                 [SystemTransfer (kp_public fromKeypair) recipient lamports,
                  MemoInstruction (buildServiceMemo memo) [kp_public fromKeypair]],
               tx_feePayer = Some (kp_public fromKeypair)\<rparr>))"

subsection \<open>solana.ts\<close>

definition assertNotMainnetUrl :: "string \<Rightarrow> unit result" where
  "assertNotMainnetUrl rpcUrl =
     (if sublist ''mainnet'' (js_lower rpcUrl) then Inl (PlainError ''Mainnet RPC forbidden'') else Inr ())"

definition is_memo :: "'c solana_sdk \<Rightarrow> bytes list \<Rightarrow> nat \<Rightarrow> bool" where
  "is_memo sdk accountKeys i = (i < length accountKeys \<and> accountKeys ! i = sdk_memo_program sdk)"

text \<open>The first Memo instruction of a list; decoding its base58 data may throw.\<close>

definition find_memo :: "'c solana_sdk \<Rightarrow> bytes list \<Rightarrow> (nat \<times> 'd) list option \<Rightarrow> 'd option" where
  "find_memo sdk accountKeys ixs =
     (case ixs of
        None \<Rightarrow> None
      | Some xs \<Rightarrow> map_option snd (List.find (\<lambda>(i, d). is_memo sdk accountKeys i) xs))"

definition decodeMemo :: "'c solana_sdk \<Rightarrow> chain_tx option \<Rightarrow> nat list option result" where
  "decodeMemo sdk tx =
     (case Option.bind tx ct_message of
        None \<Rightarrow> Inr None
      | Some m \<Rightarrow>
          (case (case tm_accountKeys m of None \<Rightarrow> tm_staticAccountKeys m | Some ks \<Rightarrow> Some ks) of
             None \<Rightarrow> Inr None
           | Some accountKeys \<Rightarrow>
               (case find_memo sdk accountKeys (tm_instructions m) of
                  Some d \<Rightarrow>
                    (case sdk_bs58_decode sdk d of
                       None \<Rightarrow> Inl (PlainError ''Non-base58 character'')
                     | Some bs \<Rightarrow> Inr (Some (utf8_decode bs)))
                | None \<Rightarrow>
                    Inr (map_option utf8_decode (find_memo sdk accountKeys (tm_compiledInstructions m))))))"

definition newSolanaAdapter :: "string \<Rightarrow> keypair \<Rightarrow> solana_adapter result" where
  "newSolanaAdapter rpcUrl signer =
     (case assertNotMainnetUrl rpcUrl of
        Inl e \<Rightarrow> Inl e | Inr _ \<Rightarrow> Inr \<lparr>ad_rpcUrl = rpcUrl, ad_signer = signer\<rparr>)"

definition solana_tx :: "solana_adapter \<Rightarrow> bytes \<Rightarrow> deliver_params \<Rightarrow> transaction_tx" where
  "solana_tx ad recipient params =
     \<lparr>tx_instructions =
        [SystemTransfer (kp_public (ad_signer ad)) recipient (dp_lamports params),
         MemoInstruction (join_with '' | '' (dp_memoParts params)) [kp_public (ad_signer ad)]],
      tx_feePayer = None\<rparr>"

definition adapter_send :: "'c solana_sdk \<Rightarrow> solana_adapter \<Rightarrow> deliver_params \<Rightarrow> ('c, string) act" where
  "adapter_send sdk ad params =
     (case assertValidRecipient sdk (dp_recipientWallet params) of
        Inl e \<Rightarrow> throw e
      | Inr recipient \<Rightarrow> sdk_send sdk (ad_rpcUrl ad) (ad_signer ad) (solana_tx ad recipient params))"

definition adapter_confirm :: "'c solana_sdk \<Rightarrow> solana_adapter \<Rightarrow> string \<Rightarrow> ('c, confirmation_result) act" where
  "adapter_confirm sdk ad signature =
     andThen (sdk_confirm sdk (ad_rpcUrl ad) signature) (\<lambda>_.
     andThen (sdk_get_tx sdk (ad_rpcUrl ad) signature) (\<lambda>confirmed.
     ret \<lparr>cf_slot = (case confirmed of None \<Rightarrow> 0 | Some t \<Rightarrow> ct_slot t),
          cf_blockTime = (case confirmed of None \<Rightarrow> None | Some t \<Rightarrow> ct_blockTime t)\<rparr>))"

definition adapter_getMemo :: "'c solana_sdk \<Rightarrow> solana_adapter \<Rightarrow> string \<Rightarrow> ('c, nat list option) act" where
  "adapter_getMemo sdk ad signature =
     andThen (sdk_get_tx sdk (ad_rpcUrl ad) signature) (\<lambda>tx.
     (case decodeMemo sdk tx of Inl e \<Rightarrow> throw e | Inr m \<Rightarrow> ret m))"

record chain_delivery_result =
  dr_signature :: string
  dr_confirmation :: confirmation_result

definition adapter_deliver ::
  "'c solana_sdk \<Rightarrow> solana_adapter \<Rightarrow> deliver_params \<Rightarrow> ('c, chain_delivery_result) act" where
  "adapter_deliver sdk ad params =
     andThen (adapter_send sdk ad params) (\<lambda>signature.
     andThen (adapter_confirm sdk ad signature) (\<lambda>confirmation.
     ret \<lparr>dr_signature = signature, dr_confirmation = confirmation\<rparr>))"

definition getSolanaAdapter :: "'c solana_sdk \<Rightarrow> env \<Rightarrow> solana_adapter result" where
  "getSolanaAdapter sdk env =
     (if \<not> truthy (env ''SOLANA_RPC_URL'') then Inl (PlainError ''SOLANA_RPC_URL is not set'')
      else if \<not> truthy (env ''SOLANA_SIGNER_KEYPAIR'') then Inl (PlainError ''SOLANA_SIGNER_KEYPAIR is not set'')
      else case Option.bind (sdk_bs58_decode sdk (the (env ''SOLANA_SIGNER_KEYPAIR''))) (sdk_keypair sdk) of
             None \<Rightarrow> Inl (PlainError ''bad secret key'')
           | Some signer \<Rightarrow> newSolanaAdapter (the (env ''SOLANA_RPC_URL'')) signer)"

definition getRentExemptMinimum :: "'c solana_sdk \<Rightarrow> env \<Rightarrow> ('c, int) act" where
  "getRentExemptMinimum sdk env =
     (if \<not> truthy (env ''SOLANA_RPC_URL'') then throw (PlainError ''SOLANA_RPC_URL is not set'')
      else case assertNotMainnetUrl (the (env ''SOLANA_RPC_URL'')) of
             Inl e \<Rightarrow> throw e
           | Inr _ \<Rightarrow> sdk_rent sdk (the (env ''SOLANA_RPC_URL'')) 0)"

subsection \<open>Lemmas\<close>

lemma assertValidRecipient_Inr_iff:
  "assertValidRecipient sdk addr = Inr k \<longleftrightarrow> sdk_public_key sdk addr = Some k \<and> sdk_on_curve sdk k"
  by (auto simp: assertValidRecipient_def split: option.split)

lemma assertValidRecipient_Inl_iff:
  "assertValidRecipient sdk addr = Inl e \<longleftrightarrow>
     sdk_public_key sdk addr = None \<and> e = InvalidRecipientError addr Malformed \<or>
     (\<exists>k. sdk_public_key sdk addr = Some k \<and> \<not> sdk_on_curve sdk k \<and> e = InvalidRecipientError addr Off_Curve)"
  by (auto simp: assertValidRecipient_def split: option.split)

lemma memo_split:
  assumes "CHR ''|'' \<notin> set (mf_sha256 f)" "CHR ''|'' \<notin> set (mf_noticeToken f)"
  shows "split_on (CHR ''|'') (buildServiceMemo f) =
           mf_sha256 f # mf_noticeToken f # split_on (CHR ''|'') (mf_serviceId f)"
  using assms by (simp add: buildServiceMemo_def split_on_append)

lemma memo_inject:
  assumes "CHR ''|'' \<notin> set (mf_sha256 f)" "CHR ''|'' \<notin> set (mf_noticeToken f)"
    and "CHR ''|'' \<notin> set (mf_sha256 g)" "CHR ''|'' \<notin> set (mf_noticeToken g)"
  shows "buildServiceMemo f = buildServiceMemo g \<longleftrightarrow> f = g"
proof
  assume eq: "buildServiceMemo f = buildServiceMemo g"
  have "mf_sha256 f = mf_sha256 g \<and> mf_noticeToken f = mf_noticeToken g \<and>
      split_on (CHR ''|'') (mf_serviceId f) = split_on (CHR ''|'') (mf_serviceId g)"
    using arg_cong [OF eq, of "split_on (CHR ''|'')"] memo_split [OF assms(1,2)] memo_split [OF assms(3,4)] by simp
  moreover from this have "mf_serviceId f = mf_serviceId g" by (metis join_split_on)
  ultimately show "f = g" by simp
qed simp

lemma find_memo_first:
  "is_memo sdk keys i \<Longrightarrow> \<forall>x\<in>set zs. \<not> is_memo sdk keys (fst x) \<Longrightarrow>
   find_memo sdk keys (Some (zs @ (i, e) # rest)) = Some e"
  by (induction zs) (auto simp: find_memo_def)

lemma guarded_url:
  "newSolanaAdapter url signer = Inr ad \<Longrightarrow> ad_rpcUrl ad = url \<and> \<not> sublist ''mainnet'' (js_lower url)"
  by (auto simp: newSolanaAdapter_def assertNotMainnetUrl_def split: if_splits)

lemma getSolanaAdapter_Inr:
  "getSolanaAdapter sdk env = Inr ad \<Longrightarrow>
   env ''SOLANA_RPC_URL'' = Some (ad_rpcUrl ad) \<and> \<not> sublist ''mainnet'' (js_lower (ad_rpcUrl ad))"
  using guarded_url
  by (fastforce simp: getSolanaAdapter_def truthy_iff split: if_splits option.splits)

subsection \<open>Properties\<close>

text \<open>C22. The on-chain memo identifies the delivery: two requests whose hash and token contain no
  separator, as hexadecimal strings do, have the same memo only if hash, token and request id
  all agree.\<close>

theorem memo_identifies_delivery:
  assumes "CHR ''|'' \<notin> set (mf_sha256 f) \<union> set (mf_noticeToken f)" "CHR ''|'' \<notin> set (mf_sha256 g) \<union> set (mf_noticeToken g)"
  shows "code_points (buildServiceMemo f) = code_points (buildServiceMemo g) \<longleftrightarrow> f = g"
  using memo_inject [of f g] assms by simp

lemma memo_identifies_delivery_witness:
  "code_points (buildServiceMemo \<lparr>mf_sha256 = ''ab'', mf_noticeToken = ''c'', mf_serviceId = ''d|e''\<rparr>) \<noteq>
   code_points (buildServiceMemo \<lparr>mf_sha256 = ''ab'', mf_noticeToken = ''cd'', mf_serviceId = ''e''\<rparr>)"
  by (subst memo_identifies_delivery) simp_all

text \<open>The memo is read back as it was written: from a landed transaction whose first Memo
  instruction carries the UTF-8 bytes of a text, in a legacy message or in a version 0 message,
  \<open>decodeMemo\<close> returns that text.\<close>

theorem decodeMemo_reads_back:
  assumes "tm_accountKeys m = Some keys \<or> tm_accountKeys m = None \<and> tm_staticAccountKeys m = Some keys"
    and "is_memo sdk keys i"
    and "tm_instructions m = Some (xs @ (i, d) # ys) \<and> (\<forall>x\<in>set xs. \<not> is_memo sdk keys (fst x)) \<and>
           sdk_bs58_decode sdk d = Some (utf8_encode memo) \<or>
         tm_instructions m = None \<and> tm_compiledInstructions m = Some (us @ (i, utf8_encode memo) # vs) \<and>
           (\<forall>x\<in>set us. \<not> is_memo sdk keys (fst x))"
  shows "decodeMemo sdk (Some \<lparr>ct_message = Some m, ct_slot = sl, ct_blockTime = bt, ct_err = er\<rparr>) =
    Inr (Some (code_points memo))"
proof -
  have n: "find_memo sdk keys (None :: (nat \<times> string) list option) = None" by (simp add: find_memo_def)
  show ?thesis
    using assms(1,3) by (auto simp: decodeMemo_def utf8_decode_encode find_memo_first [OF assms(2)] n)
qed

definition memo_sdk :: "unit solana_sdk" where
  "memo_sdk =
     \<lparr>sdk_public_key = (\<lambda>_. None), sdk_to_base58 = (\<lambda>_. []), sdk_on_curve = (\<lambda>_. True), sdk_bs58_decode = (\<lambda>_. None),
      sdk_keypair = (\<lambda>_. None), sdk_memo_program = [5], sdk_send = (\<lambda>_ _ _. ret []), sdk_confirm = (\<lambda>_ _. ret None),
      sdk_get_tx = (\<lambda>_ _. ret None), sdk_rent = (\<lambda>_ _. ret 0)\<rparr>"

lemma decodeMemo_reads_back_witness:
  "decodeMemo memo_sdk (Some \<lparr>ct_message = Some \<lparr>tm_accountKeys = None, tm_staticAccountKeys = Some [[9], [5]],
      tm_instructions = None, tm_compiledInstructions = Some [(0, [1]), (1, utf8_encode ''h|t|id'')]\<rparr>,
      ct_slot = 1, ct_blockTime = None, ct_err = None\<rparr>) = Inr (Some (code_points ''h|t|id''))"
  by (rule decodeMemo_reads_back [where keys = "[[9], [5]]" and i = 1 and us = "[(0, [1])]" and vs = "[]"
        and xs = "[]" and ys = "[]" and d = "[]"])
     (simp_all add: is_memo_def memo_sdk_def)

end
