(* ===== verification/Json_Http.thy ===== *)
theory Json_Http
  imports JS_Strings
begin

text \<open>
  JSON values as \<open>req.json()\<close> and Prisma's \<open>Json\<close> columns carry them, and the requests and
  responses of the route handlers. An object is the list of its own properties, each key once.
  The numbers of the modelled handlers are integers. A request body that does not parse is
  \<open>None\<close>: \<open>req.json()\<close> throws on it.
\<close>

datatype json = JNull | JBool bool | JNum int | JStr string | JArr "json list" | JObj "(string \<times> json) list"

text \<open>\<open>value?.key\<close> for a key that no primitive and no array has; \<open>None\<close> is \<open>undefined\<close>.\<close>

fun json_prop :: "json \<Rightarrow> string \<Rightarrow> json option" where
  "json_prop (JObj ps) key = map_of ps key"
| "json_prop _ key = None"

definition json_of_str :: "string option \<Rightarrow> json" where
  "json_of_str x = (case x of None \<Rightarrow> JNull | Some s \<Rightarrow> JStr s)"

fun json_str :: "json option \<Rightarrow> string option" where
  \<comment> \<open>\<open>typeof v === "string"\<close>\<close>
  "json_str (Some (JStr s)) = Some s"
| "json_str _ = None"

lemma json_str_Some_iff: "json_str v = Some s \<longleftrightarrow> v = Some (JStr s)"
  by (cases v rule: json_str.cases) auto

lemma json_prop_Cons [simp]: "json_prop (JObj ((k, v) # ps)) key = (if key = k then Some v else json_prop (JObj ps) key)"
  by auto

text \<open>
  Every key and every string that occurs in a value: what a reader of a stored \<open>Json\<close> column
  or of a response can see of the program's strings.
\<close>

primrec json_strings :: "json \<Rightarrow> string list" where
  "json_strings JNull = []"
| "json_strings (JBool b) = []"
| "json_strings (JNum i) = []"
| "json_strings (JStr s) = [s]"
| "json_strings (JArr xs) = concat (map json_strings xs)"
| "json_strings (JObj ps) = concat (map snd (map (map_prod id json_strings) ps))"

subsection \<open>JSON.stringify\<close>

definition hex_char :: "nat \<Rightarrow> char" where
  "hex_char n = char_of (if n < 10 then 48 + n else 87 + n)"

definition json_escape :: "char \<Rightarrow> string" where
  "json_escape c =
     (let n = code_unit c
      in if n = 34 then [char_of (92::nat), c]
         else if n = 92 then [c, c]
         else if n = 8 then [char_of (92::nat), CHR ''b'']
         else if n = 12 then [char_of (92::nat), CHR ''f'']
         else if n = 10 then [char_of (92::nat), CHR ''n'']
         else if n = 13 then [char_of (92::nat), CHR ''r'']
         else if n = 9 then [char_of (92::nat), CHR ''t'']
         else if n < 32 then [char_of (92::nat), CHR ''u'', CHR ''0'', CHR ''0'', hex_char (n div 16), hex_char (n mod 16)]
         else [c])"

definition json_quote :: "string \<Rightarrow> string" where
  "json_quote s = [char_of (34::nat)] @ concat (map json_escape s) @ [char_of (34::nat)]"

primrec json_stringify :: "json \<Rightarrow> string" where
  "json_stringify JNull = ''null''"
| "json_stringify (JBool b) = (if b then ''true'' else ''false'')"
| "json_stringify (JNum i) = string_of_int i"
| "json_stringify (JStr s) = json_quote s"
| "json_stringify (JArr xs) = ''['' @ join_with '','' (map json_stringify xs) @ '']''"
| "json_stringify (JObj ps) =
     ''{'' @ join_with '','' (map (\<lambda>p. json_quote (fst p) @ '':'' @ snd p) (map (map_prod id json_stringify) ps)) @ ''}''"

lemma json_escape_nonempty [simp]: "json_escape c \<noteq> []"
  by (simp add: json_escape_def Let_def)

lemma length_concat_escape: "length s \<le> length (concat (map json_escape s))"
proof (induction s)
  case Nil
  then show ?case by simp
next
  case (Cons c s)
  have "1 \<le> length (json_escape c)" by (simp add: Suc_le_eq)
  with Cons show ?case by simp
qed

lemma length_json_quote: "length s + 2 \<le> length (json_quote s)"
  using length_concat_escape [of s] by (simp add: json_quote_def)

subsection \<open>A quoted string can be read back\<close>

text \<open>What a reader of a JSON string takes for its next character, as a code unit, and what is left.\<close>

definition hex_unit :: "char \<Rightarrow> nat" where
  "hex_unit c = (if code_unit c < 58 then code_unit c - 48 else code_unit c - 87)"

definition json_next :: "string \<Rightarrow> nat \<times> string" where
  "json_next s =
     (if code_unit (hd s) \<noteq> 92 then (code_unit (hd s), tl s)
      else
        (let m = code_unit (hd (tl s)); left = drop 2 s
         in if m = 34 \<or> m = 92 then (m, left)
            else if m = 98 then (8, left)
            else if m = 102 then (12, left)
            else if m = 110 then (10, left)
            else if m = 114 then (13, left)
            else if m = 116 then (9, left)
            else (16 * hex_unit (left ! 2) + hex_unit (left ! 3), drop 4 left)))"

lemma hex_unit_char: "n < 16 \<Longrightarrow> hex_unit (hex_char n) = n"
  by (simp add: hex_unit_def hex_char_def code_unit_char_of)

lemma code_unit_letters:
  "code_unit (CHR ''b'') = 98" "code_unit (CHR ''f'') = 102" "code_unit (CHR ''n'') = 110"
  "code_unit (CHR ''r'') = 114" "code_unit (CHR ''t'') = 116" "code_unit (CHR ''u'') = 117"
  by (simp_all add: code_unit_def)

lemma json_next_escape: "json_next (json_escape c @ x) = (code_unit c, x)"
proof (cases "code_unit c < 32 \<and> code_unit c \<notin> {8, 9, 10, 12, 13}")
  case True
  let ?n = "code_unit c"
  have "json_escape c = [char_of (92::nat), CHR ''u'', CHR ''0'', CHR ''0'', hex_char (?n div 16), hex_char (?n mod 16)]"
    using True unfolding json_escape_def Let_def by auto
  moreover have "16 * (?n div 16) + ?n mod 16 = ?n" "?n div 16 < 16" "?n mod 16 < 16" using True by auto
  ultimately show ?thesis
    by (simp only: json_next_def Let_def append.simps list.sel code_unit_char_of code_unit_letters drop_Suc_Cons
        numeral_2_eq_2 numeral_3_eq_3 nth_Cons_Suc nth_Cons_0 hex_unit_char) (simp add: drop_Cons' hex_unit_char)
next
  case False
  then consider "code_unit c = 8" | "code_unit c = 9" | "code_unit c = 10" | "code_unit c = 12" | "code_unit c = 13"
    | "code_unit c = 34" | "code_unit c = 92" | "code_unit c \<noteq> 34" "code_unit c \<noteq> 92" "32 \<le> code_unit c"
    by fastforce
  then show ?thesis
    by cases (simp_all add: json_escape_def json_next_def code_unit_char_of code_unit_letters)
qed

lemma json_escape_not_quote: "json_escape c @ x \<noteq> char_of (34::nat) # y"
proof
  assume e: "json_escape c @ x = char_of (34::nat) # y"
  then have "json_next (json_escape c @ x) = (34, y)" by (simp add: json_next_def code_unit_char_of)
  then have "code_unit c = 34" by (simp add: json_next_escape)
  with e show False by (simp add: json_escape_def code_unit_char_of)
qed

lemma json_escaped_inject:
  "concat (map json_escape s) @ char_of (34::nat) # x = concat (map json_escape t) @ char_of (34::nat) # y \<Longrightarrow>
   s = t \<and> x = y"
proof (induction s arbitrary: t)
  case Nil
  then show ?case using json_escape_not_quote by (cases t) (auto, metis)
next
  case (Cons c s)
  then show ?case
  proof (cases t)
    case Nil
    with Cons.prems json_escape_not_quote show ?thesis by auto
  next
    case (Cons d t')
    let ?q = "\<lambda>s x. concat (map json_escape s) @ char_of (34::nat) # x"
    from Cons Cons.prems have "json_next (json_escape c @ ?q s x) = json_next (json_escape d @ ?q t' y)" by simp
    then have "c = d" "?q s x = ?q t' y" by (simp_all add: json_next_escape)
    with Cons.IH Cons show ?thesis by blast
  qed
qed

lemma json_quote_inject: "json_quote s @ x = json_quote t @ y \<Longrightarrow> s = t \<and> x = y"
  using json_escaped_inject [of s x t y] by (simp add: json_quote_def)

lemma json_quote_eq [simp]: "json_quote s = json_quote t \<longleftrightarrow> s = t"
  using json_quote_inject [of s "[]" t "[]"] by auto

subsection \<open>Requests and responses\<close>

record request =
  req_headers :: "(string \<times> string) list" \<comment> \<open>names in lower case\<close>
  req_origin :: string                        \<comment> \<open>\<open>new URL(req.url).origin\<close>\<close>
  req_query :: "(string \<times> string) list"
  req_body :: "json option"
  req_text :: string

record response =
  res_status :: int
  res_body :: json
  res_headers :: "(string \<times> string) list"

definition header_get :: "request \<Rightarrow> string \<Rightarrow> string option" where
  "header_get req name = map_of (req_headers req) name"

definition query_get :: "request \<Rightarrow> string \<Rightarrow> string option" where
  "query_get req name = map_of (req_query req) name"

definition json_response :: "int \<Rightarrow> json \<Rightarrow> response" where
  "json_response status body = \<lparr>res_status = status, res_body = body, res_headers = []\<rparr>"

definition error_response :: "int \<Rightarrow> string \<Rightarrow> response" where
  "error_response status message = json_response status (JObj [(''error'', JStr message)])"

lemma error_response_sel [simp]:
  "res_status (error_response n m) = n" "res_status (json_response n b) = n"
  "res_body (json_response n b) = b" "res_body (error_response n m) = JObj [(''error'', JStr m)]"
  by (simp_all add: error_response_def json_response_def)

end
