(* ===== verification/JS_Dates.thy ===== *)
theory JS_Dates
  imports JS_Strings
begin

text \<open>
  The part of the language's \<open>Date\<close> that the program uses: \<open>getMonth\<close>, \<open>setMonth\<close> and
  \<open>toISOString\<close>. A date is its time value, an integer number of milliseconds since the epoch;
  the calendar arithmetic is the one of the ECMAScript specification (\<open>DayFromYear\<close>,
  \<open>MakeDay\<close>), in the time zone of the server, which is UTC.
\<close>

type_synonym date = int

definition ms_per_day :: int where
  "ms_per_day = 86400000"

definition day_of :: "date \<Rightarrow> int" where
  "day_of t = t div ms_per_day"

definition time_within_day :: "date \<Rightarrow> int" where
  "time_within_day t = t mod ms_per_day"

lemma day_time_split: "day_of t * ms_per_day + time_within_day t = t"
  by (simp add: day_of_def time_within_day_def)

subsection \<open>Years\<close>

definition day_from_year :: "int \<Rightarrow> int" where
  "day_from_year y =
     365 * (y - 1970) + (y - 1969) div 4 - (y - 1901) div 100 + (y - 1601) div 400"

definition leap_year :: "int \<Rightarrow> bool" where
  "leap_year y = (y mod 4 = 0 \<and> (y mod 100 \<noteq> 0 \<or> y mod 400 = 0))"

definition year_of_day :: "int \<Rightarrow> int" where
  "year_of_day d =
     (let y = 1970 + (400 * d) div 146097
      in if d < day_from_year y then y - 1
         else if day_from_year (y + 1) \<le> d then y + 1 else y)"

lemma div_bounds:
  fixes a :: int
  assumes "0 < b"
  shows "b * (a div b) \<le> a" and "a < b * (a div b) + b"
proof -
  have "b * (a div b) + a mod b = a" by simp
  moreover have "0 \<le> a mod b" "a mod b < b" using assms by simp_all
  ultimately show "b * (a div b) \<le> a" and "a < b * (a div b) + b" by linarith+
qed

lemma day_from_year_bounds:
  "146097 * (y - 1970) - 506 \<le> 400 * day_from_year y"
  "400 * day_from_year y \<le> 146097 * (y - 1970) + 589"
  using div_bounds [of 4 "y - 1969"] div_bounds [of 100 "y - 1901"] div_bounds [of 400 "y - 1601"]
  by (simp_all add: day_from_year_def)

lemma year_of_day_correct:
  "day_from_year (year_of_day d) \<le> d" "d < day_from_year (year_of_day d + 1)"
proof -
  define y where "y = 1970 + (400 * d) div 146097"
  have y: "146097 * (y - 1970) \<le> 400 * d" "400 * d < 146097 * (y - 1970) + 146097"
    using div_bounds [of 146097 "400 * d"] by (simp_all add: y_def)
  have low: "day_from_year (y - 1) \<le> d"
    using y day_from_year_bounds(2) [of "y - 1"] by (simp add: algebra_simps)
  have high: "d < day_from_year (y + 2)"
    using y day_from_year_bounds(1) [of "y + 2"] by (simp add: algebra_simps)
  show "day_from_year (year_of_day d) \<le> d" "d < day_from_year (year_of_day d + 1)"
    using low high by (auto simp: year_of_day_def y_def [symmetric] Let_def add.assoc)
qed

lemma div_mod_succ:
  fixes a n :: int
  assumes "0 < n"
  shows "a mod n + 1 = n \<Longrightarrow> (a + 1) div n = a div n + 1 \<and> (a + 1) mod n = 0"
    and "a mod n + 1 \<noteq> n \<Longrightarrow> (a + 1) div n = a div n \<and> (a + 1) mod n = a mod n + 1"
proof -
  have a: "a + 1 = n * (a div n) + (a mod n + 1)" by simp
  { assume "a mod n + 1 = n"
    with a have e: "a + 1 = n * (a div n + 1) + 0"
      by (simp only: distrib_left)
    show "(a + 1) div n = a div n + 1 \<and> (a + 1) mod n = 0"
      using int_div_pos_eq [OF e] int_mod_pos_eq [OF e] assms by blast }
  { assume "a mod n + 1 \<noteq> n"
    then have r: "0 \<le> a mod n + 1" "a mod n + 1 < n"
      using pos_mod_bound [OF assms, of a] pos_mod_sign [OF assms, of a] by linarith+
    show "(a + 1) div n = a div n \<and> (a + 1) mod n = a mod n + 1"
      using int_div_pos_eq [OF a r] int_mod_pos_eq [OF a r] by blast }
qed

lemma div_step:
  fixes a n :: int
  assumes "0 < n"
  shows "(a + 1) div n - a div n = (if (a + 1) mod n = 0 then 1 else 0)"
  using div_mod_succ [OF assms, of a] pos_mod_sign [OF assms, of a]
  by (cases "a mod n + 1 = n") auto

lemma leap_count:
  assumes "b \<Longrightarrow> a" and "c \<Longrightarrow> b"
  shows "365 + (if a then 1 else 0) - (if b then 1 else 0) + (if c then 1 else 0) =
    (if a \<and> (\<not> b \<or> c) then 366 else (365 :: int))"
  by (cases a; cases b; cases c) (use assms in simp_all)

lemma year_length: "day_from_year (y + 1) - day_from_year y = (if leap_year y then 366 else 365)"
proof -
  have 4: "(y - 1968) div 4 - (y - 1969) div 4 = (if y mod 4 = 0 then 1 else 0)"
    using div_step [of 4 "y - 1969"] mod_mult_self2 [of "y - 1968" 4 492] by (simp add: algebra_simps)
  have 100: "(y - 1900) div 100 - (y - 1901) div 100 = (if y mod 100 = 0 then 1 else 0)"
    using div_step [of 100 "y - 1901"] mod_mult_self2 [of "y - 1900" 100 19] by (simp add: algebra_simps)
  have 400: "(y - 1600) div 400 - (y - 1601) div 400 = (if y mod 400 = 0 then 1 else 0)"
    using div_step [of 400 "y - 1601"] mod_mult_self2 [of "y - 1600" 400 4] by (simp add: algebra_simps)
  define a b c where "a = (y mod 4 = 0)" and "b = (y mod 100 = 0)" and "c = (y mod 400 = 0)"
  have bc: "c \<Longrightarrow> b" and ab: "b \<Longrightarrow> a"
    using mod_mod_cancel [of 100 400 y] mod_mod_cancel [of 4 100 y] by (simp_all add: a_def b_def c_def)
  have e: "y + 1 - 1969 = y - 1968" "y + 1 - 1901 = y - 1900" "y + 1 - 1601 = y - 1600"
    by simp_all
  have lin: "365 * (y + 1 - 1970) + p - q + r - (365 * (y - 1970) + p' - q' + r') =
      365 + (p - p') - (q - q') + (r - r')" for p p' q q' r r' :: int
    by simp
  have "day_from_year (y + 1) - day_from_year y =
      365 + ((y - 1968) div 4 - (y - 1969) div 4) - ((y - 1900) div 100 - (y - 1901) div 100)
      + ((y - 1600) div 400 - (y - 1601) div 400)"
    unfolding day_from_year_def e by (rule lin)
  then have "day_from_year (y + 1) - day_from_year y =
      365 + (if a then 1 else 0) - (if b then 1 else 0) + (if c then 1 else 0)"
    by (simp only: 4 100 400 a_def b_def c_def)
  also have "\<dots> = (if a \<and> (\<not> b \<or> c) then 366 else 365)"
    using ab bc by (rule leap_count)
  finally show ?thesis
    by (simp only: leap_year_def a_def b_def c_def)
qed

subsection \<open>Months\<close>

text \<open>The day of the year on which month \<open>m\<close> (0 to 12) starts, and the lengths of the months.\<close>

definition month_start :: "bool \<Rightarrow> int \<Rightarrow> int" where
  "month_start leap m =
     (let l = (if leap then 1 else 0)
      in if m \<le> 0 then 0 else if m = 1 then 31 else if m = 2 then 59 + l else if m = 3 then 90 + l
         else if m = 4 then 120 + l else if m = 5 then 151 + l else if m = 6 then 181 + l
         else if m = 7 then 212 + l else if m = 8 then 243 + l else if m = 9 then 273 + l
         else if m = 10 then 304 + l else if m = 11 then 334 + l else 365 + l)"

definition month_in_year :: "bool \<Rightarrow> int \<Rightarrow> int" where
  "month_in_year leap dy =
     (let s = month_start leap
      in if dy < s 1 then 0 else if dy < s 2 then 1 else if dy < s 3 then 2 else if dy < s 4 then 3
         else if dy < s 5 then 4 else if dy < s 6 then 5 else if dy < s 7 then 6
         else if dy < s 8 then 7 else if dy < s 9 then 8 else if dy < s 10 then 9
         else if dy < s 11 then 10 else 11)"

definition days_in_month :: "int \<Rightarrow> int \<Rightarrow> int" where
  "days_in_month y m = month_start (leap_year y) (m + 1) - month_start (leap_year y) m"

lemma month_in_year_range: "0 \<le> month_in_year l dy" "month_in_year l dy \<le> 11"
  by (simp_all add: month_in_year_def Let_def)

lemma month_in_year_correct:
  assumes "0 \<le> dy" and "dy < (if l then 366 else 365)"
  shows "month_start l (month_in_year l dy) \<le> dy" "dy < month_start l (month_in_year l dy + 1)"
proof -
  have ends: "month_start l 0 = 0" "month_start l 12 = (if l then 366 else 365)"
    by (simp_all add: month_start_def)
  show "month_start l (month_in_year l dy) \<le> dy" "dy < month_start l (month_in_year l dy + 1)"
    using assms by (simp_all add: month_in_year_def Let_def ends)
qed

lemma int_range_0_11:
  fixes m :: int
  assumes "0 \<le> m" "m \<le> 11"
  shows "m \<in> {0, 1, 2, 3, 4, 5, 6, 7, 8, 9, 10, 11}"
proof -
  have "m = 0 \<or> m = 1 \<or> m = 2 \<or> m = 3 \<or> m = 4 \<or> m = 5 \<or> m = 6 \<or> m = 7 \<or> m = 8 \<or> m = 9 \<or> m = 10 \<or> m = 11"
    using assms by arith
  then show ?thesis by simp
qed

lemma days_in_month_range:
  assumes "0 \<le> m" "m \<le> 11"
  shows "28 \<le> days_in_month y m" "days_in_month y m \<le> 31"
  using int_range_0_11 [OF assms]
  by (auto simp: days_in_month_def month_start_def Let_def)

subsection \<open>getMonth, setMonth\<close>

definition date_year :: "date \<Rightarrow> int" where
  "date_year t = year_of_day (day_of t)"

definition day_in_year :: "date \<Rightarrow> int" where
  "day_in_year t = day_of t - day_from_year (date_year t)"

definition getMonth :: "date \<Rightarrow> int" where
  "getMonth t = month_in_year (leap_year (date_year t)) (day_in_year t)"

definition getDate :: "date \<Rightarrow> int" where
  "getDate t = day_in_year t - month_start (leap_year (date_year t)) (getMonth t) + 1"

definition make_day :: "int \<Rightarrow> int \<Rightarrow> int \<Rightarrow> int" where
  "make_day y m dt =
     (let ym = y + m div 12; mn = m mod 12
      in day_from_year ym + month_start (leap_year ym) mn + dt - 1)"

definition setMonth :: "date \<Rightarrow> int \<Rightarrow> date" where
  "setMonth t m = make_day (date_year t) m (getDate t) * ms_per_day + time_within_day t"

lemma day_in_year_range: "0 \<le> day_in_year t" "day_in_year t < (if leap_year (date_year t) then 366 else 365)"
  using year_of_day_correct [of "day_of t"] year_length [of "year_of_day (day_of t)"]
  unfolding day_in_year_def date_year_def by linarith+

lemma getMonth_range: "0 \<le> getMonth t" "getMonth t \<le> 11"
  by (simp_all add: getMonth_def month_in_year_range)

lemma getDate_range: "1 \<le> getDate t" "getDate t \<le> days_in_month (date_year t) (getMonth t)"
  using month_in_year_correct [OF day_in_year_range [of t]]
  by (simp_all add: getDate_def days_in_month_def getMonth_def)

lemma make_day_next_month:
  "make_day y (m + 1) dt = make_day y m dt + days_in_month (y + m div 12) (m mod 12)"
proof (cases "m mod 12 = 11")
  case True
  then have s: "(m + 1) mod 12 = 0" "(m + 1) div 12 = m div 12 + 1"
    using div_mod_succ(1) [of 12 m] by simp_all
  define x where "x = y + m div 12"
  have "day_from_year (x + 1) = day_from_year x + month_start (leap_year x) 12"
    using year_length [of x] by (auto simp: month_start_def split: if_splits)
  moreover have "month_start l 0 = 0" for l by (simp add: month_start_def)
  moreover have "y + (m div 12 + 1) = x + 1" by (simp only: x_def add.assoc)
  then have "make_day y (m + 1) dt = day_from_year (x + 1) + month_start (leap_year (x + 1)) 0 + dt - 1"
    by (simp only: make_day_def Let_def s)
  moreover have "make_day y m dt = day_from_year x + month_start (leap_year x) 11 + dt - 1"
    by (simp only: make_day_def Let_def True x_def)
  moreover have "days_in_month (y + m div 12) (m mod 12) =
      month_start (leap_year x) 12 - month_start (leap_year x) 11"
    by (simp only: days_in_month_def True flip: x_def) simp
  ultimately show ?thesis
    by (simp only:)
next
  case False
  then have s: "(m + 1) mod 12 = m mod 12 + 1" "(m + 1) div 12 = m div 12"
    using div_mod_succ(2) [of 12 m] by simp_all
  have lin: "d + u + dt - 1 = d + v + dt - 1 + (u - v)" for d u v :: int by simp
  show ?thesis
    unfolding make_day_def days_in_month_def Let_def s by (rule lin)
qed

lemma make_day_of_date: "make_day (date_year t) (getMonth t) (getDate t) = day_of t"
proof -
  have "getMonth t div 12 = 0" "getMonth t mod 12 = getMonth t"
    using getMonth_range [of t] by (simp_all add: div_pos_pos_trivial mod_pos_pos_trivial)
  then show ?thesis
    by (simp only: make_day_def getDate_def day_in_year_def Let_def) simp
qed

lemma setMonth_same [simp]: "setMonth t (getMonth t) = t"
  by (simp add: setMonth_def make_day_of_date day_time_split)

lemma setMonth_next:
  "setMonth t (m + 1) = setMonth t m + days_in_month (date_year t + m div 12) (m mod 12) * ms_per_day"
  unfolding setMonth_def make_day_next_month by (simp add: distrib_right)

text \<open>
  Moving a date one month on moves it by the length of the month it starts in: from the 31st of a
  month before a shorter one the date runs over into the month after next.
\<close>

lemma setMonth_one:
  "setMonth t (getMonth t + 1) = t + days_in_month (date_year t) (getMonth t) * ms_per_day"
  using getMonth_range [of t] by (simp add: setMonth_next)

lemma setMonth_steps:
  "setMonth t (m + int n) - setMonth t m \<in> {int n * 28 * ms_per_day .. int n * 31 * ms_per_day}"
proof (induction n)
  case 0
  then show ?case by simp
next
  case (Suc n)
  define k where "k = m + int n"
  define dm where "dm = days_in_month (date_year t + k div 12) (k mod 12)"
  have r: "28 \<le> dm" "dm \<le> 31"
    unfolding dm_def by (rule days_in_month_range; simp)+
  have step: "setMonth t (k + 1) = setMonth t k + dm * ms_per_day"
    unfolding dm_def by (rule setMonth_next)
  have k: "m + int (Suc n) = k + 1" by (simp add: k_def)
  from Suc r step show ?case
    unfolding k by (simp add: ms_per_day_def flip: k_def)
qed

subsection \<open>toISOString\<close>

definition pad :: "nat \<Rightarrow> string \<Rightarrow> string" where
  "pad n s = replicate (n - length s) (CHR ''0'') @ s"

definition iso_year :: "int \<Rightarrow> string" where
  "iso_year y =
     (if 0 \<le> y \<and> y \<le> 9999 then pad 4 (string_of_nat (nat y))
      else (if y < 0 then ''-'' else ''+'') @ pad 6 (string_of_nat (nat \<bar>y\<bar>)))"

definition iso_date :: "date \<Rightarrow> string" where
  "iso_date t = iso_year (date_year t) @ ''-'' @ pad 2 (string_of_nat (nat (getMonth t + 1))) @ ''-'' @
     pad 2 (string_of_nat (nat (getDate t)))"

definition iso_clock :: "date \<Rightarrow> string" where
  "iso_clock t =
     (let w = nat (time_within_day t)
      in pad 2 (string_of_nat (w div 3600000)) @ '':'' @ pad 2 (string_of_nat (w div 60000 mod 60)) @ '':'' @
         pad 2 (string_of_nat (w div 1000 mod 60)))"

definition toISOString :: "date \<Rightarrow> string" where
  "toISOString t = iso_date t @ ''T'' @ iso_clock t @ ''.'' @
     pad 3 (string_of_nat (nat (time_within_day t) mod 1000)) @ ''Z''"

definition replace_first :: "char \<Rightarrow> string \<Rightarrow> string \<Rightarrow> string" where
  \<comment> \<open>\<open>s.replace(c, r)\<close> with a one-character string pattern\<close>
  "replace_first c r s =
     takeWhile (\<lambda>x. x \<noteq> c) s @ (case dropWhile (\<lambda>x. x \<noteq> c) s of [] \<Rightarrow> [] | _ # xs \<Rightarrow> r @ xs)"

definition replace_millis :: "string \<Rightarrow> string \<Rightarrow> string" where
  \<comment> \<open>\<open>s.replace(/\.\d+Z$/, r)\<close>\<close>
  "replace_millis r s =
     (case rev s of
        [] \<Rightarrow> s
      | z # rest \<Rightarrow>
          if z = CHR ''Z'' \<and> takeWhile is_digit rest \<noteq> [] then
            (case dropWhile is_digit rest of
               [] \<Rightarrow> s
             | p # body \<Rightarrow> if p = CHR ''.'' then rev body @ r else s)
          else s)"

lemma pad_digits: "list_all is_digit s \<Longrightarrow> list_all is_digit (pad n s)"
  by (auto simp: pad_def is_digit_def code_unit_def list_all_iff)

lemma replace_millis_dot:
  assumes "list_all is_digit ds" and "ds \<noteq> []"
  shows "replace_millis r (s @ ''.'' @ ds @ ''Z'') = s @ r"
proof -
  have d: "\<forall>x\<in>set (rev ds). is_digit x" using assms(1) by (simp add: list_all_iff)
  have p: "\<not> is_digit (CHR ''.'')" by (simp add: is_digit_def code_unit_def)
  have "takeWhile is_digit (rev ds @ CHR ''.'' # rev s) = rev ds"
    using d p by (rule takeWhile_stop)
  moreover have "dropWhile is_digit (rev ds @ CHR ''.'' # rev s) = CHR ''.'' # rev s"
    using d p by (rule dropWhile_stop)
  ultimately show ?thesis
    using assms(2) by (simp add: replace_millis_def)
qed

lemma pad_not_Nil: "s \<noteq> [] \<Longrightarrow> pad n s \<noteq> []"
  by (simp add: pad_def)

lemma iso_digits_no_T:
  "CHR ''T'' \<notin> set (pad n (string_of_nat k))"
  using pad_digits [OF string_of_nat_digits, of n k]
  by (auto simp: list_all_iff is_digit_def code_unit_def)

lemma iso_date_no_T: "CHR ''T'' \<notin> set (iso_date t)"
  by (simp add: iso_date_def iso_year_def iso_digits_no_T)

lemma set_free: "(\<forall>x\<in>set a. x \<noteq> c) \<longleftrightarrow> c \<notin> set a"
  by auto

lemma replace_first_append: "c \<notin> set a \<Longrightarrow> replace_first c r (a @ c # b) = a @ r @ b"
  by (simp add: replace_first_def takeWhile_stop dropWhile_stop set_free)

lemma toISOString_spaced:
  "replace_millis r (replace_first (CHR ''T'') '' '' (toISOString t)) = iso_date t @ '' '' @ iso_clock t @ r"
proof -
  define ms where "ms = pad 3 (string_of_nat (nat (time_within_day t) mod 1000))"
  have "replace_first (CHR ''T'') '' '' (toISOString t) = (iso_date t @ '' '' @ iso_clock t) @ ''.'' @ ms @ ''Z''"
    using replace_first_append [OF iso_date_no_T] by (simp add: toISOString_def ms_def)
  moreover have "list_all is_digit ms" "ms \<noteq> []"
    by (simp_all add: ms_def pad_digits string_of_nat_digits pad_not_Nil)
  ultimately show ?thesis
    using replace_millis_dot [of ms r "iso_date t @ '' '' @ iso_clock t"] by simp
qed

end
