(* ===== verification/Hedera.thy ===== *)
theory Hedera
  imports Json_Http Encodings JS_Dates
begin

text \<open>
  The Hedera receipts of a delivery: lib/hedera/HederaService.ts and
  lib/hedera/mintAndTransferProofNFT.ts. The Hedera SDK and the network behind it are parameters,
  the fields of \<open>hedera_sdk\<close>, actions on the state \<open>'c\<close> of the network; their first
  argument tells mainnet from testnet. The two calls that \<open>recordOnHedera\<close> starts together are
  run one after the other: they share no state of the program.
\<close>

record hcs_receipt =
  hr_sequenceNumber :: "int option"
  hr_consensusTimestamp :: "date option"
  hr_transactionId :: string

record mint_receipt =
  mr_serial :: "int option"
  mr_transactionId :: string

record 'c hedera_sdk =
  hs_key_parses :: "string \<Rightarrow> bool"     \<comment> \<open>the operator's credentials parse\<close>
  hs_submit :: "bool \<Rightarrow> string \<Rightarrow> string \<Rightarrow> string \<Rightarrow> ('c, hcs_receipt) act"
  hs_mint :: "bool \<Rightarrow> string \<Rightarrow> string \<Rightarrow> bytes \<Rightarrow> ('c, mint_receipt) act"
  hs_create_token :: "bool \<Rightarrow> string \<Rightarrow> ('c, string option) act"
  hs_create_account :: "bool \<Rightarrow> string \<Rightarrow> ('c, string option) act"
  hs_transfer :: "bool \<Rightarrow> string \<Rightarrow> string \<Rightarrow> int \<Rightarrow> string \<Rightarrow> ('c, string) act"

record hedera_payload =
  hp_deliveryId :: string
  hp_documentHash :: string
  hp_caseRef :: string
  hp_servedTo :: string
  hp_servedBy :: string

record hcs_result =
  hc_topicId :: string
  hc_sequenceNumber :: int
  hc_consensusTimestamp :: "string option"
  hc_transactionId :: string
  hc_mirrorNodeUrl :: string

record hts_mint_result =
  ht_tokenId :: string
  ht_serialNumber :: int
  ht_transactionId :: string
  ht_mirrorNodeUrl :: string

record hedera_service_result =
  hx_hcs :: "hcs_result option"
  hx_hts :: "hts_mint_result option"
  hx_bothSucceeded :: bool

record proof_nft_result =
  pn_tokenId :: string
  pn_serial :: int
  pn_transferTx :: string
  pn_defendantId :: string
  pn_defendantCreated :: bool

subsection \<open>HederaService.ts\<close>

definition on_mainnet :: "env \<Rightarrow> bool" where
  "on_mainnet env = (env ''HEDERA_NETWORK'' = Some ''mainnet'')"

text \<open>The operator id of the client, \<open>None\<close> without credentials; a malformed key throws.\<close>

definition buildClient :: "'c hedera_sdk \<Rightarrow> env \<Rightarrow> string option result" where
  "buildClient sdk env =
     (if \<not> truthy (env ''HEDERA_OPERATOR_ID'') \<or> \<not> truthy (env ''HEDERA_OPERATOR_KEY'') then Inr None
      else if \<not> hs_key_parses sdk (the (env ''HEDERA_OPERATOR_KEY'')) then Inl (PlainError ''invalid private key'')
      else Inr (env ''HEDERA_OPERATOR_ID''))"

definition network_name :: "env \<Rightarrow> string" where
  "network_name env = (if on_mainnet env then ''mainnet'' else ''testnet'')"

definition hcs_message :: "date \<Rightarrow> hedera_payload \<Rightarrow> string" where
  "hcs_message now p =
     json_stringify (JObj [(''eps'', JStr ''v1''), (''deliveryId'', JStr (hp_deliveryId p)),
       (''documentHash'', JStr (hp_documentHash p)), (''caseRef'', JStr (hp_caseRef p)),
       (''servedTo'', JStr (hp_servedTo p)), (''servedBy'', JStr (hp_servedBy p)),
       (''submittedAt'', JStr (toISOString now))])"

definition submitToHCS :: "'c hedera_sdk \<Rightarrow> env \<Rightarrow> date \<Rightarrow> hedera_payload \<Rightarrow> ('c, hcs_result option) act" where
  "submitToHCS sdk env now p =
     (if \<not> truthy (env ''HEDERA_HCS_TOPIC_ID'') then ret None
      else case buildClient sdk env of
        Inl e \<Rightarrow> throw e
      | Inr None \<Rightarrow> ret None
      | Inr (Some operator) \<Rightarrow>
          (let topicId = the (env ''HEDERA_HCS_TOPIC_ID'')
           in catch
               (andThen (hs_submit sdk (on_mainnet env) operator topicId (hcs_message now p)) (\<lambda>receipt.
                (let seqNum = case hr_sequenceNumber receipt of None \<Rightarrow> 0 | Some n \<Rightarrow> n
                 in ret (Some
                     \<lparr>hc_topicId = topicId, hc_sequenceNumber = seqNum,
                      hc_consensusTimestamp = map_option toISOString (hr_consensusTimestamp receipt),
                      hc_transactionId = hr_transactionId receipt,
                      hc_mirrorNodeUrl = ''https://'' @ network_name env @ ''.mirrornode.hedera.com/api/v1/topics/'' @
                        topicId @ ''/messages/'' @ string_of_int seqNum\<rparr>))))
               (\<lambda>_. ret None)))"

definition nft_metadata :: "date \<Rightarrow> hedera_payload \<Rightarrow> string" where
  "nft_metadata now p =
     json_stringify (JObj [(''eps'', JStr ''v1''), (''deliveryId'', JStr (hp_deliveryId p)),
       (''documentHash'', JStr (hp_documentHash p)), (''caseRef'', JStr (hp_caseRef p)),
       (''servedTo'', JStr (hp_servedTo p)), (''servedBy'', JStr (hp_servedBy p)),
       (''mintedAt'', JStr (toISOString now))])"

definition mintProofNFT :: "'c hedera_sdk \<Rightarrow> env \<Rightarrow> date \<Rightarrow> hedera_payload \<Rightarrow> ('c, hts_mint_result option) act" where
  "mintProofNFT sdk env now p =
     (if \<not> truthy (env ''HEDERA_NFT_TOKEN_ID'') then ret None
      else case buildClient sdk env of
        Inl e \<Rightarrow> throw e
      | Inr None \<Rightarrow> ret None
      | Inr (Some operator) \<Rightarrow>
          (let tokenId = the (env ''HEDERA_NFT_TOKEN_ID'')
           in catch
               (andThen (hs_mint sdk (on_mainnet env) operator tokenId (utf8_encode (nft_metadata now p))) (\<lambda>receipt.
                (let serialNumber = case mr_serial receipt of None \<Rightarrow> 0 | Some n \<Rightarrow> n
                 in ret (Some
                     \<lparr>ht_tokenId = tokenId, ht_serialNumber = serialNumber,
                      ht_transactionId = mr_transactionId receipt,
                      ht_mirrorNodeUrl = ''https://'' @ network_name env @ ''.mirrornode.hedera.com/api/v1/tokens/'' @
                        tokenId @ ''/nfts/'' @ string_of_int serialNumber\<rparr>))))
               (\<lambda>_. ret None)))"

text \<open>\<open>Promise.allSettled\<close>: a rejection counts as no result.\<close>

definition settle :: "('c, 'a option) act \<Rightarrow> ('c, 'a option) act" where
  "settle m = catch m (\<lambda>_. ret None)"

definition recordOnHedera :: "'c hedera_sdk \<Rightarrow> env \<Rightarrow> date \<Rightarrow> hedera_payload \<Rightarrow> ('c, hedera_service_result) act" where
  "recordOnHedera sdk env now p =
     andThen (settle (submitToHCS sdk env now p)) (\<lambda>hcs.
     andThen (settle (mintProofNFT sdk env now p)) (\<lambda>hts.
     ret \<lparr>hx_hcs = hcs, hx_hts = hts, hx_bothSucceeded = (hcs \<noteq> None \<and> hts \<noteq> None)\<rparr>))"

subsection \<open>mintAndTransferProofNFT.ts\<close>

definition meta_uri :: "env \<Rightarrow> string option \<Rightarrow> int option \<Rightarrow> string" where
  "meta_uri env hcsTopicId hcsSeq =
     ''https://eps-dapp.vercel.app/api/nft/meta?topic='' @
     (case hcsTopicId of
        Some t \<Rightarrow> t
      | None \<Rightarrow> (case env ''HEDERA_HCS_TOPIC_ID'' of Some t \<Rightarrow> t | None \<Rightarrow> ''0.0.9225885'')) @
     ''&seq='' @ string_of_int (case hcsSeq of None \<Rightarrow> 0 | Some n \<Rightarrow> n)"

definition proof_metadata :: "env \<Rightarrow> string option \<Rightarrow> int option \<Rightarrow> bytes" where
  "proof_metadata env hcsTopicId hcsSeq =
     (let bs = utf8_encode (meta_uri env hcsTopicId hcsSeq) in if 100 < length bs then take 99 bs else bs)"

definition resolve_token :: "'c hedera_sdk \<Rightarrow> env \<Rightarrow> string \<Rightarrow> ('c, string) act" where
  "resolve_token sdk env operator =
     (if truthy (env ''HEDERA_NFT_TOKEN_ID'') then ret (the (env ''HEDERA_NFT_TOKEN_ID''))
      else andThen (hs_create_token sdk (on_mainnet env) operator) (\<lambda>created.
           case created of
             None \<Rightarrow> throw (PlainError ''Token creation returned no token id.'')
           | Some t \<Rightarrow> ret t))"

definition resolve_defendant :: "'c hedera_sdk \<Rightarrow> env \<Rightarrow> string \<Rightarrow> ('c, string \<times> bool) act" where
  "resolve_defendant sdk env operator =
     (if truthy (env ''HEDERA_DEMO_DEFENDANT_ID'') then ret (the (env ''HEDERA_DEMO_DEFENDANT_ID''), False)
      else andThen (hs_create_account sdk (on_mainnet env) operator) (\<lambda>created.
           case created of
             None \<Rightarrow> throw (PlainError ''Account creation returned no account id.'')
           | Some a \<Rightarrow> ret (a, True)))"

definition mintAndTransferProofNFT ::
  "'c hedera_sdk \<Rightarrow> env \<Rightarrow> string option \<Rightarrow> int option \<Rightarrow> ('c, proof_nft_result option) act" where
  "mintAndTransferProofNFT sdk env hcsTopicId hcsSeq =
     (if \<not> truthy (env ''HEDERA_OPERATOR_ID'') \<or> \<not> truthy (env ''HEDERA_OPERATOR_KEY'') then ret None
      else if on_mainnet env \<and> env ''HEDERA_ALLOW_MAINNET'' \<noteq> Some ''true'' then
        throw (PlainError ''Refusing to mint/transfer on Hedera mainnet. Set HEDERA_ALLOW_MAINNET=true to override.'')
      else if \<not> hs_key_parses sdk (the (env ''HEDERA_OPERATOR_KEY'')) then throw (PlainError ''invalid private key'')
      else
        (let operator = the (env ''HEDERA_OPERATOR_ID'')
         in andThen (resolve_token sdk env operator) (\<lambda>tokenId.
            andThen (hs_mint sdk (on_mainnet env) operator tokenId (proof_metadata env hcsTopicId hcsSeq)) (\<lambda>receipt.
            case mr_serial receipt of
              None \<Rightarrow> throw (PlainError ''Mint returned no serial number.'')
            | Some serial \<Rightarrow>
                andThen (resolve_defendant sdk env operator) (\<lambda>(defendantId, created).
                andThen (hs_transfer sdk (on_mainnet env) operator tokenId serial defendantId) (\<lambda>transferTx.
                ret (Some \<lparr>pn_tokenId = tokenId, pn_serial = serial, pn_transferTx = transferTx,
                           pn_defendantId = defendantId, pn_defendantCreated = created\<rparr>)))))))"

subsection \<open>Lemmas\<close>

lemma settle_never_throws: "fst (settle m s) \<noteq> Inl e"
  by (auto simp: settle_def catch_def ret_def split: prod.split sum.split)

lemma recordOnHedera_Inr: "\<exists>res s'. recordOnHedera sdk env now p s = (Inr res, s')"
proof -
  obtain h s1 where 1: "settle (submitToHCS sdk env now p) s = (Inr h, s1)"
    using settle_never_throws [of "submitToHCS sdk env now p" s]
    by (metis obj_sumE prod.collapse)
  obtain t s2 where 2: "settle (mintProofNFT sdk env now p) s1 = (Inr t, s2)"
    using settle_never_throws [of "mintProofNFT sdk env now p" s1]
    by (metis obj_sumE prod.collapse)
  from 1 2 show ?thesis by (simp add: recordOnHedera_def act_simps)
qed

lemma length_utf8_char: "1 \<le> length (utf8_char c)"
  by (simp add: utf8_char_def Let_def)

lemma length_utf8_encode: "length s \<le> length (utf8_encode s)"
proof (induction s)
  case Nil
  then show ?case by simp
next
  case (Cons c s)
  with length_utf8_char [of c] show ?case by (simp add: utf8_encode_def)
qed

lemma proof_metadata_fits: "length (proof_metadata env t n) \<le> 100"
  by (simp add: proof_metadata_def Let_def)

subsection \<open>Properties\<close>

text \<open>The token service refuses metadata of more than 100 bytes (METADATA_TOO_LONG).\<close>

definition metadata_capped :: "'c hedera_sdk \<Rightarrow> bool" where
  "metadata_capped sdk \<longleftrightarrow>
     (\<forall>net operator tok m s. 100 < length m \<longrightarrow> (\<exists>e s'. hs_mint sdk net operator tok m s = (Inl e, s')))"

lemma nft_metadata_too_long: "100 < length (utf8_encode (nft_metadata now p))"
proof -
  note q = length_json_quote
  have "101 \<le> length (nft_metadata now p)"
    using q [of "''eps''"] q [of "''v1''"] q [of "''deliveryId''"] q [of "hp_deliveryId p"]
      q [of "''documentHash''"] q [of "hp_documentHash p"] q [of "''caseRef''"] q [of "hp_caseRef p"]
      q [of "''servedTo''"] q [of "hp_servedTo p"] q [of "''servedBy''"] q [of "hp_servedBy p"]
      q [of "''mintedAt''"] q [of "toISOString now"]
    by (simp add: nft_metadata_def)
  with length_utf8_encode [of "nft_metadata now p"] show ?thesis by linarith
qed

lemma recordOnHedera_capped:
  assumes "metadata_capped sdk"
  obtains x s' where "recordOnHedera sdk env now p s = (Inr x, s')" "hx_hts x = None" "\<not> hx_bothSucceeded x"
proof -
  have m: "\<exists>s2. settle (mintProofNFT sdk env now p) s1 = (Inr None, s2)" for s1
  proof -
    obtain e s2 where "hs_mint sdk (on_mainnet env) (the (env ''HEDERA_OPERATOR_ID'')) (the (env ''HEDERA_NFT_TOKEN_ID''))
        (utf8_encode (nft_metadata now p)) s1 = (Inl e, s2)"
      using assms nft_metadata_too_long unfolding metadata_capped_def by blast
    then show ?thesis
      by (auto simp: mintProofNFT_def settle_def buildClient_def catch_def andThen_def ret_def throw_def Let_def
          truthy_iff split: sum.split option.split)
  qed
  obtain h s1 where "settle (submitToHCS sdk env now p) s = (Inr h, s1)"
    using settle_never_throws [of "submitToHCS sdk env now p" s] by (metis obj_sumE prod.collapse)
  with m [of s1] that show thesis
    by (auto simp: recordOnHedera_def act_simps)
qed

text \<open>C39. The receipt that \<open>recordOnHedera\<close> mints with the delivery data as metadata is always longer
  than the 100 bytes the token service accepts, so it never mints one; the proof token of
  \<open>mintAndTransferProofNFT\<close> always fits.\<close>

theorem receipt_nft_never_minted:
  assumes "metadata_capped sdk" "recordOnHedera sdk env now p s = (res, s')"
  shows "(\<exists>x. res = Inr x \<and> hx_hts x = None \<and> \<not> hx_bothSucceeded x) \<and> length (proof_metadata env t n) \<le> 100"
  using recordOnHedera_capped [OF assms(1), of env now p s] assms(2) proof_metadata_fits by fastforce

definition capped_sdk :: "unit hedera_sdk" where
  "capped_sdk =
     \<lparr>hs_key_parses = (\<lambda>_. True),
      hs_submit = (\<lambda>_ _ _ _. ret \<lparr>hr_sequenceNumber = Some 1, hr_consensusTimestamp = None, hr_transactionId = ''t''\<rparr>),
      hs_mint = (\<lambda>_ _ _ m. if 100 < length m then throw (PlainError ''METADATA_TOO_LONG'')
                 else ret \<lparr>mr_serial = Some 1, mr_transactionId = ''t''\<rparr>),
      hs_create_token = (\<lambda>_ _. ret (Some ''0.0.1'')), hs_create_account = (\<lambda>_ _. ret (Some ''0.0.2'')),
      hs_transfer = (\<lambda>_ _ _ _ _. ret ''t'')\<rparr>"

lemma receipt_nft_never_minted_witness:
  "\<exists>x. fst (recordOnHedera capped_sdk (map_of [(''HEDERA_NFT_TOKEN_ID'', ''0.0.1''), (''HEDERA_OPERATOR_ID'', ''o''),
       (''HEDERA_OPERATOR_KEY'', ''k'')]) 0 (\<lparr>hp_deliveryId = ''r1'', hp_documentHash = ''h'', hp_caseRef = ''c'',
       hp_servedTo = ''w'', hp_servedBy = ''b''\<rparr>) ()) = Inr x \<and> hx_hts x = None"
proof -
  let ?r = "recordOnHedera capped_sdk (map_of [(''HEDERA_NFT_TOKEN_ID'', ''0.0.1''), (''HEDERA_OPERATOR_ID'', ''o''),
       (''HEDERA_OPERATOR_KEY'', ''k'')]) 0 (\<lparr>hp_deliveryId = ''r1'', hp_documentHash = ''h'', hp_caseRef = ''c'',
       hp_servedTo = ''w'', hp_servedBy = ''b''\<rparr>) ()"
  have c: "metadata_capped capped_sdk" by (simp add: metadata_capped_def capped_sdk_def throw_def)
  have r: "?r = (fst ?r, snd ?r)" by (rule prod.collapse [symmetric])
  from receipt_nft_never_minted [OF c r] show ?thesis by blast
qed

text \<open>\<open>mintAndTransferProofNFT\<close> never touches mainnet unless the override is set: with the
  network set to mainnet it leaves the network alone, and with an operator configured it throws.\<close>

theorem proof_nft_mainnet_guard:
  assumes "env ''HEDERA_NETWORK'' = Some ''mainnet''" "env ''HEDERA_ALLOW_MAINNET'' \<noteq> Some ''true''"
  shows "snd (mintAndTransferProofNFT sdk env topic n s) = s \<and>
    (truthy (env ''HEDERA_OPERATOR_ID'') \<and> truthy (env ''HEDERA_OPERATOR_KEY'') \<longrightarrow>
       (\<exists>m. fst (mintAndTransferProofNFT sdk env topic n s) = Inl (PlainError m)))"
  using assms by (auto simp: mintAndTransferProofNFT_def on_mainnet_def ret_def throw_def)

lemma proof_nft_mainnet_guard_witness:
  "snd (mintAndTransferProofNFT capped_sdk (map_of [(''HEDERA_NETWORK'', ''mainnet'')]) None None ()) = ()"
  using proof_nft_mainnet_guard [of "map_of [(''HEDERA_NETWORK'', ''mainnet'')]" capped_sdk None None "()"] by simp

definition nft_forbidden :: "env \<Rightarrow> bool" where
  "nft_forbidden env \<longleftrightarrow>
     on_mainnet env \<and> env ''HEDERA_ALLOW_MAINNET'' \<noteq> Some ''true'' \<and>
     truthy (env ''HEDERA_OPERATOR_ID'') \<and> truthy (env ''HEDERA_OPERATOR_KEY'')"

interpretation nft_guard: guarded_op "\<lambda>env. mintAndTransferProofNFT sdk env topic n" nft_forbidden
  by unfold_locales (auto simp: nft_forbidden_def mintAndTransferProofNFT_def throw_def)

end
