(* ===== verification/Chain_EVM.thy ===== *)
theory Chain_EVM
  imports Chain_Solana Hedera
begin

text \<open>
  The multi-chain adapters: lib/chain/ChainAdapter.ts (chain ids, the factory),
  lib/chain/EVMAdapter.ts and lib/chain/BitcoinAdapter.ts. The viem package is a parameter, the
  record \<open>viem\<close>; the network behind it is a state of any type. An EVM adapter keeps the two
  clients it builds lazily, each with the RPC URL and the key it was built with.
\<close>

subsection \<open>ChainAdapter.ts\<close>

datatype chain_id =
    SOLANA_MAINNET | SOLANA_DEVNET | SOLANA_TESTNET
  | ETH_MAINNET | ETH_SEPOLIA | POLYGON | POLYGON_AMOY | BASE | BASE_SEPOLIA
  | ARB_ONE | ARB_SEPOLIA | OP_MAINNET | OP_SEPOLIA
  | BITCOIN_MAINNET | BITCOIN_TESTNET | BITCOIN_SIGNET

definition chain_id_name :: "chain_id \<Rightarrow> string" where
  "chain_id_name c =
     (case c of
        SOLANA_MAINNET \<Rightarrow> ''solana-mainnet'' | SOLANA_DEVNET \<Rightarrow> ''solana-devnet'' | SOLANA_TESTNET \<Rightarrow> ''solana-testnet''
      | ETH_MAINNET \<Rightarrow> ''eip155:1'' | ETH_SEPOLIA \<Rightarrow> ''eip155:11155111'' | POLYGON \<Rightarrow> ''eip155:137''
      | POLYGON_AMOY \<Rightarrow> ''eip155:80002'' | BASE \<Rightarrow> ''eip155:8453'' | BASE_SEPOLIA \<Rightarrow> ''eip155:84532''
      | ARB_ONE \<Rightarrow> ''eip155:42161'' | ARB_SEPOLIA \<Rightarrow> ''eip155:421614'' | OP_MAINNET \<Rightarrow> ''eip155:10''
      | OP_SEPOLIA \<Rightarrow> ''eip155:11155420'' | BITCOIN_MAINNET \<Rightarrow> ''btc-mainnet''
      | BITCOIN_TESTNET \<Rightarrow> ''btc-testnet'' | BITCOIN_SIGNET \<Rightarrow> ''btc-signet'')"

definition EVM_CHAINS :: "chain_id list" where
  "EVM_CHAINS =
     [ETH_MAINNET, ETH_SEPOLIA, POLYGON, POLYGON_AMOY, BASE, BASE_SEPOLIA, ARB_ONE, ARB_SEPOLIA,
      OP_MAINNET, OP_SEPOLIA]"

definition BITCOIN_CHAINS :: "chain_id list" where
  "BITCOIN_CHAINS = [BITCOIN_MAINNET, BITCOIN_TESTNET, BITCOIN_SIGNET]"

record service_record =
  rec_deliveryId :: string
  rec_documentHash :: string
  rec_caseRef :: string
  rec_servedTo :: string
  rec_servedBy :: string
  rec_servedAt :: string

record broadcast_result =
  bc_txId :: string
  bc_chainId :: chain_id

record chain_confirmation =
  cc_txId :: string
  cc_chainId :: chain_id
  cc_blockNumber :: int
  cc_blockTimestamp :: "int option"
  cc_confirmedMemo :: "nat list option" \<comment> \<open>code points, see \<open>utf8_decode\<close>\<close>

record address_validation =
  av_valid :: bool
  av_reason :: "string option"

subsection \<open>The configuration of the EVM chains\<close>

record chain_config =
  cg_chain :: string \<comment> \<open>the name of viem's chain object\<close>
  cg_rpcEnvVar :: string
  cg_fallbackRpc :: string
  cg_isMainnet :: bool

definition config :: "string \<Rightarrow> string \<Rightarrow> string \<Rightarrow> bool \<Rightarrow> chain_config" where
  "config chain var rpc main =
     \<lparr>cg_chain = chain, cg_rpcEnvVar = var, cg_fallbackRpc = rpc, cg_isMainnet = main\<rparr>"

definition CHAIN_CONFIG :: "(chain_id \<times> chain_config) list" where
  "CHAIN_CONFIG =
     [(ETH_MAINNET, config ''mainnet'' ''EVM_RPC_ETH_MAINNET'' ''https://eth.llamarpc.com'' True),
      (ETH_SEPOLIA, config ''sepolia'' ''EVM_RPC_ETH_SEPOLIA'' ''https://rpc.sepolia.org'' False),
      (POLYGON, config ''polygon'' ''EVM_RPC_POLYGON'' ''https://polygon-rpc.com'' True),
      (POLYGON_AMOY, config ''polygonAmoy'' ''EVM_RPC_POLYGON_AMOY'' ''https://rpc-amoy.polygon.technology'' False),
      (BASE, config ''base'' ''EVM_RPC_BASE'' ''https://mainnet.base.org'' True),
      (BASE_SEPOLIA, config ''baseSepolia'' ''EVM_RPC_BASE_SEPOLIA'' ''https://sepolia.base.org'' False),
      (ARB_ONE, config ''arbitrum'' ''EVM_RPC_ARB_ONE'' ''https://arb1.arbitrum.io/rpc'' True),
      (ARB_SEPOLIA, config ''arbitrumSepolia'' ''EVM_RPC_ARB_SEPOLIA'' ''https://sepolia-rollup.arbitrum.io/rpc'' False),
      (OP_MAINNET, config ''optimism'' ''EVM_RPC_OP_MAINNET'' ''https://mainnet.optimism.io'' True),
      (OP_SEPOLIA, config ''optimismSepolia'' ''EVM_RPC_OP_SEPOLIA'' ''https://sepolia.optimism.io'' False)]"

record evm_adapter =
  ea_chainId :: chain_id
  ea_config :: chain_config

definition newEVMAdapter :: "chain_id \<Rightarrow> evm_adapter result" where
  "newEVMAdapter c =
     (case map_of CHAIN_CONFIG c of
        None \<Rightarrow> Inl (ChainError NOT_IMPLEMENTED
          (''EVMAdapter: no config for chainId '' @ [char_of (34::nat)] @ chain_id_name c @ [char_of (34::nat)]))
      | Some cfg \<Rightarrow> Inr \<lparr>ea_chainId = c, ea_config = cfg\<rparr>)"

definition newBitcoinAdapter :: "chain_id \<Rightarrow> chain_id result" where
  "newBitcoinAdapter c =
     (if c \<noteq> BITCOIN_MAINNET \<and> c \<noteq> BITCOIN_TESTNET \<and> c \<noteq> BITCOIN_SIGNET then
        Inl (ChainError NOT_IMPLEMENTED
          (''BitcoinAdapter: invalid chainId '' @ [char_of (34::nat)] @ chain_id_name c @ [char_of (34::nat)]))
      else Inr c)"

datatype any_adapter = Bitcoin_Adapter chain_id | EVM_Adapter evm_adapter

definition getAdapter :: "chain_id \<Rightarrow> any_adapter result" where
  "getAdapter c =
     (if c = BITCOIN_MAINNET \<or> c = BITCOIN_TESTNET \<or> c = BITCOIN_SIGNET then
        map_sum id Bitcoin_Adapter (newBitcoinAdapter c)
      else if c \<in> set EVM_CHAINS then map_sum id EVM_Adapter (newEVMAdapter c)
      else Inl (ChainError NOT_IMPLEMENTED
        (''No adapter registered for chainId '' @ [char_of (34::nat)] @ chain_id_name c @ [char_of (34::nat)] @
         ''. For Solana use getSolanaAdapter() from lib/chain/solana.ts.'')))"

subsection \<open>EVMAdapter.ts\<close>

record evm_tx =
  et_to :: string
  et_data :: string

record evm_receipt =
  er_blockHash :: string
  er_blockNumber :: int

record 'c viem =
  vm_account :: "string option \<Rightarrow> string result"  \<comment> \<open>\<open>privateKeyToAccount(key).address\<close>\<close>
  vm_encodeCall :: "string \<Rightarrow> string"              \<comment> \<open>\<open>encodeFunctionData\<close> of \<open>recordDelivery(memo)\<close>\<close>
  vm_send :: "string \<Rightarrow> string \<Rightarrow> evm_tx \<Rightarrow> ('c, string) act"  \<comment> \<open>RPC URL, key\<close>
  vm_wait :: "string \<Rightarrow> string \<Rightarrow> ('c, evm_receipt) act"
  vm_block :: "string \<Rightarrow> string \<Rightarrow> ('c, int option) act"    \<comment> \<open>the block's timestamp\<close>
  vm_transaction :: "string \<Rightarrow> string \<Rightarrow> ('c, string option) act" \<comment> \<open>the transaction's input\<close>
  vm_text :: "eps_error \<Rightarrow> string"                         \<comment> \<open>\<open>String(err)\<close>\<close>

record 'c evm_state =
  es_net :: 'c
  es_public :: "string option"           \<comment> \<open>\<open>publicClient\<close>, by its RPC URL\<close>
  es_wallet :: "(string \<times> string) option" \<comment> \<open>\<open>walletClient\<close>, by its RPC URL and key\<close>

definition on_net :: "('c, 'a) act \<Rightarrow> ('c evm_state, 'a) act" where
  "on_net m w = (case m (es_net w) of (r, c) \<Rightarrow> (r, w\<lparr>es_net := c\<rparr>))"

definition rpc_url :: "env \<Rightarrow> evm_adapter \<Rightarrow> string" where
  "rpc_url env ad =
     (case env (cg_rpcEnvVar (ea_config ad)) of Some u \<Rightarrow> u | None \<Rightarrow> cg_fallbackRpc (ea_config ad))"

definition getPublicClient :: "env \<Rightarrow> evm_adapter \<Rightarrow> ('c evm_state, string) act" where
  "getPublicClient env ad w =
     (case es_public w of
        Some url \<Rightarrow> (Inr url, w)
      | None \<Rightarrow> (Inr (rpc_url env ad), w\<lparr>es_public := Some (rpc_url env ad)\<rparr>))"

definition getWalletClient :: "'c viem \<Rightarrow> env \<Rightarrow> evm_adapter \<Rightarrow> ('c evm_state, string \<times> string) act" where
  "getWalletClient vm env ad w =
     (case es_wallet w of
        Some client \<Rightarrow> (Inr client, w)
      | None \<Rightarrow>
          if \<not> truthy (env ''EVM_APP_WALLET_PRIVATE_KEY'') then
            (Inl (ChainError BROADCAST_FAILED ''EVM_APP_WALLET_PRIVATE_KEY is not set''), w)
          else (case vm_account vm (env ''EVM_APP_WALLET_PRIVATE_KEY'') of
                  Inl e \<Rightarrow> (Inl e, w)
                | Inr _ \<Rightarrow>
                    (let client = (rpc_url env ad, the (env ''EVM_APP_WALLET_PRIVATE_KEY''))
                     in (Inr client, w\<lparr>es_wallet := Some client\<rparr>))))"

definition evm_validateAddress :: "string \<Rightarrow> address_validation" where
  "evm_validateAddress address =
     (if re_evm_address address then \<lparr>av_valid = True, av_reason = None\<rparr>
      else \<lparr>av_valid = False,
            av_reason = Some ([char_of (34::nat)] @ address @ [char_of (34::nat)] @
              '' is not a valid EVM address (expected 0x + 40 hex chars)'')\<rparr>)"

definition buildMemo :: "service_record \<Rightarrow> string" where
  "buildMemo r =
     json_stringify (JObj [(''eps'', JStr ''v1''), (''deliveryId'', JStr (rec_deliveryId r)),
       (''documentHash'', JStr (rec_documentHash r)), (''caseRef'', JStr (rec_caseRef r)),
       (''servedTo'', JStr (rec_servedTo r)), (''servedBy'', JStr (rec_servedBy r)),
       (''servedAt'', JStr (rec_servedAt r))])"

definition memo_hex :: "string \<Rightarrow> string" where
  "memo_hex memo = ''0x'' @ hex_encode (utf8_encode memo)"

text \<open>The transaction of a broadcast: a call of the registry, or the memo sent to the own account.\<close>

definition memo_tx :: "'c viem \<Rightarrow> env \<Rightarrow> string \<Rightarrow> evm_tx result" where
  "memo_tx vm env memo =
     (if truthy (env ''EVM_REGISTRY_ADDRESS'') then
        Inr \<lparr>et_to = the (env ''EVM_REGISTRY_ADDRESS''), et_data = vm_encodeCall vm memo\<rparr>
      else (case vm_account vm (env ''EVM_APP_WALLET_PRIVATE_KEY'') of
              Inl e \<Rightarrow> Inl e
            | Inr address \<Rightarrow> Inr \<lparr>et_to = address, et_data = memo_hex memo\<rparr>))"

definition send_memo_tx :: "'c viem \<Rightarrow> string \<times> string \<Rightarrow> evm_tx result \<Rightarrow> ('c evm_state, string) act" where
  "send_memo_tx vm client tx =
     (case tx of Inl e \<Rightarrow> throw e | Inr t \<Rightarrow> on_net (vm_send vm (fst client) (snd client) t))"

definition evm_broadcast ::
  "'c viem \<Rightarrow> env \<Rightarrow> evm_adapter \<Rightarrow> service_record \<Rightarrow> ('c evm_state, broadcast_result) act" where
  "evm_broadcast vm env ad r =
     (if cg_isMainnet (ea_config ad) \<and> env ''ALLOW_EVM_MAINNET'' \<noteq> Some ''true'' then
        throw (ChainError MAINNET_FORBIDDEN
          (''EVMAdapter: mainnet broadcast forbidden for chainId '' @ [char_of (34::nat)] @
           chain_id_name (ea_chainId ad) @ [char_of (34::nat)] @ ''. Set ALLOW_EVM_MAINNET=true to override.''))
      else
        andThen (getWalletClient vm env ad) (\<lambda>client.
        catch
          (andThen (send_memo_tx vm client (memo_tx vm env (buildMemo r))) (\<lambda>txHash.
           ret \<lparr>bc_txId = txHash, bc_chainId = ea_chainId ad\<rparr>))
          (\<lambda>e. throw (ChainError BROADCAST_FAILED
             (''EVMAdapter broadcast failed on '' @ chain_id_name (ea_chainId ad) @ '': '' @ vm_text vm e)))))"

definition decode_input :: "string option \<Rightarrow> nat list option" where
  "decode_input inp =
     (if \<not> truthy inp \<or> inp = Some ''0x'' then None
      else Some (utf8_decode (hex_decode (if prefix ''0x'' (the inp) then drop 2 (the inp) else the inp))))"

definition evm_getMemo :: "'c viem \<Rightarrow> env \<Rightarrow> evm_adapter \<Rightarrow> string \<Rightarrow> ('c evm_state, nat list option) act" where
  "evm_getMemo vm env ad txId =
     andThen (getPublicClient env ad) (\<lambda>url.
     catch (andThen (on_net (vm_transaction vm url txId)) (\<lambda>inp. ret (decode_input inp))) (\<lambda>_. ret None))"

definition evm_confirm :: "'c viem \<Rightarrow> env \<Rightarrow> evm_adapter \<Rightarrow> string \<Rightarrow> ('c evm_state, chain_confirmation) act" where
  "evm_confirm vm env ad txId =
     andThen (getPublicClient env ad) (\<lambda>url.
     catch
       (andThen (on_net (vm_wait vm url txId)) (\<lambda>receipt.
        andThen (on_net (vm_block vm url (er_blockHash receipt))) (\<lambda>timestamp.
        andThen (evm_getMemo vm env ad txId) (\<lambda>memo.
        ret \<lparr>cc_txId = txId, cc_chainId = ea_chainId ad, cc_blockNumber = er_blockNumber receipt,
             cc_blockTimestamp = (if timestamp = Some 0 then None else timestamp), cc_confirmedMemo = memo\<rparr>))))
       (\<lambda>e. throw (ChainError CONFIRMATION_FAILED
          (''EVMAdapter confirm failed for '' @ txId @ '' on '' @ chain_id_name (ea_chainId ad) @ '': '' @ vm_text vm e))))"

subsection \<open>BitcoinAdapter.ts\<close>

definition base58_char :: "char \<Rightarrow> bool" where
  \<comment> \<open>\<open>[a-km-zA-HJ-NP-Z1-9]\<close>\<close>
  "base58_char c =
     (let n = code_unit c
      in 97 \<le> n \<and> n \<le> 107 \<or> 109 \<le> n \<and> n \<le> 122 \<or> 65 \<le> n \<and> n \<le> 72 \<or> 74 \<le> n \<and> n \<le> 78 \<or>
         80 \<le> n \<and> n \<le> 90 \<or> 49 \<le> n \<and> n \<le> 57)"

definition lower_alnum :: "char \<Rightarrow> bool" where
  "lower_alnum c = (is_digit c \<or> 97 \<le> code_unit c \<and> code_unit c \<le> 122)"

definition is_bech32 :: "string \<Rightarrow> bool" where
  \<comment> \<open>\<open>/^(bc1|tb1|sb1)[a-z0-9]{6,87}$/i\<close>\<close>
  "is_bech32 a =
     (let s = js_lower a
      in take 3 s \<in> {''bc1'', ''tb1'', ''sb1''} \<and> 9 \<le> length s \<and> length s \<le> 90 \<and> list_all lower_alnum (drop 3 s) \<and>
         list_all (\<lambda>c. code_unit c < 128) a)"

definition is_base58_after :: "char list \<Rightarrow> string \<Rightarrow> bool" where
  "is_base58_after heads a =
     (a \<noteq> [] \<and> hd a \<in> set heads \<and> 26 \<le> length a \<and> length a \<le> 35 \<and> list_all base58_char (tl a))"

definition btc_validateAddress :: "string \<Rightarrow> address_validation" where
  "btc_validateAddress address =
     (if is_bech32 address \<or> is_base58_after ''13'' address \<or> is_base58_after ''mn2'' address
      then \<lparr>av_valid = True, av_reason = None\<rparr>
      else \<lparr>av_valid = False,
            av_reason = Some ([char_of (34::nat)] @ address @ [char_of (34::nat)] @
              '' does not match any known Bitcoin address format'')\<rparr>)"

definition btc_broadcast :: "service_record \<Rightarrow> ('c, broadcast_result) act" where
  "btc_broadcast r = throw (ChainError NOT_IMPLEMENTED
     (''BitcoinAdapter.broadcast() is not yet implemented. Future: build P2WPKH tx with '' @
      ''OP_RETURN(sha256(deliveryId+documentHash)) using @scure/btc-signer.''))"

definition btc_confirm :: "string \<Rightarrow> ('c, chain_confirmation) act" where
  "btc_confirm txId = throw (ChainError NOT_IMPLEMENTED ''BitcoinAdapter.confirm() is not yet implemented.'')"

definition btc_getMemo :: "string \<Rightarrow> ('c, nat list option) act" where
  "btc_getMemo txId = throw (ChainError NOT_IMPLEMENTED ''BitcoinAdapter.getMemo() is not yet implemented.'')"

subsection \<open>The mainnet guard\<close>

definition evm_forbidden :: "evm_adapter \<Rightarrow> env \<Rightarrow> bool" where
  "evm_forbidden ad env \<longleftrightarrow> cg_isMainnet (ea_config ad) \<and> env ''ALLOW_EVM_MAINNET'' \<noteq> Some ''true''"

interpretation evm_guard: guarded_op "\<lambda>env. evm_broadcast vm env ad r" "evm_forbidden ad"
  by unfold_locales (auto simp: evm_forbidden_def evm_broadcast_def throw_def)

subsection \<open>The memo\<close>

lemma buildMemo_inject: "buildMemo r = buildMemo r' \<longleftrightarrow> r = r'"
proof
  assume "buildMemo r = buildMemo r'"
  then show "r = r'" by (auto simp: buildMemo_def dest!: json_quote_inject intro!: service_record.equality)
qed simp

lemma decode_memo_hex:
  assumes "memo \<noteq> []"
  shows "decode_input (Some (memo_hex memo)) = Some (code_points memo)"
proof -
  have "hex_encode (utf8_encode memo) \<noteq> []"
    using assms length_utf8_encode [of memo] by (cases "utf8_encode memo") simp_all
  then show ?thesis
    by (simp add: decode_input_def memo_hex_def hex_decode_encode utf8_decode_encode)
qed

text \<open>What the network promises: the input of a transaction it accepted can be read by its hash.\<close>

definition keeps_input :: "'c viem \<Rightarrow> bool" where
  "keeps_input vm \<longleftrightarrow>
     (\<forall>rpc key t c h c' rpc'. vm_send vm rpc key t c = (Inr h, c') \<longrightarrow>
        (\<exists>c''. vm_transaction vm rpc' h c' = (Inr (Some (et_data t)), c'')))"

lemma evm_getMemo_known:
  assumes "\<And>rpc. \<exists>c'. vm_transaction vm rpc h (es_net w) = (Inr inp, c')"
  shows "\<exists>w'. evm_getMemo vm env ad h w = (Inr (decode_input inp), w')"
proof -
  obtain url w1 where p: "getPublicClient env ad w = (Inr url, w1)" "es_net w1 = es_net w"
    by (cases "es_public w") (auto simp: getPublicClient_def)
  obtain c' where "vm_transaction vm url h (es_net w) = (Inr inp, c')" using assms by blast
  with p show ?thesis by (simp add: evm_getMemo_def andThen_def catch_def on_net_def ret_def)
qed

lemma getWalletClient_net: "getWalletClient vm env ad w = (res, w') \<Longrightarrow> es_net w' = es_net w"
  by (auto simp: getWalletClient_def Let_def split: option.splits if_splits sum.splits)

lemma evm_broadcast_Inr:
  assumes "evm_broadcast vm env ad r w = (Inr res, w')"
  obtains t rpc key c where "memo_tx vm env (buildMemo r) = Inr t"
    "vm_send vm rpc key t c = (Inr (bc_txId res), es_net w')" "bc_chainId res = ea_chainId ad"
    "\<not> evm_forbidden ad env"
proof -
  have allowed: "\<not> evm_forbidden ad env" using assms evm_guard.never_returns by blast
  then obtain client w1 where
    "catch (andThen (send_memo_tx vm client (memo_tx vm env (buildMemo r))) (\<lambda>txHash.
         ret \<lparr>bc_txId = txHash, bc_chainId = ea_chainId ad\<rparr>))
       (\<lambda>e. throw (ChainError BROADCAST_FAILED
         (''EVMAdapter broadcast failed on '' @ chain_id_name (ea_chainId ad) @ '': '' @ vm_text vm e))) w1 = (Inr res, w')"
    using assms unfolding evm_broadcast_def evm_forbidden_def by (auto simp: andThen_Inr_iff)
  then obtain t where t: "memo_tx vm env (buildMemo r) = Inr t"
      and run: "on_net (vm_send vm (fst client) (snd client) t) w1 = (Inr (bc_txId res), w')"
      and c: "bc_chainId res = ea_chainId ad"
    by (cases "memo_tx vm env (buildMemo r)")
       (auto simp: catch_def throw_def send_memo_tx_def andThen_def ret_def split: prod.splits sum.splits)
  from run have "vm_send vm (fst client) (snd client) t (es_net w1) = (Inr (bc_txId res), es_net w')"
    by (auto simp: on_net_def split: prod.splits)
  from t this c allowed show thesis by (rule that)
qed

text \<open>C24. What an EVM adapter anchors can be read back and names one service record: without a registry
  contract, on a network that returns the input of a transaction it accepted, getMemo of the hash that
  broadcast returned is the memo of the record, and no other record has that memo.\<close>

theorem evm_memo_reads_back:
  assumes "evm_broadcast vm env ad r w = (Inr res, w')" "keeps_input vm" "\<not> truthy (env ''EVM_REGISTRY_ADDRESS'')"
  shows "\<exists>w''. evm_getMemo vm env ad (bc_txId res) w' = (Inr (Some (code_points (buildMemo r))), w'') \<and>
    (\<forall>r'. code_points (buildMemo r') = code_points (buildMemo r) \<longrightarrow> r' = r)"
  using assms(1)
proof (rule evm_broadcast_Inr)
  fix t rpc key c
  assume t: "memo_tx vm env (buildMemo r) = Inr t" and s: "vm_send vm rpc key t c = (Inr (bc_txId res), es_net w')"
  have "et_data t = memo_hex (buildMemo r)" using t assms(3) by (auto simp: memo_tx_def split: sum.splits)
  moreover have "buildMemo r \<noteq> []" by (simp add: buildMemo_def)
  ultimately have "decode_input (Some (et_data t)) = Some (code_points (buildMemo r))"
    using decode_memo_hex by simp
  moreover have "\<exists>c'. vm_transaction vm rpc' (bc_txId res) (es_net w') = (Inr (Some (et_data t)), c')" for rpc'
    using assms(2) s unfolding keeps_input_def by blast
  ultimately show ?thesis
    using evm_getMemo_known [of vm "bc_txId res" w' "Some (et_data t)" env ad] by (simp add: buildMemo_inject)
qed

definition ledger_viem :: "(string list) viem" where
  "ledger_viem =
     \<lparr>vm_account = (\<lambda>_. Inr ''0xabc''), vm_encodeCall = id,
      vm_send = (\<lambda>_ _ t ts. (Inr (et_data t), ts @ [et_data t])),
      vm_wait = (\<lambda>_ h. ret \<lparr>er_blockHash = h, er_blockNumber = 1\<rparr>), vm_block = (\<lambda>_ _. ret None),
      vm_transaction = (\<lambda>_ h ts. (Inr (if h \<in> set ts then Some h else None), ts)), vm_text = (\<lambda>_. [])\<rparr>"

definition sample_record :: service_record where
  "sample_record =
     \<lparr>rec_deliveryId = ''d1'', rec_documentHash = ''h'', rec_caseRef = ''2026-1'', rec_servedTo = ''0x1'',
      rec_servedBy = ''agent'', rec_servedAt = ''2026-06-13''\<rparr>"

definition sepolia :: evm_adapter where
  "sepolia = \<lparr>ea_chainId = ETH_SEPOLIA, ea_config = config ''sepolia'' ''EVM_RPC_ETH_SEPOLIA'' ''https://rpc.sepolia.org'' False\<rparr>"

theorem evm_memo_reads_back_witness:
  "\<exists>h w' w''. evm_broadcast ledger_viem [''EVM_APP_WALLET_PRIVATE_KEY'' \<mapsto> ''k''] sepolia sample_record
       \<lparr>es_net = [], es_public = None, es_wallet = None\<rparr> = (Inr h, w') \<and>
     evm_getMemo ledger_viem [''EVM_APP_WALLET_PRIVATE_KEY'' \<mapsto> ''k''] sepolia (bc_txId h) w' =
       (Inr (Some (code_points (buildMemo sample_record))), w'')"
proof -
  let ?env = "[''EVM_APP_WALLET_PRIVATE_KEY'' \<mapsto> ''k''] :: env"
  obtain res w' where run: "evm_broadcast ledger_viem ?env sepolia sample_record
      \<lparr>es_net = [], es_public = None, es_wallet = None\<rparr> = (Inr res, w')"
    by (simp add: evm_broadcast_def getWalletClient_def memo_tx_def send_memo_tx_def andThen_def catch_def on_net_def
        ret_def ledger_viem_def sepolia_def config_def Let_def)
  moreover have "keeps_input ledger_viem" by (auto simp: keeps_input_def ledger_viem_def)
  ultimately show ?thesis using evm_memo_reads_back [OF run] by fastforce
qed

end
