(* ===== verification/ENS.thy ===== *)
theory ENS
  imports Chain_EVM
begin

text \<open>
  ENS: lib/ens/ENSResolver.ts and the routes app/api/ens/resolve, app/api/ens/agent and
  app/api/ens/set-records. The name service is a parameter: what each lookup answers, or the error it
  throws. A lookup reads a network the program does not change, so the resolver is a pure function
  of the answers; set-records writes to it, so its network is a state.
\<close>

subsection \<open>ENSResolver.ts\<close>

record ens_sdk =
  en_address :: "string \<Rightarrow> string option result"          \<comment> \<open>\<open>getAddressRecord({name}).value\<close>\<close>
  en_name :: "string \<Rightarrow> string option result"             \<comment> \<open>\<open>getName({address}).name\<close>\<close>
  en_text :: "string \<Rightarrow> string \<Rightarrow> string option result"   \<comment> \<open>\<open>getTextRecord({name, key})\<close>\<close>

record ens_resolution =
  er_address :: "string option"
  er_displayName :: string
  er_wasENSName :: bool
  er_primaryName :: "string option"

definition or_null :: "'a option result \<Rightarrow> 'a option" where
  \<comment> \<open>\<open>try { return result ?? null } catch { return null }\<close>\<close>
  "or_null r = (case r of Inl _ \<Rightarrow> None | Inr x \<Rightarrow> x)"

definition resolveENS :: "ens_sdk \<Rightarrow> string \<Rightarrow> ens_resolution" where
  "resolveENS ens inp =
     (let trimmed = js_trim inp
      in if \<not> re_evm_address trimmed \<and> CHR ''.'' \<in> set trimmed then
           \<lparr>er_address = or_null (en_address ens trimmed), er_displayName = trimmed, er_wasENSName = True,
            er_primaryName = None\<rparr>
         else if re_evm_address trimmed then
           (let name = or_null (en_name ens trimmed)
            in \<lparr>er_address = Some trimmed, er_displayName = (case name of Some n \<Rightarrow> n | None \<Rightarrow> trimmed),
                er_wasENSName = False, er_primaryName = name\<rparr>)
         else \<lparr>er_address = None, er_displayName = trimmed, er_wasENSName = False, er_primaryName = None\<rparr>)"

definition getAgentENSName :: "ens_sdk \<Rightarrow> env \<Rightarrow> string option" where
  "getAgentENSName ens env =
     (case env ''EVM_APP_WALLET_ADDRESS'' of
        None \<Rightarrow> None
      | Some addr \<Rightarrow> if \<not> re_evm_address addr then None else or_null (en_name ens addr))"

definition getAgentTextRecord :: "ens_sdk \<Rightarrow> string \<Rightarrow> string \<Rightarrow> string option" where
  "getAgentTextRecord ens ensName key = or_null (en_text ens ensName key)"

subsection \<open>app/api/ens/resolve\<close>

definition resolve_GET :: "(eps_error \<Rightarrow> string) \<Rightarrow> (string \<Rightarrow> string option result) \<Rightarrow> request \<Rightarrow> response" where
  "resolve_GET message lookup req =
     (let name = js_lower (js_trim
            (case query_get req ''name'' of Some n \<Rightarrow> n
             | None \<Rightarrow> (case query_get req ''q'' of Some q \<Rightarrow> q | None \<Rightarrow> [])))
      in if length name < 3 then error_response 400 ''input required, min 3 chars''
         else if CHR ''.'' \<notin> set name then error_response 400 ''must be a valid ENS name e.g. vitalik.eth''
         else (case lookup name of
                 Inl e \<Rightarrow> error_response 500 (message e)
               | Inr address \<Rightarrow>
                   if \<not> truthy address then error_response 404 ''name not found or not registered''
                   else json_response 200 (JObj [(''name'', JStr name), (''address'', json_of_str address)])))"

subsection \<open>app/api/ens/agent\<close>

definition AGENT_ENS :: string where "AGENT_ENS = ''youhavebeenserved.eth''"

definition AGENT_ADDRESS :: string where
  "AGENT_ADDRESS = ''0xd116a147a95f406a4a4f589c44d588cfe58ef6e0''"

definition text_entry :: "ens_sdk \<Rightarrow> string \<Rightarrow> (string \<times> json) list" where
  "text_entry ens key =
     (let v = or_null (en_text ens AGENT_ENS key) in if truthy v then [(key, json_of_str v)] else [])"

definition agent_GET :: "ens_sdk \<Rightarrow> response" where
  "agent_GET ens =
     (let agentAddress = (case en_address ens AGENT_ENS of
            Inl _ \<Rightarrow> Some AGENT_ADDRESS | Inr resolved \<Rightarrow> map_option js_lower resolved);
          addressMatch = (map_option js_lower agentAddress = Some (js_lower AGENT_ADDRESS));
          textRecords = (if addressMatch
            then text_entry ens ''avatar'' @ text_entry ens ''url'' @ text_entry ens ''description'' else []);
          credentials = (if addressMatch
            then text_entry ens ''agentType'' @ text_entry ens ''agentVersion'' else [])
      in json_response 200 (JObj
           [(''ensName'', if addressMatch then JStr AGENT_ENS else JNull),
            (''agentENSName'', JStr AGENT_ENS),
            (''agentAddress'', json_of_str agentAddress),
            (''agentHasENSIdentity'', JBool addressMatch),
            (''ensip25Compliant'', JBool addressMatch),
            (''ensip26Compliant'', JBool (addressMatch \<and> credentials \<noteq> [])),
            (''textRecords'', JObj textRecords),
            (''credentials'', JObj credentials),
            (''ensipLinks'', JObj
               [(''agentRegistry'', JStr ''https://docs.ens.domains/ensip/25/''),
                (''agentTextRecords'', JStr ''https://docs.ens.domains/ensip/26/'')])]))"

subsection \<open>app/api/ens/set-records\<close>

text \<open>
  \<open>rw_balance\<close> and \<open>rw_setText\<close> are the calls on Ethereum mainnet; \<open>rw_eth\<close> is the JSON number
  \<open>Number(balance) / 1e18\<close>, a floating-point quotient this development has no type for. The em dash
  of a value is written as its three UTF-8 bytes.
\<close>

record 'c record_writer =
  rw_account :: "string \<Rightarrow> string result"
  rw_balance :: "string \<Rightarrow> ('c, int) act"
  rw_setText :: "string \<Rightarrow> string \<Rightarrow> string \<Rightarrow> ('c, string) act" \<comment> \<open>key of the sender, record key and value\<close>
  rw_eth :: "int \<Rightarrow> json"
  rw_text :: "eps_error \<Rightarrow> string"

definition VALID_TOKEN :: string where "VALID_TOKEN = ''eps-bounty-2026''"

definition TEXT_RECORDS :: "(string \<times> string) list" where
  "TEXT_RECORDS =
     [(''agentType'', ''process-server''),
      (''agentVersion'', ''1.0.0''),
      (''description'', ''ENSIP-25 compliant AI legal process server '' @ map char_of [226::nat, 128, 148] @
         '' delivers blockchain-anchored proof of service via Hedera HCS + HTS''),
      (''url'', ''https://eps-dapp.vercel.app'')]"

primrec write_records :: "'c record_writer \<Rightarrow> string \<Rightarrow> (string \<times> string) list \<Rightarrow> ('c, json list) act" where
  "write_records rw pk [] = ret []"
| "write_records rw pk (r # rs) =
     andThen (rw_setText rw pk (fst r) (snd r)) (\<lambda>txHash.
     andThen (write_records rw pk rs) (\<lambda>results.
     ret (JObj [(''key'', JStr (fst r)), (''value'', JStr (snd r)), (''txHash'', JStr txHash)] # results)))"

definition set_records_POST :: "'c record_writer \<Rightarrow> env \<Rightarrow> request \<Rightarrow> ('c, response) act" where
  "set_records_POST rw env req =
     (if query_get req ''token'' \<noteq> Some VALID_TOKEN then ret (error_response 401 ''unauthorized'')
      else
        (let rawKey = (case env ''EVM_APP_WALLET_PRIVATE_KEY'' of Some k \<Rightarrow> Some k | None \<Rightarrow> env ''HEDERA_OPERATOR_KEY'')
         in if \<not> truthy rawKey then
              ret (error_response 500 ''No wallet private key configured (EVM_APP_WALLET_PRIVATE_KEY or HEDERA_OPERATOR_KEY)'')
            else
              (let pk = (if prefix ''0x'' (the rawKey) then the rawKey else ''0x'' @ the rawKey)
               in case rw_account rw pk of
                    Inl e \<Rightarrow> ret (json_response 500
                      (JObj [(''error'', JStr ''Invalid private key''), (''detail'', JStr (rw_text rw e))]))
                  | Inr address \<Rightarrow>
                      andThen (rw_balance rw address) (\<lambda>balance.
                      if balance < 10 ^ 14 then
                        ret (json_response 402 (JObj
                          [(''error'', JStr ''Insufficient ETH for gas''), (''address'', JStr address),
                           (''balanceEth'', rw_eth rw balance),
                           (''needed'', JStr ''~0.001 ETH for 2 setText transactions'')]))
                      else
                        andThen (write_records rw pk TEXT_RECORDS) (\<lambda>results.
                        ret (json_response 200 (JObj
                          [(''success'', JBool True), (''address'', JStr address), (''balanceEth'', rw_eth rw balance),
                           (''records'', JArr results),
                           (''verifyAt'', JStr (''https://app.ens.domains/'' @ AGENT_ENS))])))))))"

subsection \<open>What the resolver promises\<close>

lemma resolveENS_total:
  "er_displayName (resolveENS ens inp) = js_trim inp \<or>
   (\<exists>n. er_primaryName (resolveENS ens inp) = Some n \<and> er_displayName (resolveENS ens inp) = n)"
  by (simp add: resolveENS_def Let_def split: option.split)

lemma resolveENS_name:
  assumes "CHR ''.'' \<in> set inp" "\<not> re_evm_address (js_trim inp)"
  shows "er_wasENSName (resolveENS ens inp) \<and> er_address (resolveENS ens inp) = or_null (en_address ens (js_trim inp))"
proof -
  have "CHR ''.'' \<in> set (js_trim inp)"
    using assms(1) by (rule js_trim_keeps) (simp add: is_space_def code_unit_def)
  with assms(2) show ?thesis by (simp add: resolveENS_def Let_def)
qed

text \<open>The token in the query is the only guard of the mainnet writes.\<close>

lemma set_records_without_token:
  "query_get req ''token'' \<noteq> Some VALID_TOKEN \<Longrightarrow>
   set_records_POST rw env req c = (Inr (error_response 401 ''unauthorized''), c)"
  by (simp add: set_records_POST_def ret_def)

lemma set_records_writes:
  assumes "query_get req ''token'' = Some VALID_TOKEN" "env ''EVM_APP_WALLET_PRIVATE_KEY'' = Some k" "prefix ''0x'' k"
    and "rw_account rw k = Inr a" "rw_balance rw a c = (Inr b, c1)" "10 ^ 14 \<le> b"
  shows "snd (set_records_POST rw env req c) = snd (write_records rw k TEXT_RECORDS c1)"
proof -
  have "k \<noteq> []" using assms(3) by auto
  then show ?thesis
    using assms by (cases "write_records rw k TEXT_RECORDS c1"; cases "fst (write_records rw k TEXT_RECORDS c1)")
      (simp_all add: set_records_POST_def Let_def andThen_def ret_def)
qed

end
