(* ===== verification/Tables.thy ===== *)
theory Tables
  imports EPS_Prelude
begin

text \<open>
  Database tables. A table is the list of its rows in insertion order; the operations are the ones
  the program asks of Prisma: a lookup on a unique column, an ordered \<open>findFirst\<close>, a
  guarded \<open>updateMany\<close> that reports how many rows it changed, and an insertion. The locale
  \<open>record_store\<close> is what the components rely on; every table of the schema is shown to
  provide it.
\<close>

subsection \<open>Rows\<close>

definition row_find :: "('r \<Rightarrow> 'k) \<Rightarrow> 'k \<Rightarrow> 'r list \<Rightarrow> 'r option" where
  "row_find key k rs = List.find (\<lambda>r. key r = k) rs"

definition row_modify :: "('r \<Rightarrow> 'k) \<Rightarrow> 'k \<Rightarrow> ('r \<Rightarrow> 'r) \<Rightarrow> 'r list \<Rightarrow> 'r list" where
  "row_modify key k f rs = map (\<lambda>r. if key r = k then f r else r) rs"

definition row_update_many :: "('r \<Rightarrow> bool) \<Rightarrow> ('r \<Rightarrow> 'r) \<Rightarrow> 'r list \<Rightarrow> nat \<times> 'r list" where
  "row_update_many P f rs = (length (filter P rs), map (\<lambda>r. if P r then f r else r) rs)"

fun first_max :: "('r \<Rightarrow> int) \<Rightarrow> 'r list \<Rightarrow> 'r option" where
  "first_max key [] = None"
| "first_max key (r # rs) =
     (case first_max key rs of
        None \<Rightarrow> Some r
      | Some q \<Rightarrow> if key r < key q then Some q else Some r)"

lemma row_find_Nil [simp]: "row_find key k [] = None"
  by (simp add: row_find_def)

lemma row_find_Cons [simp]: "row_find key k (r # rs) = (if key r = k then Some r else row_find key k rs)"
  by (simp add: row_find_def)

lemma row_find_append:
  "row_find key k (rs @ qs) = (case row_find key k rs of None \<Rightarrow> row_find key k qs | Some r \<Rightarrow> Some r)"
  by (induction rs) auto

lemma row_find_key: "row_find key k rs = Some r \<Longrightarrow> key r = k"
  by (induction rs) (auto split: if_splits)

lemma row_find_in: "row_find key k rs = Some r \<Longrightarrow> r \<in> set rs"
  by (induction rs) (auto split: if_splits)

lemma row_find_None_iff: "row_find key k rs = None \<longleftrightarrow> k \<notin> key ` set rs"
  by (induction rs) auto

lemma row_find_distinct:
  "distinct (map key rs) \<Longrightarrow> row_find key k rs = Some r \<longleftrightarrow> r \<in> set rs \<and> key r = k"
  by (induction rs) auto

lemma row_find_modify:
  assumes "\<And>r. key (f r) = key r"
  shows "row_find key k (row_modify key j f rs) =
           (if k = j then map_option f (row_find key k rs) else row_find key k rs)"
  by (induction rs) (auto simp: row_modify_def assms)

lemma map_key_modify [simp]: "(\<And>r. key (f r) = key r) \<Longrightarrow> map key (row_modify k j f rs) = map key rs"
  by (simp add: row_modify_def comp_def if_distrib cong: if_cong)

lemma set_row_modify:
  "q \<in> set (row_modify key k f rs) \<longleftrightarrow> (\<exists>r\<in>set rs. q = (if key r = k then f r else r))"
  unfolding row_modify_def set_map by blast

lemma row_modify_absent: "row_find key k rs = None \<Longrightarrow> row_modify key k f rs = rs"
  unfolding row_modify_def row_find_None_iff by (rule map_idI) auto

lemma first_max_None [simp]: "first_max key rs = None \<longleftrightarrow> rs = []"
  by (cases rs) (auto split: option.splits)

lemma first_max_in: "first_max key rs = Some r \<Longrightarrow> r \<in> set rs"
  by (induction rs arbitrary: r) (auto split: option.splits if_splits)

lemma first_max_ge: "first_max key rs = Some r \<Longrightarrow> q \<in> set rs \<Longrightarrow> key q \<le> key r"
proof (induction rs arbitrary: r)
  case Nil
  then show ?case by simp
next
  case (Cons a rs)
  then show ?case
    by (cases "first_max key rs") (fastforce split: if_splits)+
qed

subsection \<open>What the program relies on\<close>

locale record_store =
  fixes find_row :: "'k \<Rightarrow> 's \<Rightarrow> 'r option"
    and insert_row :: "'r \<Rightarrow> 's \<Rightarrow> 's"
    and modify_row :: "'k \<Rightarrow> ('r \<Rightarrow> 'r) \<Rightarrow> 's \<Rightarrow> 's"
    and key_of :: "'r \<Rightarrow> 'k"
    and valid :: "'s \<Rightarrow> bool"
  assumes find_key: "find_row k s = Some r \<Longrightarrow> key_of r = k"
    and find_insert: "find_row (key_of r) s = None \<Longrightarrow>
           find_row k (insert_row r s) = (if k = key_of r then Some r else find_row k s)"
    and find_modify: "(\<And>r. key_of (f r) = key_of r) \<Longrightarrow>
           find_row k (modify_row j f s) = (if k = j then map_option f (find_row k s) else find_row k s)"
    and valid_insert: "valid s \<Longrightarrow> find_row (key_of r) s = None \<Longrightarrow> valid (insert_row r s)"
    and valid_modify: "valid s \<Longrightarrow> (\<And>r. key_of (f r) = key_of r) \<Longrightarrow> valid (modify_row j f s)"
begin

lemma insert_keeps_row:
  "find_row (key_of r) s = None \<Longrightarrow> find_row k s = Some q \<Longrightarrow> find_row k (insert_row r s) = Some q"
  by (auto simp: find_insert)

lemma find_inserted: "find_row (key_of r) s = None \<Longrightarrow> find_row (key_of r) (insert_row r s) = Some r"
  by (simp add: find_insert)

lemma modify_exists:
  "(\<And>r. key_of (f r) = key_of r) \<Longrightarrow> find_row k (modify_row j f s) = None \<longleftrightarrow> find_row k s = None"
  by (simp add: find_modify)

lemma modify_other: "(\<And>r. key_of (f r) = key_of r) \<Longrightarrow> k \<noteq> j \<Longrightarrow> find_row k (modify_row j f s) = find_row k s"
  by (simp add: find_modify)

lemma modify_same:
  "(\<And>r. key_of (f r) = key_of r) \<Longrightarrow> find_row k s = Some r \<Longrightarrow> find_row k (modify_row k f s) = Some (f r)"
  by (simp add: find_modify)

lemma comp_key: "(\<And>r. key_of (f r) = key_of r) \<Longrightarrow> (\<And>r. key_of (g r) = key_of r) \<Longrightarrow> key_of ((g \<circ> f) r) = key_of r"
  by simp

lemma modify_twice:
  assumes "\<And>r. key_of (f r) = key_of r" "\<And>r. key_of (g r) = key_of r"
  shows "find_row k (modify_row j g (modify_row j f s)) = find_row k (modify_row j (g \<circ> f) s)"
proof (cases "k = j")
  case True
  then show ?thesis
    by (simp only: find_modify [OF assms(1)] find_modify [OF assms(2)] simp_thms if_True option.map_comp
        find_modify [of "g \<circ> f", OF comp_key [OF assms]])
next
  case False
  then show ?thesis
    by (simp only: find_modify [OF assms(1)] find_modify [OF assms(2)] if_False
        find_modify [of "g \<circ> f", OF comp_key [OF assms]])
qed

end

text \<open>Every table whose rows are reached through a getter and a setter provides it.\<close>

locale table_access =
  fixes rows :: "'s \<Rightarrow> 'r list"
    and set_rows :: "'r list \<Rightarrow> 's \<Rightarrow> 's"
    and row_key :: "'r \<Rightarrow> 'k"
  assumes rows_set: "rows (set_rows rs s) = rs"
begin

lemma is_store:
  "record_store (\<lambda>k s. row_find row_key k (rows s)) (\<lambda>r s. set_rows (rows s @ [r]) s)
     (\<lambda>k f s. set_rows (row_modify row_key k f (rows s)) s) row_key (\<lambda>s. distinct (map row_key (rows s)))"
proof
  fix k s r
  assume "row_find row_key k (rows s) = Some r"
  then show "row_key r = k" by (rule row_find_key)
next
  fix k s and r :: 'r
  assume "row_find row_key (row_key r) (rows s) = None"
  then show "row_find row_key k (rows (set_rows (rows s @ [r]) s)) =
      (if k = row_key r then Some r else row_find row_key k (rows s))"
    by (auto simp: rows_set row_find_append split: option.split)
next
  fix f k j s
  assume f: "\<And>r. row_key (f r) = row_key r"
  show "row_find row_key k (rows (set_rows (row_modify row_key j f (rows s)) s)) =
      (if k = j then map_option f (row_find row_key k (rows s)) else row_find row_key k (rows s))"
    by (simp only: rows_set) (rule row_find_modify, rule f)
next
  fix s and r :: 'r
  assume "distinct (map row_key (rows s))" "row_find row_key (row_key r) (rows s) = None"
  then show "distinct (map row_key (rows (set_rows (rows s @ [r]) s)))"
    by (auto simp: rows_set row_find_None_iff)
next
  fix f j s
  assume "distinct (map row_key (rows s))" and f: "\<And>r. row_key (f r) = row_key r"
  then show "distinct (map row_key (rows (set_rows (row_modify row_key j f (rows s)) s)))"
    by (simp only: rows_set) (subst map_key_modify, rule f, simp)
qed

end

sublocale table_access \<subseteq> store: record_store
  "\<lambda>k s. row_find row_key k (rows s)" "\<lambda>r s. set_rows (rows s @ [r]) s"
  "\<lambda>k f s. set_rows (row_modify row_key k f (rows s)) s" row_key "\<lambda>s. distinct (map row_key (rows s))"
  by (rule is_store)

end
