(* ===== verification/Database.thy ===== *)
theory Database
  imports Tables JS_Dates Json_Http
begin

text \<open>
  The data model of prisma/schema.prisma and the Prisma client operations the program calls on it.
  A model is a record, a table the list of its rows, the database a record of tables. Each
  \<open>create\<close> checks the unique columns (\<open>P2002\<close>) and the foreign keys (\<open>P2003\<close>,
  or \<open>P2025\<close> for a \<open>connect\<close>), each \<open>update\<close> that its row exists (\<open>P2025\<close>).
  Generated ids and \<open>now()\<close> defaults are arguments of the operations. The \<open>Int\<close> and
  \<open>BigInt\<close> columns are integers: the meter of a subscription stays between 0 and the tier
  limit, far inside 32 bits.
\<close>

subsection \<open>Models\<close>

record organization =
  org_id :: string
  clerkOrgId :: string
  org_name :: string
  ownerEmail :: "string option"
  org_createdAt :: date

datatype subscription_status = ACTIVE | CANCELED | PAST_DUE

record subscription =
  sub_id :: string
  sub_orgId :: string
  tierId :: string
  sub_status :: subscription_status
  periodStart :: date
  periodEnd :: date
  usageCount :: int

record webhook_event =
  wh_id :: string
  eventId :: string
  processedAt :: date

datatype service_status = STAGED | IN_PROGRESS | CONFIRMED | FAILED

record hedera_fields =
  hcsTopicId :: "string option"
  hcsSequenceNumber :: "int option"
  hcsConsensusTime :: "string option"
  hcsTxId :: "string option"
  hcsMirrorUrl :: "string option"
  htsTokenId :: "string option"
  htsSerialNumber :: "int option"
  htsTxId :: "string option"
  htsMirrorUrl :: "string option"
  htsNftSerial :: "int option"
  htsTransferTx :: "string option"

record service_request =
  sr_id :: string
  sr_userId :: "string option"
  sr_orgId :: "string option"
  caseCaption :: string
  plaintiffName :: string
  defendantName :: string
  recipientWallet :: string
  recipientEnsName :: "string option"
  courtOrderFlag :: bool
  attestedAt :: date
  noticeToken :: "string option"
  documentSha256 :: "string option"
  sr_status :: service_status
  txSignature :: "string option"
  sr_slot :: "int option"
  blockTime :: "date option"
  failureReason :: "string option"
  sr_createdAt :: date
  ensDisplayName :: "string option"
  agentENSName :: "string option"
  sr_hedera :: hedera_fields

record notice_access =
  na_id :: string
  na_noticeId :: string
  na_ip :: string
  na_userAgent :: string
  accessedAt :: date

record certificate_addendum =
  ca_id :: string
  ca_noticeId :: string
  ca_viewedAt :: date
  ca_viewerIp :: string
  ca_createdAt :: date

record certificate_pdf =
  cp_id :: string
  cp_noticeId :: string
  pdfBase64 :: string
  generatedAt :: date

record audit_log =
  al_id :: string
  al_action :: string
  actorId :: string
  targetId :: string
  al_metadata :: json
  al_createdAt :: date

record db =
  organizations :: "organization list"
  subscriptions :: "subscription list"
  webhookEvents :: "webhook_event list"
  serviceRequests :: "service_request list"
  noticeAccesses :: "notice_access list"
  certificateAddenda :: "certificate_addendum list"
  certificatePdfs :: "certificate_pdf list"
  auditLogs :: "audit_log list"

definition no_hedera :: hedera_fields where
  "no_hedera =
     \<lparr>hcsTopicId = None, hcsSequenceNumber = None, hcsConsensusTime = None, hcsTxId = None,
      hcsMirrorUrl = None, htsTokenId = None, htsSerialNumber = None, htsTxId = None,
      htsMirrorUrl = None, htsNftSerial = None, htsTransferTx = None\<rparr>"

definition empty_db :: db where
  "empty_db =
     \<lparr>organizations = [], subscriptions = [], webhookEvents = [], serviceRequests = [],
      noticeAccesses = [], certificateAddenda = [], certificatePdfs = [], auditLogs = []\<rparr>"

subsection \<open>The tables as stores\<close>

definition org_find :: "string \<Rightarrow> db \<Rightarrow> organization option" where
  "org_find k d = row_find clerkOrgId k (organizations d)"

definition org_insert :: "organization \<Rightarrow> db \<Rightarrow> db" where
  "org_insert r d = d\<lparr>organizations := organizations d @ [r]\<rparr>"

definition org_modify :: "string \<Rightarrow> (organization \<Rightarrow> organization) \<Rightarrow> db \<Rightarrow> db" where
  "org_modify k f d = d\<lparr>organizations := row_modify clerkOrgId k f (organizations d)\<rparr>"

definition sub_find :: "string \<Rightarrow> db \<Rightarrow> subscription option" where
  "sub_find k d = row_find sub_id k (subscriptions d)"

definition sub_insert :: "subscription \<Rightarrow> db \<Rightarrow> db" where
  "sub_insert r d = d\<lparr>subscriptions := subscriptions d @ [r]\<rparr>"

definition sub_modify :: "string \<Rightarrow> (subscription \<Rightarrow> subscription) \<Rightarrow> db \<Rightarrow> db" where
  "sub_modify k f d = d\<lparr>subscriptions := row_modify sub_id k f (subscriptions d)\<rparr>"

definition wh_find :: "string \<Rightarrow> db \<Rightarrow> webhook_event option" where
  "wh_find k d = row_find eventId k (webhookEvents d)"

definition wh_insert :: "webhook_event \<Rightarrow> db \<Rightarrow> db" where
  "wh_insert r d = d\<lparr>webhookEvents := webhookEvents d @ [r]\<rparr>"

definition wh_modify :: "string \<Rightarrow> (webhook_event \<Rightarrow> webhook_event) \<Rightarrow> db \<Rightarrow> db" where
  "wh_modify k f d = d\<lparr>webhookEvents := row_modify eventId k f (webhookEvents d)\<rparr>"

definition sr_find :: "string \<Rightarrow> db \<Rightarrow> service_request option" where
  "sr_find k d = row_find sr_id k (serviceRequests d)"

definition sr_insert :: "service_request \<Rightarrow> db \<Rightarrow> db" where
  "sr_insert r d = d\<lparr>serviceRequests := serviceRequests d @ [r]\<rparr>"

definition sr_modify :: "string \<Rightarrow> (service_request \<Rightarrow> service_request) \<Rightarrow> db \<Rightarrow> db" where
  "sr_modify k f d = d\<lparr>serviceRequests := row_modify sr_id k f (serviceRequests d)\<rparr>"

definition na_find :: "string \<Rightarrow> db \<Rightarrow> notice_access option" where
  "na_find k d = row_find na_noticeId k (noticeAccesses d)"

definition na_insert :: "notice_access \<Rightarrow> db \<Rightarrow> db" where
  "na_insert r d = d\<lparr>noticeAccesses := noticeAccesses d @ [r]\<rparr>"

definition na_modify :: "string \<Rightarrow> (notice_access \<Rightarrow> notice_access) \<Rightarrow> db \<Rightarrow> db" where
  "na_modify k f d = d\<lparr>noticeAccesses := row_modify na_noticeId k f (noticeAccesses d)\<rparr>"

definition ca_find :: "string \<Rightarrow> db \<Rightarrow> certificate_addendum option" where
  "ca_find k d = row_find ca_noticeId k (certificateAddenda d)"

definition ca_insert :: "certificate_addendum \<Rightarrow> db \<Rightarrow> db" where
  "ca_insert r d = d\<lparr>certificateAddenda := certificateAddenda d @ [r]\<rparr>"

definition ca_modify :: "string \<Rightarrow> (certificate_addendum \<Rightarrow> certificate_addendum) \<Rightarrow> db \<Rightarrow> db" where
  "ca_modify k f d = d\<lparr>certificateAddenda := row_modify ca_noticeId k f (certificateAddenda d)\<rparr>"

definition cp_find :: "string \<Rightarrow> db \<Rightarrow> certificate_pdf option" where
  "cp_find k d = row_find cp_noticeId k (certificatePdfs d)"

definition cp_insert :: "certificate_pdf \<Rightarrow> db \<Rightarrow> db" where
  "cp_insert r d = d\<lparr>certificatePdfs := certificatePdfs d @ [r]\<rparr>"

definition cp_modify :: "string \<Rightarrow> (certificate_pdf \<Rightarrow> certificate_pdf) \<Rightarrow> db \<Rightarrow> db" where
  "cp_modify k f d = d\<lparr>certificatePdfs := row_modify cp_noticeId k f (certificatePdfs d)\<rparr>"

lemmas store_defs =
  org_find_def org_insert_def org_modify_def sub_find_def sub_insert_def sub_modify_def
  wh_find_def wh_insert_def wh_modify_def sr_find_def sr_insert_def sr_modify_def
  na_find_def na_insert_def na_modify_def ca_find_def ca_insert_def ca_modify_def
  cp_find_def cp_insert_def cp_modify_def

text \<open>The unique columns hold.\<close>

definition org_valid :: "db \<Rightarrow> bool" where "org_valid d = distinct (map clerkOrgId (organizations d))"
definition sub_valid :: "db \<Rightarrow> bool" where "sub_valid d = distinct (map sub_id (subscriptions d))"
definition wh_valid :: "db \<Rightarrow> bool" where "wh_valid d = distinct (map eventId (webhookEvents d))"
definition sr_valid :: "db \<Rightarrow> bool" where "sr_valid d = distinct (map sr_id (serviceRequests d))"
definition na_valid :: "db \<Rightarrow> bool" where "na_valid d = distinct (map na_noticeId (noticeAccesses d))"
definition ca_valid :: "db \<Rightarrow> bool" where "ca_valid d = distinct (map ca_noticeId (certificateAddenda d))"
definition cp_valid :: "db \<Rightarrow> bool" where "cp_valid d = distinct (map cp_noticeId (certificatePdfs d))"

lemmas valid_defs =
  org_valid_def sub_valid_def wh_valid_def sr_valid_def na_valid_def ca_valid_def cp_valid_def

interpretation org_rows: table_access organizations "\<lambda>rs d. d\<lparr>organizations := rs\<rparr>" clerkOrgId
  by unfold_locales simp

interpretation sub_rows: table_access subscriptions "\<lambda>rs d. d\<lparr>subscriptions := rs\<rparr>" sub_id
  by unfold_locales simp

interpretation wh_rows: table_access webhookEvents "\<lambda>rs d. d\<lparr>webhookEvents := rs\<rparr>" eventId
  by unfold_locales simp

interpretation sr_rows: table_access serviceRequests "\<lambda>rs d. d\<lparr>serviceRequests := rs\<rparr>" sr_id
  by unfold_locales simp

interpretation na_rows: table_access noticeAccesses "\<lambda>rs d. d\<lparr>noticeAccesses := rs\<rparr>" na_noticeId
  by unfold_locales simp

interpretation ca_rows: table_access certificateAddenda "\<lambda>rs d. d\<lparr>certificateAddenda := rs\<rparr>" ca_noticeId
  by unfold_locales simp

interpretation cp_rows: table_access certificatePdfs "\<lambda>rs d. d\<lparr>certificatePdfs := rs\<rparr>" cp_noticeId
  by unfold_locales simp

interpretation org: record_store org_find org_insert org_modify clerkOrgId org_valid
  using org_rows.is_store unfolding org_find_def [abs_def] org_insert_def [abs_def]
    org_modify_def [abs_def] org_valid_def [abs_def] .

interpretation sub: record_store sub_find sub_insert sub_modify sub_id sub_valid
  using sub_rows.is_store unfolding sub_find_def [abs_def] sub_insert_def [abs_def]
    sub_modify_def [abs_def] sub_valid_def [abs_def] .

interpretation wh: record_store wh_find wh_insert wh_modify eventId wh_valid
  using wh_rows.is_store unfolding wh_find_def [abs_def] wh_insert_def [abs_def]
    wh_modify_def [abs_def] wh_valid_def [abs_def] .

interpretation sr: record_store sr_find sr_insert sr_modify sr_id sr_valid
  using sr_rows.is_store unfolding sr_find_def [abs_def] sr_insert_def [abs_def]
    sr_modify_def [abs_def] sr_valid_def [abs_def] .

interpretation na: record_store na_find na_insert na_modify na_noticeId na_valid
  using na_rows.is_store unfolding na_find_def [abs_def] na_insert_def [abs_def]
    na_modify_def [abs_def] na_valid_def [abs_def] .

interpretation ca: record_store ca_find ca_insert ca_modify ca_noticeId ca_valid
  using ca_rows.is_store unfolding ca_find_def [abs_def] ca_insert_def [abs_def]
    ca_modify_def [abs_def] ca_valid_def [abs_def] .

interpretation cp: record_store cp_find cp_insert cp_modify cp_noticeId cp_valid
  using cp_rows.is_store unfolding cp_find_def [abs_def] cp_insert_def [abs_def]
    cp_modify_def [abs_def] cp_valid_def [abs_def] .

subsection \<open>Prisma client operations\<close>

definition sr_update :: "string \<Rightarrow> (service_request \<Rightarrow> service_request) \<Rightarrow> (db, service_request) act" where
  "sr_update k f d =
     (case sr_find k d of None \<Rightarrow> (Inl P2025, d) | Some r \<Rightarrow> (Inr (f r), sr_modify k f d))"

definition sub_update :: "string \<Rightarrow> (subscription \<Rightarrow> subscription) \<Rightarrow> (db, subscription) act" where
  "sub_update k f d =
     (case sub_find k d of None \<Rightarrow> (Inl P2025, d) | Some r \<Rightarrow> (Inr (f r), sub_modify k f d))"

definition sub_update_many ::
  "(subscription \<Rightarrow> bool) \<Rightarrow> (subscription \<Rightarrow> subscription) \<Rightarrow> (db, nat) act" where
  "sub_update_many P f d =
     (case row_update_many P f (subscriptions d) of (n, rs) \<Rightarrow> (Inr n, d\<lparr>subscriptions := rs\<rparr>))"

definition sr_update_many ::
  "(service_request \<Rightarrow> bool) \<Rightarrow> (service_request \<Rightarrow> service_request) \<Rightarrow> (db, nat) act" where
  "sr_update_many P f d =
     (case row_update_many P f (serviceRequests d) of (n, rs) \<Rightarrow> (Inr n, d\<lparr>serviceRequests := rs\<rparr>))"

definition org_by_id :: "string \<Rightarrow> db \<Rightarrow> organization option" where
  "org_by_id i d = row_find org_id i (organizations d)"

definition token_taken :: "string option \<Rightarrow> db \<Rightarrow> bool" where
  "token_taken t d = (t \<noteq> None \<and> t \<in> set (map noticeToken (serviceRequests d)))"

definition sr_create :: "service_request \<Rightarrow> (db, service_request) act" where
  "sr_create r d =
     (if sr_find (sr_id r) d \<noteq> None \<or> token_taken (noticeToken r) d then (Inl P2002, d)
      else if (case sr_orgId r of None \<Rightarrow> False | Some i \<Rightarrow> org_by_id i d = None) then (Inl P2003, d)
      else (Inr r, sr_insert r d))"

text \<open>\<open>create\<close> with \<open>organization: { connect: { clerkOrgId } }\<close>.\<close>

definition sr_create_connect :: "string \<Rightarrow> service_request \<Rightarrow> (db, service_request) act" where
  "sr_create_connect clerkId r d =
     (case org_find clerkId d of
        None \<Rightarrow> (Inl P2025, d)
      | Some org \<Rightarrow> sr_create (r\<lparr>sr_orgId := Some (org_id org)\<rparr>) d)"

definition sub_create :: "subscription \<Rightarrow> (db, subscription) act" where
  "sub_create r d =
     (if sub_find (sub_id r) d \<noteq> None then (Inl P2002, d)
      else if org_by_id (sub_orgId r) d = None then (Inl P2003, d)
      else (Inr r, sub_insert r d))"

text \<open>\<open>organization.upsert\<close> with an empty update.\<close>

definition org_upsert :: "organization \<Rightarrow> (db, organization) act" where
  "org_upsert r d =
     (case org_find (clerkOrgId r) d of Some org \<Rightarrow> (Inr org, d) | None \<Rightarrow> (Inr r, org_insert r d))"

definition wh_create :: "webhook_event \<Rightarrow> (db, webhook_event) act" where
  "wh_create r d = (if wh_find (eventId r) d \<noteq> None then (Inl P2002, d) else (Inr r, wh_insert r d))"

definition na_create :: "notice_access \<Rightarrow> (db, notice_access) act" where
  "na_create r d =
     (if na_find (na_noticeId r) d \<noteq> None then (Inl P2002, d)
      else if sr_find (na_noticeId r) d = None then (Inl P2003, d)
      else (Inr r, na_insert r d))"

definition ca_create :: "certificate_addendum \<Rightarrow> (db, certificate_addendum) act" where
  "ca_create r d =
     (if ca_find (ca_noticeId r) d \<noteq> None then (Inl P2002, d)
      else if sr_find (ca_noticeId r) d = None then (Inl P2003, d)
      else (Inr r, ca_insert r d))"

definition cp_create :: "certificate_pdf \<Rightarrow> (db, certificate_pdf) act" where
  "cp_create r d =
     (if cp_find (cp_noticeId r) d \<noteq> None then (Inl P2002, d)
      else if sr_find (cp_noticeId r) d = None then (Inl P2003, d)
      else (Inr r, cp_insert r d))"

definition audit_create :: "audit_log \<Rightarrow> (db, audit_log) act" where
  "audit_create r d = (Inr r, d\<lparr>auditLogs := auditLogs d @ [r]\<rparr>)"

lemmas prisma_defs =
  sr_update_def sub_update_def sub_update_many_def sr_update_many_def sr_create_def
  sr_create_connect_def sub_create_def org_upsert_def wh_create_def na_create_def ca_create_def
  cp_create_def audit_create_def

subsection \<open>Tables do not interfere\<close>

lemma sr_update_Inr_iff:
  "sr_update k f d = (Inr r', d') \<longleftrightarrow> (\<exists>r. sr_find k d = Some r \<and> r' = f r \<and> d' = sr_modify k f d)"
  by (auto simp: sr_update_def split: option.split)

lemma sub_update_Inr_iff:
  "sub_update k f d = (Inr r', d') \<longleftrightarrow> (\<exists>r. sub_find k d = Some r \<and> r' = f r \<and> d' = sub_modify k f d)"
  by (auto simp: sub_update_def split: option.split)

lemma modify_frames [lookup_simps]:
  "subscriptions (sr_modify k f d) = subscriptions d" "auditLogs (sr_modify k f d) = auditLogs d"
  "organizations (sr_modify k f d) = organizations d" "noticeAccesses (sr_modify k f d) = noticeAccesses d"
  "certificateAddenda (sr_modify k f d) = certificateAddenda d"
  "certificatePdfs (sr_modify k f d) = certificatePdfs d" "webhookEvents (sr_modify k f d) = webhookEvents d"
  "serviceRequests (sub_modify k g d) = serviceRequests d" "auditLogs (sub_modify k g d) = auditLogs d"
  "organizations (sub_modify k g d) = organizations d"
  "subscriptions (sr_insert r d) = subscriptions d" "organizations (sr_insert r d) = organizations d"
  "auditLogs (sr_insert r d) = auditLogs d"
  by (simp_all add: sr_modify_def sub_modify_def sr_insert_def)

lemma finds_by_table [lookup_simps]:
  "sr_find k (sub_modify j g d) = sr_find k d" "sub_find k (sr_modify j f d) = sub_find k d"
  "sr_find k (d\<lparr>auditLogs := as\<rparr>) = sr_find k d" "sub_find k (d\<lparr>auditLogs := as\<rparr>) = sub_find k d"
  "sr_find k (d\<lparr>subscriptions := ss\<rparr>) = sr_find k d"
  by (simp_all add: sr_find_def sub_find_def sub_modify_def sr_modify_def)

lemma sub_update_many_frames:
  assumes "sub_update_many P f d = (r, d')"
  shows "serviceRequests d' = serviceRequests d" "auditLogs d' = auditLogs d"
    "organizations d' = organizations d"
  using assms by (auto simp: sub_update_many_def row_update_many_def)

subsection \<open>A database to evaluate on\<close>

definition sample_org :: organization where
  "sample_org = \<lparr>org_id = ''o1'', clerkOrgId = ''org_1'', org_name = ''Acme'', ownerEmail = None, org_createdAt = 0\<rparr>"

definition sample_sub :: "int \<Rightarrow> subscription" where
  "sample_sub n =
     \<lparr>sub_id = ''sub_1'', sub_orgId = ''o1'', tierId = ''tier1'', sub_status = ACTIVE, periodStart = 0,
      periodEnd = 2678400000, usageCount = n\<rparr>"

definition sample_request :: service_request where
  "sample_request =
     \<lparr>sr_id = ''r1'', sr_userId = Some ''user_1'', sr_orgId = Some ''o1'', caseCaption = ''A v. B'',
      plaintiffName = ''A'', defendantName = ''B'', recipientWallet = ''wallet'',
      recipientEnsName = None, courtOrderFlag = False, attestedAt = 0, noticeToken = None,
      documentSha256 = None, sr_status = STAGED, txSignature = None, sr_slot = None, blockTime = None,
      failureReason = None, sr_createdAt = 0, ensDisplayName = None, agentENSName = None,
      sr_hedera = no_hedera\<rparr>"

definition sample_db :: "int \<Rightarrow> db" where
  "sample_db n =
     empty_db\<lparr>organizations := [sample_org], subscriptions := [sample_sub n],
              serviceRequests := [sample_request]\<rparr>"

lemmas sample_defs = sample_db_def sample_sub_def sample_org_def sample_request_def empty_db_def

end
