(* ===== verification/Quota.thy ===== *)
theory Quota
  imports Database
begin

text \<open>
  Quota metering (lib/quota.ts). \<open>checkAndDecrementQuota\<close> is the sequence of a lookup
  (\<open>quota_find\<close>) and a write (\<open>quota_commit\<close>); between the two other callers may run,
  so the component also has a step relation in which any number of calls interleave at that
  point. \<open>restoreQuota\<close> gives a unit back.
\<close>

definition TIER_QUOTA :: "(string \<times> int) list" where
  "TIER_QUOTA = [(''tier1'', 1), (''tier2'', 9), (''tier3'', 999)]"

record quota_result =
  qr_usageCount :: int
  qr_limit :: "int js_lookup"

definition nextPeriodEnd :: "date \<Rightarrow> date" where
  "nextPeriodEnd from_date = setMonth from_date (getMonth from_date + 1)"

definition of_clerk_org :: "string \<Rightarrow> db \<Rightarrow> subscription \<Rightarrow> bool" where
  "of_clerk_org clerk d s =
     list_ex (\<lambda>org. org_id org = sub_orgId s \<and> clerkOrgId org = clerk) (organizations d)"

definition quota_find :: "string \<Rightarrow> db \<Rightarrow> subscription option" where
  "quota_find clerk d =
     first_max periodEnd (filter (\<lambda>s. sub_status s = ACTIVE \<and> of_clerk_org clerk d s) (subscriptions d))"

definition rollover :: "date \<Rightarrow> subscription \<Rightarrow> subscription" where
  "rollover now s = s\<lparr>usageCount := 1, periodStart := now, periodEnd := nextPeriodEnd now\<rparr>"

definition add_usage :: "int \<Rightarrow> subscription \<Rightarrow> subscription" where
  "add_usage n s = s\<lparr>usageCount := usageCount s + n\<rparr>"

definition quota_commit :: "date \<Rightarrow> string \<Rightarrow> subscription \<Rightarrow> (db, quota_result) act" where
  "quota_commit now clerk s =
     (let lim = js_object_get TIER_QUOTA (tierId s)
      in if lim = Undefined then
           throw (PlainError (''Unknown subscription tier '' @ tierId s @ '' for org '' @ clerk @ ''.''))
         else if now > periodEnd s then
           andThen (sub_update (sub_id s) (rollover now))
             (\<lambda>_. ret \<lparr>qr_usageCount = 1, qr_limit = lim\<rparr>)
         else case lim of
           Own l \<Rightarrow>
             andThen (sub_update_many (\<lambda>r. sub_id r = sub_id s \<and> usageCount r < l) (add_usage 1))
               (\<lambda>n. if n = 0 then throw (QuotaExceededError clerk l)
                    else ret \<lparr>qr_usageCount = usageCount s + 1, qr_limit = lim\<rparr>)
         | _ \<Rightarrow> throw PrismaValidation)"

definition checkAndDecrementQuota :: "date \<Rightarrow> string \<Rightarrow> (db, quota_result) act" where
  "checkAndDecrementQuota now clerk d =
     (case quota_find clerk d of
        None \<Rightarrow> throw (NoActiveSubscriptionError clerk) d
      | Some s \<Rightarrow> quota_commit now clerk s d)"

text \<open>
  The argument of \<open>restoreQuota\<close> is declared a string, but its caller passes a nullable column;
  a \<open>null\<close> filter on a required column is a validation error of the client.
\<close>

definition restore_find :: "string \<Rightarrow> db \<Rightarrow> subscription option" where
  "restore_find orgId d =
     first_max periodEnd (filter (\<lambda>s. sub_status s = ACTIVE \<and> sub_orgId s = orgId) (subscriptions d))"

definition restoreQuota :: "string option \<Rightarrow> (db, bool) act" where
  "restoreQuota orgId d =
     (case orgId of
        None \<Rightarrow> throw PrismaValidation d
      | Some i \<Rightarrow>
          (case restore_find i d of
             None \<Rightarrow> ret False d
           | Some s \<Rightarrow>
               andThen (sub_update_many (\<lambda>r. sub_id r = sub_id s \<and> 0 < usageCount r) (add_usage (- 1)))
                 (\<lambda>n. ret (0 < n)) d))"

subsection \<open>The meter invariant\<close>

definition tier_limit :: "subscription \<Rightarrow> int option" where
  "tier_limit s = map_of TIER_QUOTA (tierId s)"

definition metered_row :: "subscription \<Rightarrow> bool" where
  "metered_row s = (0 \<le> usageCount s \<and> (case tier_limit s of None \<Rightarrow> True | Some l \<Rightarrow> usageCount s \<le> l))"

definition metered :: "db \<Rightarrow> bool" where
  "metered d = list_all metered_row (subscriptions d)"

lemma tier_limit_pos: "tier_limit s = Some l \<Longrightarrow> 1 \<le> l"
  by (auto simp: tier_limit_def TIER_QUOTA_def split: if_splits)

lemma rollover_sel [simp]:
  "sub_id (rollover now s) = sub_id s" "tierId (rollover now s) = tierId s"
  "sub_status (rollover now s) = sub_status s" "sub_orgId (rollover now s) = sub_orgId s"
  "usageCount (rollover now s) = 1" "periodEnd (rollover now s) = nextPeriodEnd now"
  by (simp_all add: rollover_def)

lemma add_usage_sel [simp]:
  "sub_id (add_usage n s) = sub_id s" "tierId (add_usage n s) = tierId s"
  "sub_status (add_usage n s) = sub_status s" "sub_orgId (add_usage n s) = sub_orgId s"
  "usageCount (add_usage n s) = usageCount s + n" "periodEnd (add_usage n s) = periodEnd s"
  by (simp_all add: add_usage_def)

lemma add_usage_cancel [simp]: "add_usage (- n) (add_usage n s) = s"
  by (simp add: add_usage_def)

lemma metered_row_rollover: "metered_row (rollover now s)"
  using tier_limit_pos [of "rollover now s"] by (auto simp: metered_row_def split: option.split)

lemma metered_row_less: "metered_row s \<Longrightarrow> tier_limit s = Some l \<Longrightarrow> usageCount s < l \<Longrightarrow> metered_row (add_usage 1 s)"
  by (simp add: metered_row_def tier_limit_def)

lemma metered_row_restore: "metered_row s \<Longrightarrow> 0 < usageCount s \<Longrightarrow> metered_row (add_usage (- 1) s)"
  by (auto simp: metered_row_def tier_limit_def split: option.splits)

lemma metered_map:
  "metered d \<Longrightarrow> (\<And>s. s \<in> set (subscriptions d) \<Longrightarrow> metered_row s \<Longrightarrow> metered_row (f s)) \<Longrightarrow>
   metered (d\<lparr>subscriptions := map f (subscriptions d)\<rparr>)"
  by (auto simp: metered_def list_all_iff)

lemma metered_sub_modify:
  "metered d \<Longrightarrow> (\<And>s. metered_row (f s)) \<Longrightarrow> metered (sub_modify k f d)"
  unfolding sub_modify_def row_modify_def by (rule metered_map) auto

lemma metered_update_many:
  assumes "metered d" "sub_update_many P f d = (r, d')"
    and "\<And>s. s \<in> set (subscriptions d) \<Longrightarrow> metered_row s \<Longrightarrow> P s \<Longrightarrow> metered_row (f s)"
  shows "metered d'"
  using assms(2) metered_map [OF assms(1), of "\<lambda>s. if P s then f s else s"] assms(3)
  by (auto simp: sub_update_many_def row_update_many_def)

text \<open>A call in flight holds a snapshot of its row; the row's tier does not change under it.\<close>

definition tier_stable :: "subscription \<Rightarrow> db \<Rightarrow> bool" where
  "tier_stable s d = (\<forall>r\<in>set (subscriptions d). sub_id r = sub_id s \<longrightarrow> tierId r = tierId s)"

lemma quota_find_SomeD:
  assumes "quota_find clerk d = Some s"
  shows "s \<in> set (subscriptions d)" "sub_status s = ACTIVE" "of_clerk_org clerk d s"
  using first_max_in [OF assms [unfolded quota_find_def]] by simp_all

lemma restore_find_SomeD:
  assumes "restore_find i d = Some s"
  shows "s \<in> set (subscriptions d)" "sub_status s = ACTIVE" "sub_orgId s = i"
  using first_max_in [OF assms [unfolded restore_find_def]] by simp_all

lemma sub_valid_unique:
  "sub_valid d \<Longrightarrow> r \<in> set (subscriptions d) \<Longrightarrow> s \<in> set (subscriptions d) \<Longrightarrow> sub_id r = sub_id s \<Longrightarrow> r = s"
  unfolding sub_valid_def by (metis inj_on_def distinct_map)

lemma tier_stable_found: "sub_valid d \<Longrightarrow> s \<in> set (subscriptions d) \<Longrightarrow> tier_stable s d"
  unfolding tier_stable_def by (metis sub_valid_unique)

lemma sub_find_found: "sub_valid d \<Longrightarrow> s \<in> set (subscriptions d) \<Longrightarrow> sub_find (sub_id s) d = Some s"
  by (simp add: sub_find_def sub_valid_def row_find_distinct)

text \<open>What a commit does, case by case.\<close>

lemma quota_commit_Inr:
  assumes "quota_commit now clerk s d = (Inr q, d')"
  obtains (rolled) "now > periodEnd s" "qr_usageCount q = 1" "d' = sub_modify (sub_id s) (rollover now) d"
      "js_object_get TIER_QUOTA (tierId s) \<noteq> Undefined"
    | (counted) l where "now \<le> periodEnd s" "tier_limit s = Some l" "qr_limit q = Own l"
      "qr_usageCount q = usageCount s + 1"
      "sub_update_many (\<lambda>r. sub_id r = sub_id s \<and> usageCount r < l) (add_usage 1) d =
         (Inr (length (filter (\<lambda>r. sub_id r = sub_id s \<and> usageCount r < l) (subscriptions d))), d')"
      "\<exists>r\<in>set (subscriptions d). sub_id r = sub_id s \<and> usageCount r < l"
proof (cases "now > periodEnd s")
  case True
  with assms rolled show thesis
    by (auto simp: quota_commit_def Let_def andThen_Inr_iff sub_update_Inr_iff act_simps split: if_splits)
next
  case False
  with assms show thesis
    by (auto simp: quota_commit_def Let_def andThen_Inr_iff act_simps tier_limit_def
        js_object_get_Own_iff sub_update_many_def row_update_many_def filter_empty_conv
        split: if_splits js_lookup.splits intro!: counted)
qed

lemma quota_commit_Inl:
  assumes "quota_commit now clerk s d = (Inl e, d')"
  shows "d' = d"
proof (cases "js_object_get TIER_QUOTA (tierId s)")
  case (Own l)
  let ?P = "\<lambda>r. sub_id r = sub_id s \<and> usageCount r < l"
  have "\<not> ?P r" if "filter ?P (subscriptions d) = []" "r \<in> set (subscriptions d)" for r
    using that by (auto simp: filter_empty_conv)
  then have id: "map (\<lambda>r. if ?P r then add_usage 1 r else r) (subscriptions d) = subscriptions d"
    if "filter ?P (subscriptions d) = []"
    using that by (intro map_idI) auto
  from Own assms show ?thesis
    by (auto simp: quota_commit_def Let_def andThen_Inl_iff act_simps sub_update_def id
        sub_update_many_def row_update_many_def split: if_splits option.splits)
qed (use assms in \<open>auto simp: quota_commit_def Let_def andThen_Inl_iff act_simps sub_update_def
       split: if_splits option.splits\<close>)

lemma quota_commit_metered:
  assumes "metered d" "tier_stable s d" "quota_commit now clerk s d = (r, d')"
  shows "metered d'"
proof (cases r)
  case (Inl e)
  with assms quota_commit_Inl show ?thesis by metis
next
  case (Inr q)
  with assms(3) have "quota_commit now clerk s d = (Inr q, d')" by simp
  then show ?thesis
  proof (cases rule: quota_commit_Inr)
    case rolled
    with assms(1) show ?thesis by (auto intro!: metered_sub_modify metered_row_rollover)
  next
    case (counted l)
    show ?thesis
      by (rule metered_update_many [OF assms(1) counted(5)])
         (use assms(2) counted(2) in \<open>auto simp: tier_stable_def tier_limit_def intro!: metered_row_less\<close>)
  qed
qed

text \<open>
  Neither lookup nor meter touches a row's identity, tier, state or owner.
\<close>

definition same_shape :: "db \<Rightarrow> db \<Rightarrow> bool" where
  "same_shape d d' =
     (map (\<lambda>s. (sub_id s, tierId s, sub_status s, sub_orgId s)) (subscriptions d') =
        map (\<lambda>s. (sub_id s, tierId s, sub_status s, sub_orgId s)) (subscriptions d) \<and>
      organizations d' = organizations d)"

lemma quota_commit_same_shape:
  assumes "quota_commit now clerk s d = (r, d')"
  shows "same_shape d d'"
proof (cases r)
  case (Inl e)
  with assms quota_commit_Inl show ?thesis by (metis same_shape_def)
next
  case (Inr q)
  with assms have "quota_commit now clerk s d = (Inr q, d')" by simp
  then show ?thesis
    by (cases rule: quota_commit_Inr)
       (auto simp: same_shape_def sub_modify_def row_modify_def sub_update_many_def row_update_many_def)
qed

lemma same_shape_sub_valid: "same_shape d d' \<Longrightarrow> sub_valid d \<Longrightarrow> sub_valid d'"
  unfolding same_shape_def sub_valid_def
  by (metis (no_types, lifting) comp_def fst_conv list.map_comp map_eq_conv)

lemma same_shape_tier_stable:
  assumes "same_shape d d'" "tier_stable s d"
  shows "tier_stable s d'"
  unfolding tier_stable_def
proof (intro ballI impI)
  fix r
  let ?f = "\<lambda>s. (sub_id s, tierId s, sub_status s, sub_orgId s)"
  assume r: "r \<in> set (subscriptions d')" "sub_id r = sub_id s"
  then have "?f r \<in> ?f ` set (subscriptions d)"
    using assms(1) by (metis (no_types, lifting) image_eqI same_shape_def set_map)
  then obtain p where "p \<in> set (subscriptions d)" "sub_id p = sub_id r" "tierId p = tierId r" by auto
  with assms(2) r show "tierId r = tierId s" unfolding tier_stable_def by metis
qed

subsection \<open>Interleaved calls\<close>

datatype quota_call = Asked string | Found string subscription | Granted string quota_result | Refused eps_error

record quota_system =
  qs_db :: db
  qs_calls :: "quota_call list"

text \<open>
  Any call may take its next step at any time. The clock of the run is below the horizon \<open>h\<close>.
\<close>

inductive quota_step :: "date \<Rightarrow> quota_system \<Rightarrow> quota_system \<Rightarrow> bool" for h where
  step_find:
    "i < length (qs_calls y) \<Longrightarrow> qs_calls y ! i = Asked clerk \<Longrightarrow>
     quota_step h y (y\<lparr>qs_calls := (qs_calls y)[i :=
       (case quota_find clerk (qs_db y) of
          None \<Rightarrow> Refused (NoActiveSubscriptionError clerk) | Some s \<Rightarrow> Found clerk s)]\<rparr>)"
| step_commit:
    "i < length (qs_calls y) \<Longrightarrow> qs_calls y ! i = Found clerk s \<Longrightarrow> now \<le> h \<Longrightarrow>
     quota_commit now clerk s (qs_db y) = (r, d') \<Longrightarrow>
     quota_step h y \<lparr>qs_db = d', qs_calls = (qs_calls y)[i :=
       (case r of Inl e \<Rightarrow> Refused e | Inr q \<Rightarrow> Granted (sub_id s) q)]\<rparr>"

inductive_cases quota_stepE: "quota_step h y y'"

definition calls_start :: "quota_system \<Rightarrow> bool" where
  "calls_start y = list_all (\<lambda>c. \<exists>clerk. c = Asked clerk) (qs_calls y)"

definition calls_stable :: "quota_system \<Rightarrow> bool" where
  "calls_stable y = (\<forall>clerk s. Found clerk s \<in> set (qs_calls y) \<longrightarrow> tier_stable s (qs_db y))"

definition quota_inv :: "quota_system \<Rightarrow> bool" where
  "quota_inv y = (metered (qs_db y) \<and> sub_valid (qs_db y) \<and> calls_stable y)"

lemma quota_step_inv:
  assumes "quota_step h y y'" "quota_inv y"
  shows "quota_inv y'"
  using assms(1)
proof cases
  case (step_find i clerk)
  have "tier_stable s (qs_db y)" if "Found c s \<in> set (qs_calls y')" for c s
  proof (cases "Found c s \<in> set (qs_calls y)")
    case True
    with assms(2) show ?thesis by (auto simp: quota_inv_def calls_stable_def)
  next
    case False
    with that step_find(1) have "quota_find clerk (qs_db y) = Some s"
      using set_update_subset_insert [of "qs_calls y" i] by (auto split: option.splits)
    with assms(2) show ?thesis by (auto simp: quota_inv_def intro: tier_stable_found quota_find_SomeD)
  qed
  with assms(2) step_find(1) show ?thesis by (auto simp: quota_inv_def calls_stable_def)
next
  case (step_commit i clerk s now r d')
  have stable: "tier_stable s (qs_db y)"
    using assms(2) step_commit(2,3) unfolding quota_inv_def calls_stable_def by (metis nth_mem)
  have shape: "same_shape (qs_db y) d'" using step_commit(5) by (rule quota_commit_same_shape)
  have "Found c p \<in> set (qs_calls y)" if "Found c p \<in> set (qs_calls y')" for c p
    using that step_commit(1) set_update_subset_insert [of "qs_calls y" i] by (auto split: sum.splits)
  then have "tier_stable p d'" if "Found c p \<in> set (qs_calls y')" for c p
    using that assms(2) shape unfolding quota_inv_def calls_stable_def by (blast intro: same_shape_tier_stable)
  moreover have "metered d'" "sub_valid d'"
    using assms(2) shape stable step_commit(5)
    by (auto simp: quota_inv_def intro: quota_commit_metered same_shape_sub_valid)
  ultimately show ?thesis
    using step_commit(1) by (auto simp: quota_inv_def calls_stable_def)
qed

lemma quota_reach_inv: "(quota_step h)\<^sup>*\<^sup>* y y' \<Longrightarrow> quota_inv y \<Longrightarrow> quota_inv y'"
  by (induction rule: rtranclp_induct) (auto intro: quota_step_inv)

lemma calls_start_inv: "calls_start y \<Longrightarrow> metered (qs_db y) \<Longrightarrow> sub_valid (qs_db y) \<Longrightarrow> quota_inv y"
  by (auto simp: quota_inv_def calls_start_def calls_stable_def list_all_iff)

subsection \<open>Counting the units of a period\<close>

definition usage_of :: "string \<Rightarrow> db \<Rightarrow> int" where
  "usage_of k d = (case sub_find k d of None \<Rightarrow> 0 | Some r \<Rightarrow> usageCount r)"

definition grants :: "string \<Rightarrow> quota_call list \<Rightarrow> nat" where
  "grants k cs = length (filter (\<lambda>c. \<exists>q. c = Granted k q) cs)"

definition no_rollover :: "date \<Rightarrow> quota_system \<Rightarrow> bool" where
  "no_rollover h y =
     ((\<forall>s\<in>set (subscriptions (qs_db y)). h \<le> periodEnd s) \<and>
      (\<forall>clerk s. Found clerk s \<in> set (qs_calls y) \<longrightarrow> h \<le> periodEnd s))"

lemma length_filter_update:
  "i < length cs \<Longrightarrow> \<not> P (cs ! i) \<Longrightarrow> length (filter P (cs[i := c])) = length (filter P cs) + (if P c then 1 else 0)"
  by (subst (2) id_take_nth_drop, assumption) (simp add: upd_conv_take_nth_drop)

lemma grants_update:
  "i < length cs \<Longrightarrow> \<not> (\<exists>k q. cs ! i = Granted k q) \<Longrightarrow>
   grants k (cs[i := c]) = grants k cs + (if \<exists>q. c = Granted k q then 1 else 0)"
  unfolding grants_def by (rule length_filter_update) blast+

lemma usage_of_counted:
  assumes v: "sub_valid d" and e: "r \<in> set (subscriptions d)" "sub_id r = j" "usageCount r < l"
  shows "usage_of k (d\<lparr>subscriptions := map (\<lambda>r. if sub_id r = j \<and> usageCount r < l then add_usage 1 r else r)
           (subscriptions d)\<rparr>) = usage_of k d + (if k = j then 1 else 0)"
proof -
  have only: "usageCount p < l" if "p \<in> set (subscriptions d)" "sub_id p = j" for p
    using sub_valid_unique [OF v that(1) e(1)] that(2) e(2,3) by simp
  have "map (\<lambda>r. if sub_id r = j \<and> usageCount r < l then add_usage 1 r else r) (subscriptions d) =
      row_modify sub_id j (add_usage 1) (subscriptions d)"
    unfolding row_modify_def by (rule map_cong [OF refl]) (simp add: only)
  then have "d\<lparr>subscriptions := map (\<lambda>r. if sub_id r = j \<and> usageCount r < l then add_usage 1 r else r)
      (subscriptions d)\<rparr> = sub_modify j (add_usage 1) d"
    by (simp add: sub_modify_def)
  moreover have "sub_find j d = Some r" using sub_find_found [OF v e(1)] e(2) by simp
  ultimately show ?thesis
    by (simp add: usage_of_def sub.find_modify split: option.split)
qed

lemma quota_commit_counts:
  assumes v: "sub_valid d" and n: "now \<le> periodEnd s" and c: "quota_commit now clerk s d = (Inr q, d')"
  shows "usage_of k d' = usage_of k d + (if k = sub_id s then 1 else 0)"
  using c
proof (cases rule: quota_commit_Inr)
  case rolled
  with n show ?thesis by simp
next
  case (counted l)
  from counted(6) obtain r where r: "r \<in> set (subscriptions d)" "sub_id r = sub_id s" "usageCount r < l"
    by blast
  from counted(5) have "d' = d\<lparr>subscriptions := map (\<lambda>r. if sub_id r = sub_id s \<and> usageCount r < l
      then add_usage 1 r else r) (subscriptions d)\<rparr>"
    by (simp add: sub_update_many_def row_update_many_def)
  with usage_of_counted [OF v r] show ?thesis by simp
qed

lemma quota_commit_periods:
  assumes "now \<le> periodEnd s" "quota_commit now clerk s d = (r, d')"
  shows "map periodEnd (subscriptions d') = map periodEnd (subscriptions d)"
proof (cases r)
  case (Inl e)
  with assms quota_commit_Inl show ?thesis by metis
next
  case (Inr q)
  with assms(2) have "quota_commit now clerk s d = (Inr q, d')" by simp
  then show ?thesis
    by (cases rule: quota_commit_Inr)
       (use assms(1) in \<open>auto simp: sub_update_many_def row_update_many_def\<close>)
qed

definition run_inv :: "date \<Rightarrow> string \<Rightarrow> int \<Rightarrow> quota_system \<Rightarrow> bool" where
  "run_inv h k n y =
     (quota_inv y \<and> no_rollover h y \<and> usage_of k (qs_db y) = n + int (grants k (qs_calls y)))"

lemma quota_step_run_inv:
  assumes "quota_step h y y'" "run_inv h k n y"
  shows "run_inv h k n y'"
proof -
  have inv: "quota_inv y'" using assms quota_step_inv unfolding run_inv_def by blast
  from assms(1) show ?thesis
  proof cases
    case (step_find i clerk)
    let ?c = "case quota_find clerk (qs_db y) of
        None \<Rightarrow> Refused (NoActiveSubscriptionError clerk) | Some s \<Rightarrow> Found clerk s"
    have "grants k ((qs_calls y)[i := ?c]) = grants k (qs_calls y)"
      using step_find(2,3) by (subst grants_update) (auto split: option.splits)
    moreover have "h \<le> periodEnd s" if "Found c s \<in> set ((qs_calls y)[i := ?c])" for c s
      using set_update_subset_insert [of "qs_calls y" i ?c] that assms(2)
      by (fastforce simp: run_inv_def no_rollover_def split: option.splits dest: quota_find_SomeD(1))
    ultimately show ?thesis
      using assms(2) inv step_find(1) by (simp add: run_inv_def no_rollover_def)
  next
    case (step_commit i clerk s now r d')
    let ?c = "case r of Inl e \<Rightarrow> Refused e | Inr q \<Rightarrow> Granted (sub_id s) q"
    have "h \<le> periodEnd s"
      using step_commit(2,3) assms(2) unfolding run_inv_def no_rollover_def by (metis nth_mem)
    with step_commit(4) have n: "now \<le> periodEnd s" by simp
    have v: "sub_valid (qs_db y)" using assms(2) by (simp add: run_inv_def quota_inv_def)
    have p: "map periodEnd (subscriptions d') = map periodEnd (subscriptions (qs_db y))"
      using quota_commit_periods [OF n step_commit(5)] .
    have "periodEnd ` set (subscriptions d') = periodEnd ` set (subscriptions (qs_db y))"
      using arg_cong [OF p, of set] by simp
    moreover have "\<forall>e\<in>periodEnd ` set (subscriptions (qs_db y)). h \<le> e"
      using assms(2) by (auto simp: run_inv_def no_rollover_def)
    ultimately have e: "\<forall>s\<in>set (subscriptions d'). h \<le> periodEnd s"
      by (metis image_eqI)
    have f: "h \<le> periodEnd q" if "Found c q \<in> set ((qs_calls y)[i := ?c])" for c q
      using set_update_subset_insert [of "qs_calls y" i ?c] that assms(2)
      by (auto simp: run_inv_def no_rollover_def split: sum.splits)
    have g: "grants k ((qs_calls y)[i := ?c]) =
        grants k (qs_calls y) + (if \<exists>q. ?c = Granted k q then 1 else 0)"
      using step_commit(2,3) by (subst grants_update) auto
    have u: "usage_of k d' = usage_of k (qs_db y) + (if \<exists>q. ?c = Granted k q then 1 else 0)"
    proof (cases r)
      case (Inl x)
      with step_commit(5) quota_commit_Inl show ?thesis by fastforce
    next
      case (Inr q)
      with quota_commit_counts [OF v n, of clerk q d' k] step_commit(5) show ?thesis by auto
    qed
    from assms(2) inv e f g u step_commit(1) show ?thesis
      by (auto simp: run_inv_def no_rollover_def)
  qed
qed

lemma quota_reach_run_inv: "(quota_step h)\<^sup>*\<^sup>* y y' \<Longrightarrow> run_inv h k n y \<Longrightarrow> run_inv h k n y'"
  by (induction rule: rtranclp_induct) (auto intro: quota_step_run_inv)

lemma grants_start: "calls_start y \<Longrightarrow> grants k (qs_calls y) = 0"
  by (auto simp: grants_def calls_start_def list_all_iff filter_empty_conv)

lemma run_inv_start:
  assumes "calls_start y" "metered (qs_db y)" "sub_valid (qs_db y)"
    and "\<forall>s\<in>set (subscriptions (qs_db y)). h \<le> periodEnd s"
  shows "run_inv h k (usage_of k (qs_db y)) y"
  using assms grants_start calls_start_inv
  by (auto simp: run_inv_def no_rollover_def calls_start_def list_all_iff)

lemma usage_of_le_limit:
  "metered d \<Longrightarrow> sub_find k d = Some s \<Longrightarrow> tier_limit s = Some l \<Longrightarrow> usage_of k d \<le> l"
  by (auto simp: metered_def list_all_iff metered_row_def usage_of_def sub_find_def dest!: row_find_in)

subsection \<open>Properties\<close>

text \<open>C1. However the calls of \<open>checkAndDecrementQuota\<close> interleave between their lookup and
  their write, and whatever their clocks read, no subscription of a known tier is ever metered
  above its tier's limit or below zero.\<close>

theorem quota_never_exceeded:
  assumes "(quota_step h)\<^sup>*\<^sup>* y y'" "calls_start y" "metered (qs_db y)" "sub_valid (qs_db y)"
  shows "metered (qs_db y')"
  using quota_reach_inv [OF assms(1) calls_start_inv [OF assms(2-4)]] by (simp add: quota_inv_def)

text \<open>C18. Until a period ends, every unit that any interleaving of calls grants is counted exactly
  once: the meter ends at its initial value plus the number of granted calls, so at most the
  rest of the tier's limit is granted.\<close>

theorem quota_counts_every_unit:
  assumes "(quota_step h)\<^sup>*\<^sup>* y y'" "calls_start y" "metered (qs_db y)" "sub_valid (qs_db y)"
    and "\<forall>s\<in>set (subscriptions (qs_db y)). h \<le> periodEnd s"
    and "sub_find k (qs_db y') = Some s" "tier_limit s = Some l"
  shows "usage_of k (qs_db y') = usage_of k (qs_db y) + int (grants k (qs_calls y')) \<and>
         usage_of k (qs_db y) + int (grants k (qs_calls y')) \<le> l"
proof -
  have "run_inv h k (usage_of k (qs_db y)) y'"
    using quota_reach_run_inv [OF assms(1) run_inv_start [OF assms(2-5)]] .
  with usage_of_le_limit [OF _ assms(6,7)] show ?thesis
    by (auto simp: run_inv_def quota_inv_def)
qed

definition two_calls :: "int \<Rightarrow> quota_system" where
  "two_calls n = \<lparr>qs_db = sample_db n, qs_calls = [Asked ''org_1'', Asked ''org_1'']\<rparr>"

lemmas quota_eval =
  two_calls_def sample_defs quota_find_def of_clerk_org_def quota_commit_def js_object_get_def
  TIER_QUOTA_def object_prototype_keys_def Let_def sub_update_many_def row_update_many_def
  andThen_def ret_def throw_def add_usage_def metered_def metered_row_def tier_limit_def
  sub_valid_def calls_start_def

lemma two_calls_found:
  "(quota_step h)\<^sup>*\<^sup>* (two_calls n)
     ((two_calls n)\<lparr>qs_calls := [Found ''org_1'' (sample_sub n), Found ''org_1'' (sample_sub n)]\<rparr>)"
proof -
  let ?m = "(two_calls n)\<lparr>qs_calls := [Found ''org_1'' (sample_sub n), Asked ''org_1'']\<rparr>"
  have "quota_step h (two_calls n) ?m"
    using step_find [of 0 "two_calls n" "''org_1''" h] by (simp add: quota_eval)
  moreover have "quota_step h ?m
      ((two_calls n)\<lparr>qs_calls := [Found ''org_1'' (sample_sub n), Found ''org_1'' (sample_sub n)]\<rparr>)"
    using step_find [of 1 ?m "''org_1''" h] by (simp add: quota_eval)
  ultimately show ?thesis
    by (rule converse_rtranclp_into_rtranclp [OF _ r_into_rtranclp])
qed

text \<open>Of two calls that both read the fresh meter of a one-unit tier, the second is refused.\<close>

definition two_calls_end :: quota_system where
  "two_calls_end =
     \<lparr>qs_db = sample_db 1,
      qs_calls = [Granted ''sub_1'' \<lparr>qr_usageCount = 1, qr_limit = Own 1\<rparr>,
                  Refused (QuotaExceededError ''org_1'' 1)]\<rparr>"

lemma two_calls_run: "(quota_step 5)\<^sup>*\<^sup>* (two_calls 0) two_calls_end"
proof -
  let ?a = "(two_calls 0)\<lparr>qs_calls := [Found ''org_1'' (sample_sub 0), Found ''org_1'' (sample_sub 0)]\<rparr>"
  let ?g = "Granted ''sub_1'' \<lparr>qr_usageCount = 1, qr_limit = Own 1\<rparr>"
  let ?b = "\<lparr>qs_db = sample_db 1, qs_calls = [?g, Found ''org_1'' (sample_sub 0)]\<rparr>"
  have "quota_step 5 ?a ?b"
    using step_commit [of 0 ?a "''org_1''" "sample_sub 0" 5 5 "Inr \<lparr>qr_usageCount = 1, qr_limit = Own 1\<rparr>"
        "sample_db 1"]
    by (simp add: quota_eval)
  moreover have "quota_step 5 ?b two_calls_end"
    using step_commit [of 1 ?b "''org_1''" "sample_sub 0" 5 5 "Inl (QuotaExceededError ''org_1'' 1)" "sample_db 1"]
    by (simp add: quota_eval two_calls_end_def)
  ultimately show ?thesis
    by (rule rtranclp.rtrancl_into_rtrancl [OF rtranclp.rtrancl_into_rtrancl [OF two_calls_found]])
qed

lemma quota_never_exceeded_witness: "metered (qs_db two_calls_end)"
  by (rule quota_never_exceeded [OF two_calls_run]) (simp_all add: quota_eval)

lemma quota_counts_every_unit_witness:
  "usage_of ''sub_1'' (sample_db 1) = usage_of ''sub_1'' (sample_db 0) + 1"
  using quota_counts_every_unit [OF two_calls_run, of "''sub_1''" "sample_sub 1" 1]
  by (simp add: quota_eval two_calls_end_def sub_find_def grants_def)

text \<open>The guard does not cover the rollover write: two calls that both read a subscription whose
  period has ended both reset the meter to one, so a tier of one unit grants two units in the new
  period while its meter shows one.\<close>

theorem quota_rollover_race:
  "\<exists>y. (quota_step 2678400001)\<^sup>*\<^sup>* (two_calls 1) y \<and> grants ''sub_1'' (qs_calls y) = 2 \<and>
       usage_of ''sub_1'' (qs_db y) = 1 \<and> map tier_limit (subscriptions (qs_db y)) = [Some 1]"
proof -
  let ?h = "2678400001 :: date"
  let ?s = "sample_sub 1"
  let ?a = "(two_calls 1)\<lparr>qs_calls := [Found ''org_1'' ?s, Found ''org_1'' ?s]\<rparr>"
  let ?g = "Granted ''sub_1'' \<lparr>qr_usageCount = 1, qr_limit = Own 1\<rparr>"
  let ?d = "(sample_db 1)\<lparr>subscriptions := [rollover ?h ?s]\<rparr>"
  let ?b = "\<lparr>qs_db = ?d, qs_calls = [?g, Found ''org_1'' ?s]\<rparr>"
  let ?c = "\<lparr>qs_db = ?d, qs_calls = [?g, ?g]\<rparr>"
  note roll = sub_update_def sub_find_def sub_modify_def row_modify_def rollover_def
  have "quota_step ?h ?a ?b"
    using step_commit [of 0 ?a "''org_1''" ?s ?h ?h "Inr \<lparr>qr_usageCount = 1, qr_limit = Own 1\<rparr>" ?d]
    by (simp add: quota_eval roll)
  moreover have "quota_step ?h ?b ?c"
    using step_commit [of 1 ?b "''org_1''" ?s ?h ?h "Inr \<lparr>qr_usageCount = 1, qr_limit = Own 1\<rparr>" ?d]
    by (simp add: quota_eval roll)
  ultimately have "(quota_step ?h)\<^sup>*\<^sup>* (two_calls 1) ?c"
    by (rule rtranclp.rtrancl_into_rtrancl [OF rtranclp.rtrancl_into_rtrancl [OF two_calls_found]])
  then show ?thesis
    by (intro exI [of _ ?c]) (simp add: quota_eval grants_def usage_of_def roll)
qed

subsection \<open>The abstract meter\<close>

text \<open>What the component promises: a meter of one subscription and the two operations on it.\<close>

record meter =
  m_usage :: int
  m_start :: date
  m_end :: date

definition meter_of :: "subscription \<Rightarrow> meter" where
  "meter_of s = \<lparr>m_usage = usageCount s, m_start = periodStart s, m_end = periodEnd s\<rparr>"

definition take_unit :: "date \<Rightarrow> int \<Rightarrow> meter \<Rightarrow> meter option" where
  "take_unit now limit m =
     (if m_end m < now then Some \<lparr>m_usage = 1, m_start = now, m_end = nextPeriodEnd now\<rparr>
      else if m_usage m < limit then Some (m\<lparr>m_usage := m_usage m + 1\<rparr>)
      else None)"

definition put_meter :: "meter \<Rightarrow> subscription \<Rightarrow> subscription" where
  "put_meter m s = s\<lparr>usageCount := m_usage m, periodStart := m_start m, periodEnd := m_end m\<rparr>"

lemma update_many_one:
  assumes v: "sub_valid d" and s: "s \<in> set (subscriptions d)"
  shows "sub_update_many (\<lambda>r. sub_id r = sub_id s \<and> P r) f d =
           (Inr (if P s then 1 else 0), if P s then sub_modify (sub_id s) f d else d)"
proof -
  have u: "r = s" if "r \<in> set (subscriptions d)" "sub_id r = sub_id s" for r
    using sub_valid_unique [OF v that(1) s that(2)] .
  have "filter (\<lambda>r. sub_id r = sub_id s \<and> P r) (subscriptions d) = filter (\<lambda>r. r = s \<and> P s) (subscriptions d)"
    by (rule filter_cong [OF refl]) (use u in blast)
  moreover have "length (filter (\<lambda>r. r = s) (subscriptions d)) = 1"
  proof -
    have "distinct (subscriptions d)" using v by (simp add: sub_valid_def distinct_map)
    moreover have "{r. r = s} \<inter> set (subscriptions d) = {s}" using s by auto
    ultimately show ?thesis by (simp add: distinct_length_filter)
  qed
  ultimately have n: "length (filter (\<lambda>r. sub_id r = sub_id s \<and> P r) (subscriptions d)) = (if P s then 1 else 0)"
    by simp
  have "map (\<lambda>r. if sub_id r = sub_id s \<and> P r then f r else r) (subscriptions d) =
      (if P s then row_modify sub_id (sub_id s) f (subscriptions d) else subscriptions d)"
    by (auto simp: row_modify_def dest: u intro!: map_idI)
  with n show ?thesis
    by (simp add: sub_update_many_def row_update_many_def sub_modify_def)
qed

lemma sub_modify_put_meter:
  assumes v: "sub_valid d" and s: "s \<in> set (subscriptions d)" and f: "put_meter m s = f s"
  shows "sub_modify (sub_id s) f d = sub_modify (sub_id s) (put_meter m) d"
proof -
  have "f r = put_meter m r" if "r \<in> set (subscriptions d)" "sub_id r = sub_id s" for r
    using sub_valid_unique [OF v that(1) s that(2)] f by simp
  then show ?thesis
    by (auto simp: sub_modify_def row_modify_def intro!: arg_cong [where f = "\<lambda>x. d\<lparr>subscriptions := x\<rparr>"] map_cong)
qed

text \<open>C19. \<open>checkAndDecrementQuota\<close> refines the abstract meter of the subscription it selects:
  it takes a unit exactly when the meter has one, writes exactly the new meter into that row,
  changes nothing else in the database, and otherwise reports the exhausted limit and leaves the
  database as it was.\<close>

theorem checkAndDecrementQuota_refines:
  assumes "sub_valid d" "quota_find clerk d = Some s" "tier_limit s = Some l"
  shows "checkAndDecrementQuota now clerk d =
     (case take_unit now l (meter_of s) of
        Some m \<Rightarrow> (Inr \<lparr>qr_usageCount = m_usage m, qr_limit = Own l\<rparr>, sub_modify (sub_id s) (put_meter m) d)
      | None \<Rightarrow> (Inl (QuotaExceededError clerk l), d))"
proof -
  note s = quota_find_SomeD(1) [OF assms(2)]
  have lim: "js_object_get TIER_QUOTA (tierId s) = Own l"
    using assms(3) by (simp add: tier_limit_def js_object_get_Own)
  have put: "put_meter \<lparr>m_usage = 1, m_start = now, m_end = nextPeriodEnd now\<rparr> = rollover now"
    by (rule ext) (simp add: put_meter_def rollover_def)
  have add: "sub_modify (sub_id s) (add_usage 1) d =
      sub_modify (sub_id s) (put_meter (meter_of s\<lparr>m_usage := usageCount s + 1\<rparr>)) d"
    by (rule sub_modify_put_meter [OF assms(1) s]) (simp add: put_meter_def meter_of_def add_usage_def)
  show ?thesis
    by (auto simp: checkAndDecrementQuota_def assms(2) quota_commit_def lim take_unit_def meter_of_def sub_update_def sub_find_found [OF assms(1) s] put
        andThen_def ret_def throw_def update_many_one [OF assms(1) s] add [unfolded meter_of_def, simplified])
qed

lemma checkAndDecrementQuota_refines_witness:
  "checkAndDecrementQuota 5 ''org_1'' (sample_db 0) =
     (Inr \<lparr>qr_usageCount = 1, qr_limit = Own 1\<rparr>, sample_db 1)"
  using checkAndDecrementQuota_refines [of "sample_db 0" "''org_1''" "sample_sub 0" 1 5]
  by (simp add: quota_eval take_unit_def meter_of_def sub_modify_def row_modify_def put_meter_def)

lemma checkAndDecrementQuota_Inl:
  "checkAndDecrementQuota now clerk d = (Inl e, d') \<Longrightarrow> d' = d"
  using quota_commit_Inl by (auto simp: checkAndDecrementQuota_def throw_def split: option.splits)

text \<open>A call of \<open>checkAndDecrementQuota\<close> that throws, for whatever reason, has changed
  nothing.\<close>

theorem checkAndDecrementQuota_error_unchanged:
  assumes "checkAndDecrementQuota now clerk d = (Inl e, d')"
  shows "d' = d"
  using assms quota_commit_Inl
  by (auto simp: checkAndDecrementQuota_def throw_def split: option.splits)

lemma checkAndDecrementQuota_error_unchanged_witness:
  "snd (checkAndDecrementQuota 5 ''org_1'' (sample_db 1)) = sample_db 1"
proof -
  have "checkAndDecrementQuota 5 ''org_1'' (sample_db 1) =
      (Inl (QuotaExceededError ''org_1'' 1), snd (checkAndDecrementQuota 5 ''org_1'' (sample_db 1)))"
    by (simp add: checkAndDecrementQuota_def quota_eval)
  then show ?thesis by (rule checkAndDecrementQuota_error_unchanged)
qed

lemma restoreQuota_cases:
  assumes "sub_valid d"
  shows "restoreQuota (Some i) d =
     (case restore_find i d of
        None \<Rightarrow> (Inr False, d)
      | Some s \<Rightarrow> if 0 < usageCount s then (Inr True, sub_modify (sub_id s) (add_usage (- 1)) d)
                  else (Inr False, d))"
  using update_many_one [OF assms restore_find_SomeD(1), of i]
  by (auto simp: restoreQuota_def andThen_def ret_def split: option.split)

lemma restore_after_modify:
  assumes v: "sub_valid d" and s: "restore_find i d = Some s" and f: "\<And>r. sub_id (f r) = sub_id r"
    "\<And>r. sub_status (f r) = sub_status r" "\<And>r. sub_orgId (f r) = sub_orgId r" "\<And>r. periodEnd (f r) = periodEnd r"
  shows "restore_find i (sub_modify (sub_id s) f d) = Some (f s)"
proof -
  let ?g = "\<lambda>r. if sub_id r = sub_id s then f r else r"
  let ?P = "\<lambda>s. sub_status s = ACTIVE \<and> sub_orgId s = i"
  have m: "first_max periodEnd (map ?g rs) = map_option ?g (first_max periodEnd rs)" for rs
    by (induction rs) (auto split: option.splits simp: f(4))
  have "filter ?P (map ?g (subscriptions d)) = map ?g (filter ?P (subscriptions d))"
    by (simp add: filter_map comp_def f(2,3) if_distrib cong: if_cong)
  with m s show ?thesis
    by (simp add: restore_find_def sub_modify_def row_modify_def)
qed

lemma find_by_org_eq:
  assumes "org_valid d" "org_find clerk d = Some org"
    and "distinct (map org_id (organizations d))"
  shows "quota_find clerk d = restore_find (org_id org) d"
proof -
  have o: "org \<in> set (organizations d)" "clerkOrgId org = clerk"
    using assms(2) row_find_in row_find_key unfolding org_find_def by metis+
  have "of_clerk_org clerk d s \<longleftrightarrow> sub_orgId s = org_id org" for s
    using o assms(1,3) unfolding of_clerk_org_def org_valid_def list_ex_iff distinct_map inj_on_def by metis
  then show ?thesis by (simp add: quota_find_def restore_find_def)
qed

lemma sub_modify_sub_modify:
  "(\<And>r. sub_id (f r) = sub_id r) \<Longrightarrow> sub_modify k g (sub_modify k f d) = sub_modify k (g \<circ> f) d"
  by (simp add: sub_modify_def row_modify_def)

lemma sub_modify_id: "sub_modify k (\<lambda>r. r) d = d"
  by (simp add: sub_modify_def row_modify_def)

text \<open>A unit taken and given back leaves no trace: if \<open>checkAndDecrementQuota\<close> succeeds
  within the period for a Clerk organization, \<open>restoreQuota\<close> for the same organization's
  internal id credits the unit and yields the database as it was before both calls.\<close>

theorem restore_undoes_decrement:
  assumes "sub_valid d" "org_valid d" "distinct (map org_id (organizations d))"
    and "org_find clerk d = Some org" "quota_find clerk d = Some s" "now \<le> periodEnd s" "0 \<le> usageCount s"
    and "checkAndDecrementQuota now clerk d = (Inr q, d')"
  shows "restoreQuota (Some (org_id org)) d' = (Inr True, d)"
proof -
  have r: "restore_find (org_id org) d = Some s"
    using find_by_org_eq [OF assms(2,4,3)] assms(5) by simp
  have "quota_commit now clerk s d = (Inr q, d')"
    using assms(5,8) by (simp add: checkAndDecrementQuota_def)
  then have d': "d' = sub_modify (sub_id s) (add_usage 1) d"
  proof (cases rule: quota_commit_Inr)
    case rolled
    with assms(6) show ?thesis by simp
  next
    case (counted l)
    note one = update_many_one [OF assms(1) quota_find_SomeD(1) [OF assms(5)], of "\<lambda>r. usageCount r < l" "add_usage 1"]
    from counted(6) have "usageCount s < l"
      using sub_valid_unique [OF assms(1) _ quota_find_SomeD(1) [OF assms(5)]] by metis
    with one counted(5) show ?thesis by simp
  qed
  have "restore_find (org_id org) d' = Some (add_usage 1 s)"
    unfolding d' by (rule restore_after_modify [OF assms(1) r]) simp_all
  moreover have "sub_valid d'"
    unfolding d' by (rule sub.valid_modify [OF assms(1)]) simp
  moreover have "sub_modify (sub_id s) (add_usage (- 1)) d' = d"
    unfolding d' by (simp add: sub_modify_sub_modify comp_def sub_modify_id)
  ultimately show ?thesis
    using assms(7) by (simp add: restoreQuota_cases)
qed

lemma restore_undoes_decrement_witness: "restoreQuota (Some ''o1'') (sample_db 1) = (Inr True, sample_db 0)"
  using restore_undoes_decrement [of "sample_db 0" "''org_1''" sample_org "sample_sub 0" 5
      "\<lparr>qr_usageCount = 1, qr_limit = Own 1\<rparr>" "sample_db 1"]
  by (simp add: quota_eval checkAndDecrementQuota_def org_valid_def org_find_def)

text \<open>\<open>restoreQuota\<close> on an organization's id never throws and keeps every meter between
  zero and its limit; it reports a credit exactly when it lowered the meter by one.\<close>

theorem restoreQuota_floored:
  assumes "metered d" "sub_valid d" "restoreQuota (Some i) d = (r, d')"
  shows "metered d' \<and>
    (r = Inr True \<and> (\<exists>s. restore_find i d = Some s \<and> usage_of (sub_id s) d' = usage_of (sub_id s) d - 1) \<or>
     r = Inr False \<and> d' = d)"
proof (cases "restore_find i d")
  case None
  with assms restoreQuota_cases [OF assms(2), of i] show ?thesis by simp
next
  case (Some s)
  note s = restore_find_SomeD(1) [OF Some]
  show ?thesis
  proof (cases "0 < usageCount s")
    case True
    with Some assms(3) restoreQuota_cases [OF assms(2), of i]
    have r: "r = Inr True" "d' = sub_modify (sub_id s) (add_usage (- 1)) d" by simp_all
    have "metered d'"
      by (rule metered_update_many [OF assms(1), of "\<lambda>q. sub_id q = sub_id s \<and> 0 < usageCount q" "add_usage (- 1)"])
         (use True r update_many_one [OF assms(2) s] in \<open>auto intro: metered_row_restore\<close>)
    with r Some True sub_find_found [OF assms(2) s] show ?thesis
      by (simp add: usage_of_def sub.find_modify)
  next
    case False
    with Some assms restoreQuota_cases [OF assms(2), of i] show ?thesis by simp
  qed
qed

lemma restoreQuota_floored_witness: "metered (snd (restoreQuota (Some ''o1'') (sample_db 0)))"
  using restoreQuota_floored [of "sample_db 0" "''o1''" "fst (restoreQuota (Some ''o1'') (sample_db 0))"
      "snd (restoreQuota (Some ''o1'') (sample_db 0))"]
  by (simp add: quota_eval)

end
