(* ===== verification/Storage_Docs.thy ===== *)
theory Storage_Docs
  imports Encodings
begin

unbundle bit_operations_syntax

text \<open>
  Encrypted document storage (lib/storage.ts). The cryptographic primitives of the platform and
  the object store are parameters: \<open>crypto\<close> holds SHA-256 and AES-256-GCM as functions on
  bytes, and the object store is the list of the objects put so far, with the fault its next
  request meets, if any. Random bytes and ids are arguments.
\<close>

record crypto =
  cr_sha256 :: "bytes \<Rightarrow> bytes"
  cr_encrypt :: "bytes \<Rightarrow> bytes \<Rightarrow> bytes \<Rightarrow> bytes \<times> bytes" \<comment> \<open>key, iv, plaintext; ciphertext, tag\<close>
  cr_decrypt :: "bytes \<Rightarrow> bytes \<Rightarrow> bytes \<Rightarrow> bytes \<Rightarrow> bytes option" \<comment> \<open>key, iv, tag, ciphertext\<close>

record stored_document =
  sd_objectKey :: string
  sd_sha256 :: string
  sd_iv :: string
  sd_authTag :: string

record put_object =
  po_bucket :: string
  po_key :: string
  po_body :: bytes
  po_acl :: "string option"

record storage_input =
  si_iv :: bytes        \<comment> \<open>\<open>randomBytes(IV_BYTES)\<close>\<close>
  si_uuid :: string     \<comment> \<open>\<open>randomUUID()\<close>\<close>
  si_fault :: "eps_error option"

definition KEY_BYTES :: nat where "KEY_BYTES = 32"

definition re_hex64 :: "string \<Rightarrow> bool" where
  "re_hex64 s = (length s = 64 \<and> list_all is_hex s)"

definition loadKey :: "env \<Rightarrow> bytes result" where
  "loadKey env =
     (let raw = case env ''STORAGE_ENCRYPTION_KEY'' of None \<Rightarrow> [] | Some v \<Rightarrow> v
      in if raw = [] then
           Inl (PlainError ''STORAGE_ENCRYPTION_KEY is not set. Provide a 32-byte key as hex (64 chars) or base64.'')
         else
           (let key = if re_hex64 raw then hex_decode raw else b64_decode raw
            in if length key \<noteq> KEY_BYTES then
                 Inl (PlainError (''STORAGE_ENCRYPTION_KEY must decode to '' @ string_of_nat KEY_BYTES @
                   '' bytes (got '' @ string_of_nat (length key) @ ''). Use a 32-byte key as hex or base64.''))
               else Inr key))"

text \<open>
  The shared client is built on the first use, from the environment of that moment; a client
  that exists is used without looking at the environment again.
\<close>

definition getS3 :: "env \<Rightarrow> bool \<Rightarrow> bool result" where
  "getS3 env have_client =
     (if have_client then Inr True
      else if \<not> truthy (env ''MINIO_ENDPOINT'') \<or> \<not> truthy (env ''MINIO_ACCESS_KEY'') \<or>
              \<not> truthy (env ''MINIO_SECRET_KEY'') then
        Inl (PlainError ''MinIO is not configured. Set MINIO_ENDPOINT, MINIO_ACCESS_KEY and MINIO_SECRET_KEY.'')
      else Inr True)"

definition storage_bucket :: "env \<Rightarrow> string" where
  "storage_bucket env = (case env ''MINIO_BUCKET'' of None \<Rightarrow> ''eps-documents'' | Some b \<Rightarrow> b)"

definition storeDocument ::
  "crypto \<Rightarrow> env \<Rightarrow> bool \<Rightarrow> storage_input \<Rightarrow> bytes \<Rightarrow> (put_object list, stored_document) act" where
  "storeDocument cr env have_client inp buf =
     (case loadKey env of
        Inl e \<Rightarrow> throw e
      | Inr key \<Rightarrow>
          (let sha = hex_encode (cr_sha256 cr buf);
               sealed = cr_encrypt cr key (si_iv inp) buf;
               objectKey = ''documents/'' @ si_uuid inp
           in case getS3 env have_client of
                Inl e \<Rightarrow> throw e
              | Inr _ \<Rightarrow>
                  faulty (si_fault inp)
                    (\<lambda>objs. (Inr \<lparr>sd_objectKey = objectKey, sd_sha256 = sha,
                                  sd_iv = hex_encode (si_iv inp), sd_authTag = hex_encode (snd sealed)\<rparr>,
                             objs @ [\<lparr>po_bucket = storage_bucket env, po_key = objectKey,
                                     po_body = fst sealed, po_acl = None\<rparr>]))))"

definition decryptDocument :: "crypto \<Rightarrow> env \<Rightarrow> bytes \<Rightarrow> string \<Rightarrow> string \<Rightarrow> bytes result" where
  "decryptDocument cr env ciphertext ivHex authTagHex =
     (case loadKey env of
        Inl e \<Rightarrow> Inl e
      | Inr key \<Rightarrow>
          (case cr_decrypt cr key (hex_decode ivHex) (hex_decode authTagHex) ciphertext of
             None \<Rightarrow> Inl (PlainError ''Unsupported state or unable to authenticate data'')
           | Some p \<Rightarrow> Inr p))"

text \<open>Authenticated encryption opens what it sealed with a 32-byte key.\<close>

definition opens_sealed :: "crypto \<Rightarrow> bool" where
  "opens_sealed cr \<longleftrightarrow>
     (\<forall>key iv p. length key = 32 \<longrightarrow>
        cr_decrypt cr key iv (snd (cr_encrypt cr key iv p)) (fst (cr_encrypt cr key iv p)) = Some p)"

subsection \<open>Lemmas\<close>

lemma loadKey_Inr: "loadKey env = Inr key \<Longrightarrow> length key = 32"
  by (auto simp: loadKey_def Let_def KEY_BYTES_def split: if_splits)

lemma loadKey_unset: "\<not> truthy (env ''STORAGE_ENCRYPTION_KEY'') \<Longrightarrow> \<exists>m. loadKey env = Inl (PlainError m)"
  by (cases "env ''STORAGE_ENCRYPTION_KEY''") (auto simp: loadKey_def)

lemma storeDocument_Inr:
  assumes "storeDocument cr env have_client inp buf objs = (Inr doc, objs')"
  obtains key where "loadKey env = Inr key" "length key = 32"
    "doc = \<lparr>sd_objectKey = ''documents/'' @ si_uuid inp, sd_sha256 = hex_encode (cr_sha256 cr buf),
            sd_iv = hex_encode (si_iv inp), sd_authTag = hex_encode (snd (cr_encrypt cr key (si_iv inp) buf))\<rparr>"
    "objs' = objs @ [\<lparr>po_bucket = storage_bucket env, po_key = sd_objectKey doc,
                      po_body = fst (cr_encrypt cr key (si_iv inp) buf), po_acl = None\<rparr>]"
  using assms
  by (auto simp: storeDocument_def Let_def faulty_Inr_iff throw_def loadKey_Inr split: sum.splits)

lemma storeDocument_Inl: "storeDocument cr env have_client inp buf objs = (Inl e, objs') \<Longrightarrow> objs' = objs"
  by (auto simp: storeDocument_def Let_def faulty_def throw_def split: sum.splits option.splits)

lemma storeDocument_key_hex: "storeDocument cr env h inp buf objs = (Inr doc, objs') \<Longrightarrow> sd_sha256 doc = hex_encode (cr_sha256 cr buf)"
  by (erule storeDocument_Inr) simp

subsection \<open>Properties\<close>

text \<open>C23. A document that \<open>storeDocument\<close> stored is private, is stored only as ciphertext under
  a 32-byte key, and is recovered exactly by \<open>decryptDocument\<close> from the stored object and the
  returned iv and tag, given that authenticated encryption opens what it sealed.\<close>

theorem decrypt_storeDocument:
  assumes "opens_sealed cr" "storeDocument cr env have_client inp buf objs = (Inr doc, objs')"
  shows "\<exists>obj. objs' = objs @ [obj] \<and> po_key obj = sd_objectKey doc \<and> po_acl obj = None \<and>
           decryptDocument cr env (po_body obj) (sd_iv doc) (sd_authTag doc) = Inr buf"
  using assms(2)
proof (rule storeDocument_Inr)
  fix key
  assume key: "loadKey env = Inr key" "length key = 32"
    and doc: "doc = \<lparr>sd_objectKey = ''documents/'' @ si_uuid inp, sd_sha256 = hex_encode (cr_sha256 cr buf),
            sd_iv = hex_encode (si_iv inp), sd_authTag = hex_encode (snd (cr_encrypt cr key (si_iv inp) buf))\<rparr>"
    and objs': "objs' = objs @ [\<lparr>po_bucket = storage_bucket env, po_key = sd_objectKey doc,
                      po_body = fst (cr_encrypt cr key (si_iv inp) buf), po_acl = None\<rparr>]"
  show ?thesis
    unfolding objs'
    by (rule exI [of _ "\<lparr>po_bucket = storage_bucket env, po_key = sd_objectKey doc,
          po_body = fst (cr_encrypt cr key (si_iv inp) buf), po_acl = None\<rparr>"])
       (use assms(1) key in \<open>simp add: decryptDocument_def doc opens_sealed_def hex.decode_encode\<close>)
qed

text \<open>An instance of the primitives, and an environment with a key.\<close>

definition xor_crypto :: crypto where
  "xor_crypto =
     \<lparr>cr_sha256 = (\<lambda>p. replicate 32 (word_of_nat (length p))),
      cr_encrypt = (\<lambda>key iv p. (map (\<lambda>b. b XOR hd key) p, take 16 key)),
      cr_decrypt = (\<lambda>key iv tag c. if tag = take 16 key then Some (map (\<lambda>b. b XOR hd key) c) else None)\<rparr>"

definition sample_env :: env where
  "sample_env =
     map_of [(''STORAGE_ENCRYPTION_KEY'', replicate 64 (CHR ''7'')), (''MINIO_ENDPOINT'', ''http://minio''),
             (''MINIO_ACCESS_KEY'', ''a''), (''MINIO_SECRET_KEY'', ''s'')]"

lemma xor_crypto_opens: "opens_sealed xor_crypto"
  by (simp add: opens_sealed_def xor_crypto_def comp_def xor.assoc)

lemma hex_decode_replicate: "hex_decode (replicate (2 * n) (CHR ''7'')) = replicate n 0x77"
  by (induction n) (simp_all add: hex_value_def code_unit_def)

lemma sample_key: "loadKey sample_env = Inr (replicate 32 0x77)"
proof -
  have "hex_decode (replicate 64 (CHR ''7'')) = replicate 32 0x77"
    using hex_decode_replicate [of 32] by simp
  moreover have "re_hex64 (replicate 64 (CHR ''7''))"
    by (simp add: re_hex64_def is_hex_def is_lower_hex_def is_digit_def code_unit_def list_all_iff)
  ultimately show ?thesis
    by (simp add: loadKey_def sample_env_def Let_def KEY_BYTES_def)
qed

lemma sample_s3: "getS3 sample_env False = Inr True" "storage_bucket sample_env = ''eps-documents''"
  by (simp_all add: getS3_def storage_bucket_def sample_env_def)

definition sample_storage :: storage_input where
  "sample_storage = \<lparr>si_iv = replicate 12 1, si_uuid = ''u1'', si_fault = None\<rparr>"

definition sample_doc :: stored_document where
  "sample_doc =
     \<lparr>sd_objectKey = ''documents/u1'', sd_sha256 = hex_encode (replicate 32 2),
      sd_iv = hex_encode (replicate 12 1), sd_authTag = hex_encode (replicate 16 0x77)\<rparr>"

definition sample_object :: put_object where
  "sample_object =
     \<lparr>po_bucket = ''eps-documents'', po_key = ''documents/u1'', po_body = [0x74, 0x73], po_acl = None\<rparr>"

lemma sample_store:
  "storeDocument xor_crypto sample_env False sample_storage [3, 4] [] = (Inr sample_doc, [sample_object])"
  by (simp add: storeDocument_def sample_key Let_def sample_s3 sample_storage_def sample_doc_def
      sample_object_def xor_crypto_def act_simps min_def)

lemma decrypt_storeDocument_witness:
  "decryptDocument xor_crypto sample_env [0x74, 0x73] (hex_encode (replicate 12 1))
     (hex_encode (replicate 16 0x77)) = Inr [3, 4]"
  using decrypt_storeDocument [OF xor_crypto_opens sample_store]
  by (simp add: sample_doc_def sample_object_def)

end
