(* ===== verification/Intake.thy ===== *)
theory Intake
  imports Quota Storage_Docs
begin

text \<open>
  Service intake (lib/intake.ts) and the handling of a terminal failure (lib/failure.ts): the two
  transactions that move a unit of quota together with a service request and its audit row. The
  argument \<open>flt\<close> gives the fault, if any, that the n-th database call of the transaction
  meets; the last one is the commit.
\<close>

subsection \<open>Terminal failure\<close>

record fail_input =
  fi_serviceRequestId :: string
  fi_orgId :: "string option"
  fi_reason :: string
  fi_txSignature :: "string option"

record audit_stamp =
  as_id :: string
  as_now :: date

definition MAX_REASON_LEN :: nat where "MAX_REASON_LEN = 500"

definition WORKER_ACTOR :: string where "WORKER_ACTOR = ''system:worker''"

definition mark_failed :: "string \<Rightarrow> service_request \<Rightarrow> service_request" where
  "mark_failed reason r = r\<lparr>sr_status := FAILED, failureReason := Some reason\<rparr>"

definition fail_metadata :: "fail_input \<Rightarrow> string \<Rightarrow> bool \<Rightarrow> json" where
  "fail_metadata inp reason restored =
     JObj ([(''orgId'', json_of_str (fi_orgId inp)), (''reason'', JStr reason),
            (''quotaRestored'', JBool restored)] @
           (if truthy (fi_txSignature inp) then [(''txSignature'', json_of_str (fi_txSignature inp))] else []))"

definition failServiceRequest ::
  "(nat \<Rightarrow> eps_error option) \<Rightarrow> audit_stamp \<Rightarrow> fail_input \<Rightarrow> (db, bool) act" where
  "failServiceRequest flt stamp inp =
     (let reason = take MAX_REASON_LEN (fi_reason inp)
      in transaction
          (andThen (faulty (flt 0) (sr_update (fi_serviceRequestId inp) (mark_failed reason))) (\<lambda>_.
           andThen (faulty (flt 1) (restoreQuota (fi_orgId inp))) (\<lambda>quotaRestored.
           andThen (faulty (flt 2) (audit_create
              \<lparr>al_id = as_id stamp, al_action = ''SERVICE_FAILED'', actorId = WORKER_ACTOR,
               targetId = fi_serviceRequestId inp, al_metadata = fail_metadata inp reason quotaRestored,
               al_createdAt = as_now stamp\<rparr>)) (\<lambda>_.
           faulty (flt 3) (ret quotaRestored))))))"

subsection \<open>Intake\<close>

record create_input =
  ci_orgId :: string
  ci_actorId :: string
  ci_caseCaption :: string
  ci_plaintiffName :: string
  ci_defendantName :: string
  ci_recipientWallet :: string
  ci_courtOrderFlag :: bool
  ci_document :: bytes

text \<open>The clock, the random bytes and the ids one call draws, and the faults it meets.\<close>

record create_draws =
  cd_now :: date
  cd_token :: bytes            \<comment> \<open>\<open>randomBytes(16)\<close>\<close>
  cd_storage :: storage_input
  cd_requestId :: string
  cd_stamp :: audit_stamp
  cd_faults :: "nat \<Rightarrow> eps_error option"

record staged_service_request =
  ss_id :: string
  ss_status :: service_status
  ss_noticeToken :: string
  ss_objectKey :: string
  ss_sha256 :: string

text \<open>The database rolls back; the object store does not.\<close>

record world =
  w_db :: db
  w_objects :: "put_object list"

definition on_db :: "(db, 'a) act \<Rightarrow> (world, 'a) act" where
  "on_db m w = (case m (w_db w) of (r, d) \<Rightarrow> (r, w\<lparr>w_db := d\<rparr>))"

definition on_objects :: "(put_object list, 'a) act \<Rightarrow> (world, 'a) act" where
  "on_objects m w = (case m (w_objects w) of (r, objs) \<Rightarrow> (r, w\<lparr>w_objects := objs\<rparr>))"

definition db_transaction :: "(world, 'a) act \<Rightarrow> (world, 'a) act" where
  "db_transaction m w =
     (case m w of (Inl e, w') \<Rightarrow> (Inl e, w'\<lparr>w_db := w_db w\<rparr>) | (Inr x, w') \<Rightarrow> (Inr x, w'))"

definition generateNoticeToken :: "bytes \<Rightarrow> string" where
  "generateNoticeToken random = hex_encode random"

definition staged_row :: "create_draws \<Rightarrow> create_input \<Rightarrow> stored_document \<Rightarrow> service_request" where
  "staged_row cd inp stored =
     \<lparr>sr_id = cd_requestId cd, sr_userId = None, sr_orgId = None, caseCaption = ci_caseCaption inp,
      plaintiffName = ci_plaintiffName inp, defendantName = ci_defendantName inp,
      recipientWallet = ci_recipientWallet inp, recipientEnsName = None,
      courtOrderFlag = ci_courtOrderFlag inp, attestedAt = cd_now cd,
      noticeToken = Some (generateNoticeToken (cd_token cd)), documentSha256 = Some (sd_sha256 stored),
      sr_status = STAGED, txSignature = None, sr_slot = None, blockTime = None, failureReason = None,
      sr_createdAt = cd_now cd, ensDisplayName = None, agentENSName = None, sr_hedera = no_hedera\<rparr>"

definition createServiceRequest ::
  "crypto \<Rightarrow> env \<Rightarrow> bool \<Rightarrow> create_draws \<Rightarrow> create_input \<Rightarrow> (world, staged_service_request) act" where
  "createServiceRequest cr env have_client cd inp =
     db_transaction
       (andThen (on_db (faulty (cd_faults cd 0) (checkAndDecrementQuota (cd_now cd) (ci_orgId inp)))) (\<lambda>_.
        andThen (on_objects (storeDocument cr env have_client (cd_storage cd) (ci_document inp))) (\<lambda>stored.
        andThen (on_db (faulty (cd_faults cd 1)
                  (sr_create_connect (ci_orgId inp) (staged_row cd inp stored)))) (\<lambda>created.
        andThen (on_db (faulty (cd_faults cd 2) (audit_create
           \<lparr>al_id = as_id (cd_stamp cd), al_action = ''SERVICE_REQUEST_STAGED'', actorId = ci_actorId inp,
            targetId = sr_id created,
            al_metadata = JObj [(''orgId'', JStr (ci_orgId inp)), (''objectKey'', JStr (sd_objectKey stored)),
                                (''sha256'', JStr (sd_sha256 stored))],
            al_createdAt = as_now (cd_stamp cd)\<rparr>))) (\<lambda>_.
        on_db (faulty (cd_faults cd 3) (ret
           \<lparr>ss_id = sr_id created, ss_status = sr_status created,
            ss_noticeToken = generateNoticeToken (cd_token cd),
            ss_objectKey = sd_objectKey stored, ss_sha256 = sd_sha256 stored\<rparr>)))))))"

subsection \<open>Lemmas\<close>

lemma on_db_Inr_iff: "on_db m w = (Inr x, w') \<longleftrightarrow> (\<exists>d. m (w_db w) = (Inr x, d) \<and> w' = w\<lparr>w_db := d\<rparr>)"
  by (auto simp: on_db_def split: prod.split)

lemma on_objects_Inr_iff:
  "on_objects m w = (Inr x, w') \<longleftrightarrow> (\<exists>objs. m (w_objects w) = (Inr x, objs) \<and> w' = w\<lparr>w_objects := objs\<rparr>)"
  by (auto simp: on_objects_def split: prod.split)

lemma db_transaction_Inr_iff: "db_transaction m w = (Inr x, w') \<longleftrightarrow> m w = (Inr x, w')"
  by (auto simp: db_transaction_def split: prod.splits sum.splits)

lemma db_transaction_Inl: "db_transaction m w = (Inl e, w') \<Longrightarrow> w_db w' = w_db w"
  by (auto simp: db_transaction_def split: prod.splits sum.splits)

lemma mark_failed_sel [simp]:
  "sr_id (mark_failed m r) = sr_id r" "sr_status (mark_failed m r) = FAILED"
  "failureReason (mark_failed m r) = Some m" "sr_orgId (mark_failed m r) = sr_orgId r"
  "noticeToken (mark_failed m r) = noticeToken r" "txSignature (mark_failed m r) = txSignature r"
  "sr_createdAt (mark_failed m r) = sr_createdAt r"
  by (simp_all add: mark_failed_def)

lemma restoreQuota_frames:
  assumes "restoreQuota org d = (r, d')"
  shows "serviceRequests d' = serviceRequests d" "auditLogs d' = auditLogs d" "organizations d' = organizations d"
  using assms
  by (auto simp: restoreQuota_def act_simps andThen_def sub_update_many_def row_update_many_def
      split: option.splits)

lemma restoreQuota_cong:
  "subscriptions d = subscriptions e \<Longrightarrow> fst (restoreQuota org d) = fst (restoreQuota org e) \<and>
   subscriptions (snd (restoreQuota org d)) = subscriptions (snd (restoreQuota org e))"
  by (auto simp: restoreQuota_def restore_find_def act_simps andThen_def sub_update_many_def
      row_update_many_def split: option.splits)

lemma failServiceRequest_Inr:
  assumes "failServiceRequest flt stamp inp d = (Inr restored, d')"
  obtains r where "sr_find (fi_serviceRequestId inp) d = Some r"
    "fst (restoreQuota (fi_orgId inp) d) = Inr restored"
    "subscriptions d' = subscriptions (snd (restoreQuota (fi_orgId inp) d))"
    "serviceRequests d' = serviceRequests
        (sr_modify (fi_serviceRequestId inp) (mark_failed (take MAX_REASON_LEN (fi_reason inp))) d)"
    "auditLogs d' = auditLogs d @
       [\<lparr>al_id = as_id stamp, al_action = ''SERVICE_FAILED'', actorId = WORKER_ACTOR,
         targetId = fi_serviceRequestId inp,
         al_metadata = fail_metadata inp (take MAX_REASON_LEN (fi_reason inp)) restored,
         al_createdAt = as_now stamp\<rparr>]"
    "organizations d' = organizations d"
proof -
  let ?d1 = "sr_modify (fi_serviceRequestId inp) (mark_failed (take MAX_REASON_LEN (fi_reason inp))) d"
  from assms obtain r d2 where r: "sr_find (fi_serviceRequestId inp) d = Some r"
    and d2: "restoreQuota (fi_orgId inp) ?d1 = (Inr restored, d2)"
    and d': "d' = d2\<lparr>auditLogs := auditLogs d2 @
       [\<lparr>al_id = as_id stamp, al_action = ''SERVICE_FAILED'', actorId = WORKER_ACTOR,
         targetId = fi_serviceRequestId inp,
         al_metadata = fail_metadata inp (take MAX_REASON_LEN (fi_reason inp)) restored,
         al_createdAt = as_now stamp\<rparr>]\<rparr>"
    by (auto simp: failServiceRequest_def Let_def transaction_Inr_iff andThen_Inr_iff faulty_Inr_iff
        sr_update_Inr_iff audit_create_def ret_def)
  have "subscriptions ?d1 = subscriptions d" by (simp add: lookup_simps)
  from restoreQuota_cong [OF this, of "fi_orgId inp"] d2 restoreQuota_frames [OF d2] r d'
  show thesis by (intro that [of r]) (simp_all add: lookup_simps)
qed

lemma failServiceRequest_Inl: "failServiceRequest flt stamp inp d = (Inl e, d') \<Longrightarrow> d' = d"
  by (auto simp: failServiceRequest_def Let_def transaction_Inl_iff)

lemma re_notice_token_hex: "length bs = 16 \<Longrightarrow> re_notice_token (hex_encode bs)"
  by (simp add: re_notice_token_def hex_encode_lower)

lemma token_inj: "generateNoticeToken a = generateNoticeToken b \<longleftrightarrow> a = b"
  unfolding generateNoticeToken_def by (rule hex.encode_inject)

lemma checkAndDecrementQuota_frames:
  assumes "checkAndDecrementQuota now clerk d = (r, d')"
  shows "serviceRequests d' = serviceRequests d" "auditLogs d' = auditLogs d" "organizations d' = organizations d"
proof -
  have "serviceRequests d' = serviceRequests d \<and> auditLogs d' = auditLogs d \<and> organizations d' = organizations d"
  proof (cases r)
    case (Inl e)
    with assms checkAndDecrementQuota_Inl show ?thesis by metis
  next
    case (Inr q)
    with assms obtain s where "quota_commit now clerk s d = (Inr q, d')"
      by (auto simp: checkAndDecrementQuota_def throw_def split: option.splits)
    then show ?thesis
      by (cases rule: quota_commit_Inr) (auto simp: lookup_simps dest: sub_update_many_frames)
  qed
  then show "serviceRequests d' = serviceRequests d" "auditLogs d' = auditLogs d" "organizations d' = organizations d"
    by simp_all
qed

lemma sr_create_connect_Inr:
  assumes "sr_create_connect clerk r d = (Inr c, d')"
  obtains org where "org_find clerk d = Some org" "c = r\<lparr>sr_orgId := Some (org_id org)\<rparr>"
    "sr_find (sr_id r) d = None" "\<not> token_taken (noticeToken r) d" "d' = sr_insert c d"
  using assms
  by (auto simp: sr_create_connect_def sr_create_def split: option.splits if_splits)

subsection \<open>Properties\<close>


definition sample_create :: create_input where
  "sample_create =
     \<lparr>ci_orgId = ''org_1'', ci_actorId = ''user_1'', ci_caseCaption = ''A v. B'', ci_plaintiffName = ''A'',
      ci_defendantName = ''B'', ci_recipientWallet = ''wallet'', ci_courtOrderFlag = False, ci_document = [3, 4]\<rparr>"

definition sample_draws :: "(nat \<Rightarrow> eps_error option) \<Rightarrow> create_draws" where
  "sample_draws flt =
     \<lparr>cd_now = 5, cd_token = replicate 16 0xAB, cd_storage = sample_storage, cd_requestId = ''r2'',
      cd_stamp = \<lparr>as_id = ''a1'', as_now = 5\<rparr>, cd_faults = flt\<rparr>"

definition sample_world :: "int \<Rightarrow> world" where
  "sample_world n = \<lparr>w_db = sample_db n, w_objects = []\<rparr>"

lemma sample_intake_quota:
  "checkAndDecrementQuota 5 ''org_1'' (sample_db 0) = (Inr \<lparr>qr_usageCount = 1, qr_limit = Own 1\<rparr>, sample_db 1)"
  by (simp add: checkAndDecrementQuota_def quota_eval)


text \<open>A successful intake consumes exactly the unit that the quota check granted, stores the
  document once, stages exactly one request carrying the document's hash, the organization's id
  and a fresh token that public lookups accept, and writes exactly one audit row, which names the
  request and holds only references.\<close>

theorem createServiceRequest_stages:
  assumes "createServiceRequest cr env h cd inp w = (Inr res, w')" "length (cd_token cd) = 16"
  shows "\<exists>q d1 stored org row.
    checkAndDecrementQuota (cd_now cd) (ci_orgId inp) (w_db w) = (Inr q, d1) \<and>
    storeDocument cr env h (cd_storage cd) (ci_document inp) (w_objects w) = (Inr stored, w_objects w') \<and>
    org_find (ci_orgId inp) (w_db w) = Some org \<and>
    row = (staged_row cd inp stored)\<lparr>sr_orgId := Some (org_id org)\<rparr> \<and>
    subscriptions (w_db w') = subscriptions d1 \<and>
    serviceRequests (w_db w') = serviceRequests (w_db w) @ [row] \<and>
    sr_status row = STAGED \<and> documentSha256 row = Some (hex_encode (cr_sha256 cr (ci_document inp))) \<and>
    noticeToken row = Some (ss_noticeToken res) \<and> re_notice_token (ss_noticeToken res) \<and>
    Some (ss_noticeToken res) \<notin> noticeToken ` set (serviceRequests (w_db w)) \<and>
    (\<exists>entry. auditLogs (w_db w') = auditLogs (w_db w) @ [entry] \<and> al_action entry = ''SERVICE_REQUEST_STAGED'' \<and>
       targetId entry = sr_id row \<and> actorId entry = ci_actorId inp \<and>
       json_strings (al_metadata entry) = [ci_orgId inp, ss_objectKey res, ss_sha256 res])"
proof -
  from assms(1) obtain q d1 stored objs c d2 where
    q: "checkAndDecrementQuota (cd_now cd) (ci_orgId inp) (w_db w) = (Inr q, d1)"
    and st: "storeDocument cr env h (cd_storage cd) (ci_document inp) (w_objects w) = (Inr stored, objs)"
    and c: "sr_create_connect (ci_orgId inp) (staged_row cd inp stored) d1 = (Inr c, d2)"
    and w': "w' = \<lparr>w_db = d2\<lparr>auditLogs := auditLogs d2 @ [\<lparr>al_id = as_id (cd_stamp cd),
        al_action = ''SERVICE_REQUEST_STAGED'', actorId = ci_actorId inp, targetId = sr_id c,
        al_metadata = JObj [(''orgId'', JStr (ci_orgId inp)), (''objectKey'', JStr (sd_objectKey stored)),
          (''sha256'', JStr (sd_sha256 stored))], al_createdAt = as_now (cd_stamp cd)\<rparr>]\<rparr>, w_objects = objs\<rparr>"
    and res: "res = \<lparr>ss_id = sr_id c, ss_status = sr_status c, ss_noticeToken = generateNoticeToken (cd_token cd),
        ss_objectKey = sd_objectKey stored, ss_sha256 = sd_sha256 stored\<rparr>"
    by (auto simp: createServiceRequest_def db_transaction_Inr_iff andThen_Inr_iff on_db_Inr_iff
        on_objects_Inr_iff faulty_Inr_iff audit_create_def ret_def)
  note frames = checkAndDecrementQuota_frames [OF q]
  from c show ?thesis
  proof (rule sr_create_connect_Inr)
    fix org
    assume org: "org_find (ci_orgId inp) d1 = Some org"
      and c: "c = (staged_row cd inp stored)\<lparr>sr_orgId := Some (org_id org)\<rparr>"
      and fresh: "\<not> token_taken (noticeToken (staged_row cd inp stored)) d1" and d2: "d2 = sr_insert c d1"
    have sha: "sd_sha256 stored = hex_encode (cr_sha256 cr (ci_document inp))"
      using st by (rule storeDocument_key_hex)
    have "Some (ss_noticeToken res) \<notin> noticeToken ` set (serviceRequests (w_db w))"
      using fresh frames(1) by (simp add: token_taken_def staged_row_def res)
    with q st org frames show ?thesis
      by (intro exI [of _ q] exI [of _ d1] exI [of _ stored] exI [of _ org] exI [of _ c])
         (simp add: w' res c d2 sha staged_row_def sr_insert_def org_find_def
           re_notice_token_hex [OF assms(2), folded generateNoticeToken_def])
  qed
qed

lemma createServiceRequest_stages_witness:
  "re_notice_token (hex_encode (replicate 16 0xAB)) \<and>
   (\<exists>res w'. createServiceRequest xor_crypto sample_env False (sample_draws (\<lambda>_. None)) sample_create
      (sample_world 0) = (Inr res, w') \<and> ss_noticeToken res = hex_encode (replicate 16 0xAB))"
proof -
  let ?r = "createServiceRequest xor_crypto sample_env False (sample_draws (\<lambda>_. None)) sample_create (sample_world 0)"
  have conn: "sr_create_connect ''org_1'' (staged_row (sample_draws (\<lambda>_. None)) sample_create sample_doc) (sample_db 1) =
      (Inr ((staged_row (sample_draws (\<lambda>_. None)) sample_create sample_doc)\<lparr>sr_orgId := Some ''o1''\<rparr>),
       sr_insert ((staged_row (sample_draws (\<lambda>_. None)) sample_create sample_doc)\<lparr>sr_orgId := Some ''o1''\<rparr>) (sample_db 1))"
    by (simp add: sr_create_connect_def sr_create_def staged_row_def sample_draws_def sample_defs org_find_def
        sr_find_def token_taken_def org_by_id_def)
  obtain res w' where r: "?r = (Inr res, w')" and t: "ss_noticeToken res = hex_encode (replicate 16 0xAB)"
    using sample_intake_quota sample_store conn
    by (simp add: createServiceRequest_def sample_draws_def sample_create_def sample_world_def
        db_transaction_def on_db_def on_objects_def andThen_def act_simps audit_create_def ret_def
        generateNoticeToken_def)
  have "length (cd_token (sample_draws (\<lambda>_. None))) = 16" by (simp add: sample_draws_def)
  from createServiceRequest_stages [OF r this] r t show ?thesis by auto
qed

text \<open>C11. \<open>failServiceRequest\<close> is all or nothing: whatever faults its database calls meet,
  either nothing has changed, or the request is FAILED with the reason cut to 500 characters, the
  organization's meter is the one that restoring a unit leaves, one audit row tells both, and the
  call reports whether a unit was credited.\<close>

theorem failServiceRequest_all_or_nothing:
  assumes "failServiceRequest flt stamp inp d = (r, d')"
  shows "(\<exists>e. r = Inl e \<and> d' = d) \<or>
    (\<exists>row restored entry. r = Inr restored \<and> sr_find (fi_serviceRequestId inp) d = Some row \<and>
       sr_find (fi_serviceRequestId inp) d' = Some (mark_failed (take 500 (fi_reason inp)) row) \<and>
       (\<forall>k. k \<noteq> fi_serviceRequestId inp \<longrightarrow> sr_find k d' = sr_find k d) \<and>
       fst (restoreQuota (fi_orgId inp) d) = Inr restored \<and>
       subscriptions d' = subscriptions (snd (restoreQuota (fi_orgId inp) d)) \<and>
       auditLogs d' = auditLogs d @ [entry] \<and> al_action entry = ''SERVICE_FAILED'' \<and>
       targetId entry = fi_serviceRequestId inp \<and>
       al_metadata entry = fail_metadata inp (take 500 (fi_reason inp)) restored)"
proof (cases r)
  case (Inl e)
  with assms failServiceRequest_Inl show ?thesis by blast
next
  case (Inr restored)
  with assms have "failServiceRequest flt stamp inp d = (Inr restored, d')" by simp
  then show ?thesis
  proof (rule failServiceRequest_Inr)
    fix row
    assume row: "sr_find (fi_serviceRequestId inp) d = Some row"
      and srs: "serviceRequests d' = serviceRequests
        (sr_modify (fi_serviceRequestId inp) (mark_failed (take MAX_REASON_LEN (fi_reason inp))) d)"
      and q: "fst (restoreQuota (fi_orgId inp) d) = Inr restored"
        "subscriptions d' = subscriptions (snd (restoreQuota (fi_orgId inp) d))"
      and a: "auditLogs d' = auditLogs d @
       [\<lparr>al_id = as_id stamp, al_action = ''SERVICE_FAILED'', actorId = WORKER_ACTOR,
         targetId = fi_serviceRequestId inp,
         al_metadata = fail_metadata inp (take MAX_REASON_LEN (fi_reason inp)) restored,
         al_createdAt = as_now stamp\<rparr>]"
    have f: "sr_find k d' = sr_find k (sr_modify (fi_serviceRequestId inp)
        (mark_failed (take MAX_REASON_LEN (fi_reason inp))) d)" for k
      unfolding sr_find_def srs ..
    have "sr_find k d' = (if k = fi_serviceRequestId inp
        then map_option (mark_failed (take MAX_REASON_LEN (fi_reason inp))) (sr_find k d) else sr_find k d)" for k
      unfolding f by (rule sr.find_modify) simp
    with row q a Inr show ?thesis by (simp add: MAX_REASON_LEN_def)
  qed
qed

definition sample_fail :: "string option \<Rightarrow> fail_input" where
  "sample_fail org =
     \<lparr>fi_serviceRequestId = ''r1'', fi_orgId = org, fi_reason = ''send failed'', fi_txSignature = None\<rparr>"

lemma sample_failure_run:
  "failServiceRequest (\<lambda>_. None) \<lparr>as_id = ''a1'', as_now = 7\<rparr> (sample_fail (Some ''o1'')) (sample_db 1) =
     (Inr True, snd (failServiceRequest (\<lambda>_. None) \<lparr>as_id = ''a1'', as_now = 7\<rparr> (sample_fail (Some ''o1'')) (sample_db 1)))"
  by (simp add: failServiceRequest_def Let_def sample_fail_def transaction_def andThen_def act_simps
      sr_update_def sr_find_def sr_modify_def row_modify_def restoreQuota_def restore_find_def
      audit_create_def sample_defs sub_update_many_def row_update_many_def)

lemma failServiceRequest_all_or_nothing_witness:
  "\<exists>d'. failServiceRequest (\<lambda>_. None) \<lparr>as_id = ''a1'', as_now = 7\<rparr> (sample_fail (Some ''o1'')) (sample_db 1) = (Inr True, d') \<and>
        subscriptions d' = [sample_sub 0]"
proof -
  let ?r = "failServiceRequest (\<lambda>_. None) \<lparr>as_id = ''a1'', as_now = 7\<rparr> (sample_fail (Some ''o1'')) (sample_db 1)"
  have q: "restoreQuota (Some ''o1'') (sample_db 1) = (Inr True, sample_db 0)"
    by (simp add: restoreQuota_def restore_find_def quota_eval)
  from failServiceRequest_all_or_nothing [OF sample_failure_run] q show ?thesis
    by (intro exI [of _ "snd ?r"]) (use sample_failure_run in \<open>auto simp: sample_fail_def sample_db_def prod_eq_iff\<close>)
qed

text \<open>A request filed without an organization cannot be failed: \<open>failServiceRequest\<close> always
  throws on its null organization id, and the request keeps its state.\<close>

theorem failServiceRequest_orgless_stuck:
  assumes "fi_orgId inp = None"
  shows "\<exists>e. failServiceRequest flt stamp inp d = (Inl e, d)"
proof -
  obtain r d' where f: "failServiceRequest flt stamp inp d = (r, d')" by (meson surj_pair)
  show ?thesis
  proof (cases r)
    case (Inl e)
    with f failServiceRequest_Inl show ?thesis by metis
  next
    case (Inr restored)
    with f have "failServiceRequest flt stamp inp d = (Inr restored, d')" by simp
    then show ?thesis
      by (rule failServiceRequest_Inr) (simp add: assms restoreQuota_def throw_def)
  qed
qed

lemma failServiceRequest_orgless_stuck_witness:
  "\<exists>e. failServiceRequest (\<lambda>_. None) \<lparr>as_id = ''a1'', as_now = 7\<rparr> (sample_fail None) (sample_db 1) = (Inl e, sample_db 1)"
  by (rule failServiceRequest_orgless_stuck) (simp add: sample_fail_def)

end
