(* ===== verification/Worker.thy ===== *)
theory Worker
  imports Intake Chain_Solana Hedera
begin

text \<open>
  The fulfilment worker: worker/index.ts (claim, run, drain) and worker/process.ts (the delivery of
  one request). A worker's state is the database, the Solana cluster, the Hedera network, the log,
  and the detached promises it has started but not yet run. The arguments \<open>job_io\<close> hold what
  one job draws from outside: the faults its database calls meet and the stamp of its audit row.
\<close>

subsection \<open>State\<close>

record claimable_request =
  cl_id :: string
  cl_status :: service_status
  cl_orgId :: "string option"
  cl_recipientWallet :: string
  cl_noticeToken :: "string option"
  cl_documentSha256 :: "string option"
  cl_txSignature :: "string option"
  cl_caseCaption :: string
  cl_agentENSName :: "string option"

datatype hedera_task = Record_On_Hedera string hedera_payload | Mint_And_Transfer string

record ('c, 'h) worker_state =
  ws_db :: db
  ws_chain :: 'c
  ws_hedera :: 'h
  ws_log :: "string list"
  ws_tasks :: "hedera_task list"

record job_io =
  ji_faults :: "nat \<Rightarrow> eps_error option"       \<comment> \<open>of the delivery's database calls\<close>
  ji_fail_faults :: "nat \<Rightarrow> eps_error option"  \<comment> \<open>of the failure transaction\<close>
  ji_stamp :: audit_stamp

record 'c worker_deps =
  wd_sdk :: "'c solana_sdk"
  wd_env :: env
  wd_prismaMessage :: "eps_error \<Rightarrow> string"

definition worker_on_db :: "(db, 'a) act \<Rightarrow> (('c, 'h) worker_state, 'a) act" where
  "worker_on_db m w = (case m (ws_db w) of (r, d) \<Rightarrow> (r, w\<lparr>ws_db := d\<rparr>))"

definition worker_on_chain :: "('c, 'a) act \<Rightarrow> (('c, 'h) worker_state, 'a) act" where
  "worker_on_chain m w = (case m (ws_chain w) of (r, c) \<Rightarrow> (r, w\<lparr>ws_chain := c\<rparr>))"

definition worker_log :: "string \<Rightarrow> (('c, 'h) worker_state, unit) act" where
  "worker_log line w = (Inr (), w\<lparr>ws_log := ws_log w @ [line]\<rparr>)"

definition start_tasks :: "hedera_task list \<Rightarrow> (('c, 'h) worker_state, unit) act" where
  "start_tasks ts w = (Inr (), w\<lparr>ws_tasks := ws_tasks w @ ts\<rparr>)"

text \<open>\<open>err.message\<close>; the text of the client's own errors is the client's.\<close>

definition error_message :: "(eps_error \<Rightarrow> string) \<Rightarrow> eps_error \<Rightarrow> string" where
  "error_message prisma e =
     (case e of
        UnauthorizedError m \<Rightarrow> m
      | ForbiddenError m \<Rightarrow> m
      | NoActiveSubscriptionError org \<Rightarrow> ''No active subscription for org '' @ org @ ''.''
      | QuotaExceededError org l \<Rightarrow>
          ''Quota exceeded: org '' @ org @ '' has used all '' @ string_of_int l @ '' fulfilments for this period.''
      | InvalidRecipientError a Off_Curve \<Rightarrow>
          ''Invalid recipient address '' @ [char_of (39::nat)] @ a @ [char_of (39::nat)] @
          '': key is off-curve (e.g. a Program Derived Address) and cannot hold a signable balance.''
      | InvalidRecipientError a Malformed \<Rightarrow>
          ''Invalid recipient address '' @ [char_of (39::nat)] @ a @ [char_of (39::nat)] @
          '': not a valid base58-encoded Solana public key.''
      | MemoMismatchError i sig \<Rightarrow>
          ''On-chain memo for service request '' @ i @ '' (sig '' @ sig @
          '') does not match the expected delivery memo.''
      | ChainError code m \<Rightarrow> m
      | TypeError m \<Rightarrow> m
      | PlainError m \<Rightarrow> m
      | _ \<Rightarrow> prisma e)"

subsection \<open>Claiming\<close>

definition CLAIMABLE :: "service_status list" where
  "CLAIMABLE = [STAGED, IN_PROGRESS]"

definition claimable_of :: "service_request \<Rightarrow> claimable_request" where
  "claimable_of r =
     \<lparr>cl_id = sr_id r, cl_status = sr_status r, cl_orgId = sr_orgId r,
      cl_recipientWallet = recipientWallet r, cl_noticeToken = noticeToken r,
      cl_documentSha256 = documentSha256 r, cl_txSignature = txSignature r,
      cl_caseCaption = caseCaption r, cl_agentENSName = agentENSName r\<rparr>"

definition claim_find :: "db \<Rightarrow> claimable_request option" where
  "claim_find d =
     map_option claimable_of
       (first_max (\<lambda>r. - sr_createdAt r) (filter (\<lambda>r. sr_status r \<in> set CLAIMABLE) (serviceRequests d)))"

definition set_status :: "service_status \<Rightarrow> service_request \<Rightarrow> service_request" where
  "set_status st r = r\<lparr>sr_status := st\<rparr>"

definition claim_commit :: "claimable_request \<Rightarrow> (db, claimable_request option) act" where
  "claim_commit cand =
     andThen (sr_update_many (\<lambda>r. sr_id r = cl_id cand \<and> sr_status r \<in> set CLAIMABLE) (set_status IN_PROGRESS))
       (\<lambda>n. if n = 0 then ret None else ret (Some (cand\<lparr>cl_status := IN_PROGRESS\<rparr>)))"

definition claimNext :: "(db, claimable_request option) act" where
  "claimNext d = (case claim_find d of None \<Rightarrow> ret None d | Some cand \<Rightarrow> claim_commit cand d)"

subsection \<open>Delivering one request\<close>

definition expected_memo :: "claimable_request \<Rightarrow> string" where
  "expected_memo row =
     buildServiceMemo
       \<lparr>mf_sha256 = (case cl_documentSha256 row of None \<Rightarrow> [] | Some h \<Rightarrow> h),
        mf_noticeToken = (case cl_noticeToken row of None \<Rightarrow> [] | Some t \<Rightarrow> t),
        mf_serviceId = cl_id row\<rparr>"

definition put_signature :: "string \<Rightarrow> service_request \<Rightarrow> service_request" where
  "put_signature sig r = r\<lparr>txSignature := Some sig\<rparr>"

definition put_confirmed :: "confirmation_result \<Rightarrow> service_request \<Rightarrow> service_request" where
  "put_confirmed cf r =
     r\<lparr>sr_status := CONFIRMED, sr_slot := Some (cf_slot cf),
       blockTime := map_option (\<lambda>t. t * 1000) (cf_blockTime cf)\<rparr>"

definition hedera_payload_of :: "env \<Rightarrow> claimable_request \<Rightarrow> hedera_payload" where
  "hedera_payload_of env row =
     \<lparr>hp_deliveryId = cl_id row,
      hp_documentHash = (case cl_documentSha256 row of None \<Rightarrow> [] | Some h \<Rightarrow> h),
      hp_caseRef = cl_caseCaption row, hp_servedTo = cl_recipientWallet row,
      hp_servedBy = (case cl_agentENSName row of Some n \<Rightarrow> n
                     | None \<Rightarrow> (case env ''EVM_APP_WALLET_ADDRESS'' of Some a \<Rightarrow> a | None \<Rightarrow> ''eps-agent''))\<rparr>"

definition send_and_persist ::
  "'c worker_deps \<Rightarrow> job_io \<Rightarrow> solana_adapter \<Rightarrow> claimable_request \<Rightarrow> (('c, 'h) worker_state, string) act" where
  "send_and_persist deps io ad row =
     (case cl_txSignature row of
        Some signature \<Rightarrow> ret signature
      | None \<Rightarrow>
          andThen (worker_on_chain (getRentExemptMinimum (wd_sdk deps) (wd_env deps))) (\<lambda>lamports.
          andThen (worker_on_chain (adapter_send (wd_sdk deps) ad
             \<lparr>dp_recipientWallet = cl_recipientWallet row, dp_lamports = lamports,
              dp_memoParts = [expected_memo row]\<rparr>)) (\<lambda>signature.
          andThen (worker_on_db (faulty (ji_faults io 0) (sr_update (cl_id row) (put_signature signature)))) (\<lambda>_.
          ret signature))))"

definition confirm_and_verify ::
  "'c worker_deps \<Rightarrow> job_io \<Rightarrow> solana_adapter \<Rightarrow> claimable_request \<Rightarrow> string \<Rightarrow> (('c, 'h) worker_state, unit) act" where
  "confirm_and_verify deps io ad row signature =
     andThen (worker_on_chain (adapter_confirm (wd_sdk deps) ad signature)) (\<lambda>cf.
     andThen (worker_on_chain (adapter_getMemo (wd_sdk deps) ad signature)) (\<lambda>onChainMemo.
     if onChainMemo \<noteq> Some (code_points (expected_memo row)) then
       throw (MemoMismatchError (cl_id row) signature)
     else
       andThen (worker_on_db (faulty (ji_faults io 1) (sr_update (cl_id row) (put_confirmed cf)))) (\<lambda>_.
       start_tasks [Record_On_Hedera (cl_id row) (hedera_payload_of (wd_env deps) row),
                    Mint_And_Transfer (cl_id row)])))"

definition processServiceRequest ::
  "'c worker_deps \<Rightarrow> job_io \<Rightarrow> claimable_request \<Rightarrow> (('c, 'h) worker_state, unit) act" where
  "processServiceRequest deps io row =
     (case getSolanaAdapter (wd_sdk deps) (wd_env deps) of
        Inl e \<Rightarrow> throw e
      | Inr ad \<Rightarrow>
          andThen (send_and_persist deps io ad row) (\<lambda>signature.
          confirm_and_verify deps io ad row signature))"

subsection \<open>The detached Hedera tasks\<close>

definition put_hedera :: "hedera_service_result \<Rightarrow> hedera_fields \<Rightarrow> hedera_fields" where
  "put_hedera res h =
     (let h1 = (case hx_hcs res of None \<Rightarrow> h
                | Some c \<Rightarrow> h\<lparr>hcsTopicId := Some (hc_topicId c), hcsSequenceNumber := Some (hc_sequenceNumber c),
                              hcsConsensusTime := hc_consensusTimestamp c, hcsTxId := Some (hc_transactionId c),
                              hcsMirrorUrl := Some (hc_mirrorNodeUrl c)\<rparr>)
      in case hx_hts res of None \<Rightarrow> h1
         | Some t \<Rightarrow> h1\<lparr>htsTokenId := Some (ht_tokenId t), htsSerialNumber := Some (ht_serialNumber t),
                        htsTxId := Some (ht_transactionId t), htsMirrorUrl := Some (ht_mirrorNodeUrl t)\<rparr>)"

definition worker_on_hedera :: "('h, 'a) act \<Rightarrow> (('c, 'h) worker_state, 'a) act" where
  "worker_on_hedera m w = (case m (ws_hedera w) of (r, h) \<Rightarrow> (r, w\<lparr>ws_hedera := h\<rparr>))"

definition task_body ::
  "'h hedera_sdk \<Rightarrow> env \<Rightarrow> date \<Rightarrow> eps_error option \<Rightarrow> hedera_task \<Rightarrow> (('c, 'h) worker_state, unit) act" where
  "task_body hsdk env now fault t =
     (case t of
        Record_On_Hedera i payload \<Rightarrow>
          andThen (worker_on_hedera (recordOnHedera hsdk env now payload)) (\<lambda>res.
          if hx_hcs res = None \<and> hx_hts res = None then ret ()
          else andThen (worker_on_db (faulty fault
                 (sr_update i (\<lambda>r. r\<lparr>sr_hedera := put_hedera res (sr_hedera r)\<rparr>)))) (\<lambda>_. ret ()))
      | Mint_And_Transfer i \<Rightarrow>
          andThen (worker_on_hedera (mintAndTransferProofNFT hsdk env (env ''HEDERA_HCS_TOPIC_ID'') None)) (\<lambda>nft.
          case nft of
            None \<Rightarrow> ret ()
          | Some n \<Rightarrow> andThen (worker_on_db (faulty fault (sr_update i (\<lambda>r. r\<lparr>sr_hedera := (sr_hedera r)
                \<lparr>htsTokenId := Some (pn_tokenId n), htsNftSerial := Some (pn_serial n),
                 htsTransferTx := Some (pn_transferTx n)\<rparr>\<rparr>)))) (\<lambda>_. ret ())))"

text \<open>A detached promise: whatever it throws is logged.\<close>

definition run_task ::
  "'h hedera_sdk \<Rightarrow> env \<Rightarrow> date \<Rightarrow> eps_error option \<Rightarrow> hedera_task \<Rightarrow> (('c, 'h) worker_state, unit) act" where
  "run_task hsdk env now fault t =
     catch (task_body hsdk env now fault t) (\<lambda>_. worker_log ''[worker] Hedera non-fatal error'')"

subsection \<open>The loop\<close>

definition run_fail ::
  "job_io \<Rightarrow> claimable_request \<Rightarrow> string \<Rightarrow> (('c, 'h) worker_state, unit) act" where
  "run_fail io row reason =
     andThen (worker_on_db (failServiceRequest (ji_fail_faults io) (ji_stamp io)
        \<lparr>fi_serviceRequestId = cl_id row, fi_orgId = cl_orgId row, fi_reason = reason,
         fi_txSignature = cl_txSignature row\<rparr>)) (\<lambda>_. ret ())"

definition runOnce :: "'c worker_deps \<Rightarrow> job_io \<Rightarrow> (('c, 'h) worker_state, bool) act" where
  "runOnce deps io =
     andThen (worker_on_db claimNext) (\<lambda>claimed.
     case claimed of
       None \<Rightarrow> ret False
     | Some row \<Rightarrow>
         andThen
           (catch
             (andThen (processServiceRequest deps io row) (\<lambda>_. worker_log (''delivered '' @ cl_id row)))
             (\<lambda>e. andThen (worker_log (''delivery failed for '' @ cl_id row @ '': '' @
                    error_message (wd_prismaMessage deps) e)) (\<lambda>_.
                  run_fail io row (error_message (wd_prismaMessage deps) e))))
           (\<lambda>_. ret True))"

text \<open>
  \<open>drain\<close> loops until the queue is empty; its model counts down fuel, and \<open>None\<close> is a loop
  that has not ended within it. The n-th job meets \<open>ios n\<close>.
\<close>

fun drain ::
  "'c worker_deps \<Rightarrow> (nat \<Rightarrow> job_io) \<Rightarrow> nat \<Rightarrow> nat \<Rightarrow> ('c, 'h) worker_state \<Rightarrow> (nat result \<times> ('c, 'h) worker_state) option" where
  "drain deps ios 0 processed w = None"
| "drain deps ios (Suc fuel) processed w =
     (case runOnce deps (ios processed) w of
        (Inl e, w') \<Rightarrow> Some (Inl e, w')
      | (Inr True, w') \<Rightarrow> drain deps ios fuel (Suc processed) w'
      | (Inr False, w') \<Rightarrow> Some (Inr processed, w'))"

text \<open>One turn of \<open>pollForever\<close>: errors are logged and the loop goes on.\<close>

definition poll_tick :: "'c worker_deps \<Rightarrow> job_io \<Rightarrow> (('c, 'h) worker_state, unit) act" where
  "poll_tick deps io =
     catch (andThen (runOnce deps io) (\<lambda>_. ret ()))
       (\<lambda>e. worker_log (''poll error: '' @ error_message (wd_prismaMessage deps) e))"

end
