(* ===== verification/Rate_Limits.thy ===== *)
theory Rate_Limits
  imports Json_Http
begin

text \<open>
  The two in-process fixed-window limiters: lib/rate-limit.ts, which the API routes use, and
  lib/rateLimit.ts, which the public notice page uses and which bounds the number of keys. A
  JavaScript \<open>Map\<close> is the list of its entries in insertion order: \<open>set\<close> on a present key
  keeps its place. What a limiter promises is the locale \<open>fixed_window\<close>; both modules provide
  it.
\<close>

subsection \<open>Insertion-ordered maps\<close>

type_synonym 'v js_map = "(string \<times> 'v) list"

definition jm_set :: "string \<Rightarrow> 'v \<Rightarrow> 'v js_map \<Rightarrow> 'v js_map" where
  "jm_set k v m = (if k \<in> fst ` set m then map (\<lambda>p. if fst p = k then (k, v) else p) m else m @ [(k, v)])"

definition jm_delete :: "string \<Rightarrow> 'v js_map \<Rightarrow> 'v js_map" where
  "jm_delete k m = filter (\<lambda>p. fst p \<noteq> k) m"

lemma map_of_replace:
  "map_of (map (\<lambda>p. if fst p = k then (k, v) else p) m) j =
     (if j = k then (if k \<in> fst ` set m then Some v else None) else map_of m j)"
  by (induction m) (auto, force)

lemma map_of_jm_set: "map_of (jm_set k v m) j = (if j = k then Some v else map_of m j)"
proof (cases "k \<in> fst ` set m")
  case True
  then show ?thesis by (simp add: jm_set_def map_of_replace)
next
  case False
  then have "map_of m k = None" by (simp add: map_of_eq_None_iff)
  with False show ?thesis by (cases "map_of m j") (auto simp: jm_set_def map_add_def)
qed

lemma map_of_jm_delete: "map_of (jm_delete k m) j = (if j = k then None else map_of m j)"
  by (induction m) (auto simp: jm_delete_def)

lemma length_jm_set: "length (jm_set k v m) = (if k \<in> fst ` set m then length m else Suc (length m))"
  by (simp add: jm_set_def)

lemma fst_replace: "map fst (map (\<lambda>p. if fst p = k then (k, v) else p) m) = map fst m"
  by (induction m) auto

lemma keys_jm_set: "distinct (map fst m) \<Longrightarrow> distinct (map fst (jm_set k v m))"
  unfolding jm_set_def using fst_replace [of k v m] by (cases "k \<in> fst ` set m") (simp_all only: if_True if_False, simp)

lemma keys_jm_delete: "distinct (map fst m) \<Longrightarrow> distinct (map fst (jm_delete k m))"
  unfolding jm_delete_def by (rule distinct_map_filter)

lemma delete_absent: "k \<notin> fst ` set m \<Longrightarrow> jm_delete k m = m"
  unfolding jm_delete_def by (rule filter_True) auto

lemma length_jm_delete_present:
  "distinct (map fst m) \<Longrightarrow> k \<in> fst ` set m \<Longrightarrow> Suc (length (jm_delete k m)) = length m"
proof (induction m)
  case Nil
  then show ?case by simp
next
  case (Cons p m)
  show ?case
  proof (cases "fst p = k")
    case True
    with Cons.prems(1) have "jm_delete k m = m" by (intro delete_absent) auto
    with True show ?thesis by (simp add: jm_delete_def)
  next
    case False
    with Cons show ?thesis by (auto simp: jm_delete_def)
  qed
qed

subsection \<open>The contract\<close>

record window_counter =
  wc_count :: int
  wc_resetAt :: int

text \<open>The reference: counters of all clients, no eviction.\<close>

definition spec_hit ::
  "int \<Rightarrow> int \<Rightarrow> string \<Rightarrow> int \<Rightarrow> (string \<rightharpoonup> window_counter) \<Rightarrow> bool \<times> (string \<rightharpoonup> window_counter)" where
  "spec_hit limit window k now m =
     (let fresh = (True, m(k \<mapsto> \<lparr>wc_count = 1, wc_resetAt = now + window\<rparr>))
      in case m k of
           None \<Rightarrow> fresh
         | Some c \<Rightarrow>
             if wc_resetAt c \<le> now then fresh
             else (wc_count c + 1 \<le> limit, m(k \<mapsto> c\<lparr>wc_count := wc_count c + 1\<rparr>)))"

text \<open>The answers to a run of hits, each of a client at a time.\<close>

primrec answers_to :: "(string \<Rightarrow> int \<Rightarrow> 's \<Rightarrow> bool \<times> 's) \<Rightarrow> (string \<times> int) list \<Rightarrow> 's \<Rightarrow> bool list" where
  "answers_to hit [] s = []"
| "answers_to hit (e # es) s = (case hit (fst e) (snd e) s of (ok, s') \<Rightarrow> ok # answers_to hit es s')"

locale fixed_window =
  fixes hit :: "string \<Rightarrow> int \<Rightarrow> 's \<Rightarrow> bool \<times> 's"
    and counter :: "'s \<Rightarrow> string \<Rightarrow> window_counter option"
    and valid_state :: "'s \<Rightarrow> bool"
    and room :: "'s \<Rightarrow> nat"   \<comment> \<open>how many more hits cannot evict a key\<close>
    and limit :: int
    and window :: int
  assumes fresh: "valid_state s \<Longrightarrow> (\<And>c. counter s k = Some c \<Longrightarrow> wc_resetAt c \<le> now) \<Longrightarrow>
            counter (snd (hit k now s)) k = Some \<lparr>wc_count = 1, wc_resetAt = now + window\<rparr>"
    and fresh_ok: "valid_state s \<Longrightarrow> 1 \<le> limit \<Longrightarrow> (\<And>c. counter s k = Some c \<Longrightarrow> wc_resetAt c \<le> now) \<Longrightarrow> fst (hit k now s)"
    and counted: "valid_state s \<Longrightarrow> counter s k = Some c \<Longrightarrow> now < wc_resetAt c \<Longrightarrow>
            counter (snd (hit k now s)) k = Some (c\<lparr>wc_count := wc_count c + 1\<rparr>)"
    and counted_ok: "valid_state s \<Longrightarrow> counter s k = Some c \<Longrightarrow> now < wc_resetAt c \<Longrightarrow>
            fst (hit k now s) \<longleftrightarrow> wc_count c + 1 \<le> limit"
    and other: "valid_state s \<Longrightarrow> 0 < room s \<Longrightarrow> j \<noteq> k \<Longrightarrow> counter (snd (hit k now s)) j = counter s j"
    and valid_hit: "valid_state s \<Longrightarrow> valid_state (snd (hit k now s))"
    and room_hit: "valid_state s \<Longrightarrow> room s \<le> Suc (room (snd (hit k now s)))"
begin

text \<open>The requests of a key that a run lets pass.\<close>

primrec allowed :: "string \<Rightarrow> (string \<times> int) list \<Rightarrow> 's \<Rightarrow> nat" where
  "allowed k [] s = 0"
| "allowed k (e # es) s =
     (if fst e = k \<and> fst (hit (fst e) (snd e) s) then 1 else 0) + allowed k es (snd (hit (fst e) (snd e) s))"

lemma allowed_in_window:
  "valid_state s \<Longrightarrow> counter s k = Some c \<Longrightarrow> \<forall>e\<in>set es. snd e < wc_resetAt c \<Longrightarrow> length es \<le> room s \<Longrightarrow>
   int (allowed k es s) \<le> max 0 (limit - wc_count c)"
proof (induction es arbitrary: s c)
  case Nil
  then show ?case by simp
next
  case (Cons e es)
  let ?s = "snd (hit (fst e) (snd e) s)"
  have v: "valid_state ?s" using Cons.prems(1) by (rule valid_hit)
  have r: "length es \<le> room ?s" using room_hit [OF Cons.prems(1), of "fst e" "snd e"] Cons.prems(4) by simp
  show ?case
  proof (cases "fst e = k")
    case True
    have t: "snd e < wc_resetAt c" using Cons.prems(3) by simp
    have c: "counter ?s k = Some (c\<lparr>wc_count := wc_count c + 1\<rparr>)"
      using counted [OF Cons.prems(1,2) t] True by simp
    have "int (allowed k es ?s) \<le> max 0 (limit - (wc_count c + 1))"
      using Cons.IH [OF v c] Cons.prems(3) r by simp
    then show ?thesis using counted_ok [OF Cons.prems(1,2) t] True by auto
  next
    case False
    have "counter ?s k = Some c"
      using other [OF Cons.prems(1), of k "fst e" "snd e"] False Cons.prems(2,4) by simp
    with Cons.IH [OF v this] Cons.prems(3) r False show ?thesis by simp
  qed
qed

lemma allowed_from_fresh:
  assumes "valid_state s" "\<And>c. counter s k = Some c \<Longrightarrow> wc_resetAt c \<le> t" "1 \<le> limit"
    and "\<forall>e\<in>set es. snd e < t + window" "length es < room s"
  shows "int (allowed k ((k, t) # es) s) \<le> limit"
proof -
  let ?s = "snd (hit k t s)"
  have ok: "fst (hit k t s)" using fresh_ok [OF assms(1,3,2)] .
  have c: "counter ?s k = Some \<lparr>wc_count = 1, wc_resetAt = t + window\<rparr>"
    using fresh [OF assms(1,2)] .
  have "length es \<le> room ?s" using room_hit [OF assms(1), of k t] assms(5) by simp
  from allowed_in_window [OF valid_hit [OF assms(1)] c _ this] assms(3,4) ok show ?thesis by simp
qed

text \<open>A provider of the contract answers like the reference for as long as it has room.\<close>

lemma hit_spec:
  assumes "valid_state s" "0 < room s" "1 \<le> limit"
  shows "fst (hit k now s) = fst (spec_hit limit window k now (counter s))"
    "counter (snd (hit k now s)) = snd (spec_hit limit window k now (counter s))"
proof -
  consider (new) "\<forall>c. counter s k = Some c \<longrightarrow> wc_resetAt c \<le> now"
    | (old) c where "counter s k = Some c" "now < wc_resetAt c" by (meson not_le)
  then have "fst (hit k now s) = fst (spec_hit limit window k now (counter s)) \<and>
    counter (snd (hit k now s)) = snd (spec_hit limit window k now (counter s))"
  proof cases
    case new
    then have "spec_hit limit window k now (counter s) = (True, (counter s)(k \<mapsto> \<lparr>wc_count = 1, wc_resetAt = now + window\<rparr>))"
      by (auto simp: spec_hit_def Let_def split: option.split)
    moreover have "fst (hit k now s)" "counter (snd (hit k now s)) k = Some \<lparr>wc_count = 1, wc_resetAt = now + window\<rparr>"
      using new by (auto intro!: fresh_ok fresh assms(1,3))
    ultimately show ?thesis using other [OF assms(1,2)] by auto
  next
    case old
    then have "spec_hit limit window k now (counter s) =
        (wc_count c + 1 \<le> limit, (counter s)(k \<mapsto> c\<lparr>wc_count := wc_count c + 1\<rparr>))"
      by (simp add: spec_hit_def)
    with counted_ok [OF assms(1) old] counted [OF assms(1) old] other [OF assms(1,2)] show ?thesis by auto
  qed
  then show "fst (hit k now s) = fst (spec_hit limit window k now (counter s))"
    "counter (snd (hit k now s)) = snd (spec_hit limit window k now (counter s))" by simp_all
qed

lemma answers_to_spec:
  "valid_state s \<Longrightarrow> length es \<le> room s \<Longrightarrow> 1 \<le> limit \<Longrightarrow>
   answers_to hit es s = answers_to (spec_hit limit window) es (counter s)"
proof (induction es arbitrary: s)
  case Nil
  then show ?case by simp
next
  case (Cons e es)
  let ?s = "snd (hit (fst e) (snd e) s)"
  have "length es \<le> room ?s" using room_hit [OF Cons.prems(1), of "fst e" "snd e"] Cons.prems(2) by simp
  with Cons.IH [OF valid_hit [OF Cons.prems(1)]] Cons.prems(3)
  have "answers_to hit es ?s = answers_to (spec_hit limit window) es (counter ?s)" by simp
  with hit_spec [OF Cons.prems(1), of "fst e" "snd e"] Cons.prems(2,3) show ?case by (simp add: case_prod_beta)
qed

end

subsection \<open>rate-limit.ts\<close>

record rate_limit_result =
  rl_ok :: bool
  rl_limit :: int
  rl_remaining :: int
  rl_resetAt :: int
  rl_retryAfterSeconds :: int

record rate_limit_options =
  ro_limit :: int
  ro_windowMs :: int

definition ceil_seconds :: "int \<Rightarrow> int" where
  \<comment> \<open>\<open>Math.ceil(ms / 1000)\<close>\<close>
  "ceil_seconds ms = - ((- ms) div 1000)"

definition api_rateLimit ::
  "string \<Rightarrow> rate_limit_options \<Rightarrow> int \<Rightarrow> window_counter js_map \<Rightarrow> rate_limit_result \<times> window_counter js_map" where
  "api_rateLimit key opts now buckets =
     (case map_of buckets key of
        Some existing \<Rightarrow>
          if wc_resetAt existing \<le> now then
            (\<lparr>rl_ok = True, rl_limit = ro_limit opts, rl_remaining = ro_limit opts - 1,
              rl_resetAt = now + ro_windowMs opts, rl_retryAfterSeconds = ceil_seconds (ro_windowMs opts)\<rparr>,
             jm_set key \<lparr>wc_count = 1, wc_resetAt = now + ro_windowMs opts\<rparr> buckets)
          else
            (\<lparr>rl_ok = (wc_count existing + 1 \<le> ro_limit opts), rl_limit = ro_limit opts,
              rl_remaining = max 0 (ro_limit opts - (wc_count existing + 1)), rl_resetAt = wc_resetAt existing,
              rl_retryAfterSeconds = max 0 (ceil_seconds (wc_resetAt existing - now))\<rparr>,
             jm_set key (existing\<lparr>wc_count := wc_count existing + 1\<rparr>) buckets)
      | None \<Rightarrow>
          (\<lparr>rl_ok = True, rl_limit = ro_limit opts, rl_remaining = ro_limit opts - 1,
            rl_resetAt = now + ro_windowMs opts, rl_retryAfterSeconds = ceil_seconds (ro_windowMs opts)\<rparr>,
           jm_set key \<lparr>wc_count = 1, wc_resetAt = now + ro_windowMs opts\<rparr> buckets))"

text \<open>\<open>fwd.split(",")[0]?.trim()\<close>, the head both modules share.\<close>

definition first_hop :: "string option \<Rightarrow> string option" where
  "first_hop fwd =
     (if truthy fwd then
        (let first = js_trim (hd (split_on (CHR '','') (the fwd))) in if first = [] then None else Some first)
      else None)"

definition client_of :: "(string \<Rightarrow> string option) \<Rightarrow> string" where
  "client_of header =
     (case first_hop (header ''x-forwarded-for'') of
        Some first \<Rightarrow> first
      | None \<Rightarrow>
          (case header ''x-real-ip'' of
             None \<Rightarrow> ''unknown''
           | Some ip \<Rightarrow> if js_trim ip = [] then ''unknown'' else js_trim ip))"

definition clientKey :: "request \<Rightarrow> string" where
  "clientKey req = client_of (header_get req)"

definition rateLimitHeaders :: "rate_limit_result \<Rightarrow> (string \<times> string) list" where
  "rateLimitHeaders result =
     [(''RateLimit-Limit'', string_of_int (rl_limit result)),
      (''RateLimit-Remaining'', string_of_int (rl_remaining result)),
      (''RateLimit-Reset'', string_of_int (rl_retryAfterSeconds result))] @
     (if \<not> rl_ok result then [(''Retry-After'', string_of_int (rl_retryAfterSeconds result))] else [])"

definition api_hit :: "rate_limit_options \<Rightarrow> string \<Rightarrow> int \<Rightarrow> window_counter js_map \<Rightarrow> bool \<times> window_counter js_map" where
  "api_hit opts k now s = (case api_rateLimit k opts now s of (r, s') \<Rightarrow> (rl_ok r, s'))"

subsection \<open>rateLimit.ts\<close>

definition MAX_KEYS :: nat where "MAX_KEYS = 10000"

record page_limit_result =
  pl_ok :: bool
  pl_remaining :: int
  pl_resetAt :: int

text \<open>\<open>while (buckets.size > MAX_KEYS)\<close> delete the oldest key.\<close>

fun evict :: "'v js_map \<Rightarrow> 'v js_map" where
  "evict [] = []"
| "evict ((k, v) # m) = (if MAX_KEYS < Suc (length m) then evict m else (k, v) # m)"

definition page_rateLimit ::
  "string \<Rightarrow> rate_limit_options \<Rightarrow> int \<Rightarrow> window_counter js_map \<Rightarrow> page_limit_result \<times> window_counter js_map" where
  "page_rateLimit key opts now buckets =
     (let (bucket, buckets1) =
        (case map_of buckets key of
           None \<Rightarrow> (\<lparr>wc_count = 0, wc_resetAt = now + ro_windowMs opts\<rparr>, buckets)
         | Some existing \<Rightarrow>
             if wc_resetAt existing \<le> now then (\<lparr>wc_count = 0, wc_resetAt = now + ro_windowMs opts\<rparr>, buckets)
             else (existing, jm_delete key buckets));
        bucket' = bucket\<lparr>wc_count := wc_count bucket + 1\<rparr>
      in (\<lparr>pl_ok = (wc_count bucket' \<le> ro_limit opts), pl_remaining = max 0 (ro_limit opts - wc_count bucket'),
           pl_resetAt = wc_resetAt bucket'\<rparr>,
          evict (jm_set key bucket' buckets1)))"

definition clientIpFromHeaders :: "(string \<Rightarrow> string option) \<Rightarrow> string" where
  "clientIpFromHeaders headers = client_of headers"

definition page_hit :: "rate_limit_options \<Rightarrow> string \<Rightarrow> int \<Rightarrow> window_counter js_map \<Rightarrow> bool \<times> window_counter js_map" where
  "page_hit opts k now s = (case page_rateLimit k opts now s of (r, s') \<Rightarrow> (pl_ok r, s'))"

definition page_valid :: "window_counter js_map \<Rightarrow> bool" where
  "page_valid m = (distinct (map fst m) \<and> length m \<le> MAX_KEYS)"

subsection \<open>Both modules provide the contract\<close>

lemma api_hit_counter:
  "map_of (snd (api_hit opts k now s)) j =
     (if j = k then
        Some (case map_of s k of
          Some c \<Rightarrow> if wc_resetAt c \<le> now then \<lparr>wc_count = 1, wc_resetAt = now + ro_windowMs opts\<rparr>
                     else c\<lparr>wc_count := wc_count c + 1\<rparr>
        | None \<Rightarrow> \<lparr>wc_count = 1, wc_resetAt = now + ro_windowMs opts\<rparr>)
      else map_of s j)"
  by (auto simp: api_hit_def api_rateLimit_def map_of_jm_set split: option.split)

lemma api_hit_ok:
  "fst (api_hit opts k now s) =
     (case map_of s k of
        Some c \<Rightarrow> wc_resetAt c \<le> now \<or> wc_count c + 1 \<le> ro_limit opts | None \<Rightarrow> True)"
  by (auto simp: api_hit_def api_rateLimit_def split: option.split)

text \<open>This limiter evicts nothing: any run of hits has room.\<close>

definition api_room :: "nat \<Rightarrow> window_counter js_map \<Rightarrow> nat" where
  "api_room n s = n"

interpretation api_window: fixed_window "api_hit opts" map_of "\<lambda>_. True" "api_room n" "ro_limit opts" "ro_windowMs opts"
  by unfold_locales (auto simp: api_hit_counter api_hit_ok api_room_def split: option.splits)

lemma map_of_evict_fits: "length m \<le> MAX_KEYS \<Longrightarrow> evict m = m"
  by (cases m) auto

lemma evict_eq_drop: "evict m = drop (length m - MAX_KEYS) m"
proof (induction m rule: evict.induct)
  case 1
  then show ?case by simp
next
  case (2 k v m)
  then show ?case by (auto simp: Suc_diff_le)
qed

lemma length_evict: "length (evict m) \<le> MAX_KEYS"
  by (simp add: evict_eq_drop)

lemma keys_evict: "distinct (map fst m) \<Longrightarrow> distinct (map fst (evict m))"
  by (simp add: evict_eq_drop drop_map [symmetric] distinct_drop)

definition page_bucket :: "rate_limit_options \<Rightarrow> string \<Rightarrow> int \<Rightarrow> window_counter js_map \<Rightarrow> window_counter" where
  "page_bucket opts k now s =
     (case map_of s k of
        Some c \<Rightarrow> if wc_resetAt c \<le> now then \<lparr>wc_count = 1, wc_resetAt = now + ro_windowMs opts\<rparr>
                   else c\<lparr>wc_count := wc_count c + 1\<rparr>
      | None \<Rightarrow> \<lparr>wc_count = 1, wc_resetAt = now + ro_windowMs opts\<rparr>)"

definition page_before :: "rate_limit_options \<Rightarrow> string \<Rightarrow> int \<Rightarrow> window_counter js_map \<Rightarrow> window_counter js_map" where
  "page_before opts k now s =
     jm_set k (page_bucket opts k now s)
       (case map_of s k of
          Some c \<Rightarrow> if wc_resetAt c \<le> now then s else jm_delete k s | None \<Rightarrow> s)"

lemma page_hit_state: "snd (page_hit opts k now s) = evict (page_before opts k now s)"
  by (auto simp: page_hit_def page_rateLimit_def page_before_def page_bucket_def Let_def split: option.split)

lemma page_hit_ok: "fst (page_hit opts k now s) = (wc_count (page_bucket opts k now s) \<le> ro_limit opts)"
  by (auto simp: page_hit_def page_rateLimit_def page_bucket_def Let_def split: option.split)

lemma page_before_of: "map_of (page_before opts k now s) j = (if j = k then Some (page_bucket opts k now s) else map_of s j)"
  by (auto simp: page_before_def map_of_jm_set map_of_jm_delete split: option.split)

lemma page_before_valid:
  assumes "page_valid s"
  shows "distinct (map fst (page_before opts k now s))" "length (page_before opts k now s) \<le> Suc (length s)"
    "map_of s k \<noteq> None \<Longrightarrow> length (page_before opts k now s) = length s"
proof -
  have d: "distinct (map fst s)" using assms by (simp add: page_valid_def)
  then show "distinct (map fst (page_before opts k now s))"
    by (auto simp: page_before_def keys_jm_set keys_jm_delete split: option.split)
  have l: "Suc (length (jm_delete k s)) = length s" if "map_of s k = Some c" for c
    using length_jm_delete_present [OF d] that by (metis fst_conv image_eqI map_of_SomeD)
  have e: "k \<notin> fst ` set (jm_delete k s)" by (auto simp: jm_delete_def)
  show "length (page_before opts k now s) \<le> Suc (length s)"
    using l e by (auto simp: page_before_def length_jm_set split: option.split)
  show "length (page_before opts k now s) = length s" if "map_of s k \<noteq> None"
  proof -
    from that obtain c where c: "map_of s k = Some c" by blast
    then have "k \<in> fst ` set s" by (metis fst_conv image_eqI map_of_SomeD)
    with c l [OF c] e show ?thesis by (auto simp: page_before_def length_jm_set)
  qed
qed

lemma page_valid_hit: "page_valid s \<Longrightarrow> page_valid (snd (page_hit opts k now s))"
  using page_before_valid(1) by (simp add: page_hit_state page_valid_def length_evict keys_evict)

text \<open>The key just set is the last one, so the eviction spares it.\<close>

lemma page_hit_self:
  assumes "page_valid s"
  shows "map_of (snd (page_hit opts k now s)) k = Some (page_bucket opts k now s)"
proof (cases "length (page_before opts k now s) \<le> MAX_KEYS")
  case True
  then show ?thesis by (simp add: page_hit_state map_of_evict_fits page_before_of)
next
  case False
  with page_before_valid(3) [OF assms, of k opts now] assms have "map_of s k = None"
    unfolding page_valid_def by metis
  then have b: "page_before opts k now s = s @ [(k, page_bucket opts k now s)]"
    by (simp add: page_before_def) (auto simp: jm_set_def map_of_eq_None_iff)
  have "evict (s @ [(k, page_bucket opts k now s)]) =
      drop (Suc (length s) - MAX_KEYS) s @ [(k, page_bucket opts k now s)]"
    using assms by (simp add: evict_eq_drop page_valid_def MAX_KEYS_def)
  moreover have "map_of (drop n s) k = None" for n
    using \<open>map_of s k = None\<close> by (auto simp: map_of_eq_None_iff dest: in_set_dropD)
  ultimately show ?thesis by (simp add: page_hit_state b map_add_def)
qed

lemma page_hit_other:
  assumes "page_valid s" "length s < MAX_KEYS" "j \<noteq> k"
  shows "map_of (snd (page_hit opts k now s)) j = map_of s j"
proof -
  have "length (page_before opts k now s) \<le> MAX_KEYS"
    using page_before_valid(2) [OF assms(1), of opts k now] assms(2) by simp
  then show ?thesis using assms(3) by (simp add: page_hit_state map_of_evict_fits page_before_of)
qed

lemma page_hit_length:
  assumes "page_valid s"
  shows "length (snd (page_hit opts k now s)) \<le> Suc (length s)"
  using page_before_valid(2) [OF assms, of opts k now] by (simp add: page_hit_state evict_eq_drop)

interpretation page_window: fixed_window "page_hit opts" map_of page_valid "\<lambda>s. MAX_KEYS - length s"
    "ro_limit opts" "ro_windowMs opts"
proof
  fix s and k :: string and now :: int
  assume v: "page_valid s"
  show "page_valid (snd (page_hit opts k now s))" using v by (rule page_valid_hit)
  show "MAX_KEYS - length s \<le> Suc (MAX_KEYS - length (snd (page_hit opts k now s)))"
    using page_hit_length [OF v, of opts k now] by linarith
  {
    assume "\<And>c. map_of s k = Some c \<Longrightarrow> wc_resetAt c \<le> now"
    then have b: "page_bucket opts k now s = \<lparr>wc_count = 1, wc_resetAt = now + ro_windowMs opts\<rparr>"
      by (simp add: page_bucket_def split: option.split)
    show "map_of (snd (page_hit opts k now s)) k = Some \<lparr>wc_count = 1, wc_resetAt = now + ro_windowMs opts\<rparr>"
      by (simp add: page_hit_self [OF v] b)
    show "fst (page_hit opts k now s)" if "1 \<le> ro_limit opts"
      using that by (simp add: page_hit_ok b)
  }
  fix c
  assume "map_of s k = Some c" "now < wc_resetAt c"
  then have b: "page_bucket opts k now s = c\<lparr>wc_count := wc_count c + 1\<rparr>"
    by (simp add: page_bucket_def)
  show "map_of (snd (page_hit opts k now s)) k = Some (c\<lparr>wc_count := wc_count c + 1\<rparr>)"
    by (simp add: page_hit_self [OF v] b)
  show "fst (page_hit opts k now s) \<longleftrightarrow> wc_count c + 1 \<le> ro_limit opts"
    by (simp add: page_hit_ok b)
qed (simp add: page_hit_other)

subsection \<open>Properties\<close>

text \<open>C32. Both limiters keep their budget: of all requests of one client in the window that its first
  request opens, at most the limit pass, however the requests of other clients interleave; for the
  bounded limiter as long as no key need be evicted.\<close>

theorem rate_limits_hold:
  assumes "1 \<le> ro_limit opts" "\<And>c. map_of s k = Some c \<Longrightarrow> wc_resetAt c \<le> t"
    and "\<forall>e\<in>set es. snd e < t + ro_windowMs opts"
  shows "int (api_window.allowed opts k ((k, t) # es) s) \<le> ro_limit opts \<and>
    (page_valid s \<and> length s + length es < MAX_KEYS \<longrightarrow> int (page_window.allowed opts k ((k, t) # es) s) \<le> ro_limit opts)"
proof
  show "int (api_window.allowed opts k ((k, t) # es) s) \<le> ro_limit opts"
    by (rule api_window.allowed_from_fresh [where n = "Suc (length es)"]) (use assms in \<open>auto simp: api_room_def\<close>)
  show "page_valid s \<and> length s + length es < MAX_KEYS \<longrightarrow> int (page_window.allowed opts k ((k, t) # es) s) \<le> ro_limit opts"
  proof
    assume "page_valid s \<and> length s + length es < MAX_KEYS"
    then show "int (page_window.allowed opts k ((k, t) # es) s) \<le> ro_limit opts"
      by (intro page_window.allowed_from_fresh) (use assms in auto)
  qed
qed

lemma rate_limits_hold_witness:
  "int (api_window.allowed \<lparr>ro_limit = 1, ro_windowMs = 1000\<rparr> ''ip'' [(''ip'', 0), (''other'', 5), (''ip'', 9)] []) \<le> 1"
  using rate_limits_hold [of "\<lparr>ro_limit = 1, ro_windowMs = 1000\<rparr>" "[]" "''ip''" 0 "[(''other'', 5), (''ip'', 9)]"] by simp

text \<open>The limiter of the public page stays bounded and remembers whom it just saw: from any state
  of at most 10000 distinct keys every hit leads to such a state, in which the client of the hit
  has its counter.\<close>

theorem page_limiter_bounded:
  assumes "distinct (map fst s)" "length s \<le> 10000"
  shows "length (snd (page_rateLimit k opts now s)) \<le> 10000 \<and> distinct (map fst (snd (page_rateLimit k opts now s))) \<and>
    map_of (snd (page_rateLimit k opts now s)) k \<noteq> None"
proof -
  have v: "page_valid s" using assms by (simp add: page_valid_def MAX_KEYS_def)
  have "snd (page_hit opts k now s) = snd (page_rateLimit k opts now s)"
    by (simp add: page_hit_def split: prod.split)
  with page_valid_hit [OF v, of opts k now] page_hit_self [OF v, of opts k now] show ?thesis
    by (simp add: page_valid_def MAX_KEYS_def)
qed

lemma page_limiter_bounded_witness:
  "map_of (snd (page_rateLimit ''ip'' \<lparr>ro_limit = 1, ro_windowMs = 1000\<rparr> 5 [(''a'', \<lparr>wc_count = 1, wc_resetAt = 9\<rparr>)])) ''ip'' \<noteq> None"
  by (rule page_limiter_bounded [THEN conjunct2, THEN conjunct2]) simp_all

text \<open>C33. The two limiters of the program are the same limiter, for every positive limit: over any run of at most 10000
  hits of any clients at any times, both answer every hit as the reference does, which keeps one window per client
  and forgets nobody.\<close>

theorem limiters_agree:
  assumes "1 \<le> ro_limit opts" "length es \<le> 10000"
  shows "answers_to (api_hit opts) es [] = answers_to (spec_hit (ro_limit opts) (ro_windowMs opts)) es Map.empty \<and>
    answers_to (page_hit opts) es [] = answers_to (spec_hit (ro_limit opts) (ro_windowMs opts)) es Map.empty"
proof
  have e: "map_of [] = (Map.empty :: string \<rightharpoonup> window_counter)" by (rule ext) simp
  show "answers_to (api_hit opts) es [] = answers_to (spec_hit (ro_limit opts) (ro_windowMs opts)) es Map.empty"
    using api_window.answers_to_spec [of es "length es" "[]" opts] assms(1) by (simp add: api_room_def e)
  show "answers_to (page_hit opts) es [] = answers_to (spec_hit (ro_limit opts) (ro_windowMs opts)) es Map.empty"
    using page_window.answers_to_spec [of "[]" es opts] assms by (simp add: page_valid_def MAX_KEYS_def e)
qed

lemma limiters_agree_witness:
  "answers_to (api_hit \<lparr>ro_limit = 1, ro_windowMs = 10\<rparr>) [(''a'', 0), (''b'', 1), (''a'', 2), (''a'', 10)] [] =
   answers_to (page_hit \<lparr>ro_limit = 1, ro_windowMs = 10\<rparr>) [(''a'', 0), (''b'', 1), (''a'', 2), (''a'', 10)] []"
  using limiters_agree [of "\<lparr>ro_limit = 1, ro_windowMs = 10\<rparr>" "[(''a'', 0), (''b'', 1), (''a'', 2), (''a'', 10)]"] by simp

text \<open>With a limit of zero they differ: lib/rate-limit.ts lets the first hit of a window pass.\<close>

lemma limiters_differ_at_zero:
  "ro_limit opts = 0 \<Longrightarrow> fst (api_hit opts k now []) \<and> \<not> fst (page_hit opts k now [])"
  by (simp add: api_hit_ok page_hit_ok page_bucket_def)

end
