(* ===== verification/Auth.thy ===== *)
theory Auth
  imports EPS_Prelude
begin

text \<open>
  Authentication (lib/auth.ts). What Clerk's \<open>auth()\<close> returns for a request is the record
  \<open>clerk_session\<close>; the guards turn it into a context or throw.
\<close>

record clerk_session =
  cs_userId :: "string option"
  cs_orgId :: "string option"
  cs_has_role :: "string \<Rightarrow> bool"

record auth_context =
  ac_userId :: string
  ac_orgId :: string

record user_auth_context =
  uc_userId :: string
  uc_orgId :: "string option"

definition ORG_ADMIN_ROLE :: string where "ORG_ADMIN_ROLE = ''org:admin''"

definition no_session :: eps_error where
  "no_session = UnauthorizedError ''Unauthorized: no active session''"

definition no_organization :: eps_error where
  "no_organization = UnauthorizedError ''Unauthorized: no active organization''"

definition requireAuth :: "clerk_session \<Rightarrow> auth_context result" where
  "requireAuth cs =
     (if \<not> truthy (cs_userId cs) then Inl no_session
      else if \<not> truthy (cs_orgId cs) then Inl no_organization
      else Inr \<lparr>ac_userId = the (cs_userId cs), ac_orgId = the (cs_orgId cs)\<rparr>)"

definition requireUser :: "clerk_session \<Rightarrow> user_auth_context result" where
  "requireUser cs =
     (if \<not> truthy (cs_userId cs) then Inl no_session
      else Inr \<lparr>uc_userId = the (cs_userId cs), uc_orgId = cs_orgId cs\<rparr>)"

definition requireOrgAdmin :: "clerk_session \<Rightarrow> auth_context result" where
  "requireOrgAdmin cs =
     (if \<not> truthy (cs_userId cs) then Inl no_session
      else if \<not> truthy (cs_orgId cs) then Inl no_organization
      else if \<not> cs_has_role cs ORG_ADMIN_ROLE then
        Inl (ForbiddenError ''Forbidden: requires organization admin role'')
      else Inr \<lparr>ac_userId = the (cs_userId cs), ac_orgId = the (cs_orgId cs)\<rparr>)"

lemma requireAuth_Inr_iff:
  "requireAuth cs = Inr c \<longleftrightarrow>
     cs_userId cs = Some (ac_userId c) \<and> cs_orgId cs = Some (ac_orgId c) \<and> ac_userId c \<noteq> [] \<and> ac_orgId c \<noteq> []"
  by (cases c) (auto simp: requireAuth_def truthy_iff)

lemma requireUser_Inr_iff:
  "requireUser cs = Inr c \<longleftrightarrow> cs_userId cs = Some (uc_userId c) \<and> uc_userId c \<noteq> [] \<and> uc_orgId c = cs_orgId cs"
  by (cases c) (auto simp: requireUser_def truthy_iff)

lemma requireOrgAdmin_Inr_iff:
  "requireOrgAdmin cs = Inr c \<longleftrightarrow> requireAuth cs = Inr c \<and> cs_has_role cs ORG_ADMIN_ROLE"
  by (auto simp: requireOrgAdmin_def requireAuth_def)

lemma requireAuth_unauthorized: "requireAuth cs = Inl e \<Longrightarrow> \<exists>m. e = UnauthorizedError m"
  by (auto simp: requireAuth_def no_session_def no_organization_def split: if_splits)

lemma requireOrgAdmin_Inl:
  "requireOrgAdmin cs = Inl e \<Longrightarrow> (\<exists>m. e = UnauthorizedError m) \<or> (\<exists>m. e = ForbiddenError m)"
  by (auto simp: requireOrgAdmin_def no_session_def no_organization_def split: if_splits)

end
