(* ===== verification/Intake_Routes.thy ===== *)
theory Intake_Routes
  imports ENS Worker Rate_Limits Auth
begin

text \<open>
  The routes of the filer: app/api/service-requests (POST), app/api/service-requests/[id] (GET) and
  app/api/upload. The state is the counters of the limiter, the database and the Hedera network. What
  a call draws from outside (times, generated ids, faults of the database by the order of the calls)
  is the record \<open>route_draws\<close>. The zod package validates the body; its check of the schema is written
  out, and the \<open>issues\<close> it reports for a body that fails are a parameter.
\<close>

record 'h route_state =
  rt_buckets :: "window_counter js_map"
  rt_db :: db
  rt_hedera :: 'h

record route_draws =
  rd_now :: date
  rd_requestId :: string
  rd_faults :: "nat \<Rightarrow> eps_error option"

record ('c, 'h) route_deps =
  rp_sdk :: "'c solana_sdk"
  rp_ens :: ens_sdk
  rp_hedera :: "'h hedera_sdk"
  rp_env :: env
  rp_message :: "eps_error \<Rightarrow> string"
  rp_issues :: "json \<Rightarrow> json"

definition rt_on_db :: "(db, 'a) act \<Rightarrow> ('h route_state, 'a) act" where
  "rt_on_db m w = (case m (rt_db w) of (r, d) \<Rightarrow> (r, w\<lparr>rt_db := d\<rparr>))"

definition rt_on_hedera :: "('h, 'a) act \<Rightarrow> ('h route_state, 'a) act" where
  "rt_on_hedera m w = (case m (rt_hedera w) of (r, h) \<Rightarrow> (r, w\<lparr>rt_hedera := h\<rparr>))"

definition rt_limit :: "string \<Rightarrow> rate_limit_options \<Rightarrow> date \<Rightarrow> ('h route_state, rate_limit_result) act" where
  "rt_limit key opts now w =
     (case api_rateLimit key opts now (rt_buckets w) of (r, b) \<Rightarrow> (Inr r, w\<lparr>rt_buckets := b\<rparr>))"

definition too_many :: "rate_limit_result \<Rightarrow> response" where
  "too_many rl = \<lparr>res_status = 429, res_body = JObj [(''error'', JStr ''Rate limit exceeded. Try again shortly.'')],
                  res_headers = rateLimitHeaders rl\<rparr>"

subsection \<open>The schema of the body\<close>

record request_input =
  ri_caseCaption :: string
  ri_plaintiffName :: string
  ri_defendantName :: string
  ri_recipientWallet :: string
  ri_recipientEnsName :: "string option"
  ri_recipientResolvedAddress :: "string option"
  ri_courtOrderFlag :: bool

definition z_text :: "nat \<Rightarrow> nat option \<Rightarrow> json option \<Rightarrow> string option" where
  \<comment> \<open>\<open>z.string().trim().min(lo).max(hi)\<close>\<close>
  "z_text lo hi v =
     (case json_str v of
        None \<Rightarrow> None
      | Some s \<Rightarrow>
          (let t = js_trim s
           in if length t < lo \<or> (case hi of None \<Rightarrow> False | Some h \<Rightarrow> h < length t) then None else Some t))"

definition z_nullish :: "(json option \<Rightarrow> string option) \<Rightarrow> json option \<Rightarrow> string option option" where
  "z_nullish p v = (if v = None \<or> v = Some JNull then Some None else map_option Some (p v))"

definition z_flag :: "json option \<Rightarrow> bool option" where
  \<comment> \<open>\<open>z.boolean().optional().default(false)\<close>\<close>
  "z_flag v = (case v of None \<Rightarrow> Some False | Some (JBool b) \<Rightarrow> Some b | _ \<Rightarrow> None)"

definition ServiceRequestInput :: "json \<Rightarrow> request_input option" where
  "ServiceRequestInput body =
     (case (z_text 1 (Some 500) (json_prop body ''caseCaption''), z_text 1 (Some 300) (json_prop body ''plaintiffName''),
            z_text 1 (Some 300) (json_prop body ''defendantName''), z_text 1 None (json_prop body ''recipientWallet''),
            z_nullish (z_text 1 (Some 255)) (json_prop body ''recipientEnsName''),
            z_nullish (z_text 0 None) (json_prop body ''recipientResolvedAddress''),
            z_flag (json_prop body ''courtOrderFlag'')) of
        (Some cap, Some pl, Some de, Some wal, Some ens, Some addr, Some flag) \<Rightarrow>
          if json_prop body ''attested'' = Some (JBool True) then
            Some \<lparr>ri_caseCaption = cap, ri_plaintiffName = pl, ri_defendantName = de, ri_recipientWallet = wal,
                  ri_recipientEnsName = ens, ri_recipientResolvedAddress = addr, ri_courtOrderFlag = flag\<rparr>
          else None
      | _ \<Rightarrow> None)"

subsection \<open>Resolving the recipient\<close>

definition looks_like_name :: "string \<Rightarrow> bool" where
  "looks_like_name s = (CHR ''.'' \<in> set s \<and> \<not> re_digits_dots s)"

text \<open>The wallet to serve and the name to show, or the response that rejects the name.\<close>

definition resolve_recipient :: "ens_sdk \<Rightarrow> request_input \<Rightarrow> response + string \<times> string option" where
  "resolve_recipient ens inp =
     (let entered = ri_recipientWallet inp
      in if looks_like_name entered then
           (let ensResult = resolveENS ens entered;
                clientResolved = map_option js_trim (ri_recipientResolvedAddress inp)
            in if truthy (er_address ensResult) then
                 Inr (the (er_address ensResult),
                      if Some (er_displayName ensResult) \<noteq> er_address ensResult then Some (er_displayName ensResult) else None)
               else if truthy clientResolved \<and> re_evm_address (the clientResolved) then
                 Inr (the clientResolved, Some entered)
               else if er_wasENSName ensResult then
                 Inl (error_response 400 (''ENS name '' @ [char_of (34::nat)] @ entered @ [char_of (34::nat)] @
                   '' does not resolve to a wallet address.''))
               else Inr (entered, None))
         else Inr (entered, None))"

definition reason_name :: "recipient_reason \<Rightarrow> string" where
  "reason_name r = (case r of Malformed \<Rightarrow> ''malformed'' | Off_Curve \<Rightarrow> ''off-curve'')"

definition check_recipient :: "('c, 'h) route_deps \<Rightarrow> string \<Rightarrow> response option" where
  "check_recipient deps wallet =
     (if re_evm_address wallet then None
      else (case assertValidRecipient (rp_sdk deps) wallet of
              Inr _ \<Rightarrow> None
            | Inl (InvalidRecipientError a reason) \<Rightarrow>
                Some (json_response 400 (JObj
                  [(''error'', JStr (error_message (rp_message deps) (InvalidRecipientError a reason))),
                   (''reason'', JStr (reason_name reason))]))
            | Inl e \<Rightarrow> None))"

subsection \<open>POST /api/service-requests\<close>

definition INTAKE_LIMIT :: rate_limit_options where
  "INTAKE_LIMIT = \<lparr>ro_limit = 10, ro_windowMs = 60000\<rparr>"

definition filed_row ::
  "route_draws \<Rightarrow> user_auth_context \<Rightarrow> request_input \<Rightarrow> string \<Rightarrow> string option \<Rightarrow> string option \<Rightarrow> service_request" where
  "filed_row dr ctx inp wallet display agent =
     \<lparr>sr_id = rd_requestId dr, sr_userId = Some (uc_userId ctx), sr_orgId = None,
      caseCaption = ri_caseCaption inp, plaintiffName = ri_plaintiffName inp, defendantName = ri_defendantName inp,
      recipientWallet = wallet,
      recipientEnsName = (case ri_recipientEnsName inp of Some n \<Rightarrow> Some n | None \<Rightarrow> display),
      courtOrderFlag = ri_courtOrderFlag inp, attestedAt = rd_now dr, noticeToken = None, documentSha256 = None,
      sr_status = STAGED, txSignature = None, sr_slot = None, blockTime = None, failureReason = None,
      sr_createdAt = rd_now dr, ensDisplayName = display, agentENSName = agent, sr_hedera = no_hedera\<rparr>"

definition file_row :: "user_auth_context \<Rightarrow> service_request \<Rightarrow> (db, service_request) act" where
  "file_row ctx row =
     (if truthy (uc_orgId ctx) then sr_create_connect (the (uc_orgId ctx)) row else sr_create row)"

definition anchorOnHedera ::
  "'h hedera_sdk \<Rightarrow> env \<Rightarrow> date \<Rightarrow> eps_error option \<Rightarrow> string \<Rightarrow> hedera_payload \<Rightarrow> ('h route_state, unit) act" where
  "anchorOnHedera hsdk env now fault i payload =
     catch
       (andThen (rt_on_hedera (recordOnHedera hsdk env now payload)) (\<lambda>res.
        if hx_hcs res = None \<and> hx_hts res = None then ret ()
        else andThen (rt_on_db (faulty fault
               (sr_update i (\<lambda>r. r\<lparr>sr_hedera := put_hedera res (sr_hedera r)\<rparr>)))) (\<lambda>_. ret ())))
       (\<lambda>_. ret ())"

definition intake_payload :: "env \<Rightarrow> string \<Rightarrow> request_input \<Rightarrow> string \<Rightarrow> string option \<Rightarrow> hedera_payload" where
  "intake_payload env i inp wallet agent =
     \<lparr>hp_deliveryId = i, hp_documentHash = [], hp_caseRef = ri_caseCaption inp, hp_servedTo = wallet,
      hp_servedBy = (case agent of Some n \<Rightarrow> n
        | None \<Rightarrow> (case env ''EVM_APP_WALLET_ADDRESS'' of Some a \<Rightarrow> a | None \<Rightarrow> ''eps-agent''))\<rparr>"

definition consume_quota :: "route_draws \<Rightarrow> user_auth_context \<Rightarrow> ('h route_state, unit) act" where
  "consume_quota dr ctx =
     (if truthy (uc_orgId ctx) then
        andThen (rt_on_db (faulty (rd_faults dr 0) (checkAndDecrementQuota (rd_now dr) (the (uc_orgId ctx))))) (\<lambda>_. ret ())
      else ret ())"

definition status_text :: "service_status \<Rightarrow> string" where
  "status_text s =
     (case s of STAGED \<Rightarrow> ''STAGED'' | IN_PROGRESS \<Rightarrow> ''IN_PROGRESS'' | CONFIRMED \<Rightarrow> ''CONFIRMED'' | FAILED \<Rightarrow> ''FAILED'')"

definition stage_request ::
  "('c, 'h) route_deps \<Rightarrow> route_draws \<Rightarrow> user_auth_context \<Rightarrow> request_input \<Rightarrow> string \<Rightarrow> string option \<Rightarrow>
   ('h route_state, response) act" where
  "stage_request deps dr ctx inp wallet display =
     (let agent = getAgentENSName (rp_ens deps) (rp_env deps)
      in andThen (rt_on_db (faulty (rd_faults dr 1) (file_row ctx (filed_row dr ctx inp wallet display agent)))) (\<lambda>created.
         andThen (anchorOnHedera (rp_hedera deps) (rp_env deps) (rd_now dr) (rd_faults dr 2) (sr_id created)
            (intake_payload (rp_env deps) (sr_id created) inp wallet agent)) (\<lambda>_.
         ret (json_response 201 (JObj
           [(''id'', JStr (sr_id created)), (''status'', JStr (status_text (sr_status created)))])))))"

text \<open>What follows the checks of the recipient.\<close>

definition meter_and_stage ::
  "('c, 'h) route_deps \<Rightarrow> route_draws \<Rightarrow> user_auth_context \<Rightarrow> request_input \<Rightarrow> string \<Rightarrow> string option \<Rightarrow>
   ('h route_state, response) act" where
  "meter_and_stage deps dr ctx inp wallet display w =
     (case consume_quota dr ctx w of
        (Inl (QuotaExceededError org l), w1) \<Rightarrow>
          (Inr (error_response 403 (error_message (rp_message deps) (QuotaExceededError org l))), w1)
      | (Inl (NoActiveSubscriptionError org), w1) \<Rightarrow>
          (Inr (error_response 402 (error_message (rp_message deps) (NoActiveSubscriptionError org))), w1)
      | (Inl e, w1) \<Rightarrow> (Inl e, w1)
      | (Inr _, w1) \<Rightarrow> stage_request deps dr ctx inp wallet display w1)"

definition service_requests_POST ::
  "('c, 'h) route_deps \<Rightarrow> clerk_session \<Rightarrow> route_draws \<Rightarrow> request \<Rightarrow> ('h route_state, response) act" where
  "service_requests_POST deps cs dr req =
     andThen (rt_limit (''service-requests:'' @ clientKey req) INTAKE_LIMIT (rd_now dr)) (\<lambda>rl.
     if \<not> rl_ok rl then ret (too_many rl)
     else case requireUser cs of
       Inl (UnauthorizedError m) \<Rightarrow> ret (error_response 401 m)
     | Inl e \<Rightarrow> throw e
     | Inr ctx \<Rightarrow>
         (case req_body req of
            None \<Rightarrow> ret (error_response 400 ''Invalid JSON body'')
          | Some body \<Rightarrow>
              (case ServiceRequestInput body of
                 None \<Rightarrow> ret (json_response 400 (JObj [(''error'', JStr ''Validation failed''), (''issues'', rp_issues deps body)]))
               | Some inp \<Rightarrow>
                   (case resolve_recipient (rp_ens deps) inp of
                      Inl rejected \<Rightarrow> ret rejected
                    | Inr (wallet, display) \<Rightarrow>
                        (case check_recipient deps wallet of
                           Some rejected \<Rightarrow> ret rejected
                         | None \<Rightarrow> meter_and_stage deps dr ctx inp wallet display)))))"

subsection \<open>GET /api/service-requests/[id]\<close>

definition json_date :: "date option \<Rightarrow> json" where
  "json_date t = (case t of None \<Rightarrow> JNull | Some x \<Rightarrow> JStr (toISOString x))"

definition json_int :: "int option \<Rightarrow> json" where
  "json_int n = (case n of None \<Rightarrow> JNull | Some i \<Rightarrow> JNum i)"

definition hedera_json :: "hedera_fields \<Rightarrow> (string \<times> json) list" where
  "hedera_json h =
     [(''hcsTopicId'', json_of_str (hcsTopicId h)), (''hcsSequenceNumber'', json_int (hcsSequenceNumber h)),
      (''hcsConsensusTime'', json_of_str (hcsConsensusTime h)), (''hcsTxId'', json_of_str (hcsTxId h)),
      (''hcsMirrorUrl'', json_of_str (hcsMirrorUrl h)), (''htsTokenId'', json_of_str (htsTokenId h)),
      (''htsSerialNumber'', json_int (htsSerialNumber h)), (''htsTxId'', json_of_str (htsTxId h)),
      (''htsMirrorUrl'', json_of_str (htsMirrorUrl h)), (''htsNftSerial'', json_int (htsNftSerial h)),
      (''htsTransferTx'', json_of_str (htsTransferTx h))]"

definition service_json :: "service_request \<Rightarrow> notice_access option \<Rightarrow> certificate_pdf option \<Rightarrow> json" where
  "service_json r a p =
     JObj ([(''id'', JStr (sr_id r)), (''userId'', json_of_str (sr_userId r)), (''orgId'', json_of_str (sr_orgId r)),
       (''caseCaption'', JStr (caseCaption r)), (''plaintiffName'', JStr (plaintiffName r)),
       (''defendantName'', JStr (defendantName r)), (''recipientWallet'', JStr (recipientWallet r)),
       (''recipientEnsName'', json_of_str (recipientEnsName r)), (''courtOrderFlag'', JBool (courtOrderFlag r)),
       (''attestedAt'', json_date (Some (attestedAt r))), (''noticeToken'', json_of_str (noticeToken r)),
       (''documentSha256'', json_of_str (documentSha256 r)), (''status'', JStr (status_text (sr_status r))),
       (''txSignature'', json_of_str (txSignature r)),
       (''slot'', case sr_slot r of None \<Rightarrow> JNull | Some n \<Rightarrow> JStr (string_of_int n)),
       (''blockTime'', json_date (blockTime r)), (''failureReason'', json_of_str (failureReason r)),
       (''createdAt'', json_date (Some (sr_createdAt r))), (''ensDisplayName'', json_of_str (ensDisplayName r)),
       (''agentENSName'', json_of_str (agentENSName r))] @ hedera_json (sr_hedera r) @
      [(''access'', case a of None \<Rightarrow> JNull
         | Some n \<Rightarrow> JObj [(''id'', JStr (na_id n)), (''noticeId'', JStr (na_noticeId n)), (''ip'', JStr (na_ip n)),
             (''userAgent'', JStr (na_userAgent n)), (''accessedAt'', json_date (Some (accessedAt n)))]),
       (''certificatePdf'', case p of None \<Rightarrow> JNull | Some c \<Rightarrow> JObj [(''id'', JStr (cp_id c))])])"

definition owned_by :: "string \<Rightarrow> db \<Rightarrow> service_request \<Rightarrow> bool" where
  "owned_by clerk d r =
     (case sr_orgId r of
        None \<Rightarrow> False
      | Some i \<Rightarrow> list_ex (\<lambda>org. org_id org = i \<and> clerkOrgId org = clerk) (organizations d))"

definition service_of_org :: "string \<Rightarrow> string \<Rightarrow> db \<Rightarrow> service_request option" where
  "service_of_org i clerk d = List.find (\<lambda>r. sr_id r = i \<and> owned_by clerk d r) (serviceRequests d)"

definition READ_LIMIT :: rate_limit_options where
  "READ_LIMIT = \<lparr>ro_limit = 10, ro_windowMs = 60000\<rparr>"

definition service_request_GET ::
  "clerk_session \<Rightarrow> date \<Rightarrow> request \<Rightarrow> string \<Rightarrow> ('h route_state, response) act" where
  "service_request_GET cs now req i =
     andThen (rt_limit (''service-request:'' @ clientKey req) READ_LIMIT now) (\<lambda>rl.
     if \<not> rl_ok rl then ret (too_many rl)
     else case requireAuth cs of
       Inl (UnauthorizedError m) \<Rightarrow> ret (error_response 401 m)
     | Inl e \<Rightarrow> throw e
     | Inr ctx \<Rightarrow> (\<lambda>w.
         case service_of_org i (ac_orgId ctx) (rt_db w) of
           None \<Rightarrow> ret (error_response 404 ''Service request not found'') w
         | Some r \<Rightarrow> ret (json_response 200
             (service_json r (na_find (sr_id r) (rt_db w)) (cp_find (sr_id r) (rt_db w)))) w))"

subsection \<open>POST /api/upload\<close>

record upload_file =
  uf_type :: string
  uf_size :: int
  uf_bytes :: bytes

datatype upload_form = Not_Multipart | No_File | File_Part upload_file

definition MAX_UPLOAD_BYTES :: int where "MAX_UPLOAD_BYTES = 25 * 1024 * 1024"

definition ALLOWED_MIME :: "(string \<times> string list) list" where
  "ALLOWED_MIME =
     [(''application/pdf'', [''application/pdf'']),
      (''application/msword'', [''application/x-cfb'']),
      (''application/vnd.openxmlformats-officedocument.wordprocessingml.document'',
       [''application/vnd.openxmlformats-officedocument.wordprocessingml.document'', ''application/zip''])]"

definition store_upload ::
  "crypto \<Rightarrow> env \<Rightarrow> bool \<Rightarrow> storage_input \<Rightarrow> upload_file \<Rightarrow> string \<Rightarrow> (put_object list, response) act" where
  "store_upload cr env have_client inp f ext =
     andThen (storeDocument cr env have_client inp (uf_bytes f)) (\<lambda>stored.
     ret (json_response 200 (JObj
       [(''ok'', JBool True), (''mime'', JStr (uf_type f)), (''ext'', JStr ext), (''size'', JNum (uf_size f)),
        (''objectKey'', JStr (sd_objectKey stored)), (''sha256'', JStr (sd_sha256 stored)),
        (''iv'', JStr (sd_iv stored)), (''authTag'', JStr (sd_authTag stored))])))"

definition upload_POST ::
  "(bytes \<Rightarrow> (string \<times> string) option) \<Rightarrow> crypto \<Rightarrow> env \<Rightarrow> bool \<Rightarrow> storage_input \<Rightarrow> upload_form \<Rightarrow>
   (put_object list, response) act" where
  "upload_POST sniff cr env have_client inp form =
     (case form of
        Not_Multipart \<Rightarrow> ret (error_response 400
          (''Expected multipart/form-data with a '' @ [char_of (39::nat)] @ ''file'' @ [char_of (39::nat)] @ '' field.''))
      | No_File \<Rightarrow> ret (error_response 400
          (''Missing '' @ [char_of (39::nat)] @ ''file'' @ [char_of (39::nat)] @ '' field in multipart body.''))
      | File_Part f \<Rightarrow>
          if uf_size f > MAX_UPLOAD_BYTES then
            ret (error_response 413 (''File exceeds the '' @ string_of_int MAX_UPLOAD_BYTES @ '' byte (25 MB) limit.''))
          else (case js_object_get ALLOWED_MIME (uf_type f) of
            Undefined \<Rightarrow> ret (error_response 415
              ''Unsupported file type. Allowed: PDF, Word (.doc), Word (.docx).'')
          | Inherited \<Rightarrow>
              (case sniff (uf_bytes f) of
                 None \<Rightarrow> ret (error_response 415 ''File contents do not match the declared file type.'')
               | Some _ \<Rightarrow> throw (TypeError ''allowedSignatures.includes is not a function''))
          | Own allowed \<Rightarrow>
              (case sniff (uf_bytes f) of
                 None \<Rightarrow> ret (error_response 415 ''File contents do not match the declared file type.'')
               | Some (mime, ext) \<Rightarrow>
                   if mime \<notin> set allowed then
                     ret (error_response 415 ''File contents do not match the declared file type.'')
                   else store_upload cr env have_client inp f ext)))"

subsection \<open>Lemmas on filing\<close>

lemma rt_on_db_Inr_iff:
  "rt_on_db m w = (Inr x, w') \<longleftrightarrow> (\<exists>d. m (rt_db w) = (Inr x, d) \<and> w' = w\<lparr>rt_db := d\<rparr>)"
  by (auto simp: rt_on_db_def split: prod.split)

lemma rt_limit_db: "rt_limit key opts now w = (r, w') \<Longrightarrow> rt_db w' = rt_db w \<and> (\<exists>rl. r = Inr rl)"
  by (auto simp: rt_limit_def split: prod.splits)

lemma file_row_Inr:
  assumes "file_row ctx row d = (Inr created, d')"
  shows "\<exists>i. created = row\<lparr>sr_orgId := i\<rparr> \<and> sr_find (sr_id row) d = None \<and> d' = sr_insert created d"
proof (cases "truthy (uc_orgId ctx)")
  case True
  with assms have "sr_create_connect (the (uc_orgId ctx)) row d = (Inr created, d')" by (simp add: file_row_def)
  then show ?thesis by (rule sr_create_connect_Inr) blast
next
  case False
  with assms have "created = row\<lparr>sr_orgId := sr_orgId row\<rparr>" "sr_find (sr_id row) d = None" "d' = sr_insert created d"
    by (auto simp: file_row_def sr_create_def split: if_splits)
  then show ?thesis by blast
qed

text \<open>Anchoring writes the Hedera columns of the request at most.\<close>

definition sets_hedera :: "string \<Rightarrow> db \<Rightarrow> db \<Rightarrow> bool" where
  "sets_hedera i d d' \<longleftrightarrow> d' = d \<or> (\<exists>h. d' = sr_modify i (\<lambda>r. r\<lparr>sr_hedera := h (sr_hedera r)\<rparr>) d)"

lemma anchorOnHedera_run:
  obtains w' where "anchorOnHedera hsdk env now fault i payload w = (Inr (), w')" "sets_hedera i (rt_db w) (rt_db w')"
proof -
  obtain res h where run: "recordOnHedera hsdk env now payload (rt_hedera w) = (Inr res, h)"
    using recordOnHedera_Inr [of hsdk env now payload "rt_hedera w"] by blast
  let ?f = "\<lambda>r. r\<lparr>sr_hedera := put_hedera res (sr_hedera r)\<rparr>"
  have upd: "snd (faulty fault (sr_update i ?f) (rt_db w)) = rt_db w \<or>
      snd (faulty fault (sr_update i ?f) (rt_db w)) = sr_modify i ?f (rt_db w)"
    by (auto simp: faulty_def throw_def sr_update_def split: option.split)
  show thesis
    using run upd
    by (intro that [of "snd (anchorOnHedera hsdk env now fault i payload w)"])
       (auto simp: anchorOnHedera_def catch_def andThen_def rt_on_hedera_def rt_on_db_def ret_def sets_hedera_def
         split: prod.split sum.split)
qed

lemma sets_hedera_find:
  assumes "sets_hedera i d d'"
  shows "\<exists>h. sr_find k d' = (if k = i then map_option (\<lambda>r. r\<lparr>sr_hedera := h (sr_hedera r)\<rparr>) (sr_find k d) else sr_find k d)"
  using assms unfolding sets_hedera_def
proof
  assume "d' = d"
  then have "sr_find k d' = (if k = i then map_option (\<lambda>r. r\<lparr>sr_hedera := id (sr_hedera r)\<rparr>) (sr_find k d) else sr_find k d)"
    by (simp add: option.map_ident_strong)
  then show ?thesis by blast
next
  assume "\<exists>h. d' = sr_modify i (\<lambda>r. r\<lparr>sr_hedera := h (sr_hedera r)\<rparr>) d"
  then obtain h where "d' = sr_modify i (\<lambda>r. r\<lparr>sr_hedera := h (sr_hedera r)\<rparr>) d" by blast
  then have "sr_find k d' = (if k = i then map_option (\<lambda>r. r\<lparr>sr_hedera := h (sr_hedera r)\<rparr>) (sr_find k d) else sr_find k d)"
    by (simp add: sr.find_modify)
  then show ?thesis by blast
qed

lemma sets_hedera_frames: "sets_hedera i d d' \<Longrightarrow> auditLogs d' = auditLogs d \<and> subscriptions d' = subscriptions d"
  by (auto simp: sets_hedera_def lookup_simps)

definition filed ::
  "route_draws \<Rightarrow> user_auth_context \<Rightarrow> request_input \<Rightarrow> string \<Rightarrow> string option \<Rightarrow> db \<Rightarrow> db \<Rightarrow> bool" where
  "filed dr ctx inp wallet display d d' \<longleftrightarrow>
     sr_find (rd_requestId dr) d = None \<and> auditLogs d' = auditLogs d \<and>
     (\<forall>k. k \<noteq> rd_requestId dr \<longrightarrow> sr_find k d' = sr_find k d) \<and>
     (\<exists>row. sr_find (rd_requestId dr) d' = Some row \<and> sr_status row = STAGED \<and> sr_userId row = Some (uc_userId ctx) \<and>
        recipientWallet row = wallet \<and> caseCaption row = ri_caseCaption inp \<and> noticeToken row = None \<and>
        documentSha256 row = None \<and>
        recipientEnsName row = (case ri_recipientEnsName inp of Some n \<Rightarrow> Some n | None \<Rightarrow> display))"

lemma stage_request_cases:
  obtains (staged) w' body where "stage_request deps dr ctx inp wallet display w = (Inr (json_response 201 body), w')"
      "filed dr ctx inp wallet display (rt_db w) (rt_db w')"
  | (threw) e where "stage_request deps dr ctx inp wallet display w = (Inl e, w)"
proof -
  let ?row = "filed_row dr ctx inp wallet display (getAgentENSName (rp_ens deps) (rp_env deps))"
  obtain r d where f: "faulty (rd_faults dr 1) (file_row ctx ?row) (rt_db w) = (r, d)"
    by (cases "faulty (rd_faults dr 1) (file_row ctx ?row) (rt_db w)")
  show thesis
  proof (cases r)
    case (Inl e)
    have "d = rt_db w"
      using f Inl by (auto simp: faulty_def throw_def file_row_def sr_create_connect_def sr_create_def
          split: option.splits if_splits)
    with f Inl show thesis
      by (intro threw [of e]) (simp add: stage_request_def Let_def andThen_def rt_on_db_def)
  next
    case (Inr created)
    with f have "file_row ctx ?row (rt_db w) = (Inr created, d)" by (simp add: faulty_Inr_iff)
    from file_row_Inr [OF this] obtain i where c: "created = ?row\<lparr>sr_orgId := i\<rparr>"
        "sr_find (sr_id ?row) (rt_db w) = None" "d = sr_insert created (rt_db w)" by blast
    let ?p = "intake_payload (rp_env deps) (sr_id created) inp wallet (getAgentENSName (rp_ens deps) (rp_env deps))"
    obtain w' where a: "anchorOnHedera (rp_hedera deps) (rp_env deps) (rd_now dr) (rd_faults dr 2) (sr_id created) ?p
        (w\<lparr>rt_db := d\<rparr>) = (Inr (), w')" "sets_hedera (sr_id created) (rt_db (w\<lparr>rt_db := d\<rparr>)) (rt_db w')"
      by (rule anchorOnHedera_run)
    have i: "sr_id created = rd_requestId dr" using c(1) by (simp add: filed_row_def)
    have ins: "sr_find k d = (if k = rd_requestId dr then Some created else sr_find k (rt_db w))" for k
      using c sr.find_insert [of created "rt_db w" k] by (simp add: filed_row_def)
    have "\<exists>h. sr_find (rd_requestId dr) (rt_db w') = Some (created\<lparr>sr_hedera := h\<rparr>)"
      using sets_hedera_find [OF a(2), of "rd_requestId dr"] ins i by auto
    moreover have "sr_find k (rt_db w') = sr_find k (rt_db w)" if "k \<noteq> rd_requestId dr" for k
      using sets_hedera_find [OF a(2), of k] ins i that by auto
    moreover have "auditLogs (rt_db w') = auditLogs (rt_db w)"
      using sets_hedera_frames [OF a(2)] c(3) by (simp add: lookup_simps)
    ultimately have "filed dr ctx inp wallet display (rt_db w) (rt_db w')"
      using c by (auto simp: filed_def filed_row_def)
    then show thesis
      using f Inr a(1) by (intro staged) (simp_all add: stage_request_def Let_def andThen_def rt_on_db_def ret_def)
  qed
qed

lemma consume_quota_Inl: "consume_quota dr ctx w = (Inl e, w1) \<Longrightarrow> rt_db w1 = rt_db w"
  by (auto simp: consume_quota_def rt_on_db_def andThen_def ret_def faulty_def throw_def
      split: prod.splits sum.splits if_splits option.splits dest: checkAndDecrementQuota_Inl)

lemma consume_quota_frames:
  assumes "consume_quota dr ctx w = (r, w1)"
  shows "serviceRequests (rt_db w1) = serviceRequests (rt_db w) \<and> auditLogs (rt_db w1) = auditLogs (rt_db w)"
  using assms
  by (auto simp: consume_quota_def rt_on_db_def andThen_def ret_def faulty_def throw_def
      split: prod.splits sum.splits if_splits option.splits dest: checkAndDecrementQuota_frames)

lemma rejections:
  "resolve_recipient ens inp = Inl resp \<Longrightarrow> res_status resp = 400"
  "check_recipient deps wallet = Some resp \<Longrightarrow> res_status resp = 400"
  "res_status (too_many rl) = 429"
  by (auto simp: resolve_recipient_def check_recipient_def too_many_def Let_def
      split: if_splits sum.splits eps_error.splits)

definition serviceable :: "('c, 'h) route_deps \<Rightarrow> string \<Rightarrow> bool" where
  "serviceable deps wallet \<longleftrightarrow> re_evm_address wallet \<or> (\<exists>k. assertValidRecipient (rp_sdk deps) wallet = Inr k)"

lemma check_recipient_None: "check_recipient deps wallet = None \<longleftrightarrow> serviceable deps wallet"
  by (auto simp: check_recipient_def serviceable_def assertValidRecipient_def split: option.splits)

lemma recipient_cases:
  obtains (fit) wallet display where "resolve_recipient (rp_ens deps) inp = Inr (wallet, display)" "serviceable deps wallet"
      "check_recipient deps wallet = None"
  | (unfit) resp where "400 \<le> res_status resp"
      "(case resolve_recipient (rp_ens deps) inp of
          Inl rejected \<Rightarrow> ret rejected
        | Inr (wallet, display) \<Rightarrow>
            (case check_recipient deps wallet of
               Some rejected \<Rightarrow> ret rejected
             | None \<Rightarrow> meter_and_stage deps dr ctx inp wallet display)) = ret resp"
proof (cases "resolve_recipient (rp_ens deps) inp")
  case (Inl rejected)
  with rejections(1) show thesis by (intro unfit [of rejected]) simp_all
next
  case (Inr wd)
  obtain wallet display where wd: "wd = (wallet, display)" by (cases wd)
  show thesis
  proof (cases "check_recipient deps wallet")
    case None
    with Inr wd check_recipient_None [of deps wallet] show thesis by (intro fit [of wallet display]) simp_all
  next
    case (Some rejected)
    with Inr wd rejections(2) [of deps wallet] show thesis by (intro unfit [of rejected]) simp_all
  qed
qed

lemma service_requests_POST_cases:
  obtains (tail) w1 ctx body inp wallet display where "rt_db w1 = rt_db w" "requireUser cs = Inr ctx"
      "req_body req = Some body" "ServiceRequestInput body = Some inp" "serviceable deps wallet"
      "service_requests_POST deps cs dr req w = meter_and_stage deps dr ctx inp wallet display w1"
      "resolve_recipient (rp_ens deps) inp = Inr (wallet, display)"
  | (refused) resp w1 where "service_requests_POST deps cs dr req w = (Inr resp, w1)" "rt_db w1 = rt_db w"
      "400 \<le> res_status resp"
proof -
  obtain rl w1 where l: "rt_limit (''service-requests:'' @ clientKey req) INTAKE_LIMIT (rd_now dr) w = (Inr rl, w1)"
      and db: "rt_db w1 = rt_db w"
    using rt_limit_db by (metis prod.collapse)
  note P = service_requests_POST_def andThen_def l [simplified]
  note ref = refused [OF _ db]
  consider "\<not> rl_ok rl" | e where "rl_ok rl" "requireUser cs = Inl e"
    | ctx where "rl_ok rl" "requireUser cs = Inr ctx" "req_body req = None"
    | ctx body where "rl_ok rl" "requireUser cs = Inr ctx" "req_body req = Some body" "ServiceRequestInput body = None"
    | ctx body inp where "rl_ok rl" "requireUser cs = Inr ctx" "req_body req = Some body" "ServiceRequestInput body = Some inp"
    by (metis not_None_eq obj_sumE)
  then show thesis
  proof cases
    case 1
    then show thesis by (intro ref [of "too_many rl"]) (simp_all add: P ret_def rejections)
  next
    case (2 e)
    then obtain m where "e = UnauthorizedError m" by (auto simp: requireUser_def no_session_def split: if_splits)
    with 2 show thesis by (intro ref [of "error_response 401 m"]) (simp_all add: P ret_def)
  next
    case (3 ctx)
    then show thesis by (intro ref [of "error_response 400 ''Invalid JSON body''"]) (simp_all add: P ret_def)
  next
    case (4 ctx body)
    then show thesis
      by (intro ref [of "json_response 400 (JObj [(''error'', JStr ''Validation failed''), (''issues'', rp_issues deps body)])"])
         (simp_all add: P ret_def)
  next
    case (5 ctx body inp)
    show thesis
    proof (cases rule: recipient_cases [where deps = deps and inp = inp and dr = dr and ctx = ctx])
      case (fit wallet display)
      with 5 show thesis by (intro tail [OF db 5(2-4), of wallet display]) (simp_all add: P)
    next
      case (unfit resp)
      with 5 show thesis by (intro ref [of resp]) (simp_all add: P ret_def)
    qed
  qed
qed

subsection \<open>Properties\<close>

lemma filed_cong:
  assumes "filed dr ctx inp wallet display d1 d'" "serviceRequests d1 = serviceRequests d" "auditLogs d1 = auditLogs d"
  shows "filed dr ctx inp wallet display d d'"
  using assms by (simp add: filed_def sr_find_def)

lemma meter_and_stage_outcome:
  assumes "meter_and_stage deps dr ctx inp wallet display w = (r, w')"
  shows "case r of
      Inl e \<Rightarrow> serviceRequests (rt_db w') = serviceRequests (rt_db w)
    | Inr resp \<Rightarrow> res_status resp = 201 \<and> filed dr ctx inp wallet display (rt_db w) (rt_db w') \<or>
        400 \<le> res_status resp \<and> rt_db w' = rt_db w"
proof -
  obtain q w1 where q: "consume_quota dr ctx w = (q, w1)" by (cases "consume_quota dr ctx w")
  note fr = consume_quota_frames [OF q]
  show ?thesis
  proof (cases q)
    case (Inl e)
    with q consume_quota_Inl have "rt_db w1 = rt_db w" by blast
    then show ?thesis
      using assms q Inl by (auto simp: meter_and_stage_def split: eps_error.splits)
  next
    case (Inr u)
    with assms q have run: "stage_request deps dr ctx inp wallet display w1 = (r, w')" by (simp add: meter_and_stage_def)
    show ?thesis
    proof (cases rule: stage_request_cases [of deps dr ctx inp wallet display w1])
      case (staged w'' body)
      with run fr filed_cong show ?thesis by auto
    next
      case (threw e)
      with run fr show ?thesis by auto
    qed
  qed
qed

lemma filing_cases:
  assumes "service_requests_POST deps cs dr req w = (r, w')"
  obtains (thrown) e where "r = Inl e" "serviceRequests (rt_db w') = serviceRequests (rt_db w)"
  | (refused) resp where "r = Inr resp" "400 \<le> res_status resp" "rt_db w' = rt_db w"
  | (staged) resp ctx inp wallet display where "r = Inr resp" "res_status resp = 201" "requireUser cs = Inr ctx"
      "Option.bind (req_body req) ServiceRequestInput = Some inp" "serviceable deps wallet"
      "filed dr ctx inp wallet display (rt_db w) (rt_db w')" "resolve_recipient (rp_ens deps) inp = Inr (wallet, display)"
proof (cases rule: service_requests_POST_cases [of w cs req deps dr])
  case (tail w1 ctx body inp wallet display)
  with assms have run: "meter_and_stage deps dr ctx inp wallet display w1 = (r, w')" by simp
  show thesis
  proof (cases r)
    case (Inl e)
    with meter_and_stage_outcome [OF run] tail(1) show thesis by (intro thrown) simp_all
  next
    case (Inr resp)
    with meter_and_stage_outcome [OF run]
    consider "res_status resp = 201" "filed dr ctx inp wallet display (rt_db w1) (rt_db w')"
      | "400 \<le> res_status resp" "rt_db w' = rt_db w1" by auto
    then show thesis
    proof cases
      case 1
      with Inr tail(1-5,7) show thesis by (intro staged [of resp ctx inp wallet display]) simp_all
    next
      case 2
      with Inr tail(1) show thesis by (intro refused) simp_all
    qed
  qed
next
  case (refused resp w1)
  with assms that(2) show thesis by auto
qed

text \<open>C12. What filing does. A POST that answers 201 has staged exactly one new request, owned by the user
  of the verified session and addressed to an EVM address or an on-curve Solana key, with the caption of
  the validated body; the other requests are untouched. It has no notice token, no document hash, and no
  audit row was written. Any other answer leaves the database as it was, so bad input never consumes
  quota; and a call that throws has staged nothing.\<close>

theorem filing_outcome:
  assumes "service_requests_POST deps cs dr req w = (r, w')"
  shows "case r of
      Inl e \<Rightarrow> serviceRequests (rt_db w') = serviceRequests (rt_db w)
    | Inr resp \<Rightarrow>
        (if res_status resp = 201 then
           (\<exists>ctx inp wallet display. requireUser cs = Inr ctx \<and>
              Option.bind (req_body req) ServiceRequestInput = Some inp \<and>
              resolve_recipient (rp_ens deps) inp = Inr (wallet, display) \<and> serviceable deps wallet \<and> filed dr ctx inp wallet display (rt_db w) (rt_db w'))
         else rt_db w' = rt_db w)"
  using assms by (cases rule: filing_cases) auto

definition filer :: "string option \<Rightarrow> clerk_session" where
  "filer org = \<lparr>cs_userId = Some ''user_1'', cs_orgId = org, cs_has_role = (\<lambda>_. False)\<rparr>"

definition sample_wallet :: string where "sample_wallet = ''0x'' @ replicate 40 (CHR ''a'')"

definition sample_filing :: request where
  "sample_filing =
     \<lparr>req_headers = [], req_origin = ''https://eps'', req_query = [],
      req_body = Some (JObj
        [(''caseCaption'', JStr ''A v. B''), (''plaintiffName'', JStr ''A''), (''defendantName'', JStr ''B''),
         (''recipientWallet'', JStr sample_wallet), (''attested'', JBool True)]), req_text = []\<rparr>"

definition route_world :: "unit route_state" where
  "route_world = \<lparr>rt_buckets = [], rt_db = sample_db 0, rt_hedera = ()\<rparr>"

definition route_sample :: "(nat \<Rightarrow> eps_error option) \<Rightarrow> route_draws" where
  "route_sample flt = \<lparr>rd_now = 5, rd_requestId = ''r2'', rd_faults = flt\<rparr>"

definition route_sdk :: "(unit, unit) route_deps" where
  "route_sdk =
     \<lparr>rp_sdk = memo_sdk,
      rp_ens = \<lparr>en_address = (\<lambda>_. Inr None), en_name = (\<lambda>_. Inr None), en_text = (\<lambda>_ _. Inr None)\<rparr>,
      rp_hedera = capped_sdk, rp_env = (\<lambda>_. None), rp_message = (\<lambda>_. []), rp_issues = (\<lambda>_. JNull)\<rparr>"

lemma sample_wallet_valid: "re_evm_address sample_wallet" "js_trim sample_wallet = sample_wallet" "\<not> looks_like_name sample_wallet"
  by (simp_all add: sample_wallet_def re_evm_address_def is_hex_def is_lower_hex_def code_unit_def list_all_iff
      js_trim_no_space is_space_def looks_like_name_def)

definition sample_input :: request_input where
  "sample_input =
     \<lparr>ri_caseCaption = ''A v. B'', ri_plaintiffName = ''A'', ri_defendantName = ''B'', ri_recipientWallet = sample_wallet,
      ri_recipientEnsName = None, ri_recipientResolvedAddress = None, ri_courtOrderFlag = False\<rparr>"

lemma sample_trims: "js_trim ''A v. B'' = ''A v. B''" "js_trim ''A'' = ''A''" "js_trim ''B'' = ''B''"
  by (simp_all add: js_trim_def is_space_def code_unit_def)

lemma sample_filing_parses: "Option.bind (req_body sample_filing) ServiceRequestInput = Some sample_input"
  by (simp add: sample_filing_def ServiceRequestInput_def z_text_def sample_trims sample_wallet_valid z_nullish_def z_flag_def
      sample_input_def) (simp add: sample_wallet_def)

lemma sample_anchor:
  "anchorOnHedera capped_sdk (\<lambda>_. None) now fault i payload w = (Inr (), w)"
  by (simp add: anchorOnHedera_def recordOnHedera_def submitToHCS_def mintProofNFT_def settle_def catch_def andThen_def
      rt_on_hedera_def ret_def)

definition sample_staged :: response where
  "sample_staged = json_response 201 (JObj [(''id'', JStr ''r2''), (''status'', JStr ''STAGED'')])"

lemma sample_POST:
  assumes "Option.bind (req_body req) ServiceRequestInput = Some inp"
    and "resolve_recipient (rp_ens route_sdk) inp = Inr (sample_wallet, display)"
  shows "service_requests_POST route_sdk (filer None) (route_sample (\<lambda>_. None)) req route_world =
     (Inr sample_staged, snd (service_requests_POST route_sdk (filer None) (route_sample (\<lambda>_. None)) req route_world))"
proof -
  obtain body where b: "req_body req = Some body" "ServiceRequestInput body = Some inp"
    using assms(1) by (cases "req_body req") simp_all
  show ?thesis
    using assms(2)
    by (simp add: service_requests_POST_def andThen_def rt_limit_def api_rateLimit_def ret_def b
        requireUser_def filer_def check_recipient_def sample_wallet_valid meter_and_stage_def
        consume_quota_def stage_request_def rt_on_db_def faulty_def file_row_def sr_create_def filed_row_def token_taken_def
        sample_input_def route_sdk_def route_sample_def route_world_def sample_anchor status_text_def sample_defs sr_find_def
        jm_set_def Let_def sample_staged_def)
qed

lemma sample_resolves: "resolve_recipient ens sample_input = Inr (sample_wallet, None)"
  by (simp add: resolve_recipient_def sample_input_def sample_wallet_valid)

theorem filing_outcome_witness:
  "\<exists>inp wallet display. filed (route_sample (\<lambda>_. None)) \<lparr>uc_userId = ''user_1'', uc_orgId = None\<rparr> inp wallet display (sample_db 0)
     (rt_db (snd (service_requests_POST route_sdk (filer None) (route_sample (\<lambda>_. None)) sample_filing route_world)))"
  using filing_outcome [OF sample_POST [OF sample_filing_parses sample_resolves]]
  by (auto simp: route_world_def requireUser_def filer_def sample_staged_def)

text \<open>The wallet the client claims the name has.\<close>

definition claimed_wallet :: "request_input \<Rightarrow> string option" where
  "claimed_wallet inp = map_option js_trim (ri_recipientResolvedAddress inp)"

lemma resolve_recipient_Inr:
  assumes "resolve_recipient ens inp = Inr (wallet, display)"
  shows "wallet =
     (if looks_like_name (ri_recipientWallet inp) then
        (if truthy (er_address (resolveENS ens (ri_recipientWallet inp)))
         then the (er_address (resolveENS ens (ri_recipientWallet inp)))
         else if truthy (claimed_wallet inp) \<and> re_evm_address (the (claimed_wallet inp)) then the (claimed_wallet inp)
         else ri_recipientWallet inp)
      else ri_recipientWallet inp)"
  using assms by (auto simp: resolve_recipient_def Let_def claimed_wallet_def split: if_splits)

text \<open>C15. Whom a filed request serves, and under which name. The wallet is the one the server finds for a name; where
  it finds none, also because the name has none, it is any EVM address the client claims for the name; otherwise it is
  what was entered. The name shown for it is the one the client sent, which nothing compares with the wallet.\<close>

theorem filed_recipient:
  assumes "service_requests_POST deps cs dr req w = (Inr resp, w')" "res_status resp = 201"
  shows "\<exists>inp row. Option.bind (req_body req) ServiceRequestInput = Some inp \<and>
    sr_find (rd_requestId dr) (rt_db w') = Some row \<and>
    recipientWallet row =
     (if looks_like_name (ri_recipientWallet inp) then
        (if truthy (er_address (resolveENS (rp_ens deps) (ri_recipientWallet inp)))
         then the (er_address (resolveENS (rp_ens deps) (ri_recipientWallet inp)))
         else if truthy (claimed_wallet inp) \<and> re_evm_address (the (claimed_wallet inp)) then the (claimed_wallet inp)
         else ri_recipientWallet inp)
      else ri_recipientWallet inp) \<and>
    (\<forall>n. ri_recipientEnsName inp = Some n \<longrightarrow> recipientEnsName row = Some n)"
  using assms(1)
proof (cases rule: filing_cases)
  case (staged resp' ctx inp wallet display)
  then show ?thesis using resolve_recipient_Inr [OF staged(7)] by (auto simp: filed_def)
qed (use assms(2) in auto)

text \<open>A name that does not resolve, filed with the address of somebody else.\<close>

definition sample_claim :: request where
  "sample_claim =
     \<lparr>req_headers = [], req_origin = ''https://eps'', req_query = [],
      req_body = Some (JObj
        [(''caseCaption'', JStr ''A v. B''), (''plaintiffName'', JStr ''A''), (''defendantName'', JStr ''B''),
         (''recipientWallet'', JStr ''b.eth''), (''recipientEnsName'', JStr ''b.eth''),
         (''recipientResolvedAddress'', JStr sample_wallet), (''attested'', JBool True)]), req_text = []\<rparr>"

lemma filed_recipient_witness:
  "\<exists>row. sr_find ''r2'' (rt_db (snd (service_requests_POST route_sdk (filer None) (route_sample (\<lambda>_. None)) sample_claim route_world)))
      = Some row \<and> recipientWallet row = sample_wallet \<and> recipientEnsName row = Some ''b.eth''"
proof -
  let ?inp = "sample_input\<lparr>ri_recipientWallet := ''b.eth'', ri_recipientEnsName := Some ''b.eth'',
      ri_recipientResolvedAddress := Some sample_wallet\<rparr>"
  have name: "js_trim ''b.eth'' = ''b.eth''" "looks_like_name ''b.eth''"
    by (simp_all add: js_trim_def is_space_def code_unit_def looks_like_name_def re_digits_dots_def is_digit_def)
  have parse: "Option.bind (req_body sample_claim) ServiceRequestInput = Some ?inp"
    by (simp add: sample_claim_def ServiceRequestInput_def z_text_def sample_trims sample_wallet_valid z_nullish_def z_flag_def
        sample_input_def name)
  have none: "er_address (resolveENS (rp_ens route_sdk) ''b.eth'') = None"
    by (simp add: resolveENS_def name route_sdk_def or_null_def re_evm_address_def)
  have long: "sample_wallet \<noteq> []" by (simp add: sample_wallet_def)
  have "resolve_recipient (rp_ens route_sdk) ?inp = Inr (sample_wallet, Some ''b.eth'')"
    by (simp add: resolve_recipient_def Let_def name none sample_wallet_valid truthy_iff long)
  from filed_recipient [OF sample_POST [OF parse this]] parse none name sample_wallet_valid long show ?thesis
    by (auto simp: sample_staged_def route_sample_def claimed_wallet_def truthy_iff)
qed

text \<open>The route meters outside any transaction: when the quota unit of an organization was consumed and
  the insertion of the request then fails, the call throws, nothing is staged, and the unit stays consumed.\<close>

theorem filing_burns_quota:
  assumes "uc_orgId ctx = Some org" "org \<noteq> []" "rd_faults dr 0 = None"
    and "checkAndDecrementQuota (rd_now dr) org (rt_db w) = (Inr q, d)" "rd_faults dr 1 = Some e"
  shows "meter_and_stage deps dr ctx inp wallet display w = (Inl e, w\<lparr>rt_db := d\<rparr>) \<and>
    serviceRequests d = serviceRequests (rt_db w)"
  using assms checkAndDecrementQuota_frames(1) [OF assms(4)]
  by (simp add: meter_and_stage_def consume_quota_def rt_on_db_def andThen_def faulty_def throw_def ret_def
      stage_request_def Let_def)

theorem filing_burns_quota_witness:
  "meter_and_stage route_sdk (route_sample ((\<lambda>_. None)(1 := Some P2002))) \<lparr>uc_userId = ''user_1'', uc_orgId = Some ''org_1''\<rparr>
     \<lparr>ri_caseCaption = ''A v. B'', ri_plaintiffName = ''A'', ri_defendantName = ''B'', ri_recipientWallet = ''w'',
      ri_recipientEnsName = None, ri_recipientResolvedAddress = None, ri_courtOrderFlag = False\<rparr> ''w'' None route_world =
   (Inl P2002, route_world\<lparr>rt_db := sample_db 1\<rparr>)"
  by (rule filing_burns_quota [where org = "''org_1''" and q = "\<lparr>qr_usageCount = 1, qr_limit = Own 1\<rparr>", THEN conjunct1])
     (simp_all add: route_sample_def route_world_def sample_intake_quota)

lemma service_GET_outcome:
  assumes "service_request_GET cs now req i w = (Inr resp, w')"
  shows "rt_db w' = rt_db w \<and>
    ((\<exists>rl. resp = too_many rl) \<or> (\<exists>m. requireAuth cs = Inl (UnauthorizedError m) \<and> resp = error_response 401 m) \<or>
     (\<exists>ctx. requireAuth cs = Inr ctx \<and>
        (service_of_org i (ac_orgId ctx) (rt_db w) = None \<and> resp = error_response 404 ''Service request not found'' \<or>
         (\<exists>r. service_of_org i (ac_orgId ctx) (rt_db w) = Some r \<and>
            resp = json_response 200 (service_json r (na_find (sr_id r) (rt_db w)) (cp_find (sr_id r) (rt_db w)))))))"
proof -
  obtain rl w1 where l: "rt_limit (''service-request:'' @ clientKey req) READ_LIMIT now w = (Inr rl, w1)"
      and db: "rt_db w1 = rt_db w"
    using rt_limit_db by (metis prod.collapse)
  show ?thesis
  proof (cases "requireAuth cs")
    case (Inl e)
    with requireAuth_unauthorized obtain m where "e = UnauthorizedError m" by blast
    with Inl assms db show ?thesis
      by (auto simp: service_request_GET_def andThen_def l [simplified] ret_def split: if_splits)
  next
    case (Inr ctx)
    with assms db show ?thesis
      by (cases "service_of_org i (ac_orgId ctx) (rt_db w)")
        (auto simp: service_request_GET_def andThen_def l [simplified] ret_def split: if_splits)
  qed
qed

lemma service_of_org_Some:
  "service_of_org i clerk d = Some r \<Longrightarrow> r \<in> set (serviceRequests d) \<and> sr_id r = i \<and> owned_by clerk d r"
  by (auto simp: service_of_org_def find_Some_iff)

lemma service_of_org_None:
  "service_of_org i clerk d = None \<longleftrightarrow> (\<forall>r\<in>set (serviceRequests d). sr_id r = i \<longrightarrow> \<not> owned_by clerk d r)"
  by (auto simp: service_of_org_def find_None_iff)

lemma service_GET_returns: "\<exists>resp. fst (service_request_GET cs now req i w) = Inr resp"
proof -
  obtain rl w1 where l: "rt_limit (''service-request:'' @ clientKey req) READ_LIMIT now w = (Inr rl, w1)"
    using rt_limit_db by (metis prod.collapse)
  show ?thesis
  proof (cases "requireAuth cs")
    case (Inl e)
    with requireAuth_unauthorized obtain m where "e = UnauthorizedError m" by blast
    with Inl show ?thesis by (simp add: service_request_GET_def andThen_def l [simplified] ret_def)
  next
    case (Inr ctx)
    then show ?thesis
      by (cases "service_of_org i (ac_orgId ctx) (rt_db w1)")
        (simp_all add: service_request_GET_def andThen_def l [simplified] ret_def)
  qed
qed

text \<open>C14. One organization never reads another's filing: a GET that answers 200 returns a request of the
  caller's active organization with the id asked for; and for an id of another organization the answer is
  the same as for an id that does not exist, and no database row changes.\<close>

theorem read_is_scoped:
  assumes "service_request_GET cs now req i w = (Inr resp, w')"
  shows "rt_db w' = rt_db w \<and>
    (res_status resp = 200 \<longrightarrow>
       (\<exists>ctx r. requireAuth cs = Inr ctx \<and> r \<in> set (serviceRequests (rt_db w)) \<and> sr_id r = i \<and>
          owned_by (ac_orgId ctx) (rt_db w) r \<and>
          res_body resp = service_json r (na_find i (rt_db w)) (cp_find i (rt_db w)))) \<and>
    (\<forall>ctx. requireAuth cs = Inr ctx \<longrightarrow>
       (\<forall>r\<in>set (serviceRequests (rt_db w)). sr_id r = i \<longrightarrow> \<not> owned_by (ac_orgId ctx) (rt_db w) r) \<longrightarrow>
       res_status resp = 429 \<or> resp = error_response 404 ''Service request not found'')"
  using service_GET_outcome [OF assms]
  by (elim conjE disjE exE) (auto simp: rejections service_of_org_None dest!: service_of_org_Some)

text \<open>C17. Only a checked document is stored: when an upload adds an object, the file is at most 25 MB, its
  declared type is on the whitelist, its bytes sniff to a signature allowed for that type, the answer is 200,
  and one private object was added, whose content is the encryption of the bytes.\<close>

theorem upload_stores_checked:
  assumes "upload_POST sniff cr env have_client inp form objs = (r, objs')" "objs' \<noteq> objs"
  shows "\<exists>f allowed mime ext key resp. form = File_Part f \<and> uf_size f \<le> MAX_UPLOAD_BYTES \<and>
    map_of ALLOWED_MIME (uf_type f) = Some allowed \<and> sniff (uf_bytes f) = Some (mime, ext) \<and> mime \<in> set allowed \<and>
    loadKey env = Inr key \<and> r = Inr resp \<and> res_status resp = 200 \<and>
    objs' = objs @ [\<lparr>po_bucket = storage_bucket env, po_key = ''documents/'' @ si_uuid inp,
                     po_body = fst (cr_encrypt cr key (si_iv inp) (uf_bytes f)), po_acl = None\<rparr>]"
  using assms
  by (auto simp: upload_POST_def store_upload_def storeDocument_def andThen_def ret_def throw_def faulty_def Let_def
      js_object_get_Own_iff
      split: upload_form.splits if_splits js_lookup.splits option.splits prod.splits sum.splits)

theorem upload_stores_checked_witness:
  "\<exists>allowed mime. map_of ALLOWED_MIME ''application/pdf'' = Some allowed \<and> mime \<in> set allowed"
proof -
  let ?f = "\<lparr>uf_type = ''application/pdf'', uf_size = 2, uf_bytes = [3, 4]\<rparr>"
  have "upload_POST (\<lambda>_. Some (''application/pdf'', ''pdf'')) xor_crypto sample_env False sample_storage (File_Part ?f) [] =
      (fst (store_upload xor_crypto sample_env False sample_storage ?f ''pdf'' []), [sample_object])"
    by (simp add: upload_POST_def js_object_get_def ALLOWED_MIME_def MAX_UPLOAD_BYTES_def store_upload_def andThen_def
        sample_store ret_def)
  from upload_stores_checked [OF this] show ?thesis by auto
qed

theorem read_is_scoped_witness:
  "rt_db (snd (service_request_GET (filer (Some ''org_2'')) 0 sample_filing ''r1'' route_world)) = sample_db 0"
proof -
  have "service_request_GET (filer (Some ''org_2'')) 0 sample_filing ''r1'' route_world =
      (Inr (error_response 404 ''Service request not found''),
       snd (service_request_GET (filer (Some ''org_2'')) 0 sample_filing ''r1'' route_world))"
    by (simp add: service_request_GET_def andThen_def rt_limit_def api_rateLimit_def ret_def requireAuth_def filer_def
        service_of_org_def owned_by_def route_world_def sample_defs)
  from read_is_scoped [OF this] show ?thesis by (simp add: route_world_def)
qed

end
