(* ===== verification/Hedera_Routes.thy ===== *)
theory Hedera_Routes
  imports ENS Hedera
begin

text \<open>
  The routes that show the Hedera side of the system: app/api/hedera/run-proof, app/api/hedera/status and
  app/api/hedera/update-token, the agent card app/api/agent, and the metadata and the picture of the proof
  token, app/api/nft/meta and app/api/nft/image; also the probe of the agent kit package
  (lib/hedera/HederaAgentKit.ts). The network is the state of \<open>hedera_sdk\<close>; the em dash of a literal is
  written as its three UTF-8 bytes.
\<close>

definition em_dash :: string where "em_dash = map char_of [226::nat, 128, 148]"

subsection \<open>HederaAgentKit.ts\<close>

text \<open>What an import of the package gives: for the two modules, whether they load and whether they
  export what the code looks for. An import that fails is caught.\<close>

record agent_kit =
  ak_core :: "bool option"     \<comment> \<open>\<open>typeof HederaAgentAPI === "function"\<close> of a module that loads\<close>
  ak_plugins :: "bool option"  \<comment> \<open>\<open>coreTokenPlugin\<close> is truthy\<close>

definition verifyAgentKitAvailable :: "agent_kit \<Rightarrow> bool" where
  "verifyAgentKitAvailable k =
     (case (ak_core k, ak_plugins k) of
        (Some api, Some plugin) \<Rightarrow> api \<and> plugin
      | _ \<Rightarrow> False)"

subsection \<open>app/api/hedera/status\<close>

definition mask_part :: "string \<Rightarrow> string" where
  "mask_part s =
     (if length s \<le> 2 then ''**'' else replicate (length s - 2) (CHR ''*'') @ slice_last 2 s)"

definition maskOperatorId :: "string \<Rightarrow> string" where
  "maskOperatorId i =
     (let parts = split_on (CHR ''.'') i
      in join_with ''.'' (butlast parts @ [mask_part (last parts)]))"

definition missing_vars :: "env \<Rightarrow> string list \<Rightarrow> string list" where
  "missing_vars env names = filter (\<lambda>v. \<not> truthy (env v)) names"

definition status_GET :: "agent_kit \<Rightarrow> env \<Rightarrow> date \<Rightarrow> response" where
  "status_GET kit env now =
     (let missing = missing_vars env [''HEDERA_OPERATOR_ID'', ''HEDERA_OPERATOR_KEY'', ''HEDERA_HCS_TOPIC_ID''];
          agentKitAvailable = verifyAgentKitAvailable kit
      in if missing \<noteq> [] then
           json_response 200 (JObj [(''connected'', JBool False), (''error'', JStr ''missing env vars''),
             (''missing'', JArr (map JStr missing)), (''agentKitAvailable'', JBool agentKitAvailable)])
         else
           json_response 200 (JObj [(''network'', JStr (network_name env)),
             (''topicId'', json_of_str (env ''HEDERA_HCS_TOPIC_ID'')),
             (''operatorId'', JStr (maskOperatorId (the (env ''HEDERA_OPERATOR_ID'')))),
             (''connected'', JBool True), (''agentKitAvailable'', JBool agentKitAvailable),
             (''timestamp'', JStr (toISOString now))]))"

subsection \<open>app/api/hedera/run-proof\<close>

definition BOUNTY_TOKEN :: string where "BOUNTY_TOKEN = ''eps-bounty-2026''"

definition PROOF_ENS :: string where "PROOF_ENS = ''youhavebeenserved.eth''"

definition hedera_not_configured :: "string list \<Rightarrow> response" where
  "hedera_not_configured missing =
     json_response 503 (JObj [(''error'', JStr ''Hedera not configured''), (''missing'', JArr (map JStr missing))])"

text \<open>The transaction id and the sequence number of a message on the topic.\<close>

definition submit_message :: "'h hedera_sdk \<Rightarrow> env \<Rightarrow> string \<Rightarrow> ('h, string \<times> int) act" where
  "submit_message sdk env message =
     andThen (hs_submit sdk (on_mainnet env) (the (env ''HEDERA_OPERATOR_ID'')) (the (env ''HEDERA_HCS_TOPIC_ID'')) message)
       (\<lambda>receipt. ret (hr_transactionId receipt,
          case hr_sequenceNumber receipt of None \<Rightarrow> 0 | Some n \<Rightarrow> n))"

text \<open>The mint is best effort: its error is text for the response.\<close>

definition mint_or_error ::
  "'h hedera_sdk \<Rightarrow> (eps_error \<Rightarrow> string) \<Rightarrow> env \<Rightarrow> int \<Rightarrow> ('h, proof_nft_result option \<times> string option) act" where
  "mint_or_error sdk message env seq =
     catch (andThen (mintAndTransferProofNFT sdk env (env ''HEDERA_HCS_TOPIC_ID'') (Some seq)) (\<lambda>nft. ret (nft, None)))
       (\<lambda>e. ret (None, Some (message e)))"

definition bounty_message :: "date \<Rightarrow> string" where
  "bounty_message now =
     json_stringify (JObj [(''app'', JStr ''EPS''), (''event'', JStr ''bounty-proof''), (''ens'', JStr PROOF_ENS),
       (''timestamp'', JStr (toISOString now))])"

definition nft_text :: "(proof_nft_result \<Rightarrow> string) \<Rightarrow> proof_nft_result option \<Rightarrow> json" where
  "nft_text f nft = json_of_str (map_option f nft)"

definition nft_serial :: "proof_nft_result option \<Rightarrow> json" where
  "nft_serial nft = (case nft of None \<Rightarrow> JNull | Some n \<Rightarrow> JNum (pn_serial n))"

definition run_proof_POST ::
  "'h hedera_sdk \<Rightarrow> (eps_error \<Rightarrow> string) \<Rightarrow> (eps_error \<Rightarrow> string) \<Rightarrow> env \<Rightarrow> date \<Rightarrow> request \<Rightarrow> ('h, response) act" where
  "run_proof_POST sdk message shown env now req =
     (if query_get req ''token'' \<noteq> Some BOUNTY_TOKEN then ret (error_response 401 ''unauthorized'')
      else
        (let missing = missing_vars env [''HEDERA_OPERATOR_ID'', ''HEDERA_OPERATOR_KEY'', ''HEDERA_HCS_TOPIC_ID'']
         in if missing \<noteq> [] then ret (hedera_not_configured missing)
            else if \<not> hs_key_parses sdk (the (env ''HEDERA_OPERATOR_KEY'')) then throw (PlainError ''invalid private key'')
            else (\<lambda>h.
              case submit_message sdk env (bounty_message now) h of
                (Inl e, h1) \<Rightarrow>
                  ret (json_response 502 (JObj
                    [(''error'', JStr ''HCS submit failed''), (''detail'', JStr (shown e))])) h1
              | (Inr (txId, seq), h1) \<Rightarrow>
                  andThen (mint_or_error sdk message env seq) (\<lambda>(nft, mintError).
                  ret (json_response 200 (JObj
                    [(''hcsTxId'', JStr txId), (''hcsSequenceNumber'', JNum seq),
                     (''nftTokenId'', nft_text pn_tokenId nft), (''nftSerial'', nft_serial nft),
                     (''nftTransferTx'', nft_text pn_transferTx nft), (''mintError'', json_of_str mintError),
                     (''timestamp'', JStr (toISOString now))]))) h1)))"

subsection \<open>app/api/hedera/update-token\<close>

text \<open>The token update is a call of its own on the network; it answers the status of the receipt and the
  id of the transaction.\<close>

definition NEW_NAME :: string where "NEW_NAME = ''EPS Proof of Service''"

definition NEW_SYMBOL :: string where "NEW_SYMBOL = ''EPS-POS''"

definition NEW_MEMO :: string where
  "NEW_MEMO = ''Blockchain proof-of-service NFT '' @ em_dash @ '' E-Process Server (EPS)''"

definition update_token_POST ::
  "'h hedera_sdk \<Rightarrow> (bool \<Rightarrow> string \<Rightarrow> string \<Rightarrow> string \<Rightarrow> string \<Rightarrow> string \<Rightarrow> ('h, string \<times> string) act) \<Rightarrow>
   (eps_error \<Rightarrow> string) \<Rightarrow> env \<Rightarrow> request \<Rightarrow> ('h, response) act" where
  "update_token_POST sdk update shown env req =
     (if query_get req ''token'' \<noteq> Some BOUNTY_TOKEN then ret (error_response 401 ''unauthorized'')
      else
        (let missing = missing_vars env [''HEDERA_OPERATOR_ID'', ''HEDERA_OPERATOR_KEY'', ''HEDERA_NFT_TOKEN_ID''];
             tokenId = the (env ''HEDERA_NFT_TOKEN_ID'')
         in if missing \<noteq> [] then ret (hedera_not_configured missing)
            else if \<not> hs_key_parses sdk (the (env ''HEDERA_OPERATOR_KEY'')) then throw (PlainError ''invalid private key'')
            else catch
              (andThen (update (on_mainnet env) (the (env ''HEDERA_OPERATOR_ID'')) tokenId NEW_NAME NEW_SYMBOL NEW_MEMO)
                 (\<lambda>(status, txId). ret (json_response 200 (JObj
                    [(''status'', JStr status), (''tokenId'', JStr tokenId), (''transactionId'', JStr txId),
                     (''newName'', JStr NEW_NAME), (''newSymbol'', JStr NEW_SYMBOL)]))))
              (\<lambda>e. ret (json_response 502 (JObj
                 [(''error'', JStr ''TokenUpdate failed''), (''detail'', JStr (shown e))])))))"

subsection \<open>app/api/agent\<close>

definition agent_card_GET :: "ens_sdk \<Rightarrow> env \<Rightarrow> response" where
  "agent_card_GET ens env =
     (let agentENSName = getAgentENSName ens env;
          did =
            (if truthy agentENSName then
               (let onChainDid = getAgentTextRecord ens (the agentENSName) ''agent.did''
                in if truthy onChainDid then onChainDid else Some (''did:ens:'' @ the agentENSName))
             else None)
      in json_response 200 (JObj
           [(''name'', JStr (''EPS '' @ em_dash @ '' E-Process Server'')),
            (''description'', JStr (''AI-powered legal process server. Facilitates service of process and generates '' @
               ''court-ready proof of delivery anchored on Hedera HCS, with an ENS agent identity.'')),
            (''ens'', json_of_str agentENSName), (''address'', json_of_str (env ''EVM_APP_WALLET_ADDRESS'')),
            (''did'', json_of_str did), (''category'', JStr ''legal''), (''version'', JStr ''1.0.0''),
            (''capabilities'', JArr (map JStr [''service-of-process'', ''proof-of-delivery'', ''hedera-hcs-anchor'', ''hts-nft-receipt''])),
            (''proofRails'', JObj
               [(''ens'', JObj [(''ensip25'', JBool True), (''ensip26'', JBool True)]),
                (''hedera'', JObj [(''hcsTopicId'', json_of_str (env ''HEDERA_HCS_TOPIC_ID'')),
                   (''htsTokenId'', json_of_str (env ''HEDERA_NFT_TOKEN_ID''))])]),
            (''endpoints'', JObj
               [(''resolve'', JStr ''/api/ens/resolve''), (''agentIdentity'', JStr ''/api/ens/agent''),
                (''hederaStatus'', JStr ''/api/hedera/status'')])]))"

subsection \<open>app/api/nft/meta\<close>

definition uri_unreserved :: "char \<Rightarrow> bool" where
  "uri_unreserved c =
     (let n = code_unit c
      in is_digit c \<or> 65 \<le> n \<and> n \<le> 90 \<or> 97 \<le> n \<and> n \<le> 122 \<or> n \<in> {33, 39, 40, 41, 42, 45, 46, 95, 126})"

definition upper_hex :: "nat \<Rightarrow> char" where
  "upper_hex n = char_of (if n < 10 then 48 + n else 55 + n)"

definition percent :: "byte \<Rightarrow> string" where
  "percent b = [CHR ''%'', upper_hex (unat b div 16), upper_hex (unat b mod 16)]"

definition encodeURIComponent :: "string \<Rightarrow> string" where
  "encodeURIComponent s = concat (map (\<lambda>c. if uri_unreserved c then [c] else concat (map percent (utf8_char c))) s)"

definition query_or :: "request \<Rightarrow> string \<Rightarrow> string \<Rightarrow> string" where
  "query_or req name dflt = (case query_get req name of None \<Rightarrow> dflt | Some v \<Rightarrow> v)"

definition trait :: "string \<Rightarrow> string \<Rightarrow> json" where
  "trait t v = JObj [(''trait_type'', JStr t), (''value'', JStr v)]"

definition nft_meta_GET :: "request \<Rightarrow> response" where
  "nft_meta_GET req =
     (let topic = query_or req ''topic'' ''0.0.9225885'';
          seq = query_or req ''seq'' ''0'';
          base = ''https://eps-dapp.vercel.app''
      in \<lparr>res_status = 200,
          res_body = JObj
            [(''name'', JStr (''EPS Proof of Service '' @ em_dash @ '' HCS #'' @ seq)),
             (''description'', JStr (''Blockchain proof of service of process anchored on Hedera Consensus Service. Topic '' @
                topic @ '', sequence #'' @ seq @ ''. Delivered by youhavebeenserved.eth '' @ em_dash @
                '' ENSIP-25 compliant AI process server agent.'')),
             (''image'', JStr (base @ ''/api/nft/image?topic='' @ encodeURIComponent topic @ ''&seq='' @ seq)),
             (''external_url'', JStr (''https://hashscan.io/testnet/topic/'' @ topic)),
             (''attributes'', JArr
                [trait ''App'' (''EPS '' @ em_dash @ '' E-Process Server''), trait ''HCS Topic'' topic,
                 trait ''HCS Sequence'' seq, trait ''Agent ENS'' ''youhavebeenserved.eth'',
                 trait ''Agent Address'' ''0xd116A147A95f406a4A4F589c44d588cfE58ef6E0'',
                 trait ''Standard'' ''ENSIP-25 / ENSIP-26'', trait ''Network'' ''Hedera Testnet'',
                 trait ''Type'' ''Proof of Service NFT''])],
          res_headers = [(''cache-control'', ''public, max-age=3600'')]\<rparr>)"

subsection \<open>app/api/nft/image\<close>

text \<open>\<open>s.replace(/c/g, t)\<close> for one character \<open>c\<close>, and the four replacements in the order of the code.\<close>

definition replace_all :: "char \<Rightarrow> string \<Rightarrow> string \<Rightarrow> string" where
  "replace_all c t s = concat (map (\<lambda>x. if x = c then t else [x]) s)"

definition esc :: "string \<Rightarrow> string" where
  "esc s = replace_all (CHR 0x22) ''&quot;'' (replace_all (CHR ''>'') ''&gt;''
     (replace_all (CHR ''<'') ''&lt;'' (replace_all (CHR ''&'') ''&amp;'' s)))"

definition svg_head :: string where
  "svg_head = concat
     [''<svg xmlns=\"http://www.w3.org/2000/svg\" width=\"400\" height=\"400\" viewBox=\"0 0 400 400\">'',
      ''<defs>'',
      ''<linearGradient id=\"bg\" x1=\"0\" y1=\"0\" x2=\"0\" y2=\"1\">'',
      ''<stop offset=\"0\" stop-color=\"#0a0e1a\"/>'',
      ''<stop offset=\"1\" stop-color=\"#0d1526\"/>'',
      ''</linearGradient>'',
      ''</defs>'',
      ''<rect x=\"0\" y=\"0\" width=\"400\" height=\"400\" rx=\"16\" fill=\"url(#bg)\"/>'',
      ''<rect x=\"10\" y=\"10\" width=\"380\" height=\"380\" rx=\"12\" fill=\"none\" stroke=\"#f59e0b\" stroke-width=\"2\" opacity=\"0.6\"/>'',
      ''<rect x=\"18\" y=\"18\" width=\"364\" height=\"364\" rx=\"10\" fill=\"none\" stroke=\"#f59e0b\" stroke-width=\"1\" opacity=\"0.3\"/>'',
      ''<g transform=\"translate(174,38)\">'',
      ''<rect x=\"0\" y=\"0\" width=\"8\" height=\"28\" rx=\"2\" fill=\"#8b5cf6\"/>'',
      ''<rect x=\"18\" y=\"0\" width=\"8\" height=\"28\" rx=\"2\" fill=\"#8b5cf6\"/>'',
      ''<rect x=\"0\" y=\"10\" width=\"26\" height=\"8\" rx=\"2\" fill=\"#8b5cf6\"/>'',
      ''</g>'',
      ''<text x=\"200\" y=\"84\" font-family=\"Arial, sans-serif\" font-size=\"9\" fill=\"#8b5cf6\" text-anchor=\"middle\" letter-spacing=\"4\">HEDERA TESTNET</text>'',
      ''<line x1=\"60\" y1=\"94\" x2=\"340\" y2=\"94\" stroke=\"#f59e0b\" stroke-width=\"1\" opacity=\"0.4\"/>'',
      ''<text x=\"200\" y=\"148\" font-family=\"Arial, sans-serif\" font-size=\"66\" font-weight=\"900\" fill=\"#f59e0b\" text-anchor=\"middle\">EPS</text>'',
      ''<text x=\"200\" y=\"172\" font-family=\"Arial, sans-serif\" font-size=\"11\" font-weight=\"700\" fill=\"#e2e8f0\" text-anchor=\"middle\" letter-spacing=\"3\">PROOF OF SERVICE</text>'',
      ''<line x1=\"60\" y1=\"183\" x2=\"340\" y2=\"183\" stroke=\"#f59e0b\" stroke-width=\"1\" opacity=\"0.4\"/>'',
      ''<circle cx=\"200\" cy=\"230\" r=\"36\" fill=\"none\" stroke=\"#f59e0b\" stroke-width=\"2\" opacity=\"0.5\"/>'',
      ''<circle cx=\"200\" cy=\"230\" r=\"30\" fill=\"none\" stroke=\"#f59e0b\" stroke-width=\"1\" opacity=\"0.25\"/>'',
      ''<path d=\"M186 230 L196 242 L216 218\" fill=\"none\" stroke=\"#f59e0b\" stroke-width=\"3\" stroke-linecap=\"round\" stroke-linejoin=\"round\"/>'',
      ''<text x=\"200\" y=\"292\" font-family=\"Arial, sans-serif\" font-size=\"9\" fill=\"#94a3b8\" text-anchor=\"middle\" letter-spacing=\"2\">HCS TOPIC</text>'',
      ''<text x=\"200\" y=\"310\" font-family=\"monospace\" font-size=\"12\" font-weight=\"700\" fill=\"#34d399\" text-anchor=\"middle\">'']"

definition svg_middle :: string where
  "svg_middle = concat
     [''</text>'',
      ''<text x=\"200\" y=\"326\" font-family=\"Arial, sans-serif\" font-size=\"9\" fill=\"#94a3b8\" text-anchor=\"middle\" letter-spacing=\"2\">SEQUENCE #'']"

definition svg_tail :: string where
  "svg_tail = concat
     [''</text>'',
      ''<line x1=\"60\" y1=\"330\" x2=\"340\" y2=\"330\" stroke=\"#f59e0b\" stroke-width=\"1\" opacity=\"0.4\"/>'',
      ''<text x=\"200\" y=\"350\" font-family=\"monospace\" font-size=\"9\" fill=\"#60a5fa\" text-anchor=\"middle\">youhavebeenserved.eth</text>'',
      ''<text x=\"200\" y=\"364\" font-family=\"Arial, sans-serif\" font-size=\"7.5\" fill=\"#64748b\" text-anchor=\"middle\" letter-spacing=\"1\">ENSIP-25 COMPLIANT AI PROCESS SERVER</text>'',
      ''<circle cx=\"167\" cy=\"378\" r=\"2\" fill=\"#f59e0b\"/>'',
      ''<circle cx=\"182\" cy=\"378\" r=\"2\" fill=\"#f59e0b\"/>'',
      ''<circle cx=\"200\" cy=\"378\" r=\"3\" fill=\"#f59e0b\"/>'',
      ''<circle cx=\"218\" cy=\"378\" r=\"2\" fill=\"#f59e0b\"/>'',
      ''<circle cx=\"233\" cy=\"378\" r=\"2\" fill=\"#f59e0b\"/>'',
      ''</svg>'']"

definition nft_image_GET :: "request \<Rightarrow> string \<times> (string \<times> string) list" where
  "nft_image_GET req =
     (svg_head @ esc (query_or req ''topic'' ''0.0.9225885'') @ svg_middle @ esc (query_or req ''seq'' ''0'') @ svg_tail,
      [(''content-type'', ''image/svg+xml''), (''cache-control'', ''public, max-age=86400'')])"

subsection \<open>What the routes promise\<close>

lemma missing_vars_Nil: "missing_vars env names = [] \<longleftrightarrow> (\<forall>v\<in>set names. truthy (env v))"
  by (auto simp: missing_vars_def filter_empty_conv)

lemma mint_or_error_Inr: "\<exists>x h'. mint_or_error sdk message env seq h = (Inr x, h')"
  by (simp add: mint_or_error_def catch_def andThen_def ret_def split: prod.split sum.split)

text \<open>Without the token in the query, nothing reaches the network.\<close>

lemma hedera_routes_without_token:
  assumes "query_get req ''token'' \<noteq> Some BOUNTY_TOKEN"
  shows "run_proof_POST sdk message shown env now req h = (Inr (error_response 401 ''unauthorized''), h)"
    "update_token_POST sdk update shown env req h = (Inr (error_response 401 ''unauthorized''), h)"
  using assms by (simp_all add: run_proof_POST_def update_token_POST_def ret_def)

text \<open>An anchored message is reported whatever becomes of the token.\<close>

lemma run_proof_keeps_anchor:
  assumes "query_get req ''token'' = Some BOUNTY_TOKEN" "hs_key_parses sdk (the (env ''HEDERA_OPERATOR_KEY''))"
    and "\<forall>v\<in>{''HEDERA_OPERATOR_ID'', ''HEDERA_OPERATOR_KEY'', ''HEDERA_HCS_TOPIC_ID''}. truthy (env v)"
    and "submit_message sdk env (bounty_message now) h = (Inr (txId, seq), h1)"
  shows "\<exists>resp h'. run_proof_POST sdk message shown env now req h = (Inr resp, h') \<and> res_status resp = 200 \<and>
    json_prop (res_body resp) ''hcsTxId'' = Some (JStr txId)"
proof -
  have "missing_vars env [''HEDERA_OPERATOR_ID'', ''HEDERA_OPERATOR_KEY'', ''HEDERA_HCS_TOPIC_ID''] = []"
    using assms(3) by (simp add: missing_vars_Nil)
  moreover obtain x h' where "mint_or_error sdk message env seq h1 = (Inr x, h')"
    using mint_or_error_Inr by metis
  ultimately show ?thesis
    using assms by (cases x) (simp add: run_proof_POST_def andThen_def ret_def)
qed

lemma length_mask_part: "length (mask_part s) = max 2 (length s)"
  by (auto simp: mask_part_def slice_last_def)

lemma mask_part_hides: "2 < length s \<Longrightarrow> take (length s - 2) (mask_part s) = replicate (length s - 2) (CHR ''*'')"
  by (simp add: mask_part_def)

subsection \<open>The picture cannot be changed by the query\<close>

definition esc_char :: "char \<Rightarrow> string" where
  "esc_char c =
     (if c = CHR ''&'' then ''&amp;'' else if c = CHR ''<'' then ''&lt;'' else if c = CHR ''>'' then ''&gt;''
      else if c = CHR 0x22 then ''&quot;'' else [c])"

lemma replace_all_append: "replace_all c t (s @ u) = replace_all c t s @ replace_all c t u"
  by (simp add: replace_all_def)

lemma esc_append: "esc (s @ u) = esc s @ esc u"
  by (simp add: esc_def replace_all_append)

lemma esc_one: "esc [c] = esc_char c"
  by (simp add: esc_def esc_char_def replace_all_def)

lemma esc_single_pass: "esc s = concat (map esc_char s)"
proof (induction s)
  case Nil
  then show ?case by (simp add: esc_def replace_all_def)
next
  case (Cons c s)
  with esc_append [of "[c]" s] show ?case by (simp add: esc_one)
qed

definition markup :: "char \<Rightarrow> bool" where
  "markup c = (c = CHR ''<'' \<or> c = CHR ''>'' \<or> c = CHR 0x22)"

lemma esc_char_no_markup: "c \<in> set (esc_char d) \<Longrightarrow> \<not> markup c"
  by (auto simp: esc_char_def markup_def split: if_splits)

lemma esc_no_markup: "c \<in> set (esc s) \<Longrightarrow> \<not> markup c"
  by (auto simp: esc_single_pass dest: esc_char_no_markup)

lemma filter_esc [simp]: "filter markup (esc s) = []"
  using esc_no_markup by (auto simp: filter_empty_conv)

lemma esc_inject: "esc s = esc t \<Longrightarrow> s = t"
  unfolding esc_single_pass
  by (rule concat_map_inject [of esc_char]) (auto simp: esc_char_def split: if_splits)

lemma free_split:
  assumes "xs @ d # ys = us @ d # vs" "d \<notin> set xs" "d \<notin> set us"
  shows "xs = us \<and> ys = vs"
  using assms
proof (induction xs arbitrary: us)
  case Nil
  then show ?case by (cases us) auto
next
  case (Cons x xs)
  then show ?case by (cases us) auto
qed

text \<open>C40. The query of the picture cannot inject markup: the tags and the quotes of the SVG are those of the
  template whatever the topic and the sequence are, and the picture still shows both exactly: two requests
  give the same picture only if their topics and their sequences are the same.\<close>

theorem nft_image_no_injection:
  "filter markup (fst (nft_image_GET req)) = filter markup (svg_head @ svg_middle @ svg_tail) \<and>
   (fst (nft_image_GET req) = fst (nft_image_GET req') \<longleftrightarrow>
      query_or req ''topic'' ''0.0.9225885'' = query_or req' ''topic'' ''0.0.9225885'' \<and>
      query_or req ''seq'' ''0'' = query_or req' ''seq'' ''0'')"
proof (intro conjI iffI)
  show "filter markup (fst (nft_image_GET req)) = filter markup (svg_head @ svg_middle @ svg_tail)"
    by (simp add: nft_image_GET_def)
next
  let ?lt = "CHR ''<''" and ?t = "\<lambda>req. esc (query_or req ''topic'' ''0.0.9225885'')"
    and ?s = "\<lambda>req. esc (query_or req ''seq'' ''0'')"
  obtain m where m: "svg_middle = ?lt # m" by (simp add: svg_middle_def)
  have free: "?lt \<notin> set (esc s)" for s using esc_no_markup [of ?lt s] by (auto simp: markup_def)
  assume "fst (nft_image_GET req) = fst (nft_image_GET req')"
  then have "?t req @ ?lt # (m @ ?s req @ svg_tail) = ?t req' @ ?lt # (m @ ?s req' @ svg_tail)"
    by (simp add: nft_image_GET_def m)
  then have "?t req = ?t req' \<and> m @ ?s req @ svg_tail = m @ ?s req' @ svg_tail"
    by (rule free_split) (rule free)+
  then show "query_or req ''topic'' ''0.0.9225885'' = query_or req' ''topic'' ''0.0.9225885''"
    "query_or req ''seq'' ''0'' = query_or req' ''seq'' ''0''"
    by (auto intro: esc_inject)
qed (simp add: nft_image_GET_def)

end
