(* ===== verification/Demo.thy ===== *)
theory Demo
  imports Intake_Routes Hedera_Routes
begin

text \<open>
  The demo routes: app/api/demo/skip-payment and app/api/demo/fulfill. Both advance a request of the
  caller without the payment and without the delivery the worker makes. The state is the one of the
  filing routes. Each route reads the row and writes it in two calls; the writes stand on their own as
  \<open>skip_write\<close> and \<open>fulfill_write\<close>, for what happens between the two.
\<close>

definition demo_on :: "env \<Rightarrow> bool" where
  "demo_on env = (env ''NEXT_PUBLIC_DEMO_MODE'' = Some ''true'')"

definition demo_body :: "json \<Rightarrow> string option" where
  \<comment> \<open>\<open>z.object({ id: z.string().min(1) })\<close>\<close>
  "demo_body body =
     (case json_str (json_prop body ''id'') of None \<Rightarrow> None | Some s \<Rightarrow> if s = [] then None else Some s)"

definition service_of_user :: "string \<Rightarrow> string \<Rightarrow> db \<Rightarrow> service_request option" where
  "service_of_user i user d = List.find (\<lambda>r. sr_id r = i \<and> sr_userId r = Some user) (serviceRequests d)"

text \<open>The checks both routes start with, up to the row of the caller.\<close>

definition demo_guard ::
  "env \<Rightarrow> clerk_session \<Rightarrow> request \<Rightarrow> db \<Rightarrow> (response + service_request) result" where
  "demo_guard env cs req d =
     (if \<not> demo_on env then Inr (Inl (error_response 404 ''Not found''))
      else case requireUser cs of
        Inl (UnauthorizedError m) \<Rightarrow> Inr (Inl (error_response 401 m))
      | Inl e \<Rightarrow> Inl e
      | Inr ctx \<Rightarrow>
          (case req_body req of
             None \<Rightarrow> Inr (Inl (error_response 400 ''Invalid JSON body''))
           | Some body \<Rightarrow>
               (case demo_body body of
                  None \<Rightarrow> Inr (Inl (error_response 400 ''Validation failed''))
                | Some i \<Rightarrow>
                    (case service_of_user i (uc_userId ctx) d of
                       None \<Rightarrow> Inr (Inl (error_response 404 ''Service request not found''))
                     | Some r \<Rightarrow> Inr (Inr r)))))"

subsection \<open>POST /api/demo/skip-payment\<close>

definition skip_write :: "eps_error option \<Rightarrow> service_request \<Rightarrow> (db, response) act" where
  "skip_write fault existing =
     andThen (faulty fault (sr_update (sr_id existing) (\<lambda>r. r\<lparr>sr_status := IN_PROGRESS\<rparr>))) (\<lambda>updated.
     ret (json_response 200 (JObj [(''id'', JStr (sr_id updated)), (''status'', JStr (status_text (sr_status updated)))])))"

definition skip_payment_POST ::
  "env \<Rightarrow> eps_error option \<Rightarrow> clerk_session \<Rightarrow> request \<Rightarrow> (db, response) act" where
  "skip_payment_POST env fault cs req d =
     (case demo_guard env cs req d of
        Inl e \<Rightarrow> throw e d
      | Inr (Inl rejected) \<Rightarrow> ret rejected d
      | Inr (Inr existing) \<Rightarrow>
          if sr_status existing \<noteq> STAGED then
            ret (error_response 409 (''Cannot skip payment for a request in status '' @ status_text (sr_status existing) @ ''.'')) d
          else skip_write fault existing d)"

subsection \<open>POST /api/demo/fulfill\<close>

definition fulfill_message :: "date \<Rightarrow> service_request \<Rightarrow> string" where
  "fulfill_message now r =
     json_stringify (JObj [(''app'', JStr ''EPS''), (''event'', JStr ''service-of-process''),
       (''serviceId'', JStr (sr_id r)), (''caseCaption'', JStr (caseCaption r)),
       (''recipient'', JStr (case recipientEnsName r of Some n \<Rightarrow> n | None \<Rightarrow> recipientWallet r)),
       (''agent'', JStr ''youhavebeenserved.eth''), (''timestamp'', JStr (toISOString now))])"

definition mirror_base :: "env \<Rightarrow> string" where
  "mirror_base env = ''https://hashscan.io/'' @ network_name env"

text \<open>The columns of the receipts; those of the token only when there is one.\<close>

definition put_proof ::
  "env \<Rightarrow> date \<Rightarrow> string \<Rightarrow> int \<Rightarrow> proof_nft_result option \<Rightarrow> service_request \<Rightarrow> service_request" where
  "put_proof env now txId seq nft r =
     (let topic = the (env ''HEDERA_HCS_TOPIC_ID'');
          h = (sr_hedera r)\<lparr>hcsTopicId := Some topic, hcsSequenceNumber := Some seq,
                hcsConsensusTime := Some (toISOString now), hcsTxId := Some txId,
                hcsMirrorUrl := Some (mirror_base env @ ''/topic/'' @ topic @ ''/messages?seq='' @ string_of_int seq)\<rparr>
      in r\<lparr>sr_status := CONFIRMED,
           sr_hedera :=
             (case nft of
                None \<Rightarrow> h
              | Some n \<Rightarrow>
                  if pn_tokenId n = [] then h
                  else h\<lparr>htsTokenId := Some (pn_tokenId n), htsSerialNumber := Some (pn_serial n),
                         htsTxId := Some (pn_transferTx n),
                         htsMirrorUrl := (if pn_serial n = 0 then None
                           else Some (mirror_base env @ ''/token/'' @ pn_tokenId n @ ''/'' @ string_of_int (pn_serial n))),
                         htsNftSerial := Some (pn_serial n), htsTransferTx := Some (pn_transferTx n)\<rparr>)\<rparr>)"

definition fulfill_write ::
  "env \<Rightarrow> date \<Rightarrow> eps_error option \<Rightarrow> string \<Rightarrow> string \<Rightarrow> int \<Rightarrow> proof_nft_result option \<Rightarrow> (db, service_request) act" where
  "fulfill_write env now fault i txId seq nft = faulty fault (sr_update i (put_proof env now txId seq nft))"

definition fulfilled :: "env \<Rightarrow> date \<Rightarrow> string \<Rightarrow> int \<Rightarrow> proof_nft_result option \<Rightarrow> string option \<Rightarrow> service_request \<Rightarrow> response" where
  "fulfilled env now txId seq nft mintError updated =
     json_response 200 (JObj
       [(''id'', JStr (sr_id updated)), (''status'', JStr (status_text (sr_status updated))),
        (''hcsTxId'', JStr txId), (''hcsSequenceNumber'', JNum seq), (''nftSerial'', nft_serial nft),
        (''nftTransferTx'', nft_text pn_transferTx nft), (''mintError'', json_of_str mintError),
        (''timestamp'', JStr (toISOString now)),
        (''hashscan'', JStr (mirror_base env @ ''/topic/'' @ the (env ''HEDERA_HCS_TOPIC_ID'')))])"

definition finished :: "string \<Rightarrow> service_request \<Rightarrow> response" where
  "finished message r =
     json_response 409 (JObj [(''error'', JStr message), (''id'', JStr (sr_id r)),
       (''status'', JStr (status_text (sr_status r)))])"

definition fulfill_existing ::
  "'h hedera_sdk \<Rightarrow> (eps_error \<Rightarrow> string) \<Rightarrow> (eps_error \<Rightarrow> string) \<Rightarrow> env \<Rightarrow> date \<Rightarrow> eps_error option \<Rightarrow>
   service_request \<Rightarrow> ('h route_state, response) act" where
  "fulfill_existing sdk message shown env now fault existing w =
     (case rt_on_hedera (submit_message sdk env (fulfill_message now existing)) w of
        (Inl e, w1) \<Rightarrow>
          ret (json_response 502 (JObj [(''error'', JStr ''HCS submit failed''), (''detail'', JStr (shown e))])) w1
      | (Inr (txId, seq), w1) \<Rightarrow>
          andThen (rt_on_hedera (mint_or_error sdk message env seq)) (\<lambda>(nft, mintError).
          andThen (rt_on_db (fulfill_write env now fault (sr_id existing) txId seq nft)) (\<lambda>updated.
          ret (fulfilled env now txId seq nft mintError updated))) w1)"

definition fulfill_POST ::
  "'h hedera_sdk \<Rightarrow> (eps_error \<Rightarrow> string) \<Rightarrow> (eps_error \<Rightarrow> string) \<Rightarrow> env \<Rightarrow> date \<Rightarrow> eps_error option \<Rightarrow>
   clerk_session \<Rightarrow> request \<Rightarrow> ('h route_state, response) act" where
  "fulfill_POST sdk message shown env now fault cs req w =
     (case demo_guard env cs req (rt_db w) of
        Inl e \<Rightarrow> throw e w
      | Inr (Inl rejected) \<Rightarrow> ret rejected w
      | Inr (Inr existing) \<Rightarrow>
          if sr_status existing = CONFIRMED then ret (finished ''Already confirmed'' existing) w
          else if sr_status existing = FAILED then
            ret (finished ''Service request has failed; create a new one.'' existing) w
          else if missing_vars env [''HEDERA_OPERATOR_ID'', ''HEDERA_OPERATOR_KEY'', ''HEDERA_HCS_TOPIC_ID''] \<noteq> [] then
            ret (error_response 503 ''Hedera not configured'') w
          else if \<not> hs_key_parses sdk (the (env ''HEDERA_OPERATOR_KEY'')) then throw (PlainError ''invalid private key'') w
          else fulfill_existing sdk message shown env now fault existing w)"

subsection \<open>What the demo routes do\<close>

lemma put_proof_sel [simp]:
  "sr_id (put_proof env now txId seq nft r) = sr_id r" "sr_status (put_proof env now txId seq nft r) = CONFIRMED"
  "txSignature (put_proof env now txId seq nft r) = txSignature r"
  "failureReason (put_proof env now txId seq nft r) = failureReason r"
  by (simp_all add: put_proof_def Let_def)

lemma service_of_user_Some:
  "service_of_user i user d = Some r \<Longrightarrow> r \<in> set (serviceRequests d) \<and> sr_id r = i \<and> sr_userId r = Some user"
  by (auto simp: service_of_user_def find_Some_iff)

lemma demo_guard_row:
  assumes "demo_guard env cs req d = Inr (Inr r)"
  obtains ctx where "demo_on env" "requireUser cs = Inr ctx" "r \<in> set (serviceRequests d)"
    "sr_userId r = Some (uc_userId ctx)"
  using assms
  by (auto simp: demo_guard_def split: if_splits sum.splits eps_error.splits option.splits dest!: service_of_user_Some)

lemma fulfill_existing_db:
  assumes "fulfill_existing sdk message shown env now fault r w = (Inr resp, w')" "rt_db w' \<noteq> rt_db w"
  obtains txId seq nft where "rt_db w' = sr_modify (sr_id r) (put_proof env now txId seq nft) (rt_db w)"
    "res_status resp = 200"
proof -
  obtain a h1 where h: "submit_message sdk env (fulfill_message now r) (rt_hedera w) = (a, h1)" by fastforce
  show thesis
  proof (cases a)
    case (Inl e)
    with assms h show ?thesis by (auto simp: fulfill_existing_def rt_on_hedera_def ret_def)
  next
    case (Inr x)
    obtain txId seq where x: "x = (txId, seq)" by (cases x)
    obtain nft err h2 where "mint_or_error sdk message env seq h1 = (Inr (nft, err), h2)"
      using mint_or_error_Inr [of sdk message env seq h1] by auto
    with assms h Inr x that show ?thesis
      by (auto simp: fulfill_existing_def rt_on_hedera_def andThen_def ret_def fulfilled_def rt_on_db_def fulfill_write_def
          sr_update_Inr_iff faulty_Inr_iff split: prod.splits sum.splits)
  qed
qed


definition demo_env :: env where
  "demo_env = map_of [(''NEXT_PUBLIC_DEMO_MODE'', ''true''), (''HEDERA_OPERATOR_ID'', ''0.0.9''),
     (''HEDERA_OPERATOR_KEY'', ''k''), (''HEDERA_HCS_TOPIC_ID'', ''0.0.7'')]"

definition demo_request :: request where
  "demo_request =
     \<lparr>req_headers = [], req_origin = ''https://eps'', req_query = [],
      req_body = Some (JObj [(''id'', JStr ''r1'')]), req_text = []\<rparr>"

lemma demo_guard_sample: "demo_guard demo_env (filer None) demo_request (sample_db 0) = Inr (Inr sample_request)"
  by (simp add: demo_guard_def demo_on_def demo_env_def requireUser_def filer_def demo_request_def demo_body_def
      service_of_user_def sample_defs)

lemma demo_fulfill_sample:
  assumes "mint_or_error capped_sdk (\<lambda>_. []) demo_env 1 () = (Inr (nft, err), ())"
  shows "fulfill_POST capped_sdk (\<lambda>_. []) (\<lambda>_. []) demo_env 5 None (filer None) demo_request route_world =
    (Inr (fulfilled demo_env 5 ''t'' 1 nft err (put_proof demo_env 5 ''t'' 1 nft sample_request)),
     route_world\<lparr>rt_db := sr_modify ''r1'' (put_proof demo_env 5 ''t'' 1 nft) (sample_db 0)\<rparr>)"
proof -
  have "missing_vars demo_env [''HEDERA_OPERATOR_ID'', ''HEDERA_OPERATOR_KEY'', ''HEDERA_HCS_TOPIC_ID''] = []"
    by (simp add: missing_vars_def demo_env_def)
  moreover have "submit_message capped_sdk demo_env (fulfill_message 5 sample_request) () = (Inr (''t'', 1), ())"
    by (simp add: submit_message_def capped_sdk_def andThen_def ret_def)
  moreover have "sr_find ''r1'' (sample_db 0) = Some sample_request" by (simp add: sr_find_def sample_defs)
  moreover have "sr_status sample_request = STAGED" "sr_id sample_request = ''r1''" by (simp_all add: sample_request_def)
  moreover have "rt_db route_world = sample_db 0" "rt_hedera route_world = ()" "hs_key_parses capped_sdk k" for k
    by (simp_all add: route_world_def capped_sdk_def)
  ultimately show ?thesis
    using assms demo_guard_sample
    by (simp add: fulfill_POST_def fulfill_existing_def rt_on_hedera_def andThen_def rt_on_db_def fulfill_write_def
        faulty_def sr_update_def ret_def)
qed


text \<open>The demo fulfilment writes without looking again: when the worker fails the request and gives the
  quota unit back while the route waits for Hedera, the write that follows turns the FAILED request into a
  CONFIRMED one, with its failure reason still in place and the unit still given back.\<close>

theorem demo_overwrites_failure:
  assumes "failServiceRequest flt stamp inp d = (Inr restored, d1)" "fi_serviceRequestId inp = i"
  shows "\<exists>row d2. fulfill_write env now None i txId seq nft d1 = (Inr row, d2) \<and>
    sr_find i d2 = Some row \<and> sr_status row = CONFIRMED \<and> failureReason row = Some (take MAX_REASON_LEN (fi_reason inp)) \<and>
    subscriptions d2 = subscriptions d1"
proof -
  obtain r where "sr_find i d = Some r" and
      s: "serviceRequests d1 = serviceRequests (sr_modify i (mark_failed (take MAX_REASON_LEN (fi_reason inp))) d)"
    using assms(1) unfolding assms(2) [symmetric] by (rule failServiceRequest_Inr) blast
  then have f: "sr_find i d1 = Some (mark_failed (take MAX_REASON_LEN (fi_reason inp)) r)"
    by (simp add: sr_find_def sr_modify_def row_find_modify)
  then have "sr_find i (sr_modify i (put_proof env now txId seq nft) d1) =
      Some (put_proof env now txId seq nft (mark_failed (take MAX_REASON_LEN (fi_reason inp)) r))"
    by (simp add: sr_find_def sr_modify_def row_find_modify)
  with f show ?thesis by (simp add: fulfill_write_def faulty_def sr_update_def lookup_simps)
qed

theorem demo_overwrites_failure_witness:
  "\<exists>row d2. fulfill_write demo_env 5 None ''r1'' ''t'' 1 None
      (snd (failServiceRequest (\<lambda>_. None) \<lparr>as_id = ''a1'', as_now = 7\<rparr> (sample_fail (Some ''o1'')) (sample_db 1))) =
      (Inr row, d2) \<and> sr_status row = CONFIRMED \<and> failureReason row = Some ''send failed''"
proof -
  have "fi_serviceRequestId (sample_fail (Some ''o1'')) = ''r1''" by (simp add: sample_fail_def)
  from demo_overwrites_failure [OF sample_failure_run this, of demo_env 5 "''t''" 1 None] show ?thesis
    by (auto simp: sample_fail_def MAX_REASON_LEN_def)
qed

end
