(* ===== verification/Billing.thy ===== *)
theory Billing
  imports Quota Auth
begin

text \<open>
  Billing: lib/stripe.ts, and the routes app/api/checkout, app/api/webhooks/stripe and
  app/api/admin/comp-grant. The Stripe package is a parameter: what \<open>sessions.create\<close> does to
  Stripe's side, and what \<open>constructEvent\<close> makes of a payload and its signature. A route is a
  function of the request and of the draws of the call (times, generated ids, faults of the
  database, by the order of the calls) to the response or the error it throws, which Next answers
  with 500.
\<close>

subsection \<open>lib/stripe.ts\<close>

datatype tier = Tier1 | Tier2 | Tier3

definition tier_name :: "tier \<Rightarrow> string" where
  "tier_name t = (case t of Tier1 \<Rightarrow> ''tier1'' | Tier2 \<Rightarrow> ''tier2'' | Tier3 \<Rightarrow> ''tier3'')"

definition TIER_PRICE_ENV :: "tier \<Rightarrow> string" where
  "TIER_PRICE_ENV t =
     (case t of Tier1 \<Rightarrow> ''STRIPE_TIER1_PRICE_ID'' | Tier2 \<Rightarrow> ''STRIPE_TIER2_PRICE_ID''
      | Tier3 \<Rightarrow> ''STRIPE_TIER3_PRICE_ID'')"

definition isTier :: "json option \<Rightarrow> tier option" where
  "isTier v =
     (if v = Some (JStr ''tier1'') then Some Tier1
      else if v = Some (JStr ''tier2'') then Some Tier2
      else if v = Some (JStr ''tier3'') then Some Tier3 else None)"

definition priceIdForTier :: "env \<Rightarrow> tier \<Rightarrow> string result" where
  "priceIdForTier env t =
     (if \<not> truthy (env (TIER_PRICE_ENV t)) then
        Inl (PlainError (TIER_PRICE_ENV t @
          '' is not set. Run `pnpm tsx scripts/stripe-bootstrap.ts` and paste the printed price IDs into .env.''))
      else Inr (the (env (TIER_PRICE_ENV t))))"

definition live_key :: "string \<Rightarrow> bool" where
  "live_key key = (prefix ''sk_live_'' key \<or> prefix ''rk_live_'' key)"

record 'c billing =
  bi_client :: "string option" \<comment> \<open>\<open>stripeClient\<close>, by the key it was made with\<close>
  bi_sdk :: 'c
  bi_db :: db

definition getStripe :: "env \<Rightarrow> ('c billing, string) act" where
  "getStripe env w =
     (case bi_client w of
        Some key \<Rightarrow> ret key w
      | None \<Rightarrow>
          (let key = (case env ''STRIPE_SECRET_KEY'' of None \<Rightarrow> [] | Some k \<Rightarrow> k)
           in if key = [] then
                throw (PlainError ''STRIPE_SECRET_KEY is not set. Use a test-mode key (sk_test_...).'') w
              else if live_key key then
                throw (PlainError ''Refusing to use a LIVE Stripe key. EPS is test-mode only (CLAUDE.md hard rule #7).'') w
              else ret key (w\<lparr>bi_client := Some key\<rparr>)))"

subsection \<open>What Stripe sends\<close>

record checkout_params =
  cp_price :: string
  cp_clientReferenceId :: string
  cp_metadata :: "(string \<times> string) list"
  cp_subscriptionMetadata :: "(string \<times> string) list"
  cp_successUrl :: string
  cp_cancelUrl :: string

datatype subscription_ref = NoRef | IdRef string | ObjectRef string

record checkout_session =
  se_clientReferenceId :: "string option"
  se_metadata :: "(string \<times> string) list option"
  se_subscription :: subscription_ref

record stripe_event =
  ev_id :: string
  ev_type :: string
  ev_session :: checkout_session \<comment> \<open>\<open>data.object\<close> of a checkout event\<close>

record 'c stripe_sdk =
  sd_createSession :: "string \<Rightarrow> checkout_params \<Rightarrow> ('c, string option) act"
  sd_constructEvent :: "string \<Rightarrow> string \<Rightarrow> string \<Rightarrow> string + stripe_event"

definition bi_on_sdk :: "('c, 'a) act \<Rightarrow> ('c billing, 'a) act" where
  "bi_on_sdk m w = (case m (bi_sdk w) of (r, c) \<Rightarrow> (r, w\<lparr>bi_sdk := c\<rparr>))"

definition bi_on_db :: "(db, 'a) act \<Rightarrow> ('c billing, 'a) act" where
  "bi_on_db m w = (case m (bi_db w) of (r, d) \<Rightarrow> (r, w\<lparr>bi_db := d\<rparr>))"

definition of_result :: "'a result \<Rightarrow> ('s, 'a) act" where
  "of_result r s = (r, s)"

subsection \<open>app/api/checkout\<close>

definition origin_of :: "request \<Rightarrow> string" where
  "origin_of req = (case header_get req ''origin'' of Some o' \<Rightarrow> o' | None \<Rightarrow> req_origin req)"

definition checkout_params_for :: "auth_context \<Rightarrow> tier \<Rightarrow> string \<Rightarrow> string \<Rightarrow> checkout_params" where
  "checkout_params_for ctx t price origin =
     \<lparr>cp_price = price, cp_clientReferenceId = ac_orgId ctx,
      cp_metadata = [(''orgId'', ac_orgId ctx), (''userId'', ac_userId ctx), (''tier'', tier_name t)],
      cp_subscriptionMetadata = [(''orgId'', ac_orgId ctx), (''tier'', tier_name t)],
      cp_successUrl = origin @ ''/dashboard?checkout=success&session_id={CHECKOUT_SESSION_ID}'',
      cp_cancelUrl = origin @ ''/pricing?checkout=cancelled''\<rparr>"

definition checkout_POST ::
  "'c stripe_sdk \<Rightarrow> env \<Rightarrow> clerk_session \<Rightarrow> request \<Rightarrow> ('c billing, response) act" where
  "checkout_POST sdk env cs req =
     (case requireAuth cs of
        Inl (UnauthorizedError m) \<Rightarrow> ret (error_response 401 m)
      | Inl e \<Rightarrow> throw e
      | Inr ctx \<Rightarrow>
          (case req_body req of
             None \<Rightarrow> ret (error_response 400 ''Invalid JSON body'')
           | Some body \<Rightarrow>
               (case isTier (json_prop body ''tier'') of
                  None \<Rightarrow> ret (error_response 400 ''Invalid tier. Expected one of: tier1, tier2, tier3.'')
                | Some t \<Rightarrow>
                    andThen (getStripe env) (\<lambda>key.
                    andThen (of_result (priceIdForTier env t)) (\<lambda>price.
                    andThen (bi_on_sdk (sd_createSession sdk key (checkout_params_for ctx t price (origin_of req)))) (\<lambda>url.
                    ret (json_response 200 (JObj [(''url'', json_of_str url)]))))))))"

subsection \<open>app/api/webhooks/stripe\<close>

record webhook_draws =
  wk_dbNow :: date
  wk_now :: date
  wk_eventRowId :: string
  wk_orgRowId :: string
  wk_faults :: "nat \<Rightarrow> eps_error option"

definition sub_upsert :: "subscription \<Rightarrow> (subscription \<Rightarrow> subscription) \<Rightarrow> (db, subscription) act" where
  "sub_upsert r f d = (case sub_find (sub_id r) d of Some q \<Rightarrow> sub_update (sub_id r) f d | None \<Rightarrow> sub_create r d)"

definition activate :: "subscription \<Rightarrow> subscription" where
  "activate s = s\<lparr>sub_status := ACTIVE\<rparr>"

definition nullish :: "'a option \<Rightarrow> 'a option \<Rightarrow> 'a option" where
  \<comment> \<open>\<open>a ?? b\<close>\<close>
  "nullish a b = (case a of Some x \<Rightarrow> Some x | None \<Rightarrow> b)"

definition session_meta :: "checkout_session \<Rightarrow> string \<Rightarrow> string option" where
  "session_meta s key = Option.bind (se_metadata s) (\<lambda>m. map_of m key)"

definition session_subscription :: "checkout_session \<Rightarrow> string option" where
  "session_subscription s = (case se_subscription s of NoRef \<Rightarrow> None | IdRef i \<Rightarrow> Some i | ObjectRef i \<Rightarrow> Some i)"

definition paid_subscription :: "date \<Rightarrow> string \<Rightarrow> string \<Rightarrow> string \<Rightarrow> subscription" where
  "paid_subscription now subId orgId tier =
     \<lparr>sub_id = subId, sub_orgId = orgId, tierId = tier, sub_status = ACTIVE, periodStart = now,
      periodEnd = setMonth now (getMonth now + 1), usageCount = 0\<rparr>"

definition applyCheckoutCompleted :: "webhook_draws \<Rightarrow> checkout_session \<Rightarrow> (db, unit) act" where
  "applyCheckoutCompleted dr session =
     (let clerk = nullish (se_clientReferenceId session) (session_meta session ''orgId'');
          tier = session_meta session ''tier'';
          subId = session_subscription session
      in if \<not> truthy clerk \<or> \<not> truthy tier \<or> \<not> truthy subId then ret ()
         else
           andThen (faulty (wk_faults dr 1) (org_upsert
             \<lparr>org_id = wk_orgRowId dr, clerkOrgId = the clerk, org_name = the clerk, ownerEmail = None,
              org_createdAt = wk_dbNow dr\<rparr>)) (\<lambda>org.
           andThen (faulty (wk_faults dr 2)
             (sub_upsert (paid_subscription (wk_now dr) (the subId) (org_id org) (the tier)) activate)) (\<lambda>_.
           ret ())))"

definition webhook_transaction :: "webhook_draws \<Rightarrow> stripe_event \<Rightarrow> (db, unit) act" where
  "webhook_transaction dr event =
     transaction
       (andThen (faulty (wk_faults dr 0) (wh_create
          \<lparr>wh_id = wk_eventRowId dr, eventId = ev_id event, processedAt = wk_dbNow dr\<rparr>)) (\<lambda>_.
        andThen (if ev_type event = ''checkout.session.completed''
                 then applyCheckoutCompleted dr (ev_session event) else ret ()) (\<lambda>_.
        faulty (wk_faults dr 3) (ret ()))))"

definition received :: response where
  "received = json_response 200 (JObj [(''received'', JBool True)])"

definition deduped :: response where
  "deduped = json_response 200 (JObj [(''received'', JBool True), (''deduped'', JBool True)])"

definition webhook_POST ::
  "'c stripe_sdk \<Rightarrow> env \<Rightarrow> webhook_draws \<Rightarrow> request \<Rightarrow> ('c billing, response) act" where
  "webhook_POST sdk env dr req =
     (if \<not> truthy (env ''STRIPE_WEBHOOK_SECRET'') then
        ret (error_response 500 ''STRIPE_WEBHOOK_SECRET is not set.'')
      else if \<not> truthy (header_get req ''stripe-signature'') then
        ret (error_response 400 ''Missing Stripe-Signature header'')
      else
        andThen (getStripe env) (\<lambda>_.
          case sd_constructEvent sdk (req_text req) (the (header_get req ''stripe-signature''))
                 (the (env ''STRIPE_WEBHOOK_SECRET'')) of
            Inl message \<Rightarrow> ret (error_response 400 (''Signature verification failed: '' @ message))
          | Inr event \<Rightarrow>
              catch (andThen (bi_on_db (webhook_transaction dr event)) (\<lambda>_. ret received))
                (\<lambda>e. if e = P2002 then ret deduped else throw e)))"

subsection \<open>app/api/admin/comp-grant\<close>

definition COMP_GRANT_TIER :: string where "COMP_GRANT_TIER = ''tier3''"

definition COMP_GRANT_MONTHS :: int where "COMP_GRANT_MONTHS = 24"

definition COMP_GRANT_LABEL :: string where "COMP_GRANT_LABEL = ''Founders Legacy''"

definition addMonths :: "date \<Rightarrow> int \<Rightarrow> date" where
  "addMonths from_date months = setMonth from_date (getMonth from_date + months)"

record grant_draws =
  gd_now :: date
  gd_dbNow :: date
  gd_orgRowId :: string
  gd_subId :: string
  gd_auditId :: string
  gd_faults :: "nat \<Rightarrow> eps_error option"

definition granted :: "date \<Rightarrow> subscription \<Rightarrow> subscription" where
  "granted now s =
     s\<lparr>tierId := COMP_GRANT_TIER, sub_status := ACTIVE, periodStart := now,
       periodEnd := addMonths now COMP_GRANT_MONTHS, usageCount := 0\<rparr>"

definition latest_of_org :: "string \<Rightarrow> db \<Rightarrow> subscription option" where
  "latest_of_org i d = first_max periodEnd (filter (\<lambda>s. sub_orgId s = i) (subscriptions d))"

definition grant_subscription :: "grant_draws \<Rightarrow> organization \<Rightarrow> (db, subscription) act" where
  "grant_subscription dr org d =
     (case latest_of_org (org_id org) d of
        Some existing \<Rightarrow> faulty (gd_faults dr 1) (sub_update (sub_id existing) (granted (gd_now dr))) d
      | None \<Rightarrow>
          faulty (gd_faults dr 1) (sub_create
            \<lparr>sub_id = gd_subId dr, sub_orgId = org_id org, tierId = COMP_GRANT_TIER, sub_status = ACTIVE,
             periodStart = gd_now dr, periodEnd = addMonths (gd_now dr) COMP_GRANT_MONTHS, usageCount = 0\<rparr>) d)"

definition grant_audit :: "grant_draws \<Rightarrow> auth_context \<Rightarrow> string \<Rightarrow> subscription \<Rightarrow> audit_log" where
  "grant_audit dr actor target s =
     \<lparr>al_id = gd_auditId dr, al_action = ''COMP_GRANT'', actorId = ac_userId actor, targetId = target,
      al_metadata = JObj [(''grant'', JStr COMP_GRANT_LABEL), (''tier'', JStr COMP_GRANT_TIER),
        (''months'', JNum COMP_GRANT_MONTHS), (''subscriptionId'', JStr (sub_id s)),
        (''actorOrgId'', JStr (ac_orgId actor))],
      al_createdAt = gd_dbNow dr\<rparr>"

definition comp_grant :: "grant_draws \<Rightarrow> auth_context \<Rightarrow> string \<Rightarrow> (db, subscription) act" where
  "comp_grant dr actor target =
     transaction
       (andThen (faulty (gd_faults dr 0) (org_upsert
          \<lparr>org_id = gd_orgRowId dr, clerkOrgId = target, org_name = target, ownerEmail = None,
           org_createdAt = gd_dbNow dr\<rparr>)) (\<lambda>org.
        andThen (grant_subscription dr org) (\<lambda>s.
        andThen (faulty (gd_faults dr 2) (audit_create (grant_audit dr actor target s))) (\<lambda>_.
        faulty (gd_faults dr 3) (ret s)))))"

definition status_name :: "subscription_status \<Rightarrow> string" where
  "status_name s = (case s of ACTIVE \<Rightarrow> ''ACTIVE'' | CANCELED \<Rightarrow> ''CANCELED'' | PAST_DUE \<Rightarrow> ''PAST_DUE'')"

definition comp_grant_POST :: "clerk_session \<Rightarrow> grant_draws \<Rightarrow> request \<Rightarrow> (db, response) act" where
  "comp_grant_POST cs dr req =
     (case requireOrgAdmin cs of
        Inl (ForbiddenError m) \<Rightarrow> ret (error_response 403 m)
      | Inl (UnauthorizedError m) \<Rightarrow> ret (error_response 401 m)
      | Inl e \<Rightarrow> throw e
      | Inr actor \<Rightarrow>
          (case req_body req of
             None \<Rightarrow> ret (error_response 400 ''Invalid JSON body'')
           | Some body \<Rightarrow>
               (let target = json_str (json_prop body ''targetOrgId'')
                in if \<not> truthy target then
                     ret (error_response 400 ''Invalid targetOrgId. Expected a non-empty string.'')
                   else andThen (comp_grant dr actor (the target)) (\<lambda>s.
                     ret (json_response 200
                       (JObj [(''ok'', JBool True), (''grant'', JStr COMP_GRANT_LABEL),
                         (''subscription'', JObj [(''id'', JStr (sub_id s)), (''tierId'', JStr (tierId s)),
                            (''status'', JStr (status_name (sub_status s))),
                            (''periodEnd'', JStr (toISOString (periodEnd s)))])]))))))"

subsection \<open>Lemmas on one call\<close>

lemma bi_on_db_run: "m (bi_db w) = (r, d) \<Longrightarrow> bi_on_db m w = (r, w\<lparr>bi_db := d\<rparr>)"
  by (simp add: bi_on_db_def)

lemma bi_on_sdk_db: "bi_db (snd (bi_on_sdk m w)) = bi_db w" "bi_client (snd (bi_on_sdk m w)) = bi_client w"
  by (simp_all add: bi_on_sdk_def split: prod.split)

lemma getStripe_db: "getStripe env w = (r, w') \<Longrightarrow> bi_db w' = bi_db w"
  by (auto simp: getStripe_def Let_def ret_def throw_def split: option.splits if_splits)

lemma getStripe_cached: "getStripe env w = (Inr key, w') \<Longrightarrow> bi_client w' = Some key"
  by (auto simp: getStripe_def Let_def ret_def throw_def split: option.splits if_splits)

lemma getStripe_hit: "bi_client w = Some key \<Longrightarrow> getStripe env w = (Inr key, w)"
  by (simp add: getStripe_def ret_def)

definition test_client :: "'c billing \<Rightarrow> bool" where
  "test_client w = (case bi_client w of None \<Rightarrow> True | Some key \<Rightarrow> key \<noteq> [] \<and> \<not> live_key key)"

lemma getStripe_test: "test_client w \<Longrightarrow> test_client (snd (getStripe env w))"
  by (auto simp: test_client_def getStripe_def Let_def ret_def throw_def split: option.splits if_splits)

lemma checkout_POST_db:
  "bi_db (snd (checkout_POST sdk env cs req w)) = bi_db w"
  "test_client w \<Longrightarrow> test_client (snd (checkout_POST sdk env cs req w))"
proof -
  obtain r w1 where g: "getStripe env w = (r, w1)" by (cases "getStripe env w")
  note facts = getStripe_db [OF g] getStripe_test [of w env, unfolded g snd_conv]
  show "bi_db (snd (checkout_POST sdk env cs req w)) = bi_db w"
    using facts by (auto simp: checkout_POST_def andThen_def ret_def throw_def g of_result_def bi_on_sdk_def
        split: sum.splits option.splits eps_error.splits prod.splits)
  assume "test_client w"
  with facts show "test_client (snd (checkout_POST sdk env cs req w))"
    by (auto simp: checkout_POST_def andThen_def ret_def throw_def g of_result_def bi_on_sdk_def test_client_def
        split: sum.splits option.splits eps_error.splits prod.splits)
qed

lemma org_upsert_Inr_iff:
  "org_upsert r d = (Inr org, d') \<longleftrightarrow>
     (case org_find (clerkOrgId r) d of Some q \<Rightarrow> org = q \<and> d' = d | None \<Rightarrow> org = r \<and> d' = org_insert r d)"
  by (auto simp: org_upsert_def split: option.split)

lemma sub_create_Inr_iff:
  "sub_create r d = (Inr s, d') \<longleftrightarrow>
     sub_find (sub_id r) d = None \<and> org_by_id (sub_orgId r) d \<noteq> None \<and> s = r \<and> d' = sub_insert r d"
  by (auto simp: sub_create_def)

lemma activate_sel [simp]:
  "sub_id (activate s) = sub_id s" "tierId (activate s) = tierId s" "usageCount (activate s) = usageCount s"
  "sub_status (activate s) = ACTIVE" "sub_orgId (activate s) = sub_orgId s"
  by (simp_all add: activate_def)

lemma granted_sel [simp]:
  "sub_id (granted now s) = sub_id s" "tierId (granted now s) = COMP_GRANT_TIER"
  "usageCount (granted now s) = 0" "sub_status (granted now s) = ACTIVE" "sub_orgId (granted now s) = sub_orgId s"
  "periodEnd (granted now s) = addMonths now COMP_GRANT_MONTHS"
  by (simp_all add: granted_def)

lemma billing_frames [lookup_simps]:
  "subscriptions (org_insert o1 d) = subscriptions d" "webhookEvents (org_insert o1 d) = webhookEvents d"
  "webhookEvents (sub_insert s d) = webhookEvents d" "organizations (sub_insert s d) = organizations d"
  "webhookEvents (sub_modify k f d) = webhookEvents d"
  "subscriptions (wh_insert e d) = subscriptions d" "organizations (wh_insert e d) = organizations d"
  "sub_find k (wh_insert e d) = sub_find k d" "org_find k (wh_insert e d) = org_find k d"
  "sub_find k (org_insert o1 d) = sub_find k d"
  by (simp_all add: org_insert_def sub_insert_def sub_modify_def wh_insert_def sub_find_def org_find_def)

text \<open>What a database of the billing part always satisfies, and what no operation takes away.\<close>

definition billing_valid :: "db \<Rightarrow> bool" where
  "billing_valid d = (org_valid d \<and> sub_valid d \<and> wh_valid d \<and> metered d)"

definition recorded :: "string set \<Rightarrow> db \<Rightarrow> bool" where
  "recorded ids d = (billing_valid d \<and> (\<forall>i\<in>ids. wh_find i d \<noteq> None))"

lemma valid_of_tables:
  "organizations d' = organizations d \<Longrightarrow> org_valid d' = org_valid d"
  "subscriptions d' = subscriptions d \<Longrightarrow> sub_valid d' = sub_valid d"
  "webhookEvents d' = webhookEvents d \<Longrightarrow> wh_valid d' = wh_valid d"
  "subscriptions d' = subscriptions d \<Longrightarrow> metered d' = metered d"
  "webhookEvents d' = webhookEvents d \<Longrightarrow> wh_find k d' = wh_find k d"
  by (simp_all add: org_valid_def sub_valid_def wh_valid_def metered_def wh_find_def)

lemma metered_sub_insert: "metered (sub_insert s d) \<longleftrightarrow> metered_row s \<and> metered d"
  by (auto simp: metered_def sub_insert_def)

lemma metered_row_zero: "usageCount s = 0 \<Longrightarrow> metered_row s"
  using tier_limit_pos [of s] by (auto simp: metered_row_def split: option.split)

lemma metered_row_activate: "metered_row s \<Longrightarrow> metered_row (activate s)"
  by (simp add: metered_row_def tier_limit_def cong: option.case_cong)

lemma keeps_org_upsert: "keeps (recorded ids) (org_upsert r)"
proof -
  have "recorded ids (org_insert r d)" if "recorded ids d" "org_find (clerkOrgId r) d = None" for d
    using that org.valid_insert valid_of_tables [of "org_insert r d" d]
    by (simp add: recorded_def billing_valid_def lookup_simps)
  then show ?thesis by (simp add: keeps_def org_upsert_def split: option.split)
qed

lemma keeps_sub_create:
  assumes "usageCount r = 0"
  shows "keeps (recorded ids) (sub_create r)"
proof -
  have "recorded ids (sub_insert r d)" if "recorded ids d" "sub_find (sub_id r) d = None" for d
    using that sub.valid_insert valid_of_tables [of "sub_insert r d" d] assms
    by (simp add: recorded_def billing_valid_def lookup_simps metered_sub_insert metered_row_zero)
  then show ?thesis by (simp add: keeps_def sub_create_def)
qed

lemma keeps_sub_update:
  assumes "\<And>s. sub_id (f s) = sub_id s" "\<And>s. metered_row s \<Longrightarrow> metered_row (f s)"
  shows "keeps (recorded ids) (sub_update k f)"
proof -
  have "recorded ids (sub_modify k f d)" if "recorded ids d" for d
  proof -
    have "metered (sub_modify k f d)"
      using that assms(2) unfolding sub_modify_def row_modify_def recorded_def billing_valid_def
      by (intro metered_map) auto
    with that assms(1) sub.valid_modify valid_of_tables [of "sub_modify k f d" d] show ?thesis
      by (simp add: recorded_def billing_valid_def lookup_simps)
  qed
  then show ?thesis by (simp add: keeps_def sub_update_def split: option.split)
qed

lemma keeps_sub_upsert:
  "usageCount r = 0 \<Longrightarrow> keeps (recorded ids) (sub_upsert r activate)"
  using keeps_sub_create [of r ids] keeps_sub_update [of activate ids "sub_id r"] metered_row_activate
  by (simp add: keeps_def sub_upsert_def split: option.split)

lemma keeps_wh_create: "keeps (recorded ids) (wh_create e)"
proof -
  have "recorded ids (wh_insert e d)" if "recorded ids d" "wh_find (eventId e) d = None" for d
    using that wh.valid_insert [of d e] wh.insert_keeps_row [of e d] valid_of_tables [of "wh_insert e d" d]
    by (fastforce simp: recorded_def billing_valid_def lookup_simps)
  then show ?thesis by (simp add: keeps_def wh_create_def)
qed

lemma keeps_audit_create: "keeps (recorded ids) (audit_create a)"
proof -
  have "recorded ids (d\<lparr>auditLogs := as\<rparr>)" if "recorded ids d" for d as
    using that valid_of_tables [of "d\<lparr>auditLogs := as\<rparr>" d] by (simp add: recorded_def billing_valid_def)
  then show ?thesis by (simp add: keeps_def audit_create_def)
qed

lemmas keeps_billing =
  keeps_andThen keeps_faulty keeps_transaction keeps_ret keeps_org_upsert keeps_sub_upsert keeps_sub_create
  keeps_sub_update keeps_wh_create keeps_audit_create

lemma keeps_webhook_transaction: "keeps (recorded ids) (webhook_transaction dr event)"
  unfolding webhook_transaction_def applyCheckoutCompleted_def Let_def
  by (auto intro!: keeps_billing simp: paid_subscription_def)

lemma keeps_grant_subscription: "keeps (recorded ids) (grant_subscription dr org)"
proof -
  have "keeps (recorded ids) (faulty flt (sub_update k (granted now)))"
    and "usageCount r = 0 \<Longrightarrow> keeps (recorded ids) (faulty flt (sub_create r))" for flt k r now
    by (auto intro!: keeps_billing simp: metered_row_zero)
  then show ?thesis by (simp add: keeps_def grant_subscription_def split: option.split)
qed

lemma keeps_comp_grant: "keeps (recorded ids) (comp_grant dr actor target)"
  unfolding comp_grant_def by (intro keeps_billing keeps_grant_subscription)

lemma keeps_comp_grant_POST: "keeps (recorded ids) (comp_grant_POST cs dr req)"
  unfolding comp_grant_POST_def Let_def
  by (auto intro!: keeps_billing keeps_comp_grant split: sum.split eps_error.split option.split)

subsection \<open>Lemmas on the webhook\<close>

lemma webhook_transaction_Inl: "webhook_transaction dr event d = (Inl e, d') \<Longrightarrow> d' = d"
  by (simp add: webhook_transaction_def transaction_Inl_iff)

lemma webhook_transaction_known:
  "wh_find (ev_id event) d \<noteq> None \<Longrightarrow>
   webhook_transaction dr event d = (Inl (case wk_faults dr 0 of None \<Rightarrow> P2002 | Some e \<Rightarrow> e), d)"
  by (auto simp: webhook_transaction_def transaction_def andThen_def faulty_def throw_def wh_create_def split: option.split)

lemma wh_create_Inr_iff:
  "wh_create e d = (Inr x, d') \<longleftrightarrow> wh_find (eventId e) d = None \<and> x = e \<and> d' = wh_insert e d"
  by (auto simp: wh_create_def)

lemma wh_find_later [lookup_simps]:
  "wh_find k (org_insert r d) = wh_find k d" "wh_find k (sub_insert s d) = wh_find k d"
  "wh_find k (sub_modify j f d) = wh_find k d"
  by (simp_all add: wh_find_def lookup_simps)

lemma applyCheckoutCompleted_events:
  "applyCheckoutCompleted dr session d = (Inr x, d') \<Longrightarrow> wh_find k d' = wh_find k d"
  by (auto simp: applyCheckoutCompleted_def Let_def ret_def andThen_Inr_iff faulty_Inr_iff org_upsert_Inr_iff
      sub_upsert_def sub_create_Inr_iff sub_update_Inr_iff lookup_simps split: if_splits option.splits)

lemma webhook_transaction_records:
  "webhook_transaction dr event d = (Inr x, d') \<Longrightarrow> wh_find (ev_id event) d' \<noteq> None"
  using wh.find_inserted [of "\<lparr>wh_id = wk_eventRowId dr, eventId = ev_id event, processedAt = wk_dbNow dr\<rparr>" d]
  by (auto simp: webhook_transaction_def transaction_Inr_iff andThen_Inr_iff faulty_Inr_iff wh_create_Inr_iff ret_def
      split: if_splits dest: applyCheckoutCompleted_events [of _ _ _ _ _ "ev_id event"])

lemma of_clerk_orgI: "org \<in> set (organizations d) \<Longrightarrow> clerkOrgId org = c \<Longrightarrow> sub_orgId s = org_id org \<Longrightarrow> of_clerk_org c d s"
  by (auto simp: of_clerk_org_def list_ex_iff)

lemma org_upsert_present:
  "org_upsert r d = (Inr org, d') \<Longrightarrow> org \<in> set (organizations d') \<and> clerkOrgId org = clerkOrgId r"
  by (auto simp: org_upsert_Inr_iff org_find_def org_insert_def split: option.splits dest: row_find_in row_find_key)

lemma webhook_transaction_activates:
  assumes "webhook_transaction dr event d = (Inr x, d')" "ev_type event = ''checkout.session.completed''"
    and "nullish (se_clientReferenceId (ev_session event)) (session_meta (ev_session event) ''orgId'') = Some c" "c \<noteq> []"
    and "session_meta (ev_session event) ''tier'' = Some t" "t \<noteq> []"
    and "session_subscription (ev_session event) = Some i" "i \<noteq> []"
  shows "\<exists>s. sub_find i d' = Some s \<and> sub_status s = ACTIVE \<and>
    (case sub_find i d of Some q \<Rightarrow> s = activate q
     | None \<Rightarrow> of_clerk_org c d' s \<and> s = paid_subscription (wk_now dr) i (sub_orgId s) t)"
proof -
  let ?e = "\<lparr>wh_id = wk_eventRowId dr, eventId = ev_id event, processedAt = wk_dbNow dr\<rparr>"
  let ?o = "\<lparr>org_id = wk_orgRowId dr, clerkOrgId = c, org_name = c, ownerEmail = None, org_createdAt = wk_dbNow dr\<rparr>"
  have "applyCheckoutCompleted dr (ev_session event) (wh_insert ?e d) = (Inr (), d')"
    using assms(1,2) by (auto simp: webhook_transaction_def transaction_Inr_iff andThen_Inr_iff faulty_Inr_iff
        wh_create_Inr_iff ret_def)
  then obtain org d1 s where up: "org_upsert ?o (wh_insert ?e d) = (Inr org, d1)"
      "sub_upsert (paid_subscription (wk_now dr) i (org_id org) t) activate d1 = (Inr s, d')"
    using assms(3-8) by (auto simp: applyCheckoutCompleted_def Let_def andThen_Inr_iff faulty_Inr_iff ret_def)
  have "sub_find i d1 = sub_find i d"
    using up(1) by (auto simp: org_upsert_Inr_iff lookup_simps split: option.splits)
  with up(2) org_upsert_present [OF up(1)] show ?thesis
    using sub.find_inserted [of "paid_subscription (wk_now dr) i (org_id org) t" d1] sub.modify_same [of activate i d1]
    by (auto simp: sub_upsert_def sub_create_Inr_iff sub_update_Inr_iff lookup_simps paid_subscription_def
        intro!: of_clerk_orgI split: option.splits)
qed

definition verified :: "'c stripe_sdk \<Rightarrow> env \<Rightarrow> request \<Rightarrow> stripe_event \<Rightarrow> bool" where
  "verified sdk env req event \<longleftrightarrow>
     truthy (env ''STRIPE_WEBHOOK_SECRET'') \<and> truthy (header_get req ''stripe-signature'') \<and>
     sd_constructEvent sdk (req_text req) (the (header_get req ''stripe-signature''))
       (the (env ''STRIPE_WEBHOOK_SECRET'')) = Inr event"

lemma webhook_POST_verified:
  assumes "verified sdk env req event" "getStripe env w = (Inr key, w1)"
  shows "webhook_POST sdk env dr req w =
    (case webhook_transaction dr event (bi_db w) of
       (Inr _, d) \<Rightarrow> (Inr received, w1\<lparr>bi_db := d\<rparr>)
     | (Inl e, d) \<Rightarrow> (if e = P2002 then Inr deduped else Inl e, w1\<lparr>bi_db := d\<rparr>))"
  using assms getStripe_db [OF assms(2)]
  by (auto simp: webhook_POST_def verified_def andThen_def catch_def bi_on_db_def ret_def throw_def
      split: prod.split sum.split)

definition refused :: "'c stripe_sdk \<Rightarrow> env \<Rightarrow> request \<Rightarrow> 'c billing \<Rightarrow> bool" where
  "refused sdk env req w \<longleftrightarrow> (\<forall>event. verified sdk env req event \<longrightarrow> isl (fst (getStripe env w)))"

lemma webhook_POST_refused:
  assumes "refused sdk env req w"
  shows "snd (webhook_POST sdk env dr req w) \<in> {w, snd (getStripe env w)}"
    "fst (webhook_POST sdk env dr req w) = Inr x \<Longrightarrow> res_status x \<noteq> 200"
proof -
  obtain r w1 where g: "getStripe env w = (r, w1)" by (cases "getStripe env w")
  have "snd (webhook_POST sdk env dr req w) \<in> {w, w1} \<and>
    (fst (webhook_POST sdk env dr req w) = Inr x \<longrightarrow> res_status x \<noteq> 200)" (is ?P)
  proof (cases "truthy (env ''STRIPE_WEBHOOK_SECRET'') \<and> truthy (header_get req ''stripe-signature'')")
    case True
    then show ?P
      using assms by (cases r)
        (auto simp: g webhook_POST_def andThen_def refused_def verified_def ret_def split: sum.split)
  next
    case False
    then show ?P by (auto simp: webhook_POST_def ret_def)
  qed
  with g show "snd (webhook_POST sdk env dr req w) \<in> {w, snd (getStripe env w)}"
    "fst (webhook_POST sdk env dr req w) = Inr x \<Longrightarrow> res_status x \<noteq> 200" by auto
qed

lemma webhook_POST_cases:
  obtains (verified) event key w1 where "verified sdk env req event" "getStripe env w = (Inr key, w1)"
  | (refused) "refused sdk env req w"
proof (cases "refused sdk env req w")
  case True
  then show thesis by (rule refused)
next
  case False
  then show thesis by (cases "getStripe env w"; cases "fst (getStripe env w)") (auto simp: refused_def intro: verified)
qed

lemma webhook_POST_test: "test_client w \<Longrightarrow> test_client (snd (webhook_POST sdk env dr req w))"
proof (cases rule: webhook_POST_cases [of sdk env req w])
  case (verified event key w1)
  assume "test_client w"
  then have "test_client w1" using getStripe_test [of w env] verified(2) by simp
  then show ?thesis
    by (auto simp: webhook_POST_verified [OF verified] test_client_def split: prod.split sum.split)
next
  case refused
  assume "test_client w"
  then show ?thesis using webhook_POST_refused(1) [OF refused, of dr] getStripe_test by fastforce
qed

lemma webhook_POST_recorded:
  "recorded ids (bi_db w) \<Longrightarrow> recorded ids (bi_db (snd (webhook_POST sdk env dr req w)))"
proof (cases rule: webhook_POST_cases [of sdk env req w])
  case (verified event key w1)
  assume "recorded ids (bi_db w)"
  then have "recorded ids (snd (webhook_transaction dr event (bi_db w)))"
    using keeps_webhook_transaction unfolding keeps_def by blast
  then show ?thesis by (auto simp: webhook_POST_verified [OF verified] split: prod.split sum.split)
next
  case refused
  assume "recorded ids (bi_db w)"
  then show ?thesis
    using webhook_POST_refused(1) [OF refused, of dr] getStripe_db [OF prod.collapse [symmetric, of "getStripe env w"]]
    by fastforce
qed

subsection \<open>Runs of the billing routes\<close>

inductive billing_step :: "'c stripe_sdk \<Rightarrow> env \<Rightarrow> 'c billing \<Rightarrow> 'c billing \<Rightarrow> bool"
  for sdk :: "'c stripe_sdk" and env :: env where
  checkout: "billing_step sdk env w (snd (checkout_POST sdk env cs req w))"
| webhook: "billing_step sdk env w (snd (webhook_POST sdk env dr req w))"
| grant: "billing_step sdk env w (snd (bi_on_db (comp_grant_POST cs gr req) w))"

lemma billing_step_kept:
  assumes "billing_step sdk env w w'"
  shows "recorded ids (bi_db w) \<longrightarrow> recorded ids (bi_db w')" "test_client w \<longrightarrow> test_client w'"
proof -
  have "(recorded ids (bi_db w) \<longrightarrow> recorded ids (bi_db w')) \<and> (test_client w \<longrightarrow> test_client w')"
    using assms
  proof cases
    case (grant cs gr req)
    then show ?thesis
      by (auto simp: bi_on_db_def test_client_def split: prod.split dest: keepsD [OF keeps_comp_grant_POST])
  qed (simp_all add: checkout_POST_db webhook_POST_test webhook_POST_recorded)
  then show "recorded ids (bi_db w) \<longrightarrow> recorded ids (bi_db w')" "test_client w \<longrightarrow> test_client w'" by blast+
qed

lemma billing_run_kept:
  assumes "(billing_step sdk env)\<^sup>*\<^sup>* w w'"
  shows "(recorded ids (bi_db w) \<longrightarrow> recorded ids (bi_db w')) \<and> (test_client w \<longrightarrow> test_client w')"
  using assms by induction (auto dest: billing_step_kept)

subsection \<open>Lemmas on the grant\<close>

lemma latest_of_orgD:
  "latest_of_org i d = Some s \<Longrightarrow> s \<in> set (subscriptions d) \<and> sub_orgId s = i"
  by (auto simp: latest_of_org_def dest: first_max_in)

definition is_grant :: "grant_draws \<Rightarrow> subscription \<Rightarrow> bool" where
  "is_grant dr s \<longleftrightarrow>
     tierId s = ''tier3'' \<and> sub_status s = ACTIVE \<and> usageCount s = 0 \<and> periodEnd s = addMonths (gd_now dr) 24"

lemma grant_subscription_Inr:
  assumes "grant_subscription dr org d = (Inr s, d')" "sub_valid d"
  shows "sub_find (sub_id s) d' = Some s \<and> sub_orgId s = org_id org \<and> is_grant dr s \<and>
    auditLogs d' = auditLogs d \<and> organizations d' = organizations d"
proof (cases "latest_of_org (org_id org) d")
  case None
  let ?r = "\<lparr>sub_id = gd_subId dr, sub_orgId = org_id org, tierId = COMP_GRANT_TIER, sub_status = ACTIVE,
             periodStart = gd_now dr, periodEnd = addMonths (gd_now dr) COMP_GRANT_MONTHS, usageCount = 0\<rparr>"
  from None assms(1) have "s = ?r \<and> sub_find (sub_id ?r) d = None \<and> d' = sub_insert ?r d"
    by (auto simp: grant_subscription_def faulty_Inr_iff sub_create_Inr_iff)
  then show ?thesis
    using sub.find_inserted [of ?r d]
    by (simp add: is_grant_def COMP_GRANT_TIER_def COMP_GRANT_MONTHS_def sub_insert_def)
next
  case (Some q)
  with latest_of_orgD have q: "q \<in> set (subscriptions d)" "sub_orgId q = org_id org" by blast+
  then have found: "sub_find (sub_id q) d = Some q" using assms(2) sub_find_found by blast
  with Some assms(1) have "s = granted (gd_now dr) q \<and> d' = sub_modify (sub_id q) (granted (gd_now dr)) d"
    by (auto simp: grant_subscription_def faulty_Inr_iff sub_update_Inr_iff)
  then show ?thesis
    using sub.modify_same [OF _ found, of "granted (gd_now dr)"] q(2)
    by (simp add: is_grant_def COMP_GRANT_TIER_def COMP_GRANT_MONTHS_def lookup_simps)
qed

lemma comp_grant_Inr:
  assumes "comp_grant dr actor target d = (Inr s, d')" "sub_valid d"
  shows "sub_find (sub_id s) d' = Some s \<and> of_clerk_org target d' s \<and> is_grant dr s \<and>
    auditLogs d' = auditLogs d @ [grant_audit dr actor target s]"
proof -
  let ?o = "\<lparr>org_id = gd_orgRowId dr, clerkOrgId = target, org_name = target, ownerEmail = None,
             org_createdAt = gd_dbNow dr\<rparr>"
  from assms(1) obtain org d1 d2 where up: "org_upsert ?o d = (Inr org, d1)"
      and sub: "grant_subscription dr org d1 = (Inr s, d2)"
      and d': "d' = d2\<lparr>auditLogs := auditLogs d2 @ [grant_audit dr actor target s]\<rparr>"
    by (auto simp: comp_grant_def transaction_Inr_iff andThen_Inr_iff faulty_Inr_iff audit_create_def ret_def)
  from up have d1: "subscriptions d1 = subscriptions d" "auditLogs d1 = auditLogs d"
    by (auto simp: org_upsert_Inr_iff org_insert_def split: option.splits)
  then have "sub_valid d1" using assms(2) by (simp add: sub_valid_def)
  note g = grant_subscription_Inr [OF sub this]
  then show ?thesis
    using org_upsert_present [OF up] d1 by (auto simp: d' lookup_simps intro: of_clerk_orgI)
qed

lemma comp_grant_Inl: "comp_grant dr actor target d = (Inl e, d') \<Longrightarrow> d' = d"
  by (simp add: comp_grant_def transaction_Inl_iff)

lemma comp_grant_POST_cases:
  assumes "comp_grant_POST cs dr req d = (r, d')"
  obtains (granted) actor target s where "requireAuth cs = Inr actor" "cs_has_role cs ORG_ADMIN_ROLE"
      "json_str (Option.bind (req_body req) (\<lambda>b. json_prop b ''targetOrgId'')) = Some target"
      "target \<noteq> []" "comp_grant dr actor target d = (Inr s, d')"
  | (refused) "d' = d" "\<And>resp. r = Inr resp \<Longrightarrow> res_status resp \<noteq> 200"
proof (cases "requireOrgAdmin cs")
  case (Inl e)
  with assms requireOrgAdmin_Inl [OF Inl] show thesis
    by (intro refused) (auto simp: comp_grant_POST_def ret_def)
next
  case (Inr actor)
  show thesis
  proof (cases "truthy (json_str (Option.bind (req_body req) (\<lambda>b. json_prop b ''targetOrgId'')))")
    case False
    with Inr assms show thesis
      by (intro refused) (auto simp: comp_grant_POST_def Let_def ret_def split: option.splits)
  next
    case True
    then obtain body target where body: "req_body req = Some body" "target \<noteq> []"
        "json_str (json_prop body ''targetOrgId'') = Some target"
      by (cases "req_body req") (auto simp: truthy_iff)
    obtain q d1 where q: "comp_grant dr actor target d = (q, d1)" by (cases "comp_grant dr actor target d")
    have adm: "requireAuth cs = Inr actor" "cs_has_role cs ORG_ADMIN_ROLE"
      using Inr by (simp_all add: requireOrgAdmin_Inr_iff)
    note run = assms [unfolded comp_grant_POST_def Inr body(1) sum.case option.case body(3) Let_def option.sel]
    show thesis
    proof (cases q)
      case (Inl e)
      with run body q have "r = Inl e" "d' = d1" by (simp_all add: andThen_def)
      with Inl q comp_grant_Inl show thesis by (intro refused) simp_all
    next
      case (Inr s)
      with run body q have "d' = d1" by (simp add: andThen_def ret_def)
      with Inr q adm body show thesis by (intro granted [of actor target s]) simp_all
    qed
  qed
qed

subsection \<open>Properties\<close>

definition billing_sdk :: "stripe_event \<Rightarrow> unit stripe_sdk" where
  "billing_sdk event =
     \<lparr>sd_createSession = (\<lambda>_ _. ret None), sd_constructEvent = (\<lambda>_ _ _. Inr event)\<rparr>"

definition billing_env :: env where
  "billing_env = [''STRIPE_WEBHOOK_SECRET'' \<mapsto> ''whsec'', ''STRIPE_SECRET_KEY'' \<mapsto> ''sk_test_1'']"

definition paid_event :: stripe_event where
  "paid_event =
     \<lparr>ev_id = ''evt_1'', ev_type = ''checkout.session.completed'',
      ev_session = \<lparr>se_clientReferenceId = Some ''org_1'', se_metadata = Some [(''tier'', ''tier2'')],
        se_subscription = IdRef ''sub_9''\<rparr>\<rparr>"

definition signed_request :: request where
  "signed_request =
     \<lparr>req_headers = [(''stripe-signature'', ''t=1'')], req_origin = ''https://eps'', req_query = [],
      req_body = None, req_text = ''{}''\<rparr>"

definition webhook_sample :: "(nat \<Rightarrow> eps_error option) \<Rightarrow> webhook_draws" where
  "webhook_sample flt =
     \<lparr>wk_dbNow = 0, wk_now = 0, wk_eventRowId = ''w1'', wk_orgRowId = ''o9'', wk_faults = flt\<rparr>"

definition billing_start :: "unit billing" where
  "billing_start = \<lparr>bi_client = Some ''sk_test_1'', bi_sdk = (), bi_db = sample_db 0\<rparr>"

lemmas billing_samples =
  billing_sdk_def billing_env_def paid_event_def signed_request_def webhook_sample_def billing_start_def
  sample_defs

lemma sample_verified: "verified (billing_sdk paid_event) billing_env signed_request paid_event"
  by (simp add: verified_def billing_samples header_get_def)

lemma sample_client: "getStripe billing_env billing_start = (Inr ''sk_test_1'', billing_start)"
  by (rule getStripe_hit) (simp add: billing_start_def)

lemmas webhook_eval =
  webhook_transaction_def transaction_def andThen_def faulty_def throw_def ret_def wh_create_def
  applyCheckoutCompleted_def org_upsert_def sub_upsert_def sub_create_def sub_update_def
  nullish_def session_meta_def session_subscription_def wh_find_def org_find_def sub_find_def org_by_id_def
  wh_insert_def sub_insert_def Let_def

lemma sample_paid:
  "webhook_POST (billing_sdk paid_event) billing_env (webhook_sample (\<lambda>_. None)) signed_request billing_start =
     (Inr received, billing_start\<lparr>bi_db := (sample_db 0)
        \<lparr>subscriptions := [sample_sub 0, paid_subscription 0 ''sub_9'' ''o1'' ''tier2''],
         webhookEvents := [\<lparr>wh_id = ''w1'', eventId = ''evt_1'', processedAt = 0\<rparr>]\<rparr>\<rparr>)"
  by (simp add: webhook_POST_verified [OF sample_verified sample_client])
     (simp add: webhook_eval billing_samples paid_subscription_def)

text \<open>C9. A Stripe event is applied once. After the webhook has answered an event with 200 and not as a
  duplicate, then whatever checkouts, webhooks and comp grants run next, a later delivery of an event with
  the same id changes nothing in the database; and unless the database refuses its first write, it is
  answered 200 and deduped.\<close>

theorem webhook_replay_noop:
  assumes "verified sdk env req event" "webhook_POST sdk env dr req w = (Inr received, w1)"
    and "billing_valid (bi_db w)" "(billing_step sdk env)\<^sup>*\<^sup>* w1 w2"
    and "verified sdk env req2 event2" "ev_id event2 = ev_id event" "getStripe env w2 = (Inr key, w3)"
  shows "bi_db (snd (webhook_POST sdk env dr2 req2 w2)) = bi_db w2 \<and>
    (wk_faults dr2 0 = None \<longrightarrow> fst (webhook_POST sdk env dr2 req2 w2) = Inr deduped)"
proof -
  have "recorded {ev_id event} (bi_db w1)"
    using assms(1-3)
  proof (cases rule: webhook_POST_cases [of sdk env req w])
    case (verified event' key w0)
    then have "event' = event" using assms(1) by (simp add: verified_def)
    then obtain d where run: "webhook_transaction dr event (bi_db w) = (Inr (), d)" "bi_db w1 = d"
      using assms(2) by (auto simp: webhook_POST_verified [OF verified] received_def deduped_def json_response_def
          split: prod.splits sum.splits if_splits)
    moreover have "recorded {} (bi_db w)" using assms(3) by (simp add: recorded_def)
    ultimately have "recorded {} d" using keepsD [OF keeps_webhook_transaction] by blast
    moreover have "wh_find (ev_id event) d \<noteq> None"
      using webhook_transaction_records [OF run(1)] .
    ultimately show ?thesis using run by (simp add: recorded_def)
  next
    case refused
    then show ?thesis using webhook_POST_refused(2) [OF refused, of dr received] assms(2) by (simp add: received_def)
  qed
  then have "wh_find (ev_id event2) (bi_db w2) \<noteq> None"
    using billing_run_kept [OF assms(4), of "{ev_id event}"] assms(6) by (simp add: recorded_def)
  then show ?thesis
    using getStripe_db [OF assms(7)]
    by (simp add: webhook_POST_verified [OF assms(5,7)] webhook_transaction_known)
qed

theorem webhook_replay_noop_witness:
  "fst (webhook_POST (billing_sdk paid_event) billing_env (webhook_sample (\<lambda>_. None)) signed_request
     (snd (webhook_POST (billing_sdk paid_event) billing_env (webhook_sample (\<lambda>_. None)) signed_request billing_start))) =
   Inr deduped"
  using webhook_replay_noop [OF sample_verified sample_paid _ rtranclp.rtrancl_refl sample_verified refl
      getStripe_hit, of "''sk_test_1''" "webhook_sample (\<lambda>_. None)"]
  by (simp add: sample_paid)
     (simp add: webhook_sample_def billing_start_def billing_valid_def org_valid_def sub_valid_def wh_valid_def metered_def metered_row_def tier_limit_def
       TIER_QUOTA_def sample_defs)

text \<open>C26. A completed checkout activates the subscription it paid for: when the webhook accepts the event
  of a checkout with an organization, a tier and a subscription id, that subscription exists and is
  ACTIVE. If it existed it keeps its tier, its period and its usage; otherwise it is of the paid tier,
  belongs to that organization, and starts with no usage and one month of period.\<close>

theorem webhook_activates:
  assumes "verified sdk env req event" "webhook_POST sdk env dr req w = (Inr received, w')"
    and "ev_type event = ''checkout.session.completed''"
    and "nullish (se_clientReferenceId (ev_session event)) (session_meta (ev_session event) ''orgId'') = Some c" "c \<noteq> []"
    and "session_meta (ev_session event) ''tier'' = Some t" "t \<noteq> []"
    and "session_subscription (ev_session event) = Some i" "i \<noteq> []"
  shows "\<exists>s. sub_find i (bi_db w') = Some s \<and> sub_status s = ACTIVE \<and>
    (case sub_find i (bi_db w) of
       Some q \<Rightarrow> s = activate q
     | None \<Rightarrow> of_clerk_org c (bi_db w') s \<and> s = paid_subscription (wk_now dr) i (sub_orgId s) t)"
  using assms(1,2)
proof (cases rule: webhook_POST_cases [of sdk env req w])
  case (verified event' key w0)
  then have "event' = event" using assms(1) by (simp add: verified_def)
  then obtain d where run: "webhook_transaction dr event (bi_db w) = (Inr (), d)" "bi_db w' = d"
    using assms(2) by (auto simp: webhook_POST_verified [OF verified] received_def deduped_def json_response_def
        split: prod.splits sum.splits if_splits)
  from run(1) assms(3-9) show ?thesis
    unfolding run(2) by (rule webhook_transaction_activates)
next
  case refused
  then show ?thesis using webhook_POST_refused(2) [OF refused, of dr received] assms(2) by (simp add: received_def)
qed

theorem webhook_activates_witness:
  "\<exists>s. sub_find ''sub_9'' (bi_db (snd (webhook_POST (billing_sdk paid_event) billing_env
     (webhook_sample (\<lambda>_. None)) signed_request billing_start))) = Some s \<and> sub_status s = ACTIVE"
  using webhook_activates [OF sample_verified sample_paid, of "''org_1''" "''tier2''" "''sub_9''"]
  unfolding sample_paid snd_conv
  by (auto simp: paid_event_def nullish_def session_meta_def session_subscription_def)

text \<open>Every P2002 is taken for a replay: when an event is new and its webhook row is written, but the
  upsert of the organization loses the race against another insertion of the same organization and throws
  P2002, the transaction is undone and the webhook still answers 200, received and deduped. The event is
  not recorded, nothing is activated, and Stripe will not send it again.\<close>

theorem webhook_lost_event:
  assumes "verified sdk env req event" "getStripe env w = (Inr key, w1)"
    and "wh_find (ev_id event) (bi_db w) = None" "ev_type event = ''checkout.session.completed''"
    and "truthy (nullish (se_clientReferenceId (ev_session event)) (session_meta (ev_session event) ''orgId''))"
    and "truthy (session_meta (ev_session event) ''tier'')" "truthy (session_subscription (ev_session event))"
    and "wk_faults dr 0 = None" "wk_faults dr 1 = Some P2002"
  shows "fst (webhook_POST sdk env dr req w) = Inr deduped \<and> bi_db (snd (webhook_POST sdk env dr req w)) = bi_db w \<and>
    wh_find (ev_id event) (bi_db (snd (webhook_POST sdk env dr req w))) = None"
proof -
  have "webhook_transaction dr event (bi_db w) = (Inl P2002, bi_db w)"
    using assms(3-9) by (simp add: webhook_transaction_def transaction_def andThen_def faulty_def throw_def wh_create_def
        applyCheckoutCompleted_def Let_def)
  then show ?thesis using assms(3) by (simp add: webhook_POST_verified [OF assms(1,2)])
qed

theorem webhook_lost_event_witness:
  "fst (webhook_POST (billing_sdk paid_event) billing_env (webhook_sample ((\<lambda>_. None)(1 := Some P2002)))
     signed_request billing_start) = Inr deduped"
  by (rule webhook_lost_event [OF sample_verified sample_client, THEN conjunct1])
     (simp_all add: billing_samples wh_find_def nullish_def session_meta_def session_subscription_def)

text \<open>What a run of the billing routes keeps, whatever the requests, faults and interleaving of whole
  calls: organizations, subscriptions and webhook events stay unique by their keys, the usage of every
  subscription stays between 0 and the quota of its tier, the recorded events stay recorded, and the
  cached Stripe client is never one for a live key.\<close>

theorem billing_run_invariant:
  assumes "(billing_step sdk env)\<^sup>*\<^sup>* w w'" "billing_valid (bi_db w)" "bi_client w = None"
  shows "billing_valid (bi_db w') \<and> (\<forall>i. wh_find i (bi_db w) \<noteq> None \<longrightarrow> wh_find i (bi_db w') \<noteq> None) \<and>
    (case bi_client w' of None \<Rightarrow> True | Some key \<Rightarrow> key \<noteq> [] \<and> \<not> live_key key)"
  using billing_run_kept [OF assms(1), of "{i. wh_find i (bi_db w) \<noteq> None}"] assms(2,3)
  by (simp add: recorded_def test_client_def)

theorem billing_run_invariant_witness:
  "case bi_client (snd (webhook_POST (billing_sdk paid_event) (billing_env(''STRIPE_SECRET_KEY'' \<mapsto> ''sk_live_1''))
      (webhook_sample (\<lambda>_. None)) signed_request (billing_start\<lparr>bi_client := None\<rparr>))) of
     None \<Rightarrow> True | Some key \<Rightarrow> key \<noteq> [] \<and> \<not> live_key key"
  by (rule billing_run_invariant [OF r_into_rtranclp [of "billing_step (billing_sdk paid_event)
          (billing_env(''STRIPE_SECRET_KEY'' \<mapsto> ''sk_live_1''))", OF billing_step.webhook], THEN conjunct2, THEN conjunct2])
     (simp_all add: billing_start_def billing_valid_def org_valid_def sub_valid_def wh_valid_def metered_def
        metered_row_def tier_limit_def TIER_QUOTA_def sample_defs)


definition grant_request :: request where
  "grant_request =
     \<lparr>req_headers = [], req_origin = ''https://eps'', req_query = [],
      req_body = Some (JObj [(''targetOrgId'', JStr ''org_2'')]), req_text = []\<rparr>"

definition grant_sample :: grant_draws where
  "grant_sample =
     \<lparr>gd_now = 0, gd_dbNow = 0, gd_orgRowId = ''o2'', gd_subId = ''sub_2'', gd_auditId = ''a1'', gd_faults = (\<lambda>_. None)\<rparr>"

definition admin_of :: "string \<Rightarrow> clerk_session" where
  "admin_of org =
     \<lparr>cs_userId = Some ''user_1'', cs_orgId = Some org, cs_has_role = (\<lambda>role. role = ORG_ADMIN_ROLE)\<rparr>"


end
