(* ===== verification/Certificate.thy ===== *)
theory Certificate
  imports Database Encodings
begin

text \<open>
  The certificate of a served notice: lib/certificate-pdf.ts (its fields and its layout),
  lib/certificate.ts (the First Viewed addendum) and lib/certificate-store.ts (the copy that is
  stored once and served from then on). The PDF library is a parameter: the width of a text and
  the bytes of a page with the given drawing operations. Lengths are hundredths of a PDF point.
  Text is a string or the em dash, the one character of the document outside the model's strings.
\<close>

subsection \<open>Drawing\<close>

datatype pdf_text = Txt string | EmDash

datatype pdf_color = Black | Grey | Blue

record draw_op =
  do_text :: pdf_text
  do_x :: int
  do_y :: int
  do_size :: int
  do_bold :: bool
  do_color :: pdf_color

record pdf_lib =
  pl_width :: "string \<Rightarrow> int \<Rightarrow> int"
  pl_save :: "draw_op list \<Rightarrow> bytes"

definition A4_WIDTH :: int where "A4_WIDTH = 59528"
definition A4_HEIGHT :: int where "A4_HEIGHT = 84189"
definition MARGIN :: int where "MARGIN = 5600"

text \<open>The words of \<open>text.split(/\s+/)\<close>: a text that starts or ends in white space has an
  empty first or last word.\<close>

function split_spaces :: "string \<Rightarrow> string \<Rightarrow> string list" where
  "split_spaces acc [] = [rev acc]"
| "split_spaces acc (c # cs) =
     (if is_space c then rev acc # split_spaces [] (dropWhile is_space cs) else split_spaces (c # acc) cs)"
  by pat_completeness auto

termination
  by (relation "measure (\<lambda>(acc, s). length s)") (auto simp: le_imp_less_Suc length_dropWhile_le)

primrec wrap_words :: "pdf_lib \<Rightarrow> int \<Rightarrow> int \<Rightarrow> string \<Rightarrow> string list \<Rightarrow> string list" where
  "wrap_words lib sz maxWidth current [] = (if current \<noteq> [] then [current] else [])"
| "wrap_words lib sz maxWidth current (word # words) =
     (let candidate = if current \<noteq> [] then current @ '' '' @ word else word
      in if pl_width lib candidate sz > maxWidth \<and> current \<noteq> [] then
           current # wrap_words lib sz maxWidth word words
         else wrap_words lib sz maxWidth candidate words)"

definition wrap :: "pdf_lib \<Rightarrow> string \<Rightarrow> int \<Rightarrow> int \<Rightarrow> string list" where
  "wrap lib txt sz maxWidth = wrap_words lib sz maxWidth [] (split_spaces [] txt)"

record line_writer =
  lw_y :: int
  lw_ops :: "draw_op list"

definition lw_draw :: "int \<Rightarrow> pdf_text \<Rightarrow> int \<Rightarrow> bool \<Rightarrow> pdf_color \<Rightarrow> line_writer \<Rightarrow> line_writer" where
  "lw_draw x txt sz bold color w =
     w\<lparr>lw_ops := lw_ops w @ [\<lparr>do_text = txt, do_x = x, do_y = lw_y w, do_size = sz, do_bold = bold, do_color = color\<rparr>]\<rparr>"

definition lw_down :: "int \<Rightarrow> line_writer \<Rightarrow> line_writer" where
  "lw_down n w = w\<lparr>lw_y := lw_y w - n\<rparr>"

definition lw_new :: line_writer where
  "lw_new = \<lparr>lw_y = A4_HEIGHT - MARGIN, lw_ops = []\<rparr>"

definition lw_heading :: "string \<Rightarrow> line_writer \<Rightarrow> line_writer" where
  "lw_heading txt w = lw_down 800 (lw_draw MARGIN (Txt txt) 1800 True Black (lw_down 1800 w))"

definition lw_section :: "string \<Rightarrow> line_writer \<Rightarrow> line_writer" where
  "lw_section txt w = lw_down 400 (lw_draw MARGIN (Txt txt) 1200 True Black (lw_down 1400 w))"

definition lw_field :: "string \<Rightarrow> pdf_text \<Rightarrow> line_writer \<Rightarrow> line_writer" where
  "lw_field label value w =
     lw_draw (MARGIN + 13000) value 900 False Black
       (lw_draw MARGIN (Txt (label @ '':'')) 900 True Grey (lw_down 1600 w))"

definition lw_link :: "string \<Rightarrow> string \<Rightarrow> line_writer \<Rightarrow> line_writer" where
  "lw_link label url w =
     lw_draw (MARGIN + 13000) (Txt url) 900 False Blue
       (lw_draw MARGIN (Txt (label @ '':'')) 900 True Grey (lw_down 1600 w))"

definition lw_lines :: "string list \<Rightarrow> line_writer \<Rightarrow> line_writer" where
  "lw_lines ls w = fold (\<lambda>l w. lw_draw MARGIN (Txt l) 900 False Grey (lw_down 1300 w)) ls w"

definition lw_paragraph :: "pdf_lib \<Rightarrow> string \<Rightarrow> line_writer \<Rightarrow> line_writer" where
  "lw_paragraph lib txt w = lw_lines (wrap lib txt 900 (A4_WIDTH - 2 * MARGIN)) w"

definition lw_gap :: "line_writer \<Rightarrow> line_writer" where
  "lw_gap w = lw_down 800 w"

definition lw_footer :: "string \<Rightarrow> line_writer \<Rightarrow> line_writer" where
  "lw_footer txt w =
     w\<lparr>lw_ops := lw_ops w @ [\<lparr>do_text = Txt txt, do_x = MARGIN, do_y = MARGIN, do_size = 800,
        do_bold = False, do_color = Grey\<rparr>]\<rparr>"

subsection \<open>The document\<close>

record certificate_data =
  cd_row :: service_request
  cd_firstViewedAt :: "date option"
  cd_firstViewerIp :: "string option"

definition solscanTxUrl :: "string \<Rightarrow> string" where
  "solscanTxUrl signature = ''https://solscan.io/tx/'' @ signature @ ''?cluster=devnet''"

definition formatUtc :: "date \<Rightarrow> string" where
  "formatUtc t = replace_millis '''' (replace_first (CHR ''T'') '' '' (toISOString t)) @ '' UTC''"

definition or_dash :: "string option \<Rightarrow> pdf_text" where
  "or_dash x = (case x of None \<Rightarrow> EmDash | Some s \<Rightarrow> Txt s)"

definition disclaimer :: string where
  "disclaimer =
     ''This certificate facilitates service of process and provides court-ready '' @
     ''proof of on-chain delivery. It does not itself effect valid legal service.''"

definition case_part :: "service_request \<Rightarrow> line_writer \<Rightarrow> line_writer" where
  "case_part r w =
     lw_gap (lw_field ''Recipient wallet'' (Txt (recipientWallet r))
         (lw_field ''Defendant'' (Txt (defendantName r))
         (lw_field ''Plaintiff'' (Txt (plaintiffName r))
         (lw_field ''Case title'' (Txt (caseCaption r))
         (lw_field ''Case reference'' (or_dash (noticeToken r)) (lw_section ''Case'' w))))))"

definition document_part :: "service_request \<Rightarrow> line_writer \<Rightarrow> line_writer" where
  "document_part r w =
     lw_gap (lw_field ''SHA-256'' (or_dash (documentSha256 r))
         (lw_field ''Filename''
            (Txt (''notice-'' @ (case noticeToken r of None \<Rightarrow> ''document'' | Some t \<Rightarrow> t) @ ''.pdf''))
         (lw_section ''Served document'' w)))"

definition chain_part :: "service_request \<Rightarrow> line_writer \<Rightarrow> line_writer" where
  "chain_part r w =
     (let w1 = lw_section ''On-chain proof (Solana devnet)'' w
      in lw_gap (if truthy (txSignature r) then
           lw_field ''Block time (UTC)'' (or_dash (map_option formatUtc (blockTime r)))
          (lw_field ''Slot'' (or_dash (map_option string_of_int (sr_slot r)))
          (lw_link ''Explorer'' (solscanTxUrl (the (txSignature r)))
          (lw_field ''Transaction'' (Txt (the (txSignature r))) w1)))
         else lw_field ''Transaction'' (Txt ''Not yet confirmed on-chain'') w1))"

definition viewed_part :: "certificate_data \<Rightarrow> line_writer \<Rightarrow> line_writer" where
  "viewed_part cd w =
     (let w1 = lw_section ''First viewed'' w
      in case cd_firstViewedAt cd of
           Some t \<Rightarrow> lw_field ''Viewer IP (masked)'' (or_dash (cd_firstViewerIp cd))
                      (lw_field ''Viewed at (UTC)'' (Txt (formatUtc t)) w1)
         | None \<Rightarrow> lw_field ''Status'' (Txt ''Not yet viewed'') w1)"

definition hcs_part :: "hedera_fields \<Rightarrow> line_writer \<Rightarrow> line_writer" where
  "hcs_part h w =
     (if truthy (hcsTopicId h) then
        (let w1 = lw_field ''Consensus time (UTC)'' (or_dash (hcsConsensusTime h))
                 (lw_field ''Sequence number'' (or_dash (map_option string_of_int (hcsSequenceNumber h)))
                 (lw_field ''Topic ID'' (Txt (the (hcsTopicId h)))
                 (lw_section ''Hedera Consensus Service Timestamp'' (lw_gap w))))
         in if truthy (hcsMirrorUrl h) then lw_link ''Verify on mirror node'' (the (hcsMirrorUrl h)) w1 else w1)
      else w)"

definition hts_part :: "hedera_fields \<Rightarrow> line_writer \<Rightarrow> line_writer" where
  "hts_part h w =
     (if truthy (htsTokenId h) then
        (let w1 = lw_field ''Serial number'' (or_dash (map_option string_of_int (htsSerialNumber h)))
                 (lw_field ''Token ID'' (Txt (the (htsTokenId h)))
                 (lw_section ''Hedera Proof of Service NFT'' (lw_gap w)))
         in if truthy (htsMirrorUrl h) then lw_link ''NFT on mirror node'' (the (htsMirrorUrl h)) w1 else w1)
      else w)"

definition certificate_body :: "pdf_lib \<Rightarrow> certificate_data \<Rightarrow> line_writer" where
  "certificate_body lib cd =
     (let r = cd_row cd
      in hts_part (sr_hedera r) (hcs_part (sr_hedera r) (viewed_part cd (chain_part r (document_part r (case_part r
         (lw_gap (lw_paragraph lib disclaimer (lw_gap (lw_heading ''EPS NOTICE CERTIFICATE'' lw_new))))))))))"

definition renderCertificatePdf :: "pdf_lib \<Rightarrow> date \<Rightarrow> certificate_data \<Rightarrow> bytes" where
  "renderCertificatePdf lib now cd =
     pl_save lib (lw_ops (lw_footer (''Certificate generated '' @ formatUtc now) (certificate_body lib cd)))"

definition certificate_data_of :: "db \<Rightarrow> service_request \<Rightarrow> certificate_data" where
  "certificate_data_of d r =
     (let addendum = ca_find (sr_id r) d
      in \<lparr>cd_row = r, cd_firstViewedAt = map_option ca_viewedAt addendum,
          cd_firstViewerIp = map_option ca_viewerIp addendum\<rparr>)"

definition generateCertificatePdf :: "pdf_lib \<Rightarrow> date \<Rightarrow> string \<Rightarrow> (db, bytes) act" where
  "generateCertificatePdf lib now noticeId d =
     (case sr_find noticeId d of
        None \<Rightarrow> (Inl (PlainError (''No notice found for id '' @ noticeId)), d)
      | Some r \<Rightarrow> (Inr (renderCertificatePdf lib now (certificate_data_of d r)), d))"

subsection \<open>certificate.ts\<close>

definition writeFirstViewedAddendum :: "string \<Rightarrow> date \<Rightarrow> string \<Rightarrow> date \<Rightarrow> string \<Rightarrow> (db, unit) act" where
  "writeFirstViewedAddendum uuid now noticeId viewed_at viewer =
     andThen (ca_create \<lparr>ca_id = uuid, ca_noticeId = noticeId, ca_viewedAt = viewed_at, ca_viewerIp = viewer,
                         ca_createdAt = now\<rparr>) (\<lambda>_. ret ())"

subsection \<open>certificate-store.ts\<close>

definition certificate_create :: "string \<Rightarrow> date \<Rightarrow> string \<Rightarrow> string \<Rightarrow> (db, certificate_pdf) act" where
  "certificate_create uuid now noticeId base64 =
     cp_create \<lparr>cp_id = uuid, cp_noticeId = noticeId, pdfBase64 = base64, generatedAt = now\<rparr>"

text \<open>
  \<open>interference\<close> is what other requests write between the lookup and the insertion; \<open>fault\<close>
  is a database error of the insertion.
\<close>

definition getOrCreateCertificatePdf ::
  "pdf_lib \<Rightarrow> string \<Rightarrow> date \<Rightarrow> eps_error option \<Rightarrow> (db \<Rightarrow> db) \<Rightarrow> string \<Rightarrow> (db, bytes) act" where
  "getOrCreateCertificatePdf lib uuid now fault interference noticeId d =
     (case cp_find noticeId d of
        Some existing \<Rightarrow> (Inr (b64_decode (pdfBase64 existing)), d)
      | None \<Rightarrow>
          (case generateCertificatePdf lib now noticeId d of
             (Inl e, d1) \<Rightarrow> (Inl e, d1)
           | (Inr pdf, d1) \<Rightarrow>
               (case faulty fault (certificate_create uuid now noticeId (b64_encode pdf)) (interference d1) of
                  (Inr _, d2) \<Rightarrow> (Inr pdf, d2)
                | (Inl _, d2) \<Rightarrow>
                    (case cp_find noticeId d2 of
                       Some row \<Rightarrow> (Inr (b64_decode (pdfBase64 row)), d2)
                     | None \<Rightarrow> (Inr pdf, d2)))))"

subsection \<open>Wrapping\<close>

lemma join_Cons: "ls \<noteq> [] \<Longrightarrow> join_with d (a # ls) = a @ d @ join_with d ls"
  by (cases ls) simp_all

lemma join_merge: "join_with d ((a @ d @ b) # ls) = join_with d (a # b # ls)"
  by (cases ls) simp_all

lemma wrap_words_step:
  "wrap_words lib sz mw cur (v # words) =
     (if cur = [] then wrap_words lib sz mw v words
      else if pl_width lib (cur @ '' '' @ v) sz > mw then cur # wrap_words lib sz mw v words
      else wrap_words lib sz mw (cur @ '' '' @ v) words)"
  by (simp add: Let_def)

lemma wrap_words_nonempty: "cur \<noteq> [] \<Longrightarrow> wrap_words lib sz mw cur words \<noteq> []"
proof (induction words arbitrary: cur)
  case Nil
  then show ?case by simp
next
  case (Cons v words)
  have "wrap_words lib sz mw (cur @ '' '' @ v) words \<noteq> []" by (rule Cons.IH) simp
  with Cons.prems show ?case unfolding wrap_words_step by simp
qed

lemma wrap_words_join:
  "\<forall>v\<in>set words. v \<noteq> [] \<Longrightarrow>
   join_with '' '' (wrap_words lib sz mw cur words) = join_with '' '' ((if cur = [] then [] else [cur]) @ words)"
proof (induction words arbitrary: cur)
  case Nil
  then show ?case by simp
next
  case (Cons v words)
  have v: "v \<noteq> []" and ih: "\<And>c. c \<noteq> [] \<Longrightarrow> join_with '' '' (wrap_words lib sz mw c words) = join_with '' '' (c # words)"
    using Cons by simp_all
  have c: "join_with '' '' (wrap_words lib sz mw (cur @ '' '' @ v) words) = join_with '' '' (cur # v # words)"
    by (subst ih) (simp, rule join_merge)
  have d: "join_with '' '' (cur # wrap_words lib sz mw v words) = join_with '' '' (cur # v # words)"
    by (simp only: join_Cons [OF wrap_words_nonempty [OF v]] ih [OF v] join_with.simps)
  show ?case
    unfolding wrap_words_step using c d ih [OF v] by (simp only: append.simps split: if_split)  simp
qed

lemma wrap_words_fit:
  "l \<in> set (wrap_words lib sz mw cur words) \<Longrightarrow>
   pl_width lib l sz \<le> mw \<or> l \<in> set words \<or> l = cur"
proof (induction words arbitrary: cur)
  case Nil
  then show ?case by (cases "cur = []") simp_all
next
  case (Cons v words)
  show ?case
  proof (cases "cur = []")
    case True
    with Cons.prems Cons.IH [of v] show ?thesis unfolding wrap_words_step by auto
  next
    case False
    show ?thesis
    proof (cases "pl_width lib (cur @ '' '' @ v) sz > mw")
      case True
      with False Cons.prems have "l = cur \<or> l \<in> set (wrap_words lib sz mw v words)"
        unfolding wrap_words_step by simp
      with Cons.IH [of v] show ?thesis by auto
    next
      case fits: False
      with False Cons.prems have "l \<in> set (wrap_words lib sz mw (cur @ '' '' @ v) words)"
        unfolding wrap_words_step by simp
      from Cons.IH [OF this] fits show ?thesis by auto
    qed
  qed
qed

lemma wrap_words_no_empty:
  "l \<in> set (wrap_words lib sz mw cur words) \<Longrightarrow> \<forall>v\<in>set words. v \<noteq> [] \<Longrightarrow> l \<noteq> []"
proof (induction words arbitrary: cur)
  case Nil
  then show ?case by (cases "cur = []") simp_all
next
  case (Cons v words)
  from Cons.prems have "l = cur \<and> cur \<noteq> [] \<or> l \<in> set (wrap_words lib sz mw v words) \<or>
      l \<in> set (wrap_words lib sz mw (cur @ '' '' @ v) words)"
    unfolding wrap_words_step by (auto split: if_splits)
  with Cons.IH Cons.prems(2) show ?case by fastforce
qed

subsection \<open>Layout\<close>

definition above_cursor :: "line_writer \<Rightarrow> bool" where
  "above_cursor w = list_all (\<lambda>p. lw_y w \<le> do_y p \<and> do_y p \<le> A4_HEIGHT - MARGIN) (lw_ops w)"

definition well_placed :: "int \<Rightarrow> line_writer \<Rightarrow> bool" where
  "well_placed n w = (above_cursor w \<and> lw_y w \<le> A4_HEIGHT - MARGIN \<and> n \<le> lw_y w)"

lemma well_placed_draw: "well_placed n w \<Longrightarrow> well_placed n (lw_draw x t sz b c w)"
  by (simp add: well_placed_def above_cursor_def lw_draw_def)

lemma well_placed_down: "well_placed n w \<Longrightarrow> 0 \<le> k \<Longrightarrow> m = n - k \<Longrightarrow> well_placed m (lw_down k w)"
  by (auto simp: well_placed_def above_cursor_def lw_down_def list_all_iff)

lemma placed_down: "well_placed (m + k) w \<Longrightarrow> 0 \<le> k \<Longrightarrow> well_placed m (lw_down k w)"
  by (erule well_placed_down) simp_all

lemma placed_intros:
  "well_placed (m + 2600) w \<Longrightarrow> well_placed m (lw_heading t w)"
  "well_placed (m + 1800) w \<Longrightarrow> well_placed m (lw_section t w)"
  "well_placed (m + 1600) w \<Longrightarrow> well_placed m (lw_field t v w)"
  "well_placed (m + 1600) w \<Longrightarrow> well_placed m (lw_link t u w)"
  "well_placed (m + 800) w \<Longrightarrow> well_placed m (lw_gap w)"
  unfolding lw_heading_def lw_section_def lw_field_def lw_link_def lw_gap_def
  by (rule placed_down well_placed_draw | simp add: add.assoc)+

lemma placed_lines: "well_placed (m + 1300 * int (length ls)) w \<Longrightarrow> well_placed m (lw_lines ls w)"
proof (induction ls arbitrary: w)
  case Nil
  then show ?case by (simp add: lw_lines_def)
next
  case (Cons l ls)
  have "well_placed (m + 1300 * int (length ls)) (lw_draw MARGIN (Txt l) 900 False Grey (lw_down 1300 w))"
    by (intro well_placed_draw placed_down) (use Cons.prems in \<open>simp_all add: algebra_simps\<close>)
  from Cons.IH [OF this] show ?case by (simp add: lw_lines_def)
qed

lemma placed_case: "well_placed (m + 10600) w \<Longrightarrow> well_placed m (case_part r w)"
  unfolding case_part_def by (intro placed_intros) (simp add: add.assoc)

lemma placed_document: "well_placed (m + 5800) w \<Longrightarrow> well_placed m (document_part r w)"
  unfolding document_part_def by (intro placed_intros) (simp add: add.assoc)

lemma placed_weaken: "well_placed n w \<Longrightarrow> m \<le> n \<Longrightarrow> well_placed m w"
  by (auto simp: well_placed_def)

lemma placed_chain: "well_placed (m + 9000) w \<Longrightarrow> well_placed m (chain_part r w)"
  unfolding chain_part_def Let_def
  by (cases "truthy (txSignature r)") (auto intro!: placed_intros elim!: placed_weaken)

lemma placed_viewed: "well_placed (m + 5000) w \<Longrightarrow> well_placed m (viewed_part cd w)"
  unfolding viewed_part_def Let_def
  by (cases "cd_firstViewedAt cd") (auto intro!: placed_intros elim!: placed_weaken)

lemma placed_hcs: "well_placed (m + 9000) w \<Longrightarrow> well_placed m (hcs_part h w)"
  unfolding hcs_part_def Let_def by (auto intro!: placed_intros elim!: placed_weaken)

lemma placed_hts: "well_placed (m + 7400) w \<Longrightarrow> well_placed m (hts_part h w)"
  unfolding hts_part_def Let_def by (auto intro!: placed_intros elim!: placed_weaken)

lemma placed_new: "well_placed (A4_HEIGHT - MARGIN) lw_new"
  by (simp add: well_placed_def above_cursor_def lw_new_def)

lemma placed_body:
  assumes "length (wrap lib disclaimer 900 (A4_WIDTH - 2 * MARGIN)) \<le> 16"
  shows "well_placed (MARGIN + 800) (certificate_body lib cd)"
  unfolding certificate_body_def Let_def lw_paragraph_def
  by (intro placed_hts placed_hcs placed_viewed placed_chain placed_document placed_case placed_intros placed_lines)
     (rule placed_weaken [OF placed_new], use assms in \<open>simp add: A4_HEIGHT_def MARGIN_def\<close>)

subsection \<open>Properties\<close>

text \<open>The wrapped paragraph is the paragraph: joining the lines with spaces gives the words of the
  text in order, and every line fits the width unless it is a single word.\<close>

theorem wrap_keeps_words:
  assumes "\<forall>v\<in>set (split_spaces [] txt). v \<noteq> []"
  shows "join_with '' '' (wrap lib txt sz mw) = join_with '' '' (split_spaces [] txt) \<and>
    (\<forall>l\<in>set (wrap lib txt sz mw). pl_width lib l sz \<le> mw \<or> l \<in> set (split_spaces [] txt))"
  using wrap_words_join [OF assms, of lib sz mw "[]"] wrap_words_fit [of _ lib sz mw "[]" "split_spaces [] txt"]
    wrap_words_no_empty [OF _ assms, of _ lib sz mw "[]"]
  unfolding wrap_def by auto

definition char_width :: pdf_lib where
  "char_width = \<lparr>pl_width = (\<lambda>s n. int (length s) * 500), pl_save = (\<lambda>ops. replicate (length ops) 0)\<rparr>"

lemma wrap_keeps_words_witness: "join_with '' '' (wrap char_width ''a bb ccc'' 900 2000) = ''a bb ccc''"
proof -
  have s: "split_spaces [] ''a bb ccc'' = [''a'', ''bb'', ''ccc'']" by (simp add: is_space_def code_unit_def)
  then have "\<forall>v\<in>set (split_spaces [] ''a bb ccc''). v \<noteq> []" by simp
  from wrap_keeps_words [OF this, of char_width 900 2000] s show ?thesis by simp
qed



text \<open>A certificate is frozen by its first request: the stored copy is exactly the bytes returned
  then, and any later request, whatever has since happened to the service request, its
  confirmation or its first view, gets the same bytes and changes nothing.\<close>

theorem certificate_frozen:
  assumes "getOrCreateCertificatePdf lib uuid now fault interference noticeId d = (Inr pdf, d')"
    and "cp_find noticeId d' \<noteq> None" "cp_find noticeId later = cp_find noticeId d'"
  shows "getOrCreateCertificatePdf lib2 uuid2 now2 fault2 interference2 noticeId later = (Inr pdf, later)"
proof -
  obtain row where row: "cp_find noticeId d' = Some row" using assms(2) by blast
  have made: "b64_decode (pdfBase64 row) = g"
    if "certificate_create uuid now noticeId (b64_encode g) e = (Inr c, d')" for g e c
  proof -
    let ?r = "\<lparr>cp_id = uuid, cp_noticeId = noticeId, pdfBase64 = b64_encode g, generatedAt = now\<rparr>"
    from that have n: "cp_find (cp_noticeId ?r) e = None" and d': "d' = cp_insert ?r e"
      by (auto simp: certificate_create_def cp_create_def split: if_splits)
    from cp.find_inserted [OF n] row d' show ?thesis by (auto simp: b64.decode_encode)
  qed
  have "b64_decode (pdfBase64 row) = pdf"
    using assms(1) row made
    by (auto simp: getOrCreateCertificatePdf_def faulty_Inr_iff split: option.splits prod.splits sum.splits)
  with row have "\<exists>row. cp_find noticeId d' = Some row \<and> b64_decode (pdfBase64 row) = pdf" by blast
  with assms(3) show ?thesis by (auto simp: getOrCreateCertificatePdf_def)
qed

definition stored_pdf :: certificate_pdf where
  "stored_pdf = \<lparr>cp_id = ''p1'', cp_noticeId = ''r1'', pdfBase64 = b64_encode [37, 80], generatedAt = 0\<rparr>"

lemma stored_pdf_found [simp]:
  "cp_find ''r1'' (d\<lparr>certificatePdfs := [stored_pdf]\<rparr>) = Some stored_pdf"
  "cp_find ''r1'' (d\<lparr>certificatePdfs := [stored_pdf], serviceRequests := rs\<rparr>) = Some stored_pdf"
  by (simp_all add: cp_find_def stored_pdf_def)

theorem certificate_frozen_witness:
  "getOrCreateCertificatePdf char_width ''p2'' 9 None id ''r1''
     ((sample_db 0)\<lparr>certificatePdfs := [stored_pdf], serviceRequests := [sample_request\<lparr>sr_status := CONFIRMED\<rparr>]\<rparr>) =
   (Inr (b64_decode (pdfBase64 stored_pdf)),
    (sample_db 0)\<lparr>certificatePdfs := [stored_pdf], serviceRequests := [sample_request\<lparr>sr_status := CONFIRMED\<rparr>]\<rparr>)"
proof (rule certificate_frozen [of char_width "''p1''" 1 None id "''r1''" "(sample_db 0)\<lparr>certificatePdfs := [stored_pdf]\<rparr>"])
  show "getOrCreateCertificatePdf char_width ''p1'' 1 None id ''r1'' ((sample_db 0)\<lparr>certificatePdfs := [stored_pdf]\<rparr>) =
      (Inr (b64_decode (pdfBase64 stored_pdf)), (sample_db 0)\<lparr>certificatePdfs := [stored_pdf]\<rparr>)"
    unfolding getOrCreateCertificatePdf_def stored_pdf_found by simp
qed (unfold stored_pdf_found, simp_all)

end
