(* ===== verification/Notice.thy ===== *)
theory Notice
  imports Certificate Rate_Limits Auth
begin

text \<open>
  The public notice: lib/notice.ts (lookup by token), lib/noticeAccess.ts (the first view),
  lib/email.ts and lib/email/send-first-access-alert.ts (the alerts), the page app/n/[token]
  and the certificate route app/api/certificate/[noticeId]. The state is the database, the counters
  of the page limiter, the alerts that have been started, and the mails that have been sent.
\<close>

subsection \<open>State\<close>

record mail =
  ml_from :: string
  ml_to :: string
  ml_subject :: string
  ml_text :: string

record notice_state =
  ns_db :: db
  ns_buckets :: "window_counter js_map"
  ns_alerts :: "string list"
  ns_mails :: "mail list"

record access_draws =
  ad_now :: date
  ad_accessId :: string
  ad_addendumId :: string
  ad_auditId :: string
  ad_faults :: "nat \<Rightarrow> eps_error option"

definition ns_on_db :: "(db, 'a) act \<Rightarrow> (notice_state, 'a) act" where
  "ns_on_db m w = (case m (ns_db w) of (r, d) \<Rightarrow> (r, w\<lparr>ns_db := d\<rparr>))"

definition ns_transaction :: "(notice_state, 'a) act \<Rightarrow> (notice_state, 'a) act" where
  "ns_transaction m w =
     (case m w of (Inl e, w') \<Rightarrow> (Inl e, w'\<lparr>ns_db := ns_db w\<rparr>) | (Inr x, w') \<Rightarrow> (Inr x, w'))"

subsection \<open>notice.ts\<close>

record notice_view =
  nv_id :: string
  nv_caseCaption :: string
  nv_plaintiffName :: string
  nv_defendantName :: string
  nv_recipientWallet :: string
  nv_status :: service_status
  nv_txSignature :: "string option"
  nv_blockTime :: "date option"
  nv_noticeToken :: "string option"

definition notice_view_of :: "service_request \<Rightarrow> notice_view" where
  "notice_view_of r =
     \<lparr>nv_id = sr_id r, nv_caseCaption = caseCaption r, nv_plaintiffName = plaintiffName r,
      nv_defendantName = defendantName r, nv_recipientWallet = recipientWallet r, nv_status = sr_status r,
      nv_txSignature = txSignature r, nv_blockTime = blockTime r, nv_noticeToken = noticeToken r\<rparr>"

definition sr_by_token :: "string \<Rightarrow> db \<Rightarrow> service_request option" where
  "sr_by_token t d = row_find noticeToken (Some t) (serviceRequests d)"

definition loadNotice :: "string \<Rightarrow> db \<Rightarrow> notice_view option" where
  "loadNotice token d =
     (let normalized = js_lower (js_trim token)
      in if \<not> re_notice_token normalized then None else map_option notice_view_of (sr_by_token normalized d))"

subsection \<open>noticeAccess.ts\<close>

record first_access_result =
  fa_isFirstAccess :: bool
  fa_ownerEmail :: "string option"
  fa_caseRef :: string
  fa_maskedIp :: string
  fa_viewedAt :: date

definition set_last :: "string \<Rightarrow> string list \<Rightarrow> string list" where
  "set_last x xs = xs[length xs - 1 := x]"

definition maskIp :: "string \<Rightarrow> string" where
  "maskIp ip =
     (let v4 = split_on (CHR ''.'') ip
      in if length v4 = 4 \<and> list_all re_digits v4 then join_with ''.'' (v4[3 := ''x''])
         else if CHR '':'' \<in> set ip then join_with '':'' (set_last ''x'' (split_on (CHR '':'') ip))
         else ip)"

definition owner_email :: "db \<Rightarrow> service_request \<Rightarrow> string option" where
  "owner_email d r = Option.bind (Option.bind (sr_orgId r) (\<lambda>i. org_by_id i d)) ownerEmail"

definition start_alert :: "string \<Rightarrow> (notice_state, unit) act" where
  "start_alert noticeId w = (Inr (), w\<lparr>ns_alerts := ns_alerts w @ [noticeId]\<rparr>)"

definition recordFirstAccess ::
  "access_draws \<Rightarrow> string \<Rightarrow> string \<Rightarrow> string \<Rightarrow> (notice_state, first_access_result) act" where
  "recordFirstAccess dr noticeId ip agent =
     ns_transaction (\<lambda>w.
       (let masked = maskIp ip;
            service = sr_find noticeId (ns_db w);
            owner = Option.bind service (owner_email (ns_db w));
            caseRef = (case service of None \<Rightarrow> [] | Some r \<Rightarrow> caseCaption r);
            viewed = (case service of None \<Rightarrow> None | Some r \<Rightarrow> na_find noticeId (ns_db w))
        in case viewed of
             Some a \<Rightarrow>
               ret \<lparr>fa_isFirstAccess = False, fa_ownerEmail = owner, fa_caseRef = caseRef,
                    fa_maskedIp = masked, fa_viewedAt = accessedAt a\<rparr> w
           | None \<Rightarrow>
               andThen (ns_on_db (faulty (ad_faults dr 0) (na_create
                  \<lparr>na_id = ad_accessId dr, na_noticeId = noticeId, na_ip = ip, na_userAgent = agent,
                   accessedAt = ad_now dr\<rparr>))) (\<lambda>access.
               andThen (ns_on_db (faulty (ad_faults dr 1)
                  (writeFirstViewedAddendum (ad_addendumId dr) (ad_now dr) noticeId (accessedAt access) masked))) (\<lambda>_.
               andThen (ns_on_db (faulty (ad_faults dr 2) (audit_create
                  \<lparr>al_id = ad_auditId dr, al_action = ''NOTICE_FIRST_ACCESSED'', actorId = ''public'',
                   targetId = noticeId, al_metadata = JObj [(''viewerIp'', JStr masked)],
                   al_createdAt = ad_now dr\<rparr>))) (\<lambda>_.
               andThen (start_alert noticeId) (\<lambda>_.
               ns_on_db (faulty (ad_faults dr 3) (ret
                  \<lparr>fa_isFirstAccess = True, fa_ownerEmail = owner, fa_caseRef = caseRef,
                   fa_maskedIp = masked, fa_viewedAt = accessedAt access\<rparr>)))))) w))"

subsection \<open>The alert mails\<close>

text \<open>
  \<open>fault\<close> is the failure of the mail service, if any. \<open>sendFirstAccessAlert\<close> catches it.
\<close>

definition send_mail :: "eps_error option \<Rightarrow> mail \<Rightarrow> (notice_state, unit) act" where
  "send_mail fault m = faulty fault (\<lambda>w. (Inr (), w\<lparr>ns_mails := ns_mails w @ [m]\<rparr>))"

definition sendFirstAccessAlert :: "eps_error option \<Rightarrow> string \<Rightarrow> (notice_state, unit) act" where
  "sendFirstAccessAlert fault noticeId w =
     (case sr_find noticeId (ns_db w) of
        None \<Rightarrow> ret () w
      | Some r \<Rightarrow>
          if \<not> truthy (owner_email (ns_db w) r) then ret () w
          else catch (send_mail fault
                 \<lparr>ml_from = ''EPS <noreply@eps.app>'', ml_to = the (owner_email (ns_db w) r),
                  ml_subject = ''EPS Notice First Accessed: '' @ caseCaption r,
                  ml_text = ''Notice for '' @ caseCaption r @ '' was first viewed by the recipient.''\<rparr>)
                 (\<lambda>_. ret ()) w)"

definition sendNotifiedReceipt :: "eps_error option \<Rightarrow> string \<Rightarrow> (notice_state, unit) act" where
  "sendNotifiedReceipt fault noticeId w =
     (case sr_find noticeId (ns_db w) of
        None \<Rightarrow> ret () w
      | Some r \<Rightarrow>
          if \<not> truthy (owner_email (ns_db w) r) then ret () w
          else catch (send_mail fault
                 \<lparr>ml_from = ''EPS <noreply@eps.app>'', ml_to = the (owner_email (ns_db w) r),
                  ml_subject = ''EPS Notice Served: '' @ caseCaption r,
                  ml_text = ''Notice for '' @ caseCaption r @ '' has been served and recorded on-chain.''\<rparr>)
                 (\<lambda>_. ret ()) w)"

record first_access_email =
  fe_to :: string
  fe_caseRef :: string
  fe_maskedIp :: string
  fe_viewedAt :: date
  fe_noticeUrl :: string

definition viewed_utc :: "date \<Rightarrow> string" where
  "viewed_utc t = replace_millis '' UTC'' (replace_first (CHR ''T'') '' '' (toISOString t))"

definition newline :: string where "newline = [char_of (10::nat)]"

definition sendFirstAccessEmail ::
  "env \<Rightarrow> eps_error option \<Rightarrow> bool \<Rightarrow> first_access_email \<Rightarrow> (notice_state, bool) act" where
  "sendFirstAccessEmail env fault accepted email =
     (if \<not> truthy (env ''RESEND_API_KEY'') then ret False
      else andThen (if accepted then send_mail fault
             \<lparr>ml_from = (case env ''RESEND_FROM'' of None \<Rightarrow> ''EPS Notices <notices@eps.local>'' | Some f \<Rightarrow> f),
              ml_to = fe_to email, ml_subject = ''Notice viewed: '' @ fe_caseRef email,
              ml_text = join_with newline
                [''Your served notice was viewed for the first time.'', '''',
                 ''Case: '' @ fe_caseRef email,
                 ''Viewed (UTC): '' @ viewed_utc (fe_viewedAt email),
                 ''Recipient IP (masked): '' @ fe_maskedIp email,
                 ''Notice: '' @ fe_noticeUrl email, '''',
                 ''This is an automated alert. EPS facilitates service of process and'',
                 ''generates court-ready proof of on-chain delivery.'']\<rparr>
           else faulty fault (ret ())) (\<lambda>_. ret accepted))"

subsection \<open>The page app/n/[token]\<close>

datatype page = RateLimited | NotFound | CoverSheet notice_view

definition notice_limit :: rate_limit_options where
  "notice_limit = \<lparr>ro_limit = 20, ro_windowMs = 60000\<rparr>"

definition noticeUrlFrom :: "(string \<Rightarrow> string option) \<Rightarrow> string \<Rightarrow> string" where
  "noticeUrlFrom headers token =
     (case headers ''x-forwarded-proto'' of None \<Rightarrow> ''https'' | Some p \<Rightarrow> p) @ ''://'' @
     (case headers ''x-forwarded-host'' of
        Some h \<Rightarrow> h | None \<Rightarrow> (case headers ''host'' of Some h \<Rightarrow> h | None \<Rightarrow> [])) @ ''/n/'' @ token"

definition ns_rate_limit :: "string \<Rightarrow> rate_limit_options \<Rightarrow> int \<Rightarrow> (notice_state, page_limit_result) act" where
  "ns_rate_limit key opts now w =
     (case page_rateLimit key opts now (ns_buckets w) of (r, b) \<Rightarrow> (Inr r, w\<lparr>ns_buckets := b\<rparr>))"

definition NoticePage ::
  "env \<Rightarrow> access_draws \<Rightarrow> eps_error option \<Rightarrow> bool \<Rightarrow> (string \<Rightarrow> string option) \<Rightarrow> string \<Rightarrow> (notice_state, page) act" where
  "NoticePage env dr mail_fault accepted headers token =
     (let ip = clientIpFromHeaders headers
      in andThen (ns_rate_limit (''notice:'' @ ip) notice_limit (ad_now dr)) (\<lambda>r.
         if \<not> pl_ok r then ret RateLimited
         else (\<lambda>w.
           case loadNotice token (ns_db w) of
             None \<Rightarrow> ret NotFound w
           | Some request \<Rightarrow>
               andThen
                 (catch
                   (andThen (recordFirstAccess dr (nv_id request) ip
                       (case headers ''user-agent'' of None \<Rightarrow> [] | Some a \<Rightarrow> a)) (\<lambda>access.
                    if fa_isFirstAccess access \<and> truthy (fa_ownerEmail access) then
                      andThen (sendFirstAccessEmail env mail_fault accepted
                        \<lparr>fe_to = the (fa_ownerEmail access), fe_caseRef = fa_caseRef access,
                         fe_maskedIp = fa_maskedIp access, fe_viewedAt = fa_viewedAt access,
                         fe_noticeUrl = noticeUrlFrom headers token\<rparr>) (\<lambda>_. ret ())
                    else ret ()))
                   (\<lambda>_. ret ()))
                 (\<lambda>_. ret (CoverSheet request)) w)))"

subsection \<open>The route app/api/certificate/[noticeId]\<close>

datatype certificate_response = PdfResponse bytes "(string \<times> string) list" | JsonResponse response

definition certificate_limit :: rate_limit_options where
  "certificate_limit = \<lparr>ro_limit = 10, ro_windowMs = 60000\<rparr>"

definition certificate_GET ::
  "pdf_lib \<Rightarrow> clerk_session \<Rightarrow> string \<Rightarrow> date \<Rightarrow> eps_error option \<Rightarrow> (db \<Rightarrow> db) \<Rightarrow> request \<Rightarrow> string \<Rightarrow>
   (notice_state, certificate_response) act" where
  "certificate_GET lib cs uuid now fault interference req noticeId =
     andThen (ns_rate_limit (clientIpFromHeaders (header_get req)) certificate_limit now) (\<lambda>limit.
     if \<not> pl_ok limit then
       ret (JsonResponse \<lparr>res_status = 429, res_body = JObj [(''error'', JStr ''Too many requests'')],
         res_headers = [(''Retry-After'', string_of_int (max 0 (ceil_seconds (pl_resetAt limit - now))))]\<rparr>)
     else case requireAuth cs of
       Inl (UnauthorizedError m) \<Rightarrow> ret (JsonResponse (error_response 401 m))
     | Inl e \<Rightarrow> throw e
     | Inr _ \<Rightarrow>
         catch
           (andThen (ns_on_db (getOrCreateCertificatePdf lib uuid now fault interference noticeId)) (\<lambda>pdf.
            ret (PdfResponse pdf
              [(''Content-Type'', ''application/pdf''),
               (''Content-Disposition'', ''inline; filename='' @ [char_of (34::nat)] @ ''certificate-'' @ noticeId @ ''.pdf'' @ [char_of (34::nat)]),
               (''Content-Length'', string_of_nat (length pdf))])))
           (\<lambda>_. ret (JsonResponse (error_response 404 ''Notice not found''))))"

subsection \<open>Lemmas on the first view\<close>

lemma ns_on_db_Inr_iff: "ns_on_db m w = (Inr x, w') \<longleftrightarrow> (\<exists>d. m (ns_db w) = (Inr x, d) \<and> w' = w\<lparr>ns_db := d\<rparr>)"
  by (auto simp: ns_on_db_def split: prod.split)

lemma ns_transaction_Inr_iff: "ns_transaction m w = (Inr x, w') \<longleftrightarrow> m w = (Inr x, w')"
  by (auto simp: ns_transaction_def split: prod.splits sum.splits)

lemma ns_transaction_Inl: "ns_transaction m w = (Inl e, w') \<Longrightarrow> ns_db w' = ns_db w"
  by (auto simp: ns_transaction_def split: prod.splits sum.splits)

lemma na_create_Inr_iff:
  "na_create r d = (Inr a, d') \<longleftrightarrow>
     na_find (na_noticeId r) d = None \<and> sr_find (na_noticeId r) d \<noteq> None \<and> a = r \<and> d' = na_insert r d"
  by (auto simp: na_create_def)

lemma ca_create_Inr_iff:
  "ca_create r d = (Inr a, d') \<longleftrightarrow>
     ca_find (ca_noticeId r) d = None \<and> sr_find (ca_noticeId r) d \<noteq> None \<and> a = r \<and> d' = ca_insert r d"
  by (auto simp: ca_create_def)

lemma access_frames [lookup_simps]:
  "sr_find k (na_insert a d) = sr_find k d" "sr_find k (ca_insert c d) = sr_find k d"
  "ca_find k (na_insert a d) = ca_find k d" "na_find k (ca_insert c d) = na_find k d"
  "na_find k (d\<lparr>auditLogs := as\<rparr>) = na_find k d" "ca_find k (d\<lparr>auditLogs := as\<rparr>) = ca_find k d"
  "auditLogs (na_insert a d) = auditLogs d" "auditLogs (ca_insert c d) = auditLogs d"
  by (simp_all add: sr_find_def na_find_def ca_find_def na_insert_def ca_insert_def)

definition access_row :: "access_draws \<Rightarrow> string \<Rightarrow> string \<Rightarrow> string \<Rightarrow> notice_access" where
  "access_row dr noticeId ip agent =
     \<lparr>na_id = ad_accessId dr, na_noticeId = noticeId, na_ip = ip, na_userAgent = agent, accessedAt = ad_now dr\<rparr>"

definition addendum_row :: "access_draws \<Rightarrow> string \<Rightarrow> string \<Rightarrow> certificate_addendum" where
  "addendum_row dr noticeId ip =
     \<lparr>ca_id = ad_addendumId dr, ca_noticeId = noticeId, ca_viewedAt = ad_now dr, ca_viewerIp = maskIp ip,
      ca_createdAt = ad_now dr\<rparr>"

definition access_audit :: "access_draws \<Rightarrow> string \<Rightarrow> string \<Rightarrow> audit_log" where
  "access_audit dr noticeId ip =
     \<lparr>al_id = ad_auditId dr, al_action = ''NOTICE_FIRST_ACCESSED'', actorId = ''public'', targetId = noticeId,
      al_metadata = JObj [(''viewerIp'', JStr (maskIp ip))], al_createdAt = ad_now dr\<rparr>"

lemma access_row_simps [simp]:
  "na_noticeId (access_row dr noticeId ip agent) = noticeId" "na_ip (access_row dr noticeId ip agent) = ip"
  "accessedAt (access_row dr noticeId ip agent) = ad_now dr"
  "ca_noticeId (addendum_row dr noticeId ip) = noticeId" "ca_viewerIp (addendum_row dr noticeId ip) = maskIp ip"
  "ca_viewedAt (addendum_row dr noticeId ip) = ad_now dr"
  by (simp_all add: access_row_def addendum_row_def)

lemma recordFirstAccess_Inr:
  assumes "recordFirstAccess dr noticeId ip agent w = (Inr res, w')"
  obtains (again) r a where "sr_find noticeId (ns_db w) = Some r" "na_find noticeId (ns_db w) = Some a" "w' = w"
      "\<not> fa_isFirstAccess res" "fa_viewedAt res = accessedAt a" "fa_maskedIp res = maskIp ip"
    | (first) r where "sr_find noticeId (ns_db w) = Some r" "na_find noticeId (ns_db w) = None"
      "ca_find noticeId (ns_db w) = None" "fa_isFirstAccess res" "fa_viewedAt res = ad_now dr"
      "fa_maskedIp res = maskIp ip" "ns_alerts w' = ns_alerts w @ [noticeId]" "ns_mails w' = ns_mails w"
      "ns_db w' = (ca_insert (addendum_row dr noticeId ip) (na_insert (access_row dr noticeId ip agent) (ns_db w)))
         \<lparr>auditLogs := auditLogs (ns_db w) @ [access_audit dr noticeId ip]\<rparr>"
proof (cases "sr_find noticeId (ns_db w)")
  case None
  with assms show thesis
    by (auto simp: recordFirstAccess_def ns_transaction_Inr_iff Let_def andThen_Inr_iff ns_on_db_Inr_iff
        faulty_Inr_iff na_create_Inr_iff)
next
  case (Some r)
  note r = this
  show thesis
  proof (cases "na_find noticeId (ns_db w)")
    case None
    from assms have "ca_find noticeId (ns_db w) = None \<and> fa_isFirstAccess res \<and> fa_viewedAt res = ad_now dr \<and>
        fa_maskedIp res = maskIp ip \<and> ns_alerts w' = ns_alerts w @ [noticeId] \<and> ns_mails w' = ns_mails w \<and>
        ns_db w' = (ca_insert (addendum_row dr noticeId ip) (na_insert (access_row dr noticeId ip agent) (ns_db w)))
         \<lparr>auditLogs := auditLogs (ns_db w) @ [access_audit dr noticeId ip]\<rparr>"
      by (auto simp: r None recordFirstAccess_def ns_transaction_Inr_iff Let_def andThen_Inr_iff ns_on_db_Inr_iff
          faulty_Inr_iff na_create_Inr_iff ca_create_Inr_iff writeFirstViewedAddendum_def start_alert_def
          ret_def audit_create_def access_row_def addendum_row_def access_audit_def lookup_simps)
    with r None show thesis by (intro first [of r]) simp_all
  next
    case (Some a)
    from assms have "w' = w \<and> \<not> fa_isFirstAccess res \<and> fa_viewedAt res = accessedAt a \<and> fa_maskedIp res = maskIp ip"
      by (auto simp: Some r recordFirstAccess_def ns_transaction_Inr_iff ret_def)
    with Some r show thesis by (intro again [of r a]) simp_all
  qed
qed

lemma recordFirstAccess_Inl:
  "recordFirstAccess dr noticeId ip agent w = (Inl e, w') \<Longrightarrow> ns_db w' = ns_db w"
  unfolding recordFirstAccess_def by (rule ns_transaction_Inl)

text \<open>The access rows and the addenda stay in step.\<close>

definition access_paired :: "db \<Rightarrow> bool" where
  "access_paired d \<longleftrightarrow>
     (\<forall>k. case na_find k d of
            None \<Rightarrow> ca_find k d = None
          | Some a \<Rightarrow> (case ca_find k d of
                None \<Rightarrow> False
              | Some c \<Rightarrow> ca_viewedAt c = accessedAt a \<and> ca_viewerIp c = maskIp (na_ip a)))"

subsection \<open>Masking\<close>

lemma length_set_last [simp]: "length (set_last x xs) = length xs"
  by (simp add: set_last_def)

lemma hex_no_space: "is_lower_hex (lower_char c) \<Longrightarrow> \<not> is_space c"
  by (auto simp: is_lower_hex_def lower_char_def is_space_def code_unit_def is_digit_def split: if_splits)

lemma re_digits_free: "re_digits p \<Longrightarrow> CHR ''.'' \<notin> set p \<and> CHR '':'' \<notin> set p"
  by (auto simp: re_digits_def list_all_iff is_digit_def code_unit_def)

lemma maskIp_v4:
  assumes "list_all re_digits [a, b, c, d]"
  shows "maskIp (a @ ''.'' @ b @ ''.'' @ c @ ''.'' @ d) = a @ ''.'' @ b @ ''.'' @ c @ ''.x''"
proof -
  note f = re_digits_free
  have "split_on (CHR ''.'') (a @ ''.'' @ b @ ''.'' @ c @ ''.'' @ d) = [a, b, c, d]"
    using assms f by (simp add: split_on_append split_on_free)
  with assms show ?thesis by (simp add: maskIp_def Let_def)
qed

lemma split_join_last:
  assumes "p \<in> set (split_on c s)" "c \<notin> set x"
  shows "split_on c (join_with [c] (set_last x (split_on c s))) = set_last x (split_on c s)"
proof (rule split_join)
  show "set_last x (split_on c s) \<noteq> []" using assms(1) by (auto simp: set_last_def)
  show "\<forall>w\<in>set (set_last x (split_on c s)). c \<notin> set w"
    using assms(2) set_update_subset_insert [of "split_on c s" "length (split_on c s) - 1" x]
    by (auto simp: set_last_def dest: split_on_parts_free)
qed

lemma join_with_mem: "2 \<le> length ws \<Longrightarrow> c \<in> set (join_with [c] ws)"
  by (cases ws; cases "tl ws") auto

lemma join_with_free: "\<forall>p\<in>set ws. c \<notin> set p \<Longrightarrow> c \<notin> set d \<Longrightarrow> c \<notin> set (join_with d ws)"
  by (induction d ws rule: join_with.induct) auto

lemma maskIp_idem: "maskIp (maskIp ip) = maskIp ip"
proof (cases "length (split_on (CHR ''.'') ip) = 4 \<and> list_all re_digits (split_on (CHR ''.'') ip)")
  case True
  then obtain a b c d where s: "split_on (CHR ''.'') ip = [a, b, c, d]"
    by (auto simp: numeral_eq_Suc length_Suc_conv)
  note f = re_digits_free
  have m: "maskIp ip = a @ ''.'' @ b @ ''.'' @ c @ ''.'' @ ''x''"
    using True s by (simp add: maskIp_def Let_def)
  have "split_on (CHR ''.'') (maskIp ip) = [a, b, c, ''x'']"
    unfolding m using True s f by (simp add: split_on_append split_on_free)
  moreover have "\<not> re_digits ''x''" by (simp add: re_digits_def is_digit_def code_unit_def)
  moreover have "CHR '':'' \<notin> set (maskIp ip)" unfolding m using True s f by auto
  ultimately show ?thesis by (simp add: maskIp_def [of "maskIp ip"] Let_def)
next
  case False
  show ?thesis
  proof (cases "CHR '':'' \<in> set ip")
    case colon: True
    let ?gs = "split_on (CHR '':'') ip"
    have m: "maskIp ip = join_with '':'' (set_last ''x'' ?gs)"
      by (simp only: maskIp_def Let_def False colon if_False if_True)
    have "split_on (CHR '':'') (maskIp ip) = set_last ''x'' ?gs"
      unfolding m by (rule split_join_last [of "hd ?gs"]) simp_all
    moreover have "CHR '':'' \<in> set (maskIp ip)"
      unfolding m by (rule join_with_mem) (use split_on_has [OF colon] in simp)
    moreover have "\<not> list_all re_digits (split_on (CHR ''.'') (maskIp ip))"
    proof
      assume "list_all re_digits (split_on (CHR ''.'') (maskIp ip))"
      then have "\<forall>p\<in>set (split_on (CHR ''.'') (maskIp ip)). CHR '':'' \<notin> set p"
        using re_digits_free by (auto simp: list_all_iff)
      then have "CHR '':'' \<notin> set (join_with ''.'' (split_on (CHR ''.'') (maskIp ip)))"
        by (rule join_with_free) simp
      then show False using \<open>CHR '':'' \<in> set (maskIp ip)\<close> by (simp add: join_split_on)
    qed
    ultimately have "maskIp (maskIp ip) = join_with '':'' (set_last ''x'' (set_last ''x'' ?gs))"
      by (simp add: maskIp_def [of "maskIp ip"] Let_def)
    then show ?thesis by (simp add: m set_last_def)
  next
    case no_colon: False
    then have "maskIp ip = ip" by (simp only: maskIp_def Let_def False if_False)
    then show ?thesis by simp
  qed
qed

subsection \<open>Properties\<close>

definition sample_access :: "date \<Rightarrow> access_draws" where
  "sample_access t =
     \<lparr>ad_now = t, ad_accessId = ''v1'', ad_addendumId = ''d1'', ad_auditId = ''l1'', ad_faults = (\<lambda>_. None)\<rparr>"

definition sample_notices :: notice_state where
  "sample_notices = \<lparr>ns_db = sample_db 3, ns_buckets = [], ns_alerts = [], ns_mails = []\<rparr>"

definition sample_first_access :: first_access_result where
  "sample_first_access =
     \<lparr>fa_isFirstAccess = True, fa_ownerEmail = None, fa_caseRef = ''A v. B'', fa_maskedIp = ''10.0.0.x'',
      fa_viewedAt = 1000\<rparr>"

lemma sample_masked: "maskIp ''10.0.0.7'' = ''10.0.0.x''"
  by (simp add: maskIp_def re_digits_def is_digit_def code_unit_def)

lemma sample_first_run:
  "fst (recordFirstAccess (sample_access 1000) ''r1'' ''10.0.0.7'' ''curl'' sample_notices) = Inr sample_first_access"
  by (simp add: recordFirstAccess_def Let_def ns_transaction_def ns_on_db_def andThen_def faulty_def ret_def start_alert_def
      na_create_def ca_create_def writeFirstViewedAddendum_def audit_create_def sample_access_def
      sample_notices_def sample_first_access_def sample_defs sample_masked owner_email_def org_by_id_def
      sr_find_def na_find_def ca_find_def na_insert_def ca_insert_def)

text \<open>C21. The first view is recorded once: after recordFirstAccess has recorded or found a view of a
  notice, every later call for that notice, whatever its time, address and user agent, returns without
  changing anything (no second access row, addendum, audit row, or alert), reports that it is not the
  first, and gives the time of the view recorded.\<close>

theorem first_access_once:
  assumes "recordFirstAccess dr noticeId ip agent w = (Inr res, w')"
  shows "\<exists>res2. recordFirstAccess dr2 noticeId ip2 agent2 w' = (Inr res2, w') \<and> \<not> fa_isFirstAccess res2 \<and>
           fa_viewedAt res2 = fa_viewedAt res \<and> fa_maskedIp res2 = maskIp ip2"
  using assms
proof (cases rule: recordFirstAccess_Inr)
  case (again r a)
  then show ?thesis by (simp add: recordFirstAccess_def ns_transaction_def ret_def)
next
  case (first r)
  have "na_find noticeId (ns_db w') = Some (access_row dr noticeId ip agent)"
    using first(2) na.find_inserted [of "access_row dr noticeId ip agent" "ns_db w"]
    by (simp add: first(9) lookup_simps)
  moreover have "sr_find noticeId (ns_db w') = Some r" using first(1) by (simp add: first(9) lookup_simps)
  ultimately show ?thesis
    using first(5) by (simp add: recordFirstAccess_def ns_transaction_def ret_def)
qed

theorem first_access_once_witness:
  "\<exists>res2 w'. recordFirstAccess (sample_access 9000) ''r1'' ''10.0.0.9'' ''wget'' w' = (Inr res2, w') \<and>
     \<not> fa_isFirstAccess res2 \<and> fa_viewedAt res2 = 1000"
  using first_access_once [OF prod.collapse [symmetric, of "recordFirstAccess (sample_access 1000) ''r1'' ''10.0.0.7'' ''curl'' sample_notices",
      unfolded sample_first_run], of "sample_access 9000" "''10.0.0.9''" "''wget''"]
  by (auto simp: sample_first_access_def)

text \<open>The access row and the certificate's First Viewed addendum are written together: if every
  notice has both or neither, with the same time and the masked address in the addendum, the same holds
  after recordFirstAccess; and a call that fails leaves the database as it was.\<close>

theorem access_trail_paired:
  assumes "access_paired (ns_db w)" and "recordFirstAccess dr noticeId ip agent w = (r, w')"
  shows "access_paired (ns_db w') \<and> (isl r \<longrightarrow> ns_db w' = ns_db w)"
proof (cases r)
  case (Inl e)
  with assms show ?thesis using recordFirstAccess_Inl by simp
next
  case (Inr res)
  with assms(2) have run: "recordFirstAccess dr noticeId ip agent w = (Inr res, w')" by simp
  then have "access_paired (ns_db w')"
  proof (cases rule: recordFirstAccess_Inr)
    case (again r a)
    with assms(1) show ?thesis by simp
  next
    case (first q)
    have "na_find k (ns_db w') = (if k = noticeId then Some (access_row dr noticeId ip agent) else na_find k (ns_db w))"
      for k using first(2) na.find_insert [of "access_row dr noticeId ip agent" "ns_db w" k]
      by (simp add: first(9) lookup_simps)
    moreover have "ca_find k (ns_db w') = (if k = noticeId then Some (addendum_row dr noticeId ip) else ca_find k (ns_db w))"
      for k using first(3) ca.find_insert [of "addendum_row dr noticeId ip" "na_insert (access_row dr noticeId ip agent) (ns_db w)" k]
      by (simp add: first(9) lookup_simps)
    ultimately show ?thesis
      using assms(1) by (simp add: access_paired_def cong: option.case_cong)
  qed
  then show ?thesis using Inr by simp
qed

theorem access_trail_paired_witness:
  "access_paired (ns_db (snd (recordFirstAccess (sample_access 1000) ''r1'' ''10.0.0.7'' ''curl'' sample_notices)))"
  by (rule access_trail_paired [OF _ prod.collapse [symmetric], THEN conjunct1])
     (simp add: access_paired_def sample_notices_def sample_defs na_find_def ca_find_def)

text \<open>maskIp hides the last octet of an IPv4 address and keeps the other three, whatever the last
  octet is; and masking a masked address again changes nothing, for every input.\<close>

theorem maskIp_hides:
  assumes "list_all re_digits [a, b, c, d]"
  shows "maskIp (a @ ''.'' @ b @ ''.'' @ c @ ''.'' @ d) = a @ ''.'' @ b @ ''.'' @ c @ ''.x'' \<and>
    maskIp (maskIp ip) = maskIp ip"
  using maskIp_v4 [OF assms] maskIp_idem by simp

theorem maskIp_hides_witness: "maskIp ''203.0.113.42'' = ''203.0.113.x''"
  using maskIp_hides [of "''203''" "''0''" "''113''" "''42''" "[]"]
  by (simp add: re_digits_def is_digit_def code_unit_def)

text \<open>A notice link resolves whatever the case of the letters of its token and the white space around
  it: if the token lowercases to t, of the form the intake generates, the page sees the row stored under t.
  And whatever loadNotice returns is the public part of a stored request whose token is the input, trimmed
  and lowercased.\<close>

theorem loadNotice_by_token:
  assumes "js_lower s = t" "re_notice_token t" "\<forall>c\<in>set l \<union> set r. is_space c"
    and "sr_by_token t d = Some q"
  shows "loadNotice (l @ s @ r) d = Some (notice_view_of q) \<and> nv_noticeToken (notice_view_of q) = Some t"
proof -
  have "\<forall>c\<in>set s. \<not> is_space c"
    using assms(1,2) by (auto simp: re_notice_token_def js_lower_def list_all_iff dest!: hex_no_space)
  with assms(3) have "js_trim (l @ s @ r) = s" by (intro js_trim_pad) auto
  moreover have "noticeToken q = Some t" using assms(4) by (auto simp: sr_by_token_def dest: row_find_key)
  ultimately show ?thesis using assms by (simp add: loadNotice_def notice_view_of_def)
qed

theorem loadNotice_by_token_witness:
  "loadNotice (''  '' @ replicate 32 (CHR ''A'') @ '' '')
     (empty_db\<lparr>serviceRequests := [sample_request\<lparr>noticeToken := Some (replicate 32 (CHR ''a''))\<rparr>]\<rparr>) =
   Some (notice_view_of (sample_request\<lparr>noticeToken := Some (replicate 32 (CHR ''a''))\<rparr>))"
  by (rule loadNotice_by_token [where t = "replicate 32 (CHR ''a'')", THEN conjunct1])
     (simp_all add: js_lower_def lower_char_def code_unit_def re_notice_token_def is_lower_hex_def is_space_def
        sr_by_token_def is_digit_def char_of_def bit_iff_odd list_all_iff)

end
