(* ===== verification/History.thy ===== *)
theory History
  imports Demo Billing Notice
begin

text \<open>
  What no operation of the program takes back. \<open>evolves\<close> relates a database to a later one: the columns a
  filing was made with stay as they are, in their order, the tables of evidence (audit log, views, addenda,
  certificates, webhook events) only grow, a well-formed database stays well formed, and its requests only
  move forward. Here it is shown of the writes of rows; Tracking carries it to the operations.
\<close>

subsection \<open>Later databases\<close>

text \<open>The columns of a request that the program fixes when it is filed: the others are blanked.\<close>

definition filing_of :: "service_request \<Rightarrow> service_request" where
  "filing_of r =
     r\<lparr>sr_status := STAGED, txSignature := None, sr_slot := None, blockTime := None, failureReason := None,
       sr_hedera := no_hedera\<rparr>"

definition filings :: "db \<Rightarrow> service_request list" where
  "filings d = map filing_of (serviceRequests d)"

definition tokens_distinct :: "db \<Rightarrow> bool" where
  "tokens_distinct d = distinct (filter (\<lambda>t. t \<noteq> None) (map noticeToken (serviceRequests d)))"

text \<open>The unique columns are unique, the rows of evidence point to requests, and no meter is below zero or
  beyond the limit of its tier.\<close>

definition well_formed :: "db \<Rightarrow> bool" where
  "well_formed d \<longleftrightarrow>
     metered d \<and> (org_valid d \<and> sub_valid d \<and> wh_valid d) \<and> (sr_valid d \<and> tokens_distinct d) \<and>
     (na_valid d \<and> ca_valid d \<and> cp_valid d) \<and>
     na_noticeId ` set (noticeAccesses d) \<union> ca_noticeId ` set (certificateAddenda d) \<union>
       cp_noticeId ` set (certificatePdfs d) \<subseteq> sr_id ` set (serviceRequests d)"

definition evidence_kept :: "db \<Rightarrow> db \<Rightarrow> bool" where
  "evidence_kept d d' \<longleftrightarrow>
     prefix (filings d) (filings d') \<and> prefix (auditLogs d) (auditLogs d') \<and>
     prefix (noticeAccesses d) (noticeAccesses d') \<and> prefix (certificateAddenda d) (certificateAddenda d') \<and>
     prefix (certificatePdfs d) (certificatePdfs d') \<and> prefix (webhookEvents d) (webhookEvents d')"

text \<open>The life of a request: it never becomes STAGED again, a settled one stays settled, and a signature that was
  recorded is not lost.\<close>

definition is_settled :: "service_request \<Rightarrow> bool" where
  "is_settled r = (sr_status r = CONFIRMED \<or> sr_status r = FAILED)"

definition progress :: "service_request \<Rightarrow> service_request \<Rightarrow> bool" where
  "progress r r' \<longleftrightarrow>
     (sr_status r' = STAGED \<longrightarrow> sr_status r = STAGED) \<and> (is_settled r \<longrightarrow> is_settled r') \<and>
     (txSignature r \<noteq> None \<longrightarrow> txSignature r' \<noteq> None)"

definition progressed :: "db \<Rightarrow> db \<Rightarrow> bool" where
  "progressed d d' \<longleftrightarrow>
     list_all2 progress (serviceRequests d) (take (length (serviceRequests d)) (serviceRequests d'))"

definition evolves :: "db \<Rightarrow> db \<Rightarrow> bool" where
  "evolves d d' \<longleftrightarrow> evidence_kept d d' \<and> (well_formed d \<longrightarrow> well_formed d' \<and> progressed d d')"

lemma progress_refl [simp]: "progress r r"
  by (simp add: progress_def)

lemma progress_trans: "progress r r1 \<Longrightarrow> progress r1 r2 \<Longrightarrow> progress r r2"
  by (auto simp: progress_def)

lemma progressed_same [simp]: "serviceRequests d' = serviceRequests d \<Longrightarrow> progressed d d'"
  by (simp add: progressed_def list.rel_refl)

lemma progressed_append [simp]: "serviceRequests d' = serviceRequests d @ rs \<Longrightarrow> progressed d d'"
  by (simp add: progressed_def list.rel_refl)

lemma progressed_map:
  "(\<And>r. r \<in> set (serviceRequests d) \<Longrightarrow> progress r (f r)) \<Longrightarrow> serviceRequests d' = map f (serviceRequests d) \<Longrightarrow> progressed d d'"
  by (simp add: progressed_def list_all2_map2 list.rel_refl_strong)

lemma progressed_trans:
  assumes "progressed d d'" "progressed d' d''"
  shows "progressed d d''"
proof -
  let ?n = "length (serviceRequests d)" and ?n' = "length (serviceRequests d')"
  from assms(1) have "?n \<le> ?n'" by (auto simp: progressed_def dest: list_all2_lengthD)
  with assms(2) have "list_all2 progress (take ?n (serviceRequests d')) (take ?n (serviceRequests d''))"
    unfolding progressed_def by (metis list_all2_takeI min_def take_take)
  with assms(1) show ?thesis
    unfolding progressed_def
    using list_all2_trans [of progress progress progress] progress_trans by blast
qed

lemma evidence_kept_trans: "evidence_kept d d' \<Longrightarrow> evidence_kept d' d'' \<Longrightarrow> evidence_kept d d''"
  unfolding evidence_kept_def by (meson prefix_order.trans)

lemma evolves_refl [simp]: "evolves d d"
  by (simp add: evolves_def evidence_kept_def)

lemma evolves_trans: "evolves d d' \<Longrightarrow> evolves d' d'' \<Longrightarrow> evolves d d''"
  unfolding evolves_def using evidence_kept_trans progressed_trans by blast

lemma filing_of_sel [simp]: "sr_id (filing_of r) = sr_id r" "noticeToken (filing_of r) = noticeToken r"
  by (simp_all add: filing_of_def)

lemma filings_columns:
  "map sr_id (serviceRequests d) = map sr_id (filings d)" "map noticeToken (serviceRequests d) = map noticeToken (filings d)"
  by (simp_all add: filings_def)

lemma filing_of_updates [simp]:
  "filing_of (set_status st r) = filing_of r" "filing_of (put_signature sig r) = filing_of r"
  "filing_of (put_confirmed cf r) = filing_of r" "filing_of (mark_failed m r) = filing_of r"
  "filing_of (r\<lparr>sr_hedera := h\<rparr>) = filing_of r" "filing_of (r\<lparr>sr_status := st\<rparr>) = filing_of r"
  "filing_of (put_proof env now txId seq nft r) = filing_of r"
  by (simp_all add: filing_of_def set_status_def put_signature_def put_confirmed_def mark_failed_def put_proof_def Let_def)

definition advances :: "service_request \<Rightarrow> service_request \<Rightarrow> bool" where
  "advances r r' \<longleftrightarrow> filing_of r' = filing_of r \<and> progress r r'"

text \<open>The columns every component but the worker's broadcast leaves alone as well.\<close>

definition quiet :: "service_request \<Rightarrow> service_request \<Rightarrow> bool" where
  "quiet r r' \<longleftrightarrow> advances r r' \<and> txSignature r' = txSignature r"

lemma quiet_refl [simp]: "quiet r r"
  by (simp add: quiet_def advances_def)

lemma advances_updates [simp]:
  "st \<noteq> STAGED \<Longrightarrow> is_settled r \<longrightarrow> st \<noteq> IN_PROGRESS \<Longrightarrow> advances r (set_status st r)"
  "advances r (put_signature sig r)" "advances r (put_confirmed cf r)" "advances r (mark_failed m r)"
  "advances r (r\<lparr>sr_hedera := h\<rparr>)" "advances r (put_proof env now txId seq nft r)"
  by (cases st; simp add: advances_def progress_def is_settled_def set_status_def)
    (simp_all add: advances_def progress_def is_settled_def put_signature_def put_confirmed_def mark_failed_def put_proof_def
      filing_of_def Let_def)

lemma quiet_updates [simp]:
  "quiet r (put_confirmed cf r)" "quiet r (mark_failed m r)" "quiet r (r\<lparr>sr_hedera := h\<rparr>)"
  "quiet r (put_proof env now txId seq nft r)"
  by (simp_all add: quiet_def) (simp_all add: put_confirmed_def put_proof_def Let_def)

lemma filings_map: "(\<And>r. filing_of (f r) = filing_of r) \<Longrightarrow>
    map filing_of (map (\<lambda>r. if P r then f r else r) rs) = map filing_of rs"
  by simp

text \<open>Rows may change in the columns that are not fixed.\<close>

lemma evolves_same:
  assumes "filings d' = filings d" "map sub_id (subscriptions d') = map sub_id (subscriptions d)"
    and "well_formed d \<Longrightarrow> metered d'" "well_formed d \<Longrightarrow> progressed d d'"
    and "organizations d' = organizations d" "webhookEvents d' = webhookEvents d" "auditLogs d' = auditLogs d"
      "noticeAccesses d' = noticeAccesses d" "certificateAddenda d' = certificateAddenda d"
      "certificatePdfs d' = certificatePdfs d"
  shows "evolves d d'"
proof -
  have ids: "map sr_id (serviceRequests d') = map sr_id (serviceRequests d)"
      "map noticeToken (serviceRequests d') = map noticeToken (serviceRequests d)"
    using assms(1) by (simp_all only: filings_columns)
  then have "sr_id ` set (serviceRequests d') = sr_id ` set (serviceRequests d)" by (metis set_map)
  with assms ids show ?thesis
    by (simp add: evolves_def evidence_kept_def well_formed_def valid_defs tokens_distinct_def)
qed

lemma well_formed_metered: "well_formed d \<Longrightarrow> subscriptions d' = subscriptions d \<Longrightarrow> metered d'"
  by (simp add: well_formed_def metered_def)

lemma evolves_sr_map:
  assumes "\<And>r. filing_of (f r) = filing_of r" "\<And>r. r \<in> set (serviceRequests d) \<Longrightarrow> well_formed d \<Longrightarrow> progress r (f r)"
  shows "evolves d (d\<lparr>serviceRequests := map f (serviceRequests d)\<rparr>)"
proof (rule evolves_same)
  assume "well_formed d"
  with assms(2) show "progressed d (d\<lparr>serviceRequests := map f (serviceRequests d)\<rparr>)"
    by (intro progressed_map [of d f]) simp_all
qed (simp_all add: filings_def assms(1) well_formed_metered)

lemma evolves_sr_modify: "(\<And>r. advances r (f r)) \<Longrightarrow> evolves d (sr_modify k f d)"
  unfolding sr_modify_def row_modify_def by (rule evolves_sr_map) (simp_all add: advances_def)

lemma evolves_sub_map:
  assumes "\<And>r. sub_id (f r) = sub_id r" "\<And>r. r \<in> set (subscriptions d) \<Longrightarrow> well_formed d \<Longrightarrow> metered_row r \<Longrightarrow> metered_row (f r)"
  shows "evolves d (d\<lparr>subscriptions := map f (subscriptions d)\<rparr>)"
proof (rule evolves_same)
  assume w: "well_formed d"
  then have "metered d" by (simp add: well_formed_def)
  then show "metered (d\<lparr>subscriptions := map f (subscriptions d)\<rparr>)"
    by (rule metered_map) (use assms(2) w in blast)
qed (simp_all add: filings_def assms(1))

lemma evolves_sub_modify:
  "(\<And>r. sub_id (f r) = sub_id r) \<Longrightarrow> (\<And>r. metered_row r \<Longrightarrow> metered_row (f r)) \<Longrightarrow> evolves d (sub_modify k f d)"
  unfolding sub_modify_def row_modify_def by (rule evolves_sub_map) auto

lemma evolves_inserts:
  "org_find (clerkOrgId og) d = None \<Longrightarrow> evolves d (org_insert og d)"
  "sub_find (sub_id s) d = None \<Longrightarrow> metered_row s \<Longrightarrow> evolves d (sub_insert s d)"
  "wh_find (eventId e) d = None \<Longrightarrow> evolves d (wh_insert e d)"
  "evolves d (d\<lparr>auditLogs := auditLogs d @ as\<rparr>)"
  by (auto simp: evolves_def evidence_kept_def well_formed_def metered_def valid_defs tokens_distinct_def filings_def
      org_insert_def sub_insert_def wh_insert_def org_find_def sub_find_def wh_find_def row_find_None_iff)

lemma evolves_sr_insert:
  assumes "sr_find (sr_id r) d = None" "\<not> token_taken (noticeToken r) d"
  shows "evolves d (sr_insert r d)"
proof -
  have "sr_id r \<notin> sr_id ` set (serviceRequests d)" "noticeToken r = None \<or> noticeToken r \<notin> set (map noticeToken (serviceRequests d))"
    using assms by (auto simp: sr_find_def row_find_None_iff token_taken_def)
  then show ?thesis
    by (auto simp: evolves_def evidence_kept_def well_formed_def metered_def valid_defs tokens_distinct_def filings_def sr_insert_def)
qed

lemma evolves_evidence_inserts:
  "na_find (na_noticeId a) d = None \<Longrightarrow> sr_find (na_noticeId a) d \<noteq> None \<Longrightarrow> evolves d (na_insert a d)"
  "ca_find (ca_noticeId b) d = None \<Longrightarrow> sr_find (ca_noticeId b) d \<noteq> None \<Longrightarrow> evolves d (ca_insert b d)"
  "cp_find (cp_noticeId c) d = None \<Longrightarrow> sr_find (cp_noticeId c) d \<noteq> None \<Longrightarrow> evolves d (cp_insert c d)"
  by (auto simp: evolves_def evidence_kept_def well_formed_def metered_def valid_defs tokens_distinct_def filings_def
      na_insert_def ca_insert_def cp_insert_def na_find_def ca_find_def cp_find_def sr_find_def row_find_None_iff)

text \<open>Row by row: a request of a well-formed database is found again later, with the columns it was filed with.\<close>

lemma evolves_row:
  assumes "evolves d d'" "well_formed d" "r \<in> set (serviceRequests d)"
  shows "\<exists>r'. sr_find (sr_id r) d' = Some r' \<and> filing_of r' = filing_of r \<and> progress r r'"
proof -
  obtain i where i: "i < length (serviceRequests d)" "r = serviceRequests d ! i" using assms(3) by (metis in_set_conv_nth)
  let ?r' = "serviceRequests d' ! i"
  from assms(1,2) have p: "progressed d d'" and w: "well_formed d'" and f: "prefix (filings d) (filings d')"
    by (simp_all add: evolves_def evidence_kept_def)
  from f have l: "length (serviceRequests d) \<le> length (serviceRequests d')"
    by (auto simp: filings_def dest: prefix_length_le)
  from f have "filings d ! i = filings d' ! i" using i(1) by (auto simp: prefix_def nth_append filings_def)
  then have e: "filing_of ?r' = filing_of r" using i l by (simp add: filings_def)
  from p i l have "progress r ?r'" by (auto simp: progressed_def list_all2_conv_all_nth)
  moreover have "sr_id ?r' = sr_id r" using e by (metis filing_of_sel(1))
  moreover have "?r' \<in> set (serviceRequests d')" using i(1) l by simp
  moreover have "sr_valid d'" using w by (simp add: well_formed_def)
  ultimately show ?thesis using e by (auto simp: sr_find_def sr_valid_def row_find_distinct)
qed

text \<open>The write of the meter is safe because it writes the row it found, of a tier that is still the same.\<close>

lemma evolves_quota_commit:
  assumes "s \<in> set (subscriptions d)"
  shows "evolves d (snd (quota_commit now clerk s d))"
proof -
  obtain r d' where q: "quota_commit now clerk s d = (r, d')" by fastforce
  have "evolves d d'"
  proof (cases r)
    case (Inl e)
    with q quota_commit_Inl show ?thesis by (metis evolves_refl)
  next
    case (Inr x)
    have m: "metered d'" if "well_formed d"
      by (rule quota_commit_metered [OF _ _ q]) (use that assms in \<open>auto simp: well_formed_def intro: tier_stable_found\<close>)
    from q Inr have "quota_commit now clerk s d = (Inr x, d')" by simp
    then show ?thesis
    proof (cases rule: quota_commit_Inr)
      case rolled
      with m show ?thesis by (intro evolves_same) (simp_all add: sub_modify_def filings_def)
    next
      case (counted l)
      with m show ?thesis
        by (intro evolves_same)
          (auto simp: sub_update_many_def row_update_many_def filings_def comp_def if_distrib cong: if_cong)
    qed
  qed
  with q show ?thesis by simp
qed

lemma evolves_quota:
  "evolves d (snd (checkAndDecrementQuota now clerk d))" "evolves d (snd (restoreQuota org d))"
proof -
  show "evolves d (snd (checkAndDecrementQuota now clerk d))"
    by (auto simp: checkAndDecrementQuota_def throw_def split: option.split
        intro: evolves_quota_commit dest: quota_find_SomeD(1))
  have "evolves d (d\<lparr>subscriptions := map (\<lambda>r. if sub_id r = i \<and> 0 < usageCount r then add_usage (- 1) r else r) (subscriptions d)\<rparr>)" for i
    by (rule evolves_sub_map) (auto intro: metered_row_restore)
  then show "evolves d (snd (restoreQuota org d))"
    by (auto simp: restoreQuota_def throw_def ret_def andThen_def sub_update_many_def row_update_many_def split: option.split)
qed

text \<open>The write of the demo payment is unguarded; in a well-formed database it finds the row that was checked.\<close>

lemma evolves_skip:
  assumes r: "r \<in> set (serviceRequests d)" "sr_status r = STAGED"
  shows "evolves d (sr_modify (sr_id r) (\<lambda>r. r\<lparr>sr_status := IN_PROGRESS\<rparr>) d)"
  unfolding sr_modify_def row_modify_def
proof (rule evolves_sr_map)
  fix q
  assume "q \<in> set (serviceRequests d)" "well_formed d"
  then have "sr_id q = sr_id r \<Longrightarrow> q = r"
    using r(1) by (auto simp: well_formed_def valid_defs distinct_map dest: inj_onD)
  then show "progress q (if sr_id q = sr_id r then q\<lparr>sr_status := IN_PROGRESS\<rparr> else q)"
    using r(2) by (auto simp: progress_def is_settled_def)
qed simp

end
