(* ===== verification/Worker_Lemmas.thy ===== *)
theory Worker_Lemmas
  imports Worker
begin

text \<open>
  What each step of the worker does to the service requests: every step touches one row only and
  keeps its identity, a claim marks the oldest claimable row, a delivery ends in CONFIRMED, a
  handled failure in FAILED, and a run that returns leaves one claimable row less.
\<close>

subsection \<open>Steps touch one row\<close>

definition keeps_ident :: "(service_request \<Rightarrow> service_request) \<Rightarrow> bool" where
  "keeps_ident f =
     (\<forall>r. sr_id (f r) = sr_id r \<and> sr_orgId (f r) = sr_orgId r \<and> sr_createdAt (f r) = sr_createdAt r \<and>
          noticeToken (f r) = noticeToken r \<and> documentSha256 (f r) = documentSha256 r \<and>
          recipientWallet (f r) = recipientWallet r \<and> caseCaption (f r) = caseCaption r)"

definition touches :: "string \<Rightarrow> db \<Rightarrow> db \<Rightarrow> bool" where
  "touches k d d' = (\<exists>f. keeps_ident f \<and> serviceRequests d' = row_modify sr_id k f (serviceRequests d))"

lemma keeps_ident_id: "keeps_ident f \<Longrightarrow> sr_id (f r) = sr_id r"
  by (simp add: keeps_ident_def)

lemma keeps_ident_comp: "keeps_ident f \<Longrightarrow> keeps_ident g \<Longrightarrow> keeps_ident (g \<circ> f)"
  by (simp add: keeps_ident_def)

lemma keeps_ident_updates [simp]:
  "keeps_ident (\<lambda>r. r)" "keeps_ident (set_status st)" "keeps_ident (put_signature sig)"
  "keeps_ident (put_confirmed cf)" "keeps_ident (mark_failed m)" "keeps_ident (\<lambda>r. r\<lparr>sr_hedera := h r\<rparr>)"
  by (simp_all add: keeps_ident_def set_status_def put_signature_def put_confirmed_def mark_failed_def)

lemma row_modify_compose:
  "(\<And>r. key (f r) = key r) \<Longrightarrow> row_modify key k g (row_modify key k f rs) = row_modify key k (g \<circ> f) rs"
  by (simp add: row_modify_def)

lemma row_modify_same: "row_modify key k (\<lambda>r. r) rs = rs"
  by (simp add: row_modify_def)

lemma touches_refl [simp]: "touches k d d"
  unfolding touches_def by (rule exI [of _ "\<lambda>r. r"]) (simp add: row_modify_same)

lemma touches_trans: "touches k d d' \<Longrightarrow> touches k d' d'' \<Longrightarrow> touches k d d''"
  unfolding touches_def
proof (elim exE conjE)
  fix f g
  assume f: "keeps_ident f" "serviceRequests d' = row_modify sr_id k f (serviceRequests d)"
    and g: "keeps_ident g" "serviceRequests d'' = row_modify sr_id k g (serviceRequests d')"
  have "serviceRequests d'' = row_modify sr_id k (g \<circ> f) (serviceRequests d)"
    unfolding g(2) f(2) by (rule row_modify_compose) (rule keeps_ident_id [OF f(1)])
  with keeps_ident_comp [OF f(1) g(1)]
  show "\<exists>h. keeps_ident h \<and> serviceRequests d'' = row_modify sr_id k h (serviceRequests d)" by blast
qed

lemma touches_modify: "keeps_ident f \<Longrightarrow> touches k d (sr_modify k f d)"
  unfolding touches_def sr_modify_def by auto

lemma touches_finds:
  assumes "touches k d d'"
  obtains f where "keeps_ident f"
    "\<And>j. sr_find j d' = (if j = k then map_option f (sr_find j d) else sr_find j d)"
proof -
  from assms obtain f where f: "keeps_ident f" "serviceRequests d' = row_modify sr_id k f (serviceRequests d)"
    unfolding touches_def by blast
  have "sr_find j d' = (if j = k then map_option f (sr_find j d) else sr_find j d)" for j
    unfolding sr_find_def f(2) by (rule row_find_modify) (rule keeps_ident_id [OF f(1)])
  with f(1) show thesis by (rule that)
qed

lemma touches_find_other: "touches k d d' \<Longrightarrow> j \<noteq> k \<Longrightarrow> sr_find j d' = sr_find j d"
  by (erule touches_finds) simp

lemma touches_find:
  assumes "touches k d d'"
  obtains f where "keeps_ident f" "sr_find k d' = map_option f (sr_find k d)"
  using assms by (rule touches_finds) (auto intro: that)

lemma touches_valid: "touches k d d' \<Longrightarrow> sr_valid d \<Longrightarrow> sr_valid d'"
  unfolding touches_def sr_valid_def by (auto simp: keeps_ident_id)

lemma touches_serviceRequests: "serviceRequests d' = serviceRequests d'' \<Longrightarrow> touches k d d' \<longleftrightarrow> touches k d d''"
  by (simp add: touches_def)

subsection \<open>Claiming\<close>

definition is_claimable :: "service_request \<Rightarrow> bool" where
  "is_claimable r = (sr_status r = STAGED \<or> sr_status r = IN_PROGRESS)"

lemma claimable_iff [simp]: "sr_status r \<in> set CLAIMABLE \<longleftrightarrow> is_claimable r"
  by (auto simp: CLAIMABLE_def is_claimable_def)

lemma is_claimable_set_status [simp]: "is_claimable (set_status IN_PROGRESS r)"
  by (simp add: is_claimable_def set_status_def)

lemma set_status_sel [simp]: "sr_id (set_status st r) = sr_id r" "sr_createdAt (set_status st r) = sr_createdAt r"
  "sr_status (set_status st r) = st"
  by (simp_all add: set_status_def)

lemma sr_valid_unique:
  "sr_valid d \<Longrightarrow> r \<in> set (serviceRequests d) \<Longrightarrow> q \<in> set (serviceRequests d) \<Longrightarrow> sr_id r = sr_id q \<Longrightarrow> r = q"
  unfolding sr_valid_def by (metis inj_on_def distinct_map)

lemma sr_find_iff: "sr_valid d \<Longrightarrow> sr_find k d = Some r \<longleftrightarrow> r \<in> set (serviceRequests d) \<and> sr_id r = k"
  by (simp add: sr_find_def sr_valid_def row_find_distinct)

lemma claim_find_Some:
  assumes "claim_find d = Some cand"
  obtains r where "r \<in> set (serviceRequests d)" "is_claimable r" "cand = claimable_of r"
    "\<And>q. q \<in> set (serviceRequests d) \<Longrightarrow> is_claimable q \<Longrightarrow> sr_createdAt r \<le> sr_createdAt q"
proof -
  from assms obtain r where r: "first_max (\<lambda>r. - sr_createdAt r) (filter is_claimable (serviceRequests d)) = Some r"
    "cand = claimable_of r"
    by (auto simp: claim_find_def)
  from first_max_in [OF r(1)] first_max_ge [OF r(1)] r(2) show thesis
    by (intro that [of r]) force+
qed

lemma claim_find_None: "claim_find d = None \<longleftrightarrow> (\<forall>r\<in>set (serviceRequests d). \<not> is_claimable r)"
  by (auto simp: claim_find_def filter_empty_conv)

lemma sr_update_many_one:
  assumes v: "sr_valid d" and r: "r \<in> set (serviceRequests d)" and P: "P r"
  shows "sr_update_many (\<lambda>q. sr_id q = sr_id r \<and> P q) f d = (Inr 1, sr_modify (sr_id r) f d)"
proof -
  have u: "q = r" if "q \<in> set (serviceRequests d)" "sr_id q = sr_id r" for q
    using sr_valid_unique [OF v that(1) r that(2)] .
  have "filter (\<lambda>q. sr_id q = sr_id r \<and> P q) (serviceRequests d) = filter (\<lambda>q. q = r) (serviceRequests d)"
    by (rule filter_cong [OF refl]) (use u P in blast)
  moreover have "length (filter (\<lambda>q. q = r) (serviceRequests d)) = 1"
  proof -
    have "distinct (serviceRequests d)" using v by (simp add: sr_valid_def distinct_map)
    moreover have "{q. q = r} \<inter> set (serviceRequests d) = {r}" using r by auto
    ultimately show ?thesis by (simp add: distinct_length_filter)
  qed
  moreover have "map (\<lambda>q. if sr_id q = sr_id r \<and> P q then f q else q) (serviceRequests d) =
      row_modify sr_id (sr_id r) f (serviceRequests d)"
    unfolding row_modify_def by (rule map_cong [OF refl]) (use u P in auto)
  ultimately show ?thesis
    by (simp add: sr_update_many_def row_update_many_def sr_modify_def)
qed

lemma claim_commit_found:
  assumes "sr_valid d" "r \<in> set (serviceRequests d)" "is_claimable r"
  shows "claim_commit (claimable_of r) d =
    (Inr (Some ((claimable_of r)\<lparr>cl_status := IN_PROGRESS\<rparr>)), sr_modify (sr_id r) (set_status IN_PROGRESS) d)"
proof -
  have "cl_id (claimable_of r) = sr_id r" by (simp add: claimable_of_def)
  with sr_update_many_one [OF assms(1,2), of is_claimable "set_status IN_PROGRESS", OF assms(3)]
  show ?thesis by (simp add: claim_commit_def andThen_def ret_def)
qed

lemma claimNext_cases:
  assumes "sr_valid d"
  obtains (empty) "claim_find d = None" "claimNext d = (Inr None, d)"
    | (claimed) r where "r \<in> set (serviceRequests d)" "is_claimable r"
      "\<And>q. q \<in> set (serviceRequests d) \<Longrightarrow> is_claimable q \<Longrightarrow> sr_createdAt r \<le> sr_createdAt q"
      "claimNext d = (Inr (Some ((claimable_of r)\<lparr>cl_status := IN_PROGRESS\<rparr>)),
                      sr_modify (sr_id r) (set_status IN_PROGRESS) d)"
      "claim_find d = Some (claimable_of r)"
proof (cases "claim_find d")
  case None
  then show thesis by (intro empty) (simp_all add: claimNext_def ret_def)
next
  case (Some cand)
  then obtain r where "r \<in> set (serviceRequests d)" "is_claimable r" "cand = claimable_of r"
    "\<And>q. q \<in> set (serviceRequests d) \<Longrightarrow> is_claimable q \<Longrightarrow> sr_createdAt r \<le> sr_createdAt q"
    by (rule claim_find_Some) blast
  note r = this
  have "claimNext d = (Inr (Some ((claimable_of r)\<lparr>cl_status := IN_PROGRESS\<rparr>)),
      sr_modify (sr_id r) (set_status IN_PROGRESS) d)"
    using Some r(3) claim_commit_found [OF assms r(1,2)] by (simp add: claimNext_def)
  from claimed [OF r(1,2,4) this] Some r(3) show thesis by simp
qed

subsection \<open>Lifting\<close>

lemma worker_on_db_iff: "worker_on_db m w = (r, w') \<longleftrightarrow> (\<exists>d. m (ws_db w) = (r, d) \<and> w' = w\<lparr>ws_db := d\<rparr>)"
  by (auto simp: worker_on_db_def split: prod.split)

lemma worker_on_chain_iff: "worker_on_chain m w = (r, w') \<longleftrightarrow> (\<exists>c. m (ws_chain w) = (r, c) \<and> w' = w\<lparr>ws_chain := c\<rparr>)"
  by (auto simp: worker_on_chain_def split: prod.split)

lemma worker_on_hedera_iff: "worker_on_hedera m w = (r, w') \<longleftrightarrow> (\<exists>h. m (ws_hedera w) = (r, h) \<and> w' = w\<lparr>ws_hedera := h\<rparr>)"
  by (auto simp: worker_on_hedera_def split: prod.split)

lemma worker_log_iff [simp]: "worker_log l w = (r, w') \<longleftrightarrow> r = Inr () \<and> w' = w\<lparr>ws_log := ws_log w @ [l]\<rparr>"
  by (auto simp: worker_log_def)

lemma start_tasks_iff [simp]: "start_tasks ts w = (r, w') \<longleftrightarrow> r = Inr () \<and> w' = w\<lparr>ws_tasks := ws_tasks w @ ts\<rparr>"
  by (auto simp: start_tasks_def)

lemmas worker_lifts = worker_on_db_iff worker_on_chain_iff worker_on_hedera_iff

definition leaves_meters :: "db \<Rightarrow> db \<Rightarrow> bool" where
  "leaves_meters d d' =
     (subscriptions d' = subscriptions d \<and> organizations d' = organizations d \<and> auditLogs d' = auditLogs d)"

lemma leaves_meters_refl [simp]: "leaves_meters d d"
  by (simp add: leaves_meters_def)

lemma leaves_meters_trans: "leaves_meters d d' \<Longrightarrow> leaves_meters d' d'' \<Longrightarrow> leaves_meters d d''"
  by (simp add: leaves_meters_def)

definition local_to :: "string \<Rightarrow> (('c, 'h) worker_state, 'a) act \<Rightarrow> bool" where
  "local_to k m =
     (\<forall>w. touches k (ws_db w) (ws_db (snd (m w))) \<and> leaves_meters (ws_db w) (ws_db (snd (m w))))"

lemma local_toD: "local_to k m \<Longrightarrow> m w = (r, w') \<Longrightarrow> touches k (ws_db w) (ws_db w') \<and> leaves_meters (ws_db w) (ws_db w')"
  unfolding local_to_def by (metis snd_conv)

lemma local_to_andThen:
  assumes "local_to k m" "\<And>x. local_to k (f x)"
  shows "local_to k (andThen m f)"
  unfolding local_to_def
proof (rule allI)
  fix w
  obtain r w' where m: "m w = (r, w')" by (cases "m w")
  note 1 = local_toD [OF assms(1) m]
  show "touches k (ws_db w) (ws_db (snd (andThen m f w))) \<and> leaves_meters (ws_db w) (ws_db (snd (andThen m f w)))"
  proof (cases r)
    case (Inl e)
    with m 1 show ?thesis by (simp add: andThen_def)
  next
    case (Inr x)
    have "touches k (ws_db w') (ws_db (snd (f x w'))) \<and> leaves_meters (ws_db w') (ws_db (snd (f x w')))"
      using assms(2) unfolding local_to_def by blast
    with Inr m 1 show ?thesis
      by (auto simp: andThen_def intro: touches_trans leaves_meters_trans)
  qed
qed

lemma local_to_catch:
  assumes "local_to k m" "\<And>e. local_to k (h e)"
  shows "local_to k (catch m h)"
  unfolding local_to_def
proof (rule allI)
  fix w
  obtain r w' where m: "m w = (r, w')" by (cases "m w")
  note 1 = local_toD [OF assms(1) m]
  show "touches k (ws_db w) (ws_db (snd (catch m h w))) \<and> leaves_meters (ws_db w) (ws_db (snd (catch m h w)))"
  proof (cases r)
    case (Inl e)
    have "touches k (ws_db w') (ws_db (snd (h e w'))) \<and> leaves_meters (ws_db w') (ws_db (snd (h e w')))"
      using assms(2) unfolding local_to_def by blast
    with Inl m 1 show ?thesis
      by (auto simp: catch_def intro: touches_trans leaves_meters_trans)
  next
    case (Inr x)
    with m 1 show ?thesis by (simp add: catch_def)
  qed
qed

lemma local_to_basic [simp]:
  "local_to k (ret x)" "local_to k (throw e)" "local_to k (worker_log l)" "local_to k (start_tasks ts)"
  "local_to k (worker_on_chain m)" "local_to k (worker_on_hedera h)"
  by (simp_all add: local_to_def ret_def throw_def worker_log_def start_tasks_def worker_on_chain_def
      worker_on_hedera_def split: prod.split)

lemma local_to_update:
  assumes "keeps_ident f"
  shows "local_to k (worker_on_db (faulty fault (sr_update k f)))"
  using touches_modify [OF assms]
  by (auto simp: local_to_def worker_on_db_def faulty_def throw_def sr_update_def leaves_meters_def
      lookup_simps split: option.split prod.split)

subsection \<open>Deliveries\<close>

lemma local_to_send: "local_to (cl_id row) (send_and_persist deps io ad row)"
  unfolding send_and_persist_def
  by (cases "cl_txSignature row") (auto intro!: local_to_andThen local_to_update)

lemma local_to_confirm: "local_to (cl_id row) (confirm_and_verify deps io ad row sig)"
  unfolding confirm_and_verify_def by (auto intro!: local_to_andThen local_to_update)

lemma local_to_process: "local_to (cl_id row) (processServiceRequest deps io row)"
  unfolding processServiceRequest_def
  by (auto split: sum.split intro!: local_to_andThen local_to_send local_to_confirm)

lemma send_and_persist_Inr:
  assumes "send_and_persist deps io ad row w = (Inr sig, w')"
  obtains (resumed) "cl_txSignature row = Some sig" "w' = w"
    | (sent) lamports c1 c2 r where "cl_txSignature row = None"
      "getRentExemptMinimum (wd_sdk deps) (wd_env deps) (ws_chain w) = (Inr lamports, c1)"
      "adapter_send (wd_sdk deps) ad \<lparr>dp_recipientWallet = cl_recipientWallet row, dp_lamports = lamports,
         dp_memoParts = [expected_memo row]\<rparr> c1 = (Inr sig, c2)"
      "sr_find (cl_id row) (ws_db w) = Some r"
      "w' = w\<lparr>ws_chain := c2, ws_db := sr_modify (cl_id row) (put_signature sig) (ws_db w)\<rparr>"
  using assms
  by (cases "cl_txSignature row")
     (auto simp: send_and_persist_def act_simps andThen_Inr_iff worker_lifts faulty_Inr_iff sr_update_Inr_iff ret_def)

lemma confirm_and_verify_Inr:
  assumes "confirm_and_verify deps io ad row sig w = (Inr u, w')"
  obtains cf c1 r where "adapter_confirm (wd_sdk deps) ad sig (ws_chain w) = (Inr cf, c1)"
    "adapter_getMemo (wd_sdk deps) ad sig c1 = (Inr (Some (code_points (expected_memo row))), ws_chain w')"
    "sr_find (cl_id row) (ws_db w) = Some r"
    "ws_db w' = sr_modify (cl_id row) (put_confirmed cf) (ws_db w)"
    "ws_tasks w' = ws_tasks w @ [Record_On_Hedera (cl_id row) (hedera_payload_of (wd_env deps) row),
       Mint_And_Transfer (cl_id row)]"
  using assms
  by (auto simp: confirm_and_verify_def act_simps andThen_Inr_iff worker_lifts faulty_Inr_iff
      sr_update_Inr_iff throw_def split: if_splits)

definition snapshot :: "claimable_request \<Rightarrow> db \<Rightarrow> bool" where
  "snapshot row d =
     (case sr_find (cl_id row) d of
        None \<Rightarrow> False
      | Some r \<Rightarrow> row\<lparr>cl_status := sr_status r\<rparr> = claimable_of r)"

lemma process_Inr:
  assumes "processServiceRequest deps io row w = (Inr u, w')" "snapshot row (ws_db w)"
  obtains ad sig cf c1 c2 r where "getSolanaAdapter (wd_sdk deps) (wd_env deps) = Inr ad"
    "adapter_confirm (wd_sdk deps) ad sig c1 = (Inr cf, c2)"
    "adapter_getMemo (wd_sdk deps) ad sig c2 = (Inr (Some (code_points (expected_memo row))), ws_chain w')"
    "sr_find (cl_id row) (ws_db w') = Some r" "sr_status r = CONFIRMED" "txSignature r = Some sig"
    "sr_slot r = Some (cf_slot cf)" "cl_txSignature row \<noteq> None \<longrightarrow> cl_txSignature row = Some sig"
proof -
  from assms(1) obtain ad sig w1 where ad: "getSolanaAdapter (wd_sdk deps) (wd_env deps) = Inr ad"
    and s: "send_and_persist deps io ad row w = (Inr sig, w1)"
    and c: "confirm_and_verify deps io ad row sig w1 = (Inr u, w')"
    by (auto simp: processServiceRequest_def throw_def andThen_Inr_iff split: sum.splits)
  obtain r0 where r0: "sr_find (cl_id row) (ws_db w) = Some r0" "txSignature r0 = cl_txSignature row"
    using assms(2) by (auto simp: snapshot_def claimable_of_def split: option.splits)
      (metis claimable_request.select_convs(7) claimable_request.surjective claimable_request.update_convs(2))
  have sig: "\<exists>r1. sr_find (cl_id row) (ws_db w1) = Some r1 \<and> txSignature r1 = Some sig"
    using s
  proof (cases rule: send_and_persist_Inr)
    case resumed
    with r0 show ?thesis by simp
  next
    case (sent lamports c1 c2 r)
    have "sr_find (cl_id row) (sr_modify (cl_id row) (put_signature sig) (ws_db w)) = Some (put_signature sig r0)"
      by (rule sr.modify_same [OF _ r0(1)]) (simp add: put_signature_def)
    with sent(5) show ?thesis by (simp add: put_signature_def)
  qed
  have once: "cl_txSignature row \<noteq> None \<longrightarrow> cl_txSignature row = Some sig"
    using s by (cases rule: send_and_persist_Inr) simp_all
  from sig obtain r1 where r1: "sr_find (cl_id row) (ws_db w1) = Some r1" "txSignature r1 = Some sig" by blast
  from c show thesis
  proof (rule confirm_and_verify_Inr)
    fix cf c1 r
    assume cv: "adapter_confirm (wd_sdk deps) ad sig (ws_chain w1) = (Inr cf, c1)"
      "adapter_getMemo (wd_sdk deps) ad sig c1 = (Inr (Some (code_points (expected_memo row))), ws_chain w')"
      and d: "ws_db w' = sr_modify (cl_id row) (put_confirmed cf) (ws_db w1)"
    have "sr_find (cl_id row) (ws_db w') = Some (put_confirmed cf r1)"
      unfolding d by (rule sr.modify_same [OF _ r1(1)]) (simp add: put_confirmed_def)
    from that [OF ad cv this] r1(2) once show thesis by (simp add: put_confirmed_def)
  qed
qed

lemma run_fail_Inr:
  assumes "run_fail io row reason w = (Inr u, w')"
  obtains r where "sr_find (cl_id row) (ws_db w') = Some r" "sr_status r = FAILED"
    "failureReason r = Some (take MAX_REASON_LEN reason)" "touches (cl_id row) (ws_db w) (ws_db w')"
    "organizations (ws_db w') = organizations (ws_db w)"
proof -
  from assms obtain restored where
    "failServiceRequest (ji_fail_faults io) (ji_stamp io)
        \<lparr>fi_serviceRequestId = cl_id row, fi_orgId = cl_orgId row, fi_reason = reason,
         fi_txSignature = cl_txSignature row\<rparr> (ws_db w) = (Inr restored, ws_db w')"
    by (auto simp: run_fail_def andThen_Inr_iff worker_lifts ret_def)
  then show thesis
  proof (rule failServiceRequest_Inr, simp)
    fix r
    assume r: "sr_find (cl_id row) (ws_db w) = Some r"
      and srs: "serviceRequests (ws_db w') =
        serviceRequests (sr_modify (cl_id row) (mark_failed (take MAX_REASON_LEN reason)) (ws_db w))"
      and org: "organizations (ws_db w') = organizations (ws_db w)"
    have "sr_find (cl_id row) (ws_db w') = sr_find (cl_id row) (sr_modify (cl_id row)
        (mark_failed (take MAX_REASON_LEN reason)) (ws_db w))"
      unfolding sr_find_def srs ..
    also have "\<dots> = Some (mark_failed (take MAX_REASON_LEN reason) r)"
      by (rule sr.modify_same [OF _ r]) simp
    finally have f: "sr_find (cl_id row) (ws_db w') = Some (mark_failed (take MAX_REASON_LEN reason) r)" .
    have "touches (cl_id row) (ws_db w) (ws_db w')"
      unfolding touches_serviceRequests [OF srs] by (rule touches_modify) simp
    with f org show thesis by (intro that [of "mark_failed (take MAX_REASON_LEN reason) r"]) simp_all
  qed
qed

lemma run_fail_Inl: "run_fail io row reason w = (Inl e, w') \<Longrightarrow> ws_db w' = ws_db w"
  using failServiceRequest_Inl
  by (fastforce simp: run_fail_def andThen_Inl_iff worker_lifts ret_def)

lemma failServiceRequest_succeeds:
  assumes "\<And>n. flt n = None" "fi_orgId inp \<noteq> None" "sr_find (fi_serviceRequestId inp) d \<noteq> None"
  shows "\<exists>restored d'. failServiceRequest flt stamp inp d = (Inr restored, d')"
proof -
  obtain i r where i: "fi_orgId inp = Some i" and r: "sr_find (fi_serviceRequestId inp) d = Some r"
    using assms(2,3) by blast
  have q: "\<exists>b d2. restoreQuota (Some i) d1 = (Inr b, d2)" for d1
    by (cases "restore_find i d1") (auto simp: restoreQuota_def ret_def andThen_def sub_update_many_def row_update_many_def)
  show ?thesis
    using q [of "sr_modify (fi_serviceRequestId inp) (mark_failed (take MAX_REASON_LEN (fi_reason inp))) d"]
    by (auto simp: failServiceRequest_def Let_def transaction_def andThen_def faulty_simps assms(1) i
        sr_update_def r audit_create_def ret_def)
qed

lemma run_fail_succeeds:
  assumes "\<And>n. ji_fail_faults io n = None" "cl_orgId row \<noteq> None" "sr_find (cl_id row) (ws_db w) \<noteq> None"
  shows "\<exists>w'. run_fail io row reason w = (Inr (), w')"
proof -
  have "\<exists>restored d'. failServiceRequest (ji_fail_faults io) (ji_stamp io)
        \<lparr>fi_serviceRequestId = cl_id row, fi_orgId = cl_orgId row, fi_reason = reason,
         fi_txSignature = cl_txSignature row\<rparr> (ws_db w) = (Inr restored, d')"
    by (rule failServiceRequest_succeeds) (use assms in auto)
  then show ?thesis
    by (auto simp: run_fail_def andThen_def worker_on_db_def ret_def)
qed

subsection \<open>One run of the loop\<close>

lemma snapshot_claimed:
  assumes "sr_valid d" "r \<in> set (serviceRequests d)"
  shows "snapshot ((claimable_of r)\<lparr>cl_status := IN_PROGRESS\<rparr>) (sr_modify (sr_id r) (set_status IN_PROGRESS) d)"
proof -
  have "sr_find (sr_id r) d = Some r" using assms by (simp add: sr_find_iff)
  then have "sr_find (sr_id r) (sr_modify (sr_id r) (set_status IN_PROGRESS) d) = Some (set_status IN_PROGRESS r)"
    by (rule sr.modify_same [rotated]) simp
  then show ?thesis by (simp add: snapshot_def claimable_of_def set_status_def)
qed

lemma runOnce_unfold:
  assumes "sr_valid (ws_db w)" "r \<in> set (serviceRequests (ws_db w))"
    and "claimNext (ws_db w) = (Inr (Some row), sr_modify (sr_id r) (set_status IN_PROGRESS) (ws_db w))"
  shows "runOnce deps io w =
    andThen (catch
             (andThen (processServiceRequest deps io row) (\<lambda>_. worker_log (''delivered '' @ cl_id row)))
             (\<lambda>e. andThen (worker_log (''delivery failed for '' @ cl_id row @ '': '' @
                    error_message (wd_prismaMessage deps) e)) (\<lambda>_.
                  run_fail io row (error_message (wd_prismaMessage deps) e))))
           (\<lambda>_. ret True) (w\<lparr>ws_db := sr_modify (sr_id r) (set_status IN_PROGRESS) (ws_db w)\<rparr>)"
  using assms(3) by (simp add: runOnce_def andThen_def worker_on_db_def)

text \<open>The body of a turn, run on a claimed row: it is delivered, or parked by the failure handler, or that throws.\<close>

definition attempt :: "'c worker_deps \<Rightarrow> job_io \<Rightarrow> claimable_request \<Rightarrow> (('c, 'h) worker_state, unit) act" where
  "attempt deps io row =
     catch
       (andThen (processServiceRequest deps io row) (\<lambda>_. worker_log (''delivered '' @ cl_id row)))
       (\<lambda>e. andThen (worker_log (''delivery failed for '' @ cl_id row @ '': '' @
              error_message (wd_prismaMessage deps) e)) (\<lambda>_.
            run_fail io row (error_message (wd_prismaMessage deps) e)))"

lemma runOnce_attempt:
  assumes "sr_valid (ws_db w)" "r \<in> set (serviceRequests (ws_db w))"
    and "claimNext (ws_db w) = (Inr (Some row), sr_modify (sr_id r) (set_status IN_PROGRESS) (ws_db w))"
  shows "runOnce deps io w =
    andThen (attempt deps io row) (\<lambda>_. ret True) (w\<lparr>ws_db := sr_modify (sr_id r) (set_status IN_PROGRESS) (ws_db w)\<rparr>)"
  unfolding attempt_def by (rule runOnce_unfold [OF assms])

lemma attempt_cases:
  assumes run: "attempt deps io row w = (res, w')" and snap: "snapshot row (ws_db w)"
  obtains (settled) r' where "res = Inr ()" "touches (cl_id row) (ws_db w) (ws_db w')"
      "sr_find (cl_id row) (ws_db w') = Some r'"
      "sr_status r' = CONFIRMED \<and> txSignature r' \<noteq> None \<or> sr_status r' = FAILED \<and> failureReason r' \<noteq> None"
    | (threw) e e1 w1 where "res = Inl e" "touches (cl_id row) (ws_db w) (ws_db w')" "touches (cl_id row) (ws_db w) (ws_db w1)"
      "run_fail io row (error_message (wd_prismaMessage deps) e1) w1 = (Inl e, w')"
proof -
  obtain pr w1 where pr: "processServiceRequest deps io row w = (pr, w1)" by (meson surj_pair)
  from local_toD [OF local_to_process pr] have t1: "touches (cl_id row) (ws_db w) (ws_db w1)" by simp
  show thesis
  proof (cases pr)
    case (Inr u)
    with pr run have res: "res = Inr ()" "ws_db w' = ws_db w1"
      by (auto simp: attempt_def andThen_def catch_def worker_log_def)
    from pr Inr have "processServiceRequest deps io row w = (Inr u, w1)" by simp
    then show thesis
    proof (rule process_Inr [OF _ snap])
      fix sig r'
      assume "sr_find (cl_id row) (ws_db w1) = Some r'" "sr_status r' = CONFIRMED" "txSignature r' = Some sig"
      with res t1 settled [of r'] show thesis by simp
    qed
  next
    case (Inl e1)
    let ?m = "error_message (wd_prismaMessage deps) e1"
    let ?w2 = "w1\<lparr>ws_log := ws_log w1 @ [''delivery failed for '' @ cl_id row @ '': '' @ ?m]\<rparr>"
    have fail: "run_fail io row ?m ?w2 = (res, w')"
      using Inl pr run by (simp add: attempt_def andThen_def catch_def worker_log_def)
    show thesis
    proof (cases res)
      case (Inr u)
      with fail have "run_fail io row ?m ?w2 = (Inr u, w')" by simp
      then show thesis
      proof (rule run_fail_Inr)
        fix r'
        assume "sr_find (cl_id row) (ws_db w') = Some r'" "sr_status r' = FAILED"
          "failureReason r' = Some (take MAX_REASON_LEN ?m)" "touches (cl_id row) (ws_db ?w2) (ws_db w')"
        with Inr t1 settled [of r'] show thesis by (simp add: touches_trans)
      qed
    next
      case (Inl e)
      with fail have f: "run_fail io row ?m ?w2 = (Inl e, w')" by simp
      from run_fail_Inl [OF f] t1 have "touches (cl_id row) (ws_db w) (ws_db w')" by simp
      from threw [OF Inl this _ f] t1 show thesis by simp
    qed
  qed
qed

lemma runOnce_cases:
  assumes v: "sr_valid (ws_db w)" and run: "runOnce deps io w = (res, w')"
  obtains (empty) "\<forall>r\<in>set (serviceRequests (ws_db w)). \<not> is_claimable r" "res = Inr False" "w' = w"
    | (worked) r r' where "r \<in> set (serviceRequests (ws_db w))" "is_claimable r" "res = Inr True"
      "\<And>q. q \<in> set (serviceRequests (ws_db w)) \<Longrightarrow> is_claimable q \<Longrightarrow> sr_createdAt r \<le> sr_createdAt q"
      "touches (sr_id r) (ws_db w) (ws_db w')" "sr_find (sr_id r) (ws_db w') = Some r'"
      "sr_status r' = CONFIRMED \<and> txSignature r' \<noteq> None \<or> sr_status r' = FAILED \<and> failureReason r' \<noteq> None"
    | (threw) r e e1 w1 row where "r \<in> set (serviceRequests (ws_db w))" "is_claimable r" "res = Inl e"
      "\<And>q. q \<in> set (serviceRequests (ws_db w)) \<Longrightarrow> is_claimable q \<Longrightarrow> sr_createdAt r \<le> sr_createdAt q"
      "touches (sr_id r) (ws_db w) (ws_db w')" "cl_orgId row = sr_orgId r" "cl_id row = sr_id r"
      "touches (sr_id r) (ws_db w) (ws_db w1)"
      "run_fail io row (error_message (wd_prismaMessage deps) e1) w1 = (Inl e, w')"
  using v
proof (cases rule: claimNext_cases)
  case empty
  with run have "res = Inr False" "w' = w"
    by (auto simp: runOnce_def andThen_def worker_on_db_def ret_def)
  with empty(1) show thesis
    by (intro that(1)) (simp_all add: claim_find_None)
next
  case (claimed r)
  let ?row = "(claimable_of r)\<lparr>cl_status := IN_PROGRESS\<rparr>"
  let ?w0 = "w\<lparr>ws_db := sr_modify (sr_id r) (set_status IN_PROGRESS) (ws_db w)\<rparr>"
  have id: "cl_id ?row = sr_id r" "cl_orgId ?row = sr_orgId r" by (simp_all add: claimable_of_def)
  have t0: "touches (sr_id r) (ws_db w) (ws_db ?w0)" by (simp add: touches_modify)
  obtain a w1 where a: "attempt deps io ?row ?w0 = (a, w1)" by (meson surj_pair)
  note run' = run [unfolded runOnce_attempt [OF v claimed(1,4)]]
  have "snapshot ?row (ws_db ?w0)" using snapshot_claimed [OF v claimed(1)] by simp
  with a show thesis
  proof (cases rule: attempt_cases)
    case (settled r')
    with a run' have "res = Inr True" "w' = w1" by (simp_all add: andThen_def ret_def)
    with settled t0 id that(2) [OF claimed(1,2) _ claimed(3), of r'] show thesis by (simp add: touches_trans)
  next
    case (threw e e1 w2)
    with a run' have "res = Inl e" "w' = w1" by (simp_all add: andThen_def)
    with threw t0 id that(3) [OF claimed(1,2) _ claimed(3) _ id(2,1), of e w2 e1] show thesis by (simp add: touches_trans)
  qed
qed

lemma claimable_count_less:
  assumes "distinct (map sr_id rs)" "r \<in> set rs" "P r" "\<not> P (f r)"
  shows "length (filter P rs) = Suc (length (filter P (row_modify sr_id (sr_id r) f rs)))"
  using assms
proof (induction rs)
  case Nil
  then show ?case by simp
next
  case (Cons q rs)
  show ?case
  proof (cases "q = r")
    case True
    then have "row_modify sr_id (sr_id r) f rs = rs"
      using Cons.prems(1) row_modify_absent [of sr_id "sr_id r" rs f] by (simp add: row_find_None_iff)
    with True Cons.prems show ?thesis by (simp add: row_modify_def)
  next
    case False
    with Cons.prems have "sr_id q \<noteq> sr_id r" "r \<in> set rs" by auto
    with Cons show ?thesis by (simp add: row_modify_def)
  qed
qed

definition backlog :: "db \<Rightarrow> nat" where
  "backlog d = length (filter is_claimable (serviceRequests d))"

lemma backlog_touches:
  assumes v: "sr_valid d" and r: "r \<in> set (serviceRequests d)" "is_claimable r"
    and t: "touches (sr_id r) d d'" and r': "sr_find (sr_id r) d' = Some r'" "\<not> is_claimable r'"
  shows "backlog d = Suc (backlog d')"
proof -
  from t obtain f where f: "keeps_ident f" "serviceRequests d' = row_modify sr_id (sr_id r) f (serviceRequests d)"
    unfolding touches_def by blast
  have "sr_find (sr_id r) d' = map_option f (sr_find (sr_id r) d)"
    unfolding sr_find_def f(2) using row_find_modify [of sr_id f "sr_id r" "sr_id r"] keeps_ident_id [OF f(1)] by simp
  with v r r' have "\<not> is_claimable (f r)" by (simp add: sr_find_iff [THEN iffD2])
  with claimable_count_less [of "serviceRequests d" r is_claimable f] v r f(2) show ?thesis
    by (simp add: backlog_def sr_valid_def)
qed

lemma backlog_0_iff: "backlog d = 0 \<longleftrightarrow> (\<forall>r\<in>set (serviceRequests d). \<not> is_claimable r)"
  by (simp add: backlog_def filter_empty_conv)

end
