(* ===== verification/Fulfilment.thy ===== *)
theory Fulfilment
  imports Worker_Lemmas
begin

text \<open>
  What the worker guarantees and what it does not: the backlog is driven to terminal states, a
  confirmed request was verified on chain, mainnet is never contacted, a resumed request is never
  sent again; and the limits of its claim, of its failure path and of its confirmation.
\<close>

definition org_billed :: "db \<Rightarrow> bool" where
  "org_billed d = (\<forall>r\<in>set (serviceRequests d). is_claimable r \<longrightarrow> sr_orgId r \<noteq> None)"

lemma org_billed_touches:
  assumes v: "sr_valid d" and b: "org_billed d" and t: "touches k d d'"
    and r': "sr_find k d' = Some r'" "\<not> is_claimable r'"
  shows "org_billed d'"
  unfolding org_billed_def
proof (intro ballI impI)
  fix q
  assume q: "q \<in> set (serviceRequests d')" "is_claimable q"
  have v': "sr_valid d'" using touches_valid [OF t v] .
  from q(1) v' have f: "sr_find (sr_id q) d' = Some q" by (simp add: sr_find_iff)
  with r' q(2) have "sr_id q \<noteq> k" by auto
  with f t have "sr_find (sr_id q) d = Some q" by (simp add: touches_find_other)
  with v b q(2) show "sr_orgId q \<noteq> None" by (simp add: sr_find_iff org_billed_def)
qed

lemma terminal_not_claimable:
  "sr_status r = CONFIRMED \<and> P \<or> sr_status r = FAILED \<and> Q \<Longrightarrow> \<not> is_claimable r"
  by (auto simp: is_claimable_def)

lemma touches_exists: "touches k d d' \<Longrightarrow> sr_find j d' = None \<longleftrightarrow> sr_find j d = None"
  by (erule touches_finds) simp

lemma runOnce_no_throw:
  assumes "sr_valid (ws_db w)" "org_billed (ws_db w)" "\<And>k. ji_fail_faults io k = None"
    and "runOnce deps io w = (res, w')"
  shows "res \<noteq> Inl e"
proof
  assume "res = Inl e"
  with assms(4) have run: "runOnce deps io w = (Inl e, w')" by simp
  from assms(1) run show False
  proof (cases rule: runOnce_cases)
    case (threw r e' e1 w1 row)
    have "sr_orgId r \<noteq> None" using threw(1,2) assms(2) by (simp add: org_billed_def)
    moreover have "sr_find (sr_id r) (ws_db w1) \<noteq> None"
      using touches_exists [OF threw(8)] threw(1) assms(1) by (simp add: sr_find_iff [THEN iffD2])
    ultimately obtain w2 where "run_fail io row (error_message (wd_prismaMessage deps) e1) w1 = (Inr (), w2)"
      using run_fail_succeeds [OF assms(3), of row w1 "error_message (wd_prismaMessage deps) e1"] threw(6,7) by auto
    with threw(9) show False by simp
  qed simp_all
qed

text \<open>Rows that have reached a terminal state, with what it carries.\<close>

definition settled :: "service_request \<Rightarrow> bool" where
  "settled r = (sr_status r = CONFIRMED \<and> txSignature r \<noteq> None \<or> sr_status r = FAILED \<and> failureReason r \<noteq> None)"

lemma settled_not_claimable: "settled r \<Longrightarrow> \<not> is_claimable r"
  by (auto simp: settled_def is_claimable_def)

lemma drain_returns: "sr_valid (ws_db w) \<Longrightarrow> backlog (ws_db w) < fuel \<Longrightarrow> drain deps ios fuel n w \<noteq> None"
proof (induction fuel arbitrary: n w)
  case 0
  then show ?case by simp
next
  case (Suc fuel)
  obtain res w' where run: "runOnce deps (ios n) w = (res, w')" by (meson surj_pair)
  from Suc.prems(1) run show ?case
  proof (cases rule: runOnce_cases)
    case empty
    with run show ?thesis by simp
  next
    case (worked r r')
    have "backlog (ws_db w) = Suc (backlog (ws_db w'))"
      using backlog_touches [OF Suc.prems(1) worked(1,2,5,6)] worked(7) terminal_not_claimable by blast
    with Suc.IH [of w' "Suc n"] Suc.prems touches_valid [OF worked(5)] run worked(3) show ?thesis by simp
  next
    case (threw r e e1 w1 row)
    with run show ?thesis by simp
  qed
qed

text \<open>What a job may do to a row of the table.\<close>

definition served :: "db \<Rightarrow> db \<Rightarrow> bool" where
  "served d d' = (\<forall>k r. sr_find k d = Some r \<longrightarrow> (\<exists>r'. sr_find k d' = Some r' \<and> (r' = r \<or> is_claimable r \<and> settled r')))"

lemma served_refl: "served d d"
  by (simp add: served_def)

lemma served_trans: "served d d' \<Longrightarrow> served d' d'' \<Longrightarrow> served d d''"
  unfolding served_def by (metis settled_not_claimable)

lemma served_all:
  assumes "served d d'" "backlog d' = 0" "sr_valid d'" "sr_find k d = Some r"
  shows "\<exists>r'. sr_find k d' = Some r' \<and> (if is_claimable r then settled r' else r' = r)"
proof -
  from assms(1,4) obtain r' where r': "sr_find k d' = Some r'" "r' = r \<or> is_claimable r \<and> settled r'"
    unfolding served_def by blast
  have "\<not> is_claimable r'" using assms(2,3) r'(1) by (auto simp: backlog_0_iff sr_find_iff)
  with r' show ?thesis by auto
qed

lemma job_serves:
  assumes "sr_valid (ws_db w)" "org_billed (ws_db w)" "\<And>k. ji_fail_faults io k = None"
    and run: "runOnce deps io w = (res, w')"
  obtains (idle) "res = Inr False" "ws_db w' = ws_db w" "backlog (ws_db w) = 0"
    | (job) "res = Inr True" "sr_valid (ws_db w')" "org_billed (ws_db w')" "backlog (ws_db w) = Suc (backlog (ws_db w'))"
        "served (ws_db w) (ws_db w')"
  using assms(1) run
proof (cases rule: runOnce_cases)
  case empty
  with idle show thesis by (simp add: backlog_0_iff)
next
  case (worked r r')
  have nc: "\<not> is_claimable r'" and s: "settled r'"
    using worked(7) by (auto simp: is_claimable_def settled_def)
  have this_row: "sr_find (sr_id r) (ws_db w) = Some r" using worked(1) assms(1) by (simp add: sr_find_iff)
  have "\<exists>q'. sr_find k (ws_db w') = Some q' \<and> (q' = q \<or> is_claimable q \<and> settled q')"
    if "sr_find k (ws_db w) = Some q" for k q
    using that this_row worked(2,6) s touches_find_other [OF worked(5), of k] by (cases "k = sr_id r") auto
  then have "served (ws_db w) (ws_db w')" by (simp add: served_def)
  with job [OF worked(3) touches_valid [OF worked(5) assms(1)] org_billed_touches [OF assms(1,2) worked(5,6) nc]
      backlog_touches [OF assms(1) worked(1,2,5,6) nc]] show thesis .
next
  case (threw r e e1 w1 row)
  with runOnce_no_throw [OF assms(1-3) run] show thesis by blast
qed

lemma drain_serves:
  assumes "sr_valid (ws_db w)" "org_billed (ws_db w)" "\<And>n k. ji_fail_faults (ios n) k = None"
    and "backlog (ws_db w) < fuel"
  shows "\<exists>w'. drain deps ios fuel n w = Some (Inr (n + backlog (ws_db w)), w') \<and> backlog (ws_db w') = 0 \<and>
    sr_valid (ws_db w') \<and> served (ws_db w) (ws_db w')"
  using assms(1,2,4)
proof (induction fuel arbitrary: n w)
  case 0
  then show ?case by simp
next
  case (Suc fuel)
  obtain res w1 where run: "runOnce deps (ios n) w = (res, w1)" by (meson surj_pair)
  from Suc.prems(1,2) assms(3) run show ?case
  proof (cases rule: job_serves)
    case idle
    with run Suc.prems(1) show ?thesis by (simp add: served_refl)
  next
    case job
    with Suc.IH [OF job(2,3), of "Suc n"] Suc.prems(3) run served_trans [OF job(5)] show ?thesis by auto
  qed
qed

subsection \<open>A cluster to evaluate on\<close>

text \<open>
  Its state is the list of landed transactions; \<open>err\<close> is the execution error it reports for
  every transaction, if any. The one well-formed recipient is \<open>wallet\<close>.
\<close>

type_synonym sample_cluster = "(string \<times> chain_tx) list"

definition memo_text :: "transaction_tx \<Rightarrow> string" where
  "memo_text tx = concat (map (\<lambda>i. case i of MemoInstruction t _ \<Rightarrow> t | _ \<Rightarrow> []) (tx_instructions tx))"

definition sample_sdk :: "string option \<Rightarrow> sample_cluster solana_sdk" where
  "sample_sdk err =
     \<lparr>sdk_public_key = (\<lambda>s. if s = ''wallet'' then Some [1] else None), sdk_to_base58 = (\<lambda>_. ''wallet''),
      sdk_on_curve = (\<lambda>_. True), sdk_bs58_decode = (\<lambda>_. Some [7]),
      sdk_keypair = (\<lambda>bs. Some \<lparr>kp_public = [9], kp_secret = bs\<rparr>), sdk_memo_program = [5],
      sdk_send = (\<lambda>url kp tx c. (Inr (replicate (Suc (length c)) (CHR ''s'')),
         (replicate (Suc (length c)) (CHR ''s''),
          \<lparr>ct_message = Some \<lparr>tm_accountKeys = None, tm_staticAccountKeys = Some [kp_public kp, [5]],
             tm_instructions = None, tm_compiledInstructions = Some [(1, utf8_encode (memo_text tx))]\<rparr>,
           ct_slot = 42, ct_blockTime = Some 7, ct_err = err\<rparr>) # c)),
      sdk_confirm = (\<lambda>url sig c. (Inr err, c)),
      sdk_get_tx = (\<lambda>url sig c. (Inr (map_of c sig), c)),
      sdk_rent = (\<lambda>url n c. (Inr 890880, c))\<rparr>"

definition worker_env :: env where
  "worker_env = map_of [(''SOLANA_RPC_URL'', ''https://api.devnet.solana.com''), (''SOLANA_SIGNER_KEYPAIR'', ''k'')]"

definition sample_deps :: "string option \<Rightarrow> sample_cluster worker_deps" where
  "sample_deps err = \<lparr>wd_sdk = sample_sdk err, wd_env = worker_env, wd_prismaMessage = (\<lambda>_. ''prisma'')\<rparr>"

definition sample_io :: job_io where
  "sample_io = \<lparr>ji_faults = (\<lambda>_. None), ji_fail_faults = (\<lambda>_. None), ji_stamp = \<lparr>as_id = ''a'', as_now = 1\<rparr>\<rparr>"

definition sample_worker :: "db \<Rightarrow> (sample_cluster, unit) worker_state" where
  "sample_worker d = \<lparr>ws_db = d, ws_chain = [], ws_hedera = (), ws_log = [], ws_tasks = []\<rparr>"

definition sample_ad :: solana_adapter where
  "sample_ad = \<lparr>ad_rpcUrl = ''https://api.devnet.solana.com'', ad_signer = \<lparr>kp_public = [9], kp_secret = [7]\<rparr>\<rparr>"

lemma devnet_allowed: "assertNotMainnetUrl ''https://api.devnet.solana.com'' = Inr ()"
  by (simp add: assertNotMainnetUrl_def js_lower_def lower_char_def code_unit_def Let_def sublist_Cons_right)

lemma sample_adapter: "getSolanaAdapter (sample_sdk err) worker_env = Inr sample_ad"
  by (simp add: getSolanaAdapter_def worker_env_def newSolanaAdapter_def devnet_allowed sample_sdk_def sample_ad_def)

lemma sample_rent: "getRentExemptMinimum (sample_sdk err) worker_env c = (Inr 890880, c)"
  by (simp add: getRentExemptMinimum_def worker_env_def devnet_allowed sample_sdk_def)

definition sample_landed :: "string option \<Rightarrow> string \<Rightarrow> chain_tx" where
  "sample_landed err memo =
     \<lparr>ct_message = Some \<lparr>tm_accountKeys = None, tm_staticAccountKeys = Some [[9], [5]],
        tm_instructions = None, tm_compiledInstructions = Some [(1, utf8_encode memo)]\<rparr>,
      ct_slot = 42, ct_blockTime = Some 7, ct_err = err\<rparr>"

lemma sample_send:
  "adapter_send (sample_sdk err) sample_ad
     \<lparr>dp_recipientWallet = ''wallet'', dp_lamports = l, dp_memoParts = [m]\<rparr> c =
     (Inr (replicate (Suc (length c)) (CHR ''s'')), (replicate (Suc (length c)) (CHR ''s''), sample_landed err m) # c)"
  by (simp add: adapter_send_def assertValidRecipient_def sample_sdk_def solana_tx_def memo_text_def
      sample_landed_def sample_ad_def)

lemma sample_confirm:
  "map_of c sig = Some (sample_landed err m) \<Longrightarrow>
   adapter_confirm (sample_sdk err) sample_ad sig c = (Inr \<lparr>cf_slot = 42, cf_blockTime = Some 7\<rparr>, c)"
  by (simp add: adapter_confirm_def sample_sdk_def act_simps andThen_def sample_landed_def)

lemma sample_getMemo:
  "map_of c sig = Some (sample_landed err m) \<Longrightarrow>
   adapter_getMemo (sample_sdk err) sample_ad sig c = (Inr (Some (code_points m)), c)"
  by (simp add: adapter_getMemo_def sample_sdk_def andThen_def sample_landed_def decodeMemo_def
      find_memo_def is_memo_def utf8_decode_encode ret_def)

definition sample_row :: claimable_request where
  "sample_row = (claimable_of sample_request)\<lparr>cl_status := IN_PROGRESS\<rparr>"

definition delivered_request :: service_request where
  "delivered_request = put_confirmed \<lparr>cf_slot = 42, cf_blockTime = Some 7\<rparr> (put_signature ''s'' sample_request)"

lemma sample_process:
  "\<exists>w'. processServiceRequest (sample_deps err) sample_io sample_row (sample_worker (sample_db n)) = (Inr (), w') \<and>
     ws_chain w' = [(''s'', sample_landed err (expected_memo sample_row))] \<and>
     serviceRequests (ws_db w') = [delivered_request]"
proof -
  let ?m = "expected_memo sample_row"
  let ?w1 = "(sample_worker (sample_db n))\<lparr>ws_chain := [(''s'', sample_landed err ?m)],
      ws_db := sr_modify ''r1'' (put_signature ''s'') (sample_db n)\<rparr>"
  have row: "cl_recipientWallet sample_row = ''wallet''" "cl_txSignature sample_row = None" "cl_id sample_row = ''r1''"
    by (simp_all add: sample_row_def claimable_of_def sample_request_def)
  have send: "send_and_persist (sample_deps err) sample_io sample_ad sample_row (sample_worker (sample_db n)) = (Inr ''s'', ?w1)"
    using sample_send [of err 890880 ?m "[]"]
    by (simp add: send_and_persist_def row sample_deps_def sample_io_def andThen_def worker_on_chain_def
        worker_on_db_def sample_worker_def sample_rent faulty_simps sr_update_def ret_def sr_find_def
        sample_db_def sample_request_def)
  have conf: "\<exists>w'. confirm_and_verify (sample_deps err) sample_io sample_ad sample_row ''s'' ?w1 = (Inr (), w') \<and>
      ws_chain w' = ws_chain ?w1 \<and> serviceRequests (ws_db w') = [delivered_request]"
    using sample_confirm [of "ws_chain ?w1" "''s''" err ?m] sample_getMemo [of "ws_chain ?w1" "''s''" err ?m]
    by (simp add: confirm_and_verify_def row sample_deps_def sample_io_def andThen_def worker_on_chain_def
        worker_on_db_def sample_worker_def faulty_simps sr_update_def sr_find_def sr_modify_def
        row_modify_def sample_db_def sample_request_def put_signature_def delivered_request_def start_tasks_def)
  have "getSolanaAdapter (wd_sdk (sample_deps err)) (wd_env (sample_deps err)) = Inr sample_ad"
    by (simp add: sample_deps_def sample_adapter)
  with send conf show ?thesis
    by (auto simp: processServiceRequest_def andThen_def)
qed

subsection \<open>Properties\<close>

text \<open>\<open>drain\<close> empties the queue: whatever the clusters answer, if every open request belongs
  to an organization and the failure transactions meet no database fault, the loop ends, without
  an error, after exactly as many jobs as there were claimable requests; each of them is then
  CONFIRMED with a signature or FAILED with a reason, and every other request is unchanged.\<close>

theorem drain_empties_queue:
  assumes "sr_valid (ws_db w)" "org_billed (ws_db w)" "\<And>n k. ji_fail_faults (ios n) k = None"
    and "backlog (ws_db w) < fuel"
  shows "\<exists>w'. drain deps ios fuel 0 w = Some (Inr (backlog (ws_db w)), w') \<and> backlog (ws_db w') = 0 \<and>
     (\<forall>k r. sr_find k (ws_db w) = Some r \<longrightarrow>
       (\<exists>r'. sr_find k (ws_db w') = Some r' \<and> (if is_claimable r then settled r' else r' = r)))"
proof -
  obtain w' where "drain deps ios fuel 0 w = Some (Inr (backlog (ws_db w)), w')" "backlog (ws_db w') = 0"
    and "sr_valid (ws_db w')" "served (ws_db w) (ws_db w')"
    using drain_serves [of w ios fuel deps 0, OF assms] by auto
  with served_all show ?thesis by blast
qed

lemma drain_empties_queue_witness:
  "\<exists>w' r'. drain (sample_deps None) (\<lambda>_. sample_io) 2 0 (sample_worker (sample_db 1)) = Some (Inr 1, w') \<and>
     sr_find ''r1'' (ws_db w') = Some r' \<and> settled r'"
proof -
  have *: "sr_valid (ws_db (sample_worker (sample_db 1)))" "org_billed (ws_db (sample_worker (sample_db 1)))"
    "backlog (ws_db (sample_worker (sample_db 1))) = 1"
    "sr_find ''r1'' (ws_db (sample_worker (sample_db 1))) = Some sample_request" "is_claimable sample_request"
    by (simp_all add: sample_worker_def sample_defs sr_valid_def org_billed_def backlog_def is_claimable_def sr_find_def)
  have "ji_fail_faults ((\<lambda>_. sample_io) n) k = None" for n :: nat and k by (simp add: sample_io_def)
  from drain_empties_queue [OF *(1,2) this, of 2 "sample_deps None"] * show ?thesis
    by fastforce
qed

text \<open>C20. The queue loop always ends: with more turns than claimable requests \<open>drain\<close> has returned,
  with a count or with the error that stopped it, whatever the clusters and the database do.\<close>

theorem drain_terminates:
  assumes "sr_valid (ws_db w)" "backlog (ws_db w) < fuel"
  shows "\<exists>res w'. drain deps ios fuel n w = Some (res, w')"
  using drain_returns [OF assms, of deps ios n] by auto

lemma drain_terminates_witness:
  "\<exists>res w'. drain (sample_deps (Some ''e'')) (\<lambda>_. sample_io) 2 0 (sample_worker (sample_db 1)) = Some (res, w')"
  by (rule drain_terminates) (simp_all add: sample_worker_def sample_defs sr_valid_def backlog_def is_claimable_def)

text \<open>C10. A delivery that returns was verified on chain: the row is CONFIRMED under a signature which
  the cluster confirmed, whose memo was read back equal to the memo of this request, and whose slot
  the row records; a signature the row already had is the one that was confirmed.\<close>

theorem confirmed_was_verified:
  assumes "processServiceRequest deps io row w = (Inr u, w')" "snapshot row (ws_db w)"
  shows "\<exists>ad sig cf c1 c2 r. getSolanaAdapter (wd_sdk deps) (wd_env deps) = Inr ad \<and>
    adapter_confirm (wd_sdk deps) ad sig c1 = (Inr cf, c2) \<and>
    adapter_getMemo (wd_sdk deps) ad sig c2 = (Inr (Some (code_points (expected_memo row))), ws_chain w') \<and>
    sr_find (cl_id row) (ws_db w') = Some r \<and> sr_status r = CONFIRMED \<and> txSignature r = Some sig \<and>
    sr_slot r = Some (cf_slot cf) \<and> (cl_txSignature row \<noteq> None \<longrightarrow> cl_txSignature row = Some sig)"
  using assms by (rule process_Inr) blast

lemma sample_snapshot: "snapshot sample_row (sample_db n)"
  by (simp add: snapshot_def sample_row_def claimable_of_def sample_defs sr_find_def)

lemma confirmed_was_verified_witness:
  "\<exists>w' r. processServiceRequest (sample_deps None) sample_io sample_row (sample_worker (sample_db 1)) = (Inr (), w') \<and>
     sr_find ''r1'' (ws_db w') = Some r \<and> sr_status r = CONFIRMED"
proof -
  obtain w' where p: "processServiceRequest (sample_deps None) sample_io sample_row (sample_worker (sample_db 1)) = (Inr (), w')"
    using sample_process by blast
  have s: "snapshot sample_row (ws_db (sample_worker (sample_db 1)))"
    by (simp add: sample_worker_def sample_snapshot)
  have "cl_id sample_row = ''r1''" by (simp add: sample_row_def claimable_of_def sample_request_def)
  with confirmed_was_verified [OF p s] p show ?thesis by auto
qed

text \<open>C34. Mainnet is never contacted: with an RPC URL that contains \<open>mainnet\<close> in any casing, a
  delivery throws before it has asked the cluster anything or changed anything.\<close>

theorem process_refuses_mainnet:
  assumes "wd_env deps ''SOLANA_RPC_URL'' = Some url" "sublist ''mainnet'' (js_lower url)"
  shows "\<exists>e. processServiceRequest deps io row w = (Inl e, w)"
proof -
  have "getSolanaAdapter (wd_sdk deps) (wd_env deps) \<noteq> Inr ad" for ad
    using getSolanaAdapter_Inr [of "wd_sdk deps" "wd_env deps" ad] assms by auto
  then obtain e where "getSolanaAdapter (wd_sdk deps) (wd_env deps) = Inl e" by (metis obj_sumE)
  then show ?thesis by (simp add: processServiceRequest_def throw_def)
qed

lemma process_refuses_mainnet_witness:
  "\<exists>e. processServiceRequest ((sample_deps None)\<lparr>wd_env := worker_env(''SOLANA_RPC_URL'' \<mapsto> ''api.MAINNET-beta'')\<rparr>)
     sample_io sample_row (sample_worker (sample_db 1)) = (Inl e, sample_worker (sample_db 1))"
  by (rule process_refuses_mainnet [of _ "''api.MAINNET-beta''"])
     (simp_all add: js_lower_def lower_char_def code_unit_def Let_def sublist_Cons_right char_of_def bit_iff_odd)

text \<open>A resumed request is never sent again: when the claimed row carries a signature, the
  delivery is the same whatever the send operation of the SDK and the rent query would do.\<close>

theorem resume_never_sends:
  assumes "cl_txSignature row = Some sig"
  shows "processServiceRequest deps io row w =
    processServiceRequest (deps\<lparr>wd_sdk := (wd_sdk deps)\<lparr>sdk_send := any_send, sdk_rent := any_rent\<rparr>\<rparr>) io row w"
proof -
  let ?sdk = "(wd_sdk deps)\<lparr>sdk_send := any_send, sdk_rent := any_rent\<rparr>"
  have a: "getSolanaAdapter ?sdk (wd_env deps) = getSolanaAdapter (wd_sdk deps) (wd_env deps)"
    by (simp add: getSolanaAdapter_def)
  have m: "is_memo ?sdk = is_memo (wd_sdk deps)" by (intro ext) (simp add: is_memo_def)
  have b: "sdk_bs58_decode ?sdk = sdk_bs58_decode (wd_sdk deps)" by simp
  have d: "decodeMemo ?sdk = decodeMemo (wd_sdk deps)"
    unfolding decodeMemo_def find_memo_def m b ..
  have e: "wd_env (deps\<lparr>wd_sdk := ?sdk\<rparr>) = wd_env deps" "wd_sdk (deps\<lparr>wd_sdk := ?sdk\<rparr>) = ?sdk" by simp_all
  have g: "sdk_confirm ?sdk = sdk_confirm (wd_sdk deps)" "sdk_get_tx ?sdk = sdk_get_tx (wd_sdk deps)" by simp_all
  have c: "confirm_and_verify (deps\<lparr>wd_sdk := ?sdk\<rparr>) io ad row s = confirm_and_verify deps io ad row s" for ad s
    unfolding confirm_and_verify_def adapter_confirm_def adapter_getMemo_def e g d ..
  have p: "send_and_persist (deps\<lparr>wd_sdk := ?sdk\<rparr>) io ad row = send_and_persist deps io ad row" for ad
    using assms by (simp add: send_and_persist_def)
  show ?thesis unfolding processServiceRequest_def e a c p ..
qed

lemma resume_never_sends_witness:
  "processServiceRequest (sample_deps None) sample_io (sample_row\<lparr>cl_txSignature := Some ''s''\<rparr>) (sample_worker (sample_db 1)) =
   processServiceRequest ((sample_deps None)\<lparr>wd_sdk := (sample_sdk None)\<lparr>sdk_send := (\<lambda>_ _ _. throw P2002),
      sdk_rent := (\<lambda>_ _. throw P2002)\<rparr>\<rparr>) sample_io (sample_row\<lparr>cl_txSignature := Some ''s''\<rparr>) (sample_worker (sample_db 1))"
  using resume_never_sends [of "sample_row\<lparr>cl_txSignature := Some ''s''\<rparr>" "''s''" "sample_deps None" sample_io
      "sample_worker (sample_db 1)", where any_send = "\<lambda>_ _ _. throw P2002" and any_rent = "\<lambda>_ _. throw P2002"]
  by (simp add: sample_deps_def)

lemma first_max_map:
  "(\<And>x. f (g x) = f x) \<Longrightarrow> first_max f (map g xs) = map_option g (first_max f xs)"
  by (induction xs) (auto split: option.splits)

text \<open>The claimed row stays the first in the queue.\<close>

lemma claim_find_again:
  assumes v: "sr_valid d" and r: "r \<in> set (serviceRequests d)" "is_claimable r" "claim_find d = Some (claimable_of r)"
  shows "claim_find (sr_modify (sr_id r) (set_status IN_PROGRESS) d) = Some (claimable_of (set_status IN_PROGRESS r))"
proof -
  let ?g = "\<lambda>q. if sr_id q = sr_id r then set_status IN_PROGRESS q else q"
  have srs: "serviceRequests (sr_modify (sr_id r) (set_status IN_PROGRESS) d) = map ?g (serviceRequests d)"
    by (simp add: sr_modify_def row_modify_def)
  have g: "is_claimable (?g q) = is_claimable q" if "q \<in> set (serviceRequests d)" for q
    using sr_valid_unique [OF v that r(1)] r(2) by auto
  have "filter is_claimable (map ?g (serviceRequests d)) = map ?g (filter is_claimable (serviceRequests d))"
    by (simp add: filter_map comp_def g cong: filter_cong)
  moreover obtain r3 where r3: "first_max (\<lambda>r. - sr_createdAt r) (filter is_claimable (serviceRequests d)) = Some r3"
    "claimable_of r3 = claimable_of r"
    using r(3) by (auto simp: claim_find_def)
  moreover have "r3 = r"
    using first_max_in [OF r3(1)] r3(2) sr_valid_unique [OF v _ r(1)] by (auto simp: claimable_of_def)
  ultimately show ?thesis
    using first_max_map [of "\<lambda>r. - sr_createdAt r" ?g "filter is_claimable (serviceRequests d)"] by (simp add: claim_find_def srs)
qed

text \<open>C37. The claim does not exclude a second poller: right after one poller has claimed a request,
  the same call by another returns the same request as claimed.\<close>

theorem claim_not_exclusive:
  assumes "sr_valid d" "claimNext d = (Inr (Some row), d')"
  shows "claimNext d' = (Inr (Some row), d')"
  using assms(1)
proof (cases rule: claimNext_cases)
  case empty
  with assms(2) show ?thesis by simp
next
  case (claimed r)
  have d': "d' = sr_modify (sr_id r) (set_status IN_PROGRESS) d" and row: "row = (claimable_of r)\<lparr>cl_status := IN_PROGRESS\<rparr>"
    using assms(2) claimed(4) by simp_all
  have v': "sr_valid d'" unfolding d' by (rule sr.valid_modify [OF assms(1)]) simp
  have "sr_find (sr_id r) d' = Some (set_status IN_PROGRESS r)"
    unfolding d' by (rule sr.modify_same) (use assms(1) claimed(1) in \<open>simp_all add: sr_find_iff\<close>)
  then have "set_status IN_PROGRESS r \<in> set (serviceRequests d')" using v' by (simp add: sr_find_iff)
  from claim_commit_found [OF v' this is_claimable_set_status]
  have "claim_commit (claimable_of (set_status IN_PROGRESS r)) d' =
      (Inr (Some row), sr_modify (sr_id r) (set_status IN_PROGRESS) d')"
    by (simp add: row claimable_of_def set_status_def)
  moreover have "sr_modify (sr_id r) (set_status IN_PROGRESS) d' = d'"
    by (simp add: d' sr_modify_def row_modify_def set_status_def comp_def)
  ultimately show ?thesis
    using claim_find_again [OF assms(1) claimed(1,2,5)] by (simp add: claimNext_def d')
qed

lemma claim_not_exclusive_witness:
  "claimNext (sr_modify ''r1'' (set_status IN_PROGRESS) (sample_db 1)) =
     (Inr (Some sample_row), sr_modify ''r1'' (set_status IN_PROGRESS) (sample_db 1))"
proof (rule claim_not_exclusive)
  show "sr_valid (sample_db 1)" by (simp add: sample_defs sr_valid_def)
  show "claimNext (sample_db 1) = (Inr (Some sample_row), sr_modify ''r1'' (set_status IN_PROGRESS) (sample_db 1))"
    by (simp add: claimNext_def claim_find_def claim_commit_def sample_defs is_claimable_def sr_update_many_def
        row_update_many_def andThen_def ret_def sr_modify_def row_modify_def claimable_of_def sample_row_def)
qed

end
