(* ===== verification/Broadcast.thy ===== *)
theory Broadcast
  imports Fulfilment
begin

text \<open>
  How often a request is broadcast. The worker's code is cut at its awaits into the steps of a
  relation: between any two of them the process may die and start again, and the rest of the
  application may write to the database. Two ghost counters record, per request, the broadcasts
  and the broadcasts whose signature was lost, because the process died or the write failed before
  it was persisted.
\<close>

datatype worker_pc =
    W_Idle
  | W_Found claimable_request
  | W_Claimed claimable_request
  | W_Sent claimable_request string
  | W_Ready claimable_request string
  | W_Verified claimable_request confirmation_result
  | W_Failing claimable_request string

record 'c delivery_system =
  ds_db :: db
  ds_chain :: 'c
  ds_pc :: worker_pc
  ds_sends :: "string \<Rightarrow> nat"
  ds_lost :: "string \<Rightarrow> nat"

definition bump :: "string \<Rightarrow> (string \<Rightarrow> nat) \<Rightarrow> string \<Rightarrow> nat" where
  "bump k f = f(k := Suc (f k))"

definition lose :: "worker_pc \<Rightarrow> (string \<Rightarrow> nat) \<Rightarrow> string \<Rightarrow> nat" where
  "lose pc f = (case pc of W_Sent row sig \<Rightarrow> bump (cl_id row) f | _ \<Rightarrow> f)"

text \<open>What the other components write leaves the signatures of the existing rows alone.\<close>

definition others_write :: "db \<Rightarrow> db \<Rightarrow> bool" where
  "others_write d d' \<longleftrightarrow>
     sr_valid d' \<and> (\<forall>k. map_option txSignature (sr_find k d') =
       (case sr_find k d of
          Some r \<Rightarrow> Some (txSignature r)
        | None \<Rightarrow> (case sr_find k d' of None \<Rightarrow> None | Some _ \<Rightarrow> Some None)))"

inductive delivery_step ::
  "'c worker_deps \<Rightarrow> solana_adapter \<Rightarrow> (db \<Rightarrow> db \<Rightarrow> bool) \<Rightarrow> 'c delivery_system \<Rightarrow> 'c delivery_system \<Rightarrow> bool"
  for deps ad others where
  find: "ds_pc y = W_Idle \<Longrightarrow> claim_find (ds_db y) = Some row \<Longrightarrow>
    delivery_step deps ad others y (y\<lparr>ds_pc := W_Found row\<rparr>)"
| claim: "ds_pc y = W_Found row \<Longrightarrow> claim_commit row (ds_db y) = (Inr res, d) \<Longrightarrow>
    delivery_step deps ad others y
      (y\<lparr>ds_db := d, ds_pc := (case res of None \<Rightarrow> W_Idle | Some row' \<Rightarrow> W_Claimed row')\<rparr>)"
| resume: "ds_pc y = W_Claimed row \<Longrightarrow> cl_txSignature row = Some sig \<Longrightarrow>
    delivery_step deps ad others y (y\<lparr>ds_pc := W_Ready row sig\<rparr>)"
| send: "ds_pc y = W_Claimed row \<Longrightarrow> cl_txSignature row = None \<Longrightarrow>
    getRentExemptMinimum (wd_sdk deps) (wd_env deps) (ds_chain y) = (Inr lamports, c1) \<Longrightarrow>
    adapter_send (wd_sdk deps) ad \<lparr>dp_recipientWallet = cl_recipientWallet row, dp_lamports = lamports,
      dp_memoParts = [expected_memo row]\<rparr> c1 = (Inr sig, c2) \<Longrightarrow>
    delivery_step deps ad others y
      (y\<lparr>ds_chain := c2, ds_pc := W_Sent row sig, ds_sends := bump (cl_id row) (ds_sends y)\<rparr>)"
| send_error: "ds_pc y = W_Claimed row \<Longrightarrow> cl_txSignature row = None \<Longrightarrow>
    delivery_step deps ad others y (y\<lparr>ds_chain := c, ds_pc := W_Failing row m\<rparr>)"
| persist: "ds_pc y = W_Sent row sig \<Longrightarrow> sr_update (cl_id row) (put_signature sig) (ds_db y) = (Inr r, d) \<Longrightarrow>
    delivery_step deps ad others y (y\<lparr>ds_db := d, ds_pc := W_Ready row sig\<rparr>)"
| persist_error: "ds_pc y = W_Sent row sig \<Longrightarrow>
    delivery_step deps ad others y (y\<lparr>ds_pc := W_Failing row m, ds_lost := bump (cl_id row) (ds_lost y)\<rparr>)"
| verify: "ds_pc y = W_Ready row sig \<Longrightarrow> adapter_confirm (wd_sdk deps) ad sig (ds_chain y) = (Inr cf, c1) \<Longrightarrow>
    adapter_getMemo (wd_sdk deps) ad sig c1 = (Inr (Some (code_points (expected_memo row))), c2) \<Longrightarrow>
    delivery_step deps ad others y (y\<lparr>ds_chain := c2, ds_pc := W_Verified row cf\<rparr>)"
| verify_error: "ds_pc y = W_Ready row sig \<Longrightarrow>
    delivery_step deps ad others y (y\<lparr>ds_chain := c, ds_pc := W_Failing row m\<rparr>)"
| finish: "ds_pc y = W_Verified row cf \<Longrightarrow> sr_update (cl_id row) (put_confirmed cf) (ds_db y) = (Inr r, d) \<Longrightarrow>
    delivery_step deps ad others y (y\<lparr>ds_db := d, ds_pc := W_Idle\<rparr>)"
| finish_error: "ds_pc y = W_Verified row cf \<Longrightarrow>
    delivery_step deps ad others y (y\<lparr>ds_pc := W_Failing row m\<rparr>)"
| fail: "ds_pc y = W_Failing row m \<Longrightarrow>
    failServiceRequest flt stamp \<lparr>fi_serviceRequestId = cl_id row, fi_orgId = cl_orgId row, fi_reason = m,
      fi_txSignature = cl_txSignature row\<rparr> (ds_db y) = (res, d) \<Longrightarrow>
    delivery_step deps ad others y (y\<lparr>ds_db := d, ds_pc := W_Idle\<rparr>)"
| crash: "delivery_step deps ad others y (y\<lparr>ds_pc := W_Idle, ds_lost := lose (ds_pc y) (ds_lost y)\<rparr>)"
| environment: "others (ds_db y) d \<Longrightarrow> delivery_step deps ad others y (y\<lparr>ds_db := d\<rparr>)"

inductive_cases delivery_stepE: "delivery_step deps ad others y y'"

subsection \<open>The invariant\<close>

definition sig_of :: "string \<Rightarrow> db \<Rightarrow> string option option" where
  "sig_of k d = map_option txSignature (sr_find k d)"

definition persisted :: "string \<Rightarrow> db \<Rightarrow> nat" where
  "persisted k d = (case sig_of k d of Some (Some s) \<Rightarrow> 1 | _ \<Rightarrow> 0)"

definition in_flight :: "string \<Rightarrow> worker_pc \<Rightarrow> nat" where
  "in_flight k pc = (case pc of W_Sent row sig \<Rightarrow> if cl_id row = k then 1 else 0 | _ \<Rightarrow> 0)"

text \<open>What the program counter knows of its row's signature.\<close>

definition pc_knows :: "worker_pc \<Rightarrow> db \<Rightarrow> bool" where
  "pc_knows pc d =
     (case pc of
        W_Found row \<Rightarrow> sig_of (cl_id row) d = Some (cl_txSignature row)
      | W_Claimed row \<Rightarrow> sig_of (cl_id row) d = Some (cl_txSignature row)
      | W_Sent row sig \<Rightarrow> sig_of (cl_id row) d = Some None
      | _ \<Rightarrow> True)"

definition broadcast_inv :: "'c delivery_system \<Rightarrow> bool" where
  "broadcast_inv y \<longleftrightarrow>
     sr_valid (ds_db y) \<and> pc_knows (ds_pc y) (ds_db y) \<and>
     (\<forall>k. ds_sends y k \<le> ds_lost y k + in_flight k (ds_pc y) + persisted k (ds_db y))"

lemma sig_of_modify:
  assumes "\<And>r. sr_id (f r) = sr_id r" "\<And>r. txSignature (f r) = txSignature r"
  shows "sig_of j (sr_modify k f d) = sig_of j d"
  using assms(2) by (simp add: sig_of_def sr.find_modify [OF assms(1)] option.map_comp comp_def)

lemma sig_of_put: "sr_find k d \<noteq> None \<Longrightarrow> sig_of j (sr_modify k (put_signature s) d) = (if j = k then Some (Some s) else sig_of j d)"
  by (auto simp: sig_of_def sr.find_modify put_signature_def)

lemma sig_of_serviceRequests: "serviceRequests d' = serviceRequests d \<Longrightarrow> sig_of k d' = sig_of k d"
  by (simp add: sig_of_def sr_find_def)

lemma pc_knows_sig: "(\<And>k. sig_of k d' = sig_of k d) \<Longrightarrow> pc_knows pc d' = pc_knows pc d"
  by (simp add: pc_knows_def split: worker_pc.split)

lemma persisted_sig: "sig_of k d' = sig_of k d \<Longrightarrow> persisted k d' = persisted k d"
  by (simp add: persisted_def)

lemma claim_commit_sig:
  assumes "claim_commit row d = (Inr res, d')"
  shows "sig_of k d' = sig_of k d" "sr_valid d \<Longrightarrow> sr_valid d'"
    "res = Some row' \<Longrightarrow> row' = row\<lparr>cl_status := IN_PROGRESS\<rparr>"
proof -
  let ?g = "\<lambda>r. if sr_id r = cl_id row \<and> is_claimable r then set_status IN_PROGRESS r else r"
  have s: "serviceRequests d' = map ?g (serviceRequests d)"
    using assms by (auto simp: claim_commit_def andThen_def sr_update_many_def row_update_many_def ret_def split: if_splits)
  have "map_option txSignature (row_find sr_id k (map ?g rs)) = map_option txSignature (row_find sr_id k rs)" for rs
    by (induction rs) (auto simp: set_status_def)
  then show "sig_of k d' = sig_of k d" by (simp add: sig_of_def sr_find_def s)
  have "map sr_id (map ?g (serviceRequests d)) = map sr_id (serviceRequests d)" by (simp add: set_status_def)
  then show "sr_valid d'" if "sr_valid d" using that unfolding sr_valid_def s by metis
  show "row' = row\<lparr>cl_status := IN_PROGRESS\<rparr>" if "res = Some row'"
    using assms that by (auto simp: claim_commit_def andThen_def sr_update_many_def row_update_many_def ret_def split: if_splits)
qed

lemma failServiceRequest_sig:
  assumes "failServiceRequest flt stamp inp d = (res, d')" "sr_valid d"
  shows "sig_of k d' = sig_of k d \<and> sr_valid d'"
proof (cases res)
  case (Inl e)
  with assms failServiceRequest_Inl show ?thesis by metis
next
  case (Inr b)
  with assms(1) have "failServiceRequest flt stamp inp d = (Inr b, d')" by simp
  then show ?thesis
  proof (rule failServiceRequest_Inr)
    assume s: "serviceRequests d' = serviceRequests
        (sr_modify (fi_serviceRequestId inp) (mark_failed (take MAX_REASON_LEN (fi_reason inp))) d)"
    have "sig_of k d' = sig_of k (sr_modify (fi_serviceRequestId inp) (mark_failed (take MAX_REASON_LEN (fi_reason inp))) d)"
      by (rule sig_of_serviceRequests [OF s])
    also have "\<dots> = sig_of k d" by (rule sig_of_modify) simp_all
    finally have "sig_of k d' = sig_of k d" .
    moreover have "sr_valid (sr_modify (fi_serviceRequestId inp) (mark_failed (take MAX_REASON_LEN (fi_reason inp))) d)"
      by (rule sr.valid_modify [OF assms(2)]) simp
    ultimately show ?thesis using s by (simp add: sr_valid_def)
  qed
qed

lemma others_write_sig:
  assumes "others_write d d'"
  shows "sr_valid d'" "sig_of k d' = sig_of k d \<or> sig_of k d = None \<and> sig_of k d' = Some None"
proof -
  show "sr_valid d'" using assms by (simp add: others_write_def)
  have "sig_of k d' = (case sr_find k d of Some r \<Rightarrow> Some (txSignature r)
      | None \<Rightarrow> (case sr_find k d' of None \<Rightarrow> None | Some _ \<Rightarrow> Some None))"
    using assms unfolding others_write_def sig_of_def by blast
  then show "sig_of k d' = sig_of k d \<or> sig_of k d = None \<and> sig_of k d' = Some None"
    by (auto simp: sig_of_def split: option.splits)
qed

text \<open>A step that leaves all signatures and counters alone, and whose new place in the code claims
  nothing, keeps the invariant.\<close>

lemma broadcast_inv_quiet:
  assumes "broadcast_inv y" "sr_valid (ds_db y')" "\<And>k. sig_of k (ds_db y') = sig_of k (ds_db y)"
    and "pc_knows (ds_pc y') (ds_db y)" "ds_sends y' = ds_sends y"
    and "\<And>k. ds_lost y k + in_flight k (ds_pc y) \<le> ds_lost y' k + in_flight k (ds_pc y')"
  shows "broadcast_inv y'"
proof -
  have "ds_sends y' k \<le> ds_lost y' k + in_flight k (ds_pc y') + persisted k (ds_db y')" for k
    using assms(1) assms(6) [of k] unfolding broadcast_inv_def assms(5) persisted_sig [OF assms(3)]
    by (meson add_le_mono1 le_trans)
  moreover have "pc_knows (ds_pc y') (ds_db y')" using assms(4) pc_knows_sig [OF assms(3)] by simp
  ultimately show ?thesis using assms(2) by (simp add: broadcast_inv_def)
qed

text \<open>The three steps that move a signature: it is sent, it is written, the rest of the program writes.\<close>

lemma broadcast_inv_persist:
  assumes inv: "broadcast_inv y" and pc: "ds_pc y = W_Sent row sig"
    and upd: "sr_update (cl_id row) (put_signature sig) (ds_db y) = (Inr r, d)"
  shows "broadcast_inv (y\<lparr>ds_db := d, ds_pc := W_Ready row sig\<rparr>)"
proof -
  from upd obtain r0 where r0: "sr_find (cl_id row) (ds_db y) = Some r0"
    and d: "d = sr_modify (cl_id row) (put_signature sig) (ds_db y)"
    by (auto simp: sr_update_Inr_iff)
  have "sr_valid d"
    unfolding d by (rule sr.valid_modify) (use inv in \<open>simp_all add: broadcast_inv_def put_signature_def\<close>)
  moreover have "ds_sends y k \<le> ds_lost y k + in_flight k (W_Ready row sig) + persisted k d" for k
  proof -
    have "ds_sends y k \<le> ds_lost y k + in_flight k (W_Sent row sig) + persisted k (ds_db y)"
      using inv pc by (simp add: broadcast_inv_def)
    moreover have "sig_of (cl_id row) (ds_db y) = Some None"
      using inv pc by (simp add: broadcast_inv_def pc_knows_def)
    ultimately show ?thesis
      by (cases "k = cl_id row") (simp_all add: in_flight_def persisted_def d sig_of_put r0)
  qed
  ultimately show ?thesis by (simp add: broadcast_inv_def pc_knows_def)
qed

lemma broadcast_inv_others:
  assumes inv: "broadcast_inv y" and others: "others_write (ds_db y) d"
  shows "broadcast_inv (y\<lparr>ds_db := d\<rparr>)"
proof -
  note e = others_write_sig [OF others]
  have "sig_of k d = Some x" if "sig_of k (ds_db y) = Some x" for k x using e(2) [of k] that by simp
  then have "pc_knows (ds_pc y) d"
    using inv by (cases "ds_pc y") (auto simp: broadcast_inv_def pc_knows_def)
  moreover have "persisted k d = persisted k (ds_db y)" for k
    using e(2) [of k] by (auto simp: persisted_def)
  ultimately show ?thesis using inv e(1) by (simp add: broadcast_inv_def)
qed

lemma put_confirmed_sig:
  assumes "sr_update i (put_confirmed cf) d = (Inr r, d')" "sr_valid d"
  shows "sr_valid d'" "sig_of k d' = sig_of k d"
proof -
  have d': "d' = sr_modify i (put_confirmed cf) d" using assms(1) by (auto simp: sr_update_Inr_iff)
  show "sr_valid d'" unfolding d' by (rule sr.valid_modify [OF assms(2)]) (simp add: put_confirmed_def)
  show "sig_of k d' = sig_of k d" unfolding d' by (rule sig_of_modify) (simp_all add: put_confirmed_def)
qed

lemma delivery_step_inv:
  assumes "delivery_step deps ad others y y'" "broadcast_inv y"
    and others: "\<And>d d'. others d d' \<Longrightarrow> sr_valid d \<Longrightarrow> others_write d d'"
  shows "broadcast_inv y'"
proof -
  have v: "sr_valid (ds_db y)" and k: "pc_knows (ds_pc y) (ds_db y)" using assms(2) by (simp_all add: broadcast_inv_def)
  note quiet = broadcast_inv_quiet [OF assms(2)]
  from assms(1) show ?thesis
  proof cases
    case (find row)
    then obtain r where r: "r \<in> set (serviceRequests (ds_db y))" "row = claimable_of r"
      by (auto elim: claim_find_Some)
    have "sig_of (cl_id row) (ds_db y) = Some (cl_txSignature row)"
      using r v by (simp add: sig_of_def claimable_of_def sr_find_iff [THEN iffD2])
    with find v show ?thesis by (intro quiet) (auto simp: pc_knows_def in_flight_def)
  next
    case (claim row res d)
    then show ?thesis
      by (intro quiet) (use v k claim_commit_sig [OF claim(3)] in \<open>auto simp: pc_knows_def in_flight_def split: option.splits\<close>)
  next
    case (send row lamports c1 sig c2)
    have "sig_of (cl_id row) (ds_db y) = Some None" using k send(2,3) by (simp add: pc_knows_def)
    moreover have "ds_sends y' k \<le> ds_lost y' k + in_flight k (ds_pc y') + persisted k (ds_db y')" for k
      using assms(2) send(1,2) by (auto simp: broadcast_inv_def in_flight_def bump_def dest: spec [of _ k])
    ultimately show ?thesis using v send(1) by (simp add: broadcast_inv_def pc_knows_def)
  next
    case (persist row sig r d)
    with broadcast_inv_persist [OF assms(2) persist(2,3)] show ?thesis by simp
  next
    case (finish row cf r d)
    then show ?thesis
      by (intro quiet) (use put_confirmed_sig [OF finish(3) v] in \<open>auto simp: pc_knows_def in_flight_def\<close>)
  next
    case (fail row m flt stamp res d)
    then show ?thesis
      by (intro quiet) (use failServiceRequest_sig [OF fail(3) v] in \<open>auto simp: pc_knows_def in_flight_def\<close>)
  next
    case (environment d)
    with broadcast_inv_others [OF assms(2) others [OF environment(2) v]] show ?thesis by simp
  qed ((rule quiet; use v k in \<open>auto simp: pc_knows_def in_flight_def lose_def bump_def split: worker_pc.splits\<close>)+)
qed

lemma delivery_reach_inv:
  assumes "(delivery_step deps ad others)\<^sup>*\<^sup>* y y'" "broadcast_inv y" "\<And>d d'. others d d' \<Longrightarrow> sr_valid d \<Longrightarrow> others_write d d'"
  shows "broadcast_inv y'"
  using assms(1,2) by (induction rule: rtranclp_induct) (auto intro: delivery_step_inv assms(3))

definition delivery_start :: "'c delivery_system \<Rightarrow> bool" where
  "delivery_start y \<longleftrightarrow> sr_valid (ds_db y) \<and> ds_pc y = W_Idle \<and> ds_sends y = (\<lambda>_. 0) \<and> ds_lost y = (\<lambda>_. 0)"

lemma in_flight_persisted: "pc_knows pc d \<Longrightarrow> in_flight k pc + persisted k d \<le> 1"
  by (auto simp: pc_knows_def in_flight_def persisted_def split: worker_pc.split option.split)

lemma delivery_bound:
  assumes "(delivery_step deps ad others)\<^sup>*\<^sup>* y y'" "delivery_start y" "\<And>d d'. others d d' \<Longrightarrow> sr_valid d \<Longrightarrow> others_write d d'"
  shows "ds_sends y' k \<le> ds_lost y' k + 1"
proof -
  have "broadcast_inv y" using assms(2) by (simp add: delivery_start_def broadcast_inv_def pc_knows_def)
  from delivery_reach_inv [OF assms(1) this assms(3)]
  have "ds_sends y' k \<le> ds_lost y' k + (in_flight k (ds_pc y') + persisted k (ds_db y'))"
    and "in_flight k (ds_pc y') + persisted k (ds_db y') \<le> 1"
    using in_flight_persisted by (auto simp: broadcast_inv_def ac_simps)
  then show ?thesis by (meson add_left_mono le_trans)
qed

definition sample_system :: "sample_cluster delivery_system" where
  "sample_system =
     \<lparr>ds_db = sample_db 1, ds_chain = [], ds_pc = W_Idle, ds_sends = (\<lambda>_. 0), ds_lost = (\<lambda>_. 0)\<rparr>"

text \<open>One broadcast of the sample request, from any cluster state and any counters.\<close>

definition claimed_db :: db where
  "claimed_db = sr_modify ''r1'' (set_status IN_PROGRESS) (sample_db 1)"

lemma sample_claims:
  "claim_find (sample_db 1) = Some (claimable_of sample_request)" "claim_find claimed_db = Some sample_row"
  "claim_commit (claimable_of sample_request) (sample_db 1) = (Inr (Some sample_row), claimed_db)"
  "claim_commit sample_row claimed_db = (Inr (Some sample_row), claimed_db)"
  by (simp_all add: claim_find_def claim_commit_def sample_defs is_claimable_def sr_update_many_def claimed_db_def
      row_update_many_def andThen_def ret_def sr_modify_def row_modify_def claimable_of_def sample_row_def set_status_def)

lemma three_steps: "R a b \<Longrightarrow> R b c \<Longrightarrow> R c d \<Longrightarrow> R\<^sup>*\<^sup>* a d"
  by (meson converse_rtranclp_into_rtranclp r_into_rtranclp)

lemma rtranclp_step_rtranclp: "R\<^sup>*\<^sup>* a b \<Longrightarrow> R b c \<Longrightarrow> R\<^sup>*\<^sup>* c d \<Longrightarrow> R\<^sup>*\<^sup>* a d"
  by (meson rtranclp.rtrancl_into_rtrancl rtranclp_trans)

lemma sample_broadcast:
  assumes "d = sample_db 1 \<or> d = claimed_db"
  shows "\<exists>c' sig. (delivery_step (sample_deps None) sample_ad others)\<^sup>*\<^sup>*
    \<lparr>ds_db = d, ds_chain = c, ds_pc = W_Idle, ds_sends = f, ds_lost = g\<rparr>
    \<lparr>ds_db = claimed_db, ds_chain = c', ds_pc = W_Sent sample_row sig, ds_sends = bump ''r1'' f, ds_lost = g\<rparr>"
proof -
  let ?S = "delivery_step (sample_deps None) sample_ad others"
  let ?y = "\<lambda>d c pc f. \<lparr>ds_db = d, ds_chain = c, ds_pc = pc, ds_sends = f, ds_lost = g\<rparr>"
  obtain row where row: "claim_find d = Some row" "claim_commit row d = (Inr (Some sample_row), claimed_db)"
    using assms sample_claims by blast
  have r: "cl_recipientWallet sample_row = ''wallet''" "cl_txSignature sample_row = None" "cl_id sample_row = ''r1''"
    by (simp_all add: sample_row_def claimable_of_def sample_request_def)
  have 1: "?S (?y d c W_Idle f) (?y d c (W_Found row) f)"
    using find [of "?y d c W_Idle f" row] row(1) by simp
  have 2: "?S (?y d c (W_Found row) f) (?y claimed_db c (W_Claimed sample_row) f)"
    using claim [of "?y d c (W_Found row) f" row "Some sample_row" claimed_db] row(2) by simp
  have 3: "?S (?y claimed_db c (W_Claimed sample_row) f)
      (?y claimed_db ((replicate (Suc (length c)) (CHR ''s''), sample_landed None (expected_memo sample_row)) # c)
         (W_Sent sample_row (replicate (Suc (length c)) (CHR ''s''))) (bump ''r1'' f))"
    using send [of "?y claimed_db c (W_Claimed sample_row) f" sample_row "sample_deps None" 890880 c sample_ad
        "replicate (Suc (length c)) (CHR ''s'')" "(replicate (Suc (length c)) (CHR ''s''),
           sample_landed None (expected_memo sample_row)) # c"]
      sample_send [of None 890880 "expected_memo sample_row" c]
    by (simp add: r sample_deps_def sample_rent)
  from three_steps [of ?S, OF 1 2 3] show ?thesis by blast
qed

lemma sample_starts: "delivery_start sample_system"
  by (simp add: delivery_start_def sample_system_def sample_defs sr_valid_def)

lemma sample_sends_once:
  "\<exists>y'. (delivery_step (sample_deps None) sample_ad others)\<^sup>*\<^sup>* sample_system y' \<and> ds_sends y' ''r1'' = 1"
  using sample_broadcast [OF disjI1 [OF refl], of others "[]" "\<lambda>_. 0" "\<lambda>_. 0", folded sample_system_def]
  by (fastforce simp: bump_def)

text \<open>C29. The window is real: a worker that dies between the send and the persisting write sends the
  same request a second time after its restart, with nobody else writing to the database.\<close>

theorem crash_window_sends_twice:
  "\<exists>y. (delivery_step (sample_deps None) sample_ad (\<lambda>_ _. False))\<^sup>*\<^sup>* sample_system y \<and> ds_sends y ''r1'' = 2 \<and> ds_lost y ''r1'' = 1"
proof -
  let ?S = "delivery_step (sample_deps None) sample_ad (\<lambda>_ _. False)"
  let ?one = "bump ''r1'' (\<lambda>_. 0)"
  from sample_broadcast [OF disjI1 [OF refl], of "\<lambda>_ _. False" "[]" "\<lambda>_. 0" "\<lambda>_. 0", folded sample_system_def] obtain c sig where
    1: "?S\<^sup>*\<^sup>* sample_system
      \<lparr>ds_db = claimed_db, ds_chain = c, ds_pc = W_Sent sample_row sig, ds_sends = ?one, ds_lost = (\<lambda>_. 0)\<rparr>"
    by blast
  have id: "cl_id sample_row = ''r1''" by (simp add: sample_row_def claimable_of_def sample_request_def)
  have 2: "?S \<lparr>ds_db = claimed_db, ds_chain = c, ds_pc = W_Sent sample_row sig, ds_sends = ?one, ds_lost = (\<lambda>_. 0)\<rparr>
      \<lparr>ds_db = claimed_db, ds_chain = c, ds_pc = W_Idle, ds_sends = ?one, ds_lost = ?one\<rparr>"
    using crash [of "sample_deps None" sample_ad "\<lambda>_ _. False" "\<lparr>ds_db = claimed_db, ds_chain = c, ds_pc = W_Sent sample_row sig,
        ds_sends = ?one, ds_lost = (\<lambda>_. 0)\<rparr>"]
    by (simp add: lose_def id)
  from sample_broadcast [OF disjI2 [OF refl], of "\<lambda>_ _. False" c ?one ?one] obtain c' sig' where
    3: "?S\<^sup>*\<^sup>* \<lparr>ds_db = claimed_db, ds_chain = c, ds_pc = W_Idle, ds_sends = ?one, ds_lost = ?one\<rparr>
      \<lparr>ds_db = claimed_db, ds_chain = c', ds_pc = W_Sent sample_row sig', ds_sends = bump ''r1'' ?one, ds_lost = ?one\<rparr>"
    by blast
  from rtranclp_step_rtranclp [of ?S, OF 1 2 3] show ?thesis
    by (intro exI [of _ "\<lparr>ds_db = claimed_db, ds_chain = c', ds_pc = W_Sent sample_row sig',
        ds_sends = bump ''r1'' ?one, ds_lost = ?one\<rparr>"]) (simp add: bump_def)
qed

end
