(* ===== verification/Tracking.thy ===== *)
theory Tracking
  imports History Broadcast
begin

text \<open>
  Relations between a database and a later one, carried from the writes of rows to the operations of the program.
  \<open>steps R get m\<close> says that the computation m, on a state with the database get, moves it along R. The locale
  \<open>tracked\<close> states what R must allow, and shows it of every operation but the worker's by the shape of its
  definition, with one rule per combinator. Two relations interpret it: \<open>evolves\<close>, for which the worker is
  added, and \<open>keeps_signatures\<close>, what the worker relies on while it delivers.
\<close>

named_theorems recording_intros \<open>computations that move the database along a tracked relation\<close>

definition steps :: "(db \<Rightarrow> db \<Rightarrow> bool) \<Rightarrow> ('s \<Rightarrow> db) \<Rightarrow> ('s, 'a) act \<Rightarrow> bool" where
  "steps R get m \<longleftrightarrow> (\<forall>s. R (get s) (get (snd (m s))))"

subsection \<open>A database inside a larger state\<close>

text \<open>
  Each component runs on a state of its own with the database as one part. What it needs of that state is
  that the part written is the part read back.
\<close>

locale db_view =
  fixes db_of :: "'s \<Rightarrow> db"
    and put_db :: "db \<Rightarrow> 's \<Rightarrow> 's"
  assumes db_put: "db_of (put_db d s) = d"
begin

lemma recording_lift:
  "steps R id m \<Longrightarrow> steps R db_of (\<lambda>s. case m (db_of s) of (r, d) \<Rightarrow> (r, put_db d s))"
  by (auto simp: steps_def db_put split: prod.split) (metis id_apply snd_conv)

lemma recording_rollback:
  assumes "steps R db_of m" "\<And>d. R d d"
  shows "steps R db_of (\<lambda>s. case m s of (Inl e, s') \<Rightarrow> (Inl e, put_db (db_of s) s') | (Inr x, s') \<Rightarrow> (Inr x, s'))"
  using assms by (auto simp: steps_def db_put split: prod.split sum.split) (metis snd_conv)

end

interpretation intake_part: db_view w_db "\<lambda>d w. w\<lparr>w_db := d\<rparr>"
  by unfold_locales simp

interpretation route_part: db_view rt_db "\<lambda>d w. w\<lparr>rt_db := d\<rparr>"
  by unfold_locales simp

interpretation worker_part: db_view ws_db "\<lambda>d w. w\<lparr>ws_db := d\<rparr>"
  by unfold_locales simp

interpretation notice_part: db_view ns_db "\<lambda>d w. w\<lparr>ns_db := d\<rparr>"
  by unfold_locales simp

interpretation billing_part: db_view bi_db "\<lambda>d w. w\<lparr>bi_db := d\<rparr>"
  by unfold_locales simp

subsection \<open>The relations that are tracked\<close>

text \<open>
  R is a preorder; it holds between databases with the same requests when the later one evolved from the earlier, and it
  allows quiet changes of the requests, new requests without a signature and the demo payment.
\<close>

locale tracked =
  fixes R :: "db \<Rightarrow> db \<Rightarrow> bool"
  assumes R_refl: "R d d"
    and R_trans: "R d d1 \<Longrightarrow> R d1 d2 \<Longrightarrow> R d d2"
    and R_other: "evolves d d' \<Longrightarrow> serviceRequests d' = serviceRequests d \<Longrightarrow> R d d'"
    and R_rows: "(\<And>r. quiet r (f r)) \<Longrightarrow> R d (d\<lparr>serviceRequests := map f (serviceRequests d)\<rparr>)"
    and R_insert: "sr_find (sr_id r) d = None \<Longrightarrow> \<not> token_taken (noticeToken r) d \<Longrightarrow> txSignature r = None \<Longrightarrow>
      R d (sr_insert r d)"
    and R_skip: "r \<in> set (serviceRequests d) \<Longrightarrow> sr_status r = STAGED \<Longrightarrow>
      R d (sr_modify (sr_id r) (\<lambda>r. r\<lparr>sr_status := IN_PROGRESS\<rparr>) d)"
begin

declare R_refl [simp]

lemma recordingI: "(\<And>s. R (get s) (get (snd (m s)))) \<Longrightarrow> steps R get m"
  by (simp add: steps_def)

lemma recordingD: "steps R get m \<Longrightarrow> m s = (r, s') \<Longrightarrow> R (get s) (get s')"
  unfolding steps_def by (metis snd_conv)

lemma recording_at: "steps R get m \<Longrightarrow> R (get s) (get (snd (m s)))"
  by (simp add: steps_def)

lemma recording_ret [recording_intros]: "steps R get (ret x)"
  and recording_throw [recording_intros]: "steps R get (throw e)"
  by (simp_all add: steps_def ret_def throw_def R_refl)

lemma recording_andThen [recording_intros]:
  assumes "steps R get m" "\<And>x. steps R get (f x)"
  shows "steps R get (andThen m f)"
proof (rule recordingI)
  fix s
  obtain r s' where m: "m s = (r, s')" by fastforce
  have "R (get s) (get s')" using assms(1) m by (rule recordingD)
  with m assms(2) show "R (get s) (get (snd (andThen m f s)))"
    by (cases r) (auto simp: andThen_def intro: R_trans recording_at)
qed

lemma recording_catch [recording_intros]:
  assumes "steps R get m" "\<And>e. steps R get (h e)"
  shows "steps R get (catch m h)"
proof (rule recordingI)
  fix s
  obtain r s' where m: "m s = (r, s')" by fastforce
  have "R (get s) (get s')" using assms(1) m by (rule recordingD)
  with m assms(2) show "R (get s) (get (snd (catch m h s)))"
    by (cases r) (auto simp: catch_def intro: R_trans recording_at)
qed

lemma recording_transaction [recording_intros]: "steps R get m \<Longrightarrow> steps R get (transaction m)"
  by (auto simp: steps_def transaction_def R_refl split: prod.split sum.split dest: spec) (metis snd_conv)

lemma recording_faulty [recording_intros]: "steps R get m \<Longrightarrow> steps R get (faulty fault m)"
  by (cases fault) (simp_all add: faulty_def recording_throw)

lemma recording_if [recording_intros]:
  "(c \<Longrightarrow> steps R get m) \<Longrightarrow> (\<not> c \<Longrightarrow> steps R get n) \<Longrightarrow> steps R get (if c then m else n)"
  by simp

lemma recording_cases [recording_intros]:
  "steps R get n \<Longrightarrow> (\<And>x. q = Some x \<Longrightarrow> steps R get (f x)) \<Longrightarrow> steps R get (case q of None \<Rightarrow> n | Some x \<Rightarrow> f x)"
  "(\<And>e. r = Inl e \<Longrightarrow> steps R get (g e)) \<Longrightarrow> (\<And>y. r = Inr y \<Longrightarrow> steps R get (h y)) \<Longrightarrow>
     steps R get (case r of Inl e \<Rightarrow> g e | Inr y \<Rightarrow> h y)"
  "(\<And>a b. p = (a, b) \<Longrightarrow> steps R get (k a b)) \<Longrightarrow> steps R get (case p of (a, b) \<Rightarrow> k a b)"
  by (simp_all split: option.split sum.split prod.split)

lemma recording_elsewhere: "(\<And>s. db_of (snd (m s)) = db_of s) \<Longrightarrow> steps R db_of m"
  by (simp add: steps_def R_refl)

lemma R_sr_modify: "(\<And>r. quiet r (f r)) \<Longrightarrow> R d (sr_modify k f d)"
  unfolding sr_modify_def row_modify_def by (rule R_rows) simp

lemma recording_sr_update [recording_intros]: "(\<And>r. quiet r (f r)) \<Longrightarrow> steps R id (sr_update k f)"
  by (auto simp: steps_def sr_update_def R_sr_modify R_refl split: option.split)

lemma recording_sub_update [recording_intros]:
  "(\<And>r. sub_id (f r) = sub_id r) \<Longrightarrow> (\<And>r. metered_row r \<Longrightarrow> metered_row (f r)) \<Longrightarrow> steps R id (sub_update k f)"
  by (auto simp: steps_def sub_update_def R_refl sub_modify_def split: option.split
      intro!: R_other evolves_sub_modify [unfolded sub_modify_def])

lemma recording_sr_create [recording_intros]: "txSignature r = None \<Longrightarrow> steps R id (sr_create r)"
  by (simp add: steps_def sr_create_def R_insert R_refl)

lemma R_inserts:
  "org_find (clerkOrgId og) d = None \<Longrightarrow> R d (org_insert og d)"
  "sub_find (sub_id s) d = None \<Longrightarrow> metered_row s \<Longrightarrow> R d (sub_insert s d)"
  "wh_find (eventId e) d = None \<Longrightarrow> R d (wh_insert e d)"
  "R d (d\<lparr>auditLogs := auditLogs d @ as\<rparr>)"
  "na_find (na_noticeId a) d = None \<Longrightarrow> sr_find (na_noticeId a) d \<noteq> None \<Longrightarrow> R d (na_insert a d)"
  "ca_find (ca_noticeId b) d = None \<Longrightarrow> sr_find (ca_noticeId b) d \<noteq> None \<Longrightarrow> R d (ca_insert b d)"
  "cp_find (cp_noticeId c) d = None \<Longrightarrow> sr_find (cp_noticeId c) d \<noteq> None \<Longrightarrow> R d (cp_insert c d)"
proof -
  show "org_find (clerkOrgId og) d = None \<Longrightarrow> R d (org_insert og d)"
    by (drule evolves_inserts(1), erule R_other) (simp add: org_insert_def)
  show "sub_find (sub_id s) d = None \<Longrightarrow> metered_row s \<Longrightarrow> R d (sub_insert s d)"
    by (drule (1) evolves_inserts(2), erule R_other) (simp add: sub_insert_def)
  show "wh_find (eventId e) d = None \<Longrightarrow> R d (wh_insert e d)"
    by (drule evolves_inserts(3), erule R_other) (simp add: wh_insert_def)
  show "R d (d\<lparr>auditLogs := auditLogs d @ as\<rparr>)"
    by (rule R_other [OF evolves_inserts(4)]) simp
  show "na_find (na_noticeId a) d = None \<Longrightarrow> sr_find (na_noticeId a) d \<noteq> None \<Longrightarrow> R d (na_insert a d)"
    by (drule (1) evolves_evidence_inserts(1), erule R_other) (simp add: na_insert_def)
  show "ca_find (ca_noticeId b) d = None \<Longrightarrow> sr_find (ca_noticeId b) d \<noteq> None \<Longrightarrow> R d (ca_insert b d)"
    by (drule (1) evolves_evidence_inserts(2), erule R_other) (simp add: ca_insert_def)
  show "cp_find (cp_noticeId c) d = None \<Longrightarrow> sr_find (cp_noticeId c) d \<noteq> None \<Longrightarrow> R d (cp_insert c d)"
    by (drule (1) evolves_evidence_inserts(3), erule R_other) (simp add: cp_insert_def)
qed

lemma recording_creates [recording_intros]:
  "txSignature r = None \<Longrightarrow> steps R id (sr_create_connect c r)" "metered_row s \<Longrightarrow> steps R id (sub_create s)"
  "steps R id (org_upsert og)" "steps R id (wh_create e)" "steps R id (na_create a)" "steps R id (ca_create b)"
  "steps R id (cp_create p)" "steps R id (audit_create l)"
  using recording_at [OF recording_sr_create]
  by (auto simp: steps_def sr_create_connect_def sub_create_def org_upsert_def wh_create_def na_create_def
      ca_create_def cp_create_def audit_create_def R_refl R_inserts split: option.split)

lemma recording_quota [recording_intros]:
  "steps R id (checkAndDecrementQuota now clerk)" "steps R id (restoreQuota org)"
proof -
  show "steps R id (checkAndDecrementQuota now clerk)"
  proof (rule recordingI)
    fix d
    have "serviceRequests (snd (checkAndDecrementQuota now clerk d)) = serviceRequests d"
      using checkAndDecrementQuota_frames(1) checkAndDecrementQuota_Inl by (metis prod.collapse sum.collapse)
    then show "R (id d) (id (snd (checkAndDecrementQuota now clerk d)))" by (simp add: R_other evolves_quota)
  qed
  show "steps R id (restoreQuota org)"
  proof (rule recordingI)
    fix d
    have "serviceRequests (snd (restoreQuota org d)) = serviceRequests d"
      using restoreQuota_frames(1) by (metis prod.collapse)
    then show "R (id d) (id (snd (restoreQuota org d)))" by (simp add: R_other evolves_quota)
  qed
qed

subsubsection \<open>The parts of the states\<close>

lemma recording_on_db [recording_intros]:
  "steps R id m \<Longrightarrow> steps R w_db (on_db m)"
  "steps R id m \<Longrightarrow> steps R rt_db (rt_on_db m)"
  "steps R id m \<Longrightarrow> steps R ws_db (worker_on_db m)"
  "steps R id m \<Longrightarrow> steps R ns_db (ns_on_db m)"
  "steps R id m \<Longrightarrow> steps R bi_db (bi_on_db m)"
  using intake_part.recording_lift [of R m] route_part.recording_lift [of R m] worker_part.recording_lift [of R m]
    notice_part.recording_lift [of R m] billing_part.recording_lift [of R m]
  by (simp_all add: on_db_def [abs_def] rt_on_db_def [abs_def] worker_on_db_def [abs_def] ns_on_db_def [abs_def]
      bi_on_db_def [abs_def])

lemma recording_rollbacks [recording_intros]:
  "steps R w_db m \<Longrightarrow> steps R w_db (db_transaction m)"
  "steps R ns_db n \<Longrightarrow> steps R ns_db (ns_transaction n)"
  using intake_part.recording_rollback [of R m] notice_part.recording_rollback [of R n]
  by (simp_all add: R_refl db_transaction_def [abs_def] ns_transaction_def [abs_def])

lemma recording_other_parts [recording_intros]:
  "steps R w_db (on_objects m1)" "steps R rt_db (rt_on_hedera m2)" "steps R rt_db (rt_limit k opts now)"
  "steps R ws_db (worker_on_chain m3)" "steps R ws_db (worker_on_hedera m4)" "steps R ws_db (worker_log l)"
  "steps R ws_db (start_tasks ts)" "steps R ns_db (ns_rate_limit k opts now')" "steps R ns_db (start_alert i)"
  "steps R ns_db (send_mail fault ml)" "steps R bi_db (bi_on_sdk m5)" "steps R bi_db (of_result r)"
  by (rule recording_elsewhere,
      simp add: on_objects_def rt_on_hedera_def rt_limit_def worker_on_chain_def worker_on_hedera_def worker_log_def
        start_tasks_def ns_rate_limit_def start_alert_def send_mail_def faulty_def throw_def bi_on_sdk_def of_result_def
        split: prod.split option.split)+

lemma recording_getStripe [recording_intros]: "steps R bi_db (getStripe env)"
proof (rule recording_elsewhere)
  fix w :: "'c billing"
  show "bi_db (snd (getStripe env w)) = bi_db w" using getStripe_db by (metis prod.collapse)
qed

subsubsection \<open>The operations\<close>

lemma recording_failServiceRequest [recording_intros]: "steps R id (failServiceRequest flt stamp inp)"
  unfolding failServiceRequest_def Let_def by (intro recording_intros) simp

lemma recording_createServiceRequest: "steps R w_db (createServiceRequest cr env hc cd inp)"
  unfolding createServiceRequest_def Let_def
  by (intro recording_intros) (simp add: staged_row_def)

lemma recording_run_task: "steps R ws_db (run_task hsdk env now fault t)"
  unfolding run_task_def
  by (cases t) (simp_all only: task_body_def hedera_task.case, (intro recording_intros; simp)+)

lemma R_case:
  "R d (db_of (snd n)) \<Longrightarrow> (\<And>x. R d (db_of (snd (f x)))) \<Longrightarrow>
     R d (db_of (snd (case q of None \<Rightarrow> n | Some x \<Rightarrow> f x)))"
  by (simp split: option.split)

lemma recording_sub_upsert [recording_intros]:
  assumes "metered_row s"
  shows "steps R id (sub_upsert s activate)"
proof -
  have "steps R id (sub_update (sub_id s) activate)"
    by (intro recording_intros) (simp_all add: metered_row_activate)
  from recording_at [OF this] recording_at [OF recording_creates(2) [OF assms]] show ?thesis
    by (auto simp: steps_def sub_upsert_def split: option.split)
qed

lemma recording_webhook: "steps R bi_db (webhook_POST sdk env dr req)"
proof -
  have "steps R id (webhook_transaction dr event)" for event
    unfolding webhook_transaction_def applyCheckoutCompleted_def Let_def
    by (intro recording_intros) (simp add: metered_row_zero paid_subscription_def)
  then show ?thesis unfolding webhook_POST_def by (intro recording_intros)
qed

lemma recording_comp_grant: "steps R id (comp_grant_POST cs dr req)"
proof -
  have u: "steps R id (faulty fault (sub_update i (granted now)))"
      "usageCount s = 0 \<Longrightarrow> steps R id (faulty fault (sub_create s))"
    for fault i now s by (intro recording_intros; simp add: metered_row_zero)+
  have "steps R id (grant_subscription dr org)" for org
    using recording_at [OF u(1)] recording_at [OF u(2)]
    by (auto simp: steps_def grant_subscription_def split: option.split)
  then have "steps R id (comp_grant dr actor target)" for actor target
    unfolding comp_grant_def by (intro recording_intros)
  then show ?thesis
    unfolding comp_grant_POST_def Let_def
    by (auto intro!: recording_intros split: sum.split eps_error.split)
qed

lemma recording_checkout: "steps R bi_db (checkout_POST sdk env cs req)"
  by (rule recording_elsewhere) (rule checkout_POST_db)

lemma recording_recordFirstAccess [recording_intros]: "steps R ns_db (recordFirstAccess dr i ip agent)"
proof -
  have a: "steps R id (writeFirstViewedAddendum u now i v m)" for u now i v m
    unfolding writeFirstViewedAddendum_def by (intro recording_intros)
  show ?thesis
    unfolding recordFirstAccess_def Let_def
    by (rule recording_rollbacks(2), rule recordingI, rule R_case)
      (rule recording_at [where get = ns_db], intro recording_intros a)+
qed

lemma recording_mails [recording_intros]:
  "steps R ns_db (sendFirstAccessAlert fault i)" "steps R ns_db (sendNotifiedReceipt fault i)"
  "steps R ns_db (sendFirstAccessEmail env fault accepted e)"
  unfolding sendFirstAccessAlert_def [abs_def] sendNotifiedReceipt_def [abs_def] sendFirstAccessEmail_def
  by (auto simp: steps_def ret_def catch_def send_mail_def faulty_def throw_def andThen_def split: option.split)

lemma recording_NoticePage: "steps R ns_db (NoticePage env dr fault accepted headers token)"
  unfolding NoticePage_def Let_def
  by (rule recording_andThen, intro recording_intros, rule recording_if, intro recording_intros, rule recordingI, rule R_case)
    (rule recording_at [where get = ns_db], intro recording_intros)+

text \<open>The other requests of the time between the lookup and the insertion are steps of the program too.\<close>

lemma recording_certificate:
  assumes "\<And>d. R d (interference d)"
  shows "steps R ns_db (certificate_GET lib cs uuid now fault interference req noticeId)"
proof -
  have i: "R (interference d) (snd (faulty fault (certificate_create uuid now noticeId b) (interference d)))" for d b
    by (rule recording_at [where get = id, simplified], unfold certificate_create_def) (intro recording_intros)
  have "steps R id (getOrCreateCertificatePdf lib uuid now fault interference noticeId)"
  proof (rule recordingI)
    fix d
    show "R (id d) (id (snd (getOrCreateCertificatePdf lib uuid now fault interference noticeId d)))"
      using R_trans [OF assms i]
      by (auto simp: R_refl getOrCreateCertificatePdf_def generateCertificatePdf_def split: option.split prod.split sum.split)
        (metis snd_conv)+
  qed
  then show ?thesis
    unfolding certificate_GET_def by (auto intro!: recording_intros split: sum.split eps_error.split)
qed

subsubsection \<open>The routes of the filer and of the demo record\<close>

lemma quiet_put_hedera: "quiet r (r\<lparr>sr_hedera := put_hedera res (sr_hedera r)\<rparr>)"
  by simp

lemma recording_stage [recording_intros]: "steps R rt_db (stage_request deps dr ctx inp wallet display)"
  unfolding stage_request_def anchorOnHedera_def file_row_def Let_def
  by (intro recording_intros quiet_put_hedera) (simp_all add: filed_row_def)

lemma recording_meter [recording_intros]:
  fixes deps :: "('c, 'h) route_deps"
  shows "steps R rt_db (meter_and_stage deps dr ctx inp wallet display)"
proof (rule recordingI)
  fix w :: "'h route_state"
  have c: "steps R rt_db (consume_quota dr ctx)"
    unfolding consume_quota_def by (intro recording_intros)
  obtain r w1 where q: "consume_quota dr ctx w = (r, w1)" by fastforce
  have e: "R (rt_db w) (rt_db w1)" using c q by (rule recordingD)
  show "R (rt_db w) (rt_db (snd (meter_and_stage deps dr ctx inp wallet display w)))"
  proof (cases r)
    case (Inl x)
    with e q show ?thesis by (cases x) (simp_all add: meter_and_stage_def)
  next
    case (Inr x)
    from recording_stage have "R (rt_db w1) (rt_db (snd (stage_request deps dr ctx inp wallet display w1)))"
      by (rule recording_at)
    with R_trans [OF e] Inr q show ?thesis by (simp add: meter_and_stage_def)
  qed
qed

lemma recording_filing: "steps R rt_db (service_requests_POST deps cs dr req)"
  unfolding service_requests_POST_def
  by (auto intro!: recording_intros split: sum.split eps_error.split option.split prod.split)

lemma recording_reading: "steps R rt_db (service_request_GET cs now req i)"
  unfolding service_request_GET_def
  by (auto intro!: recording_andThen recording_other_parts recording_ret recording_throw split: sum.split eps_error.split)
    (auto simp: steps_def ret_def split: option.split)

lemma recording_skip_payment: "steps R id (skip_payment_POST env fault cs req)"
proof (rule recordingI)
  fix d
  have w: "R d (snd (skip_write fault r d))" if "r \<in> set (serviceRequests d)" "sr_status r = STAGED" for r
    using R_skip [OF that]
    by (auto simp: skip_write_def andThen_def faulty_def throw_def sr_update_def ret_def R_refl split: option.split)
  then show "R (id d) (id (snd (skip_payment_POST env fault cs req d)))"
    by (auto simp: skip_payment_POST_def ret_def throw_def R_refl split: sum.split elim: demo_guard_row)
qed

lemma recording_fulfill:
  fixes sdk :: "'h hedera_sdk"
  shows "steps R rt_db (fulfill_POST sdk message shown env now fault cs req)"
proof (rule recordingI)
  fix w :: "'h route_state"
  have f: "steps R rt_db (rt_on_db (fulfill_write env now fault i txId seq nft))" for i txId seq nft
    unfolding fulfill_write_def by (intro recording_intros) simp
  have "R (rt_db w) (rt_db (snd (fulfill_existing sdk message shown env now fault r w)))" for r
  proof -
    obtain a h where h: "submit_message sdk env (fulfill_message now r) (rt_hedera w) = (a, h)" by fastforce
    let ?w = "w\<lparr>rt_hedera := h\<rparr>"
    show ?thesis
    proof (cases a)
      case (Inl e)
      with h show ?thesis by (simp add: fulfill_existing_def rt_on_hedera_def ret_def)
    next
      case (Inr x)
      obtain txId seq where x: "x = (txId, seq)" by (cases x)
      have "steps R rt_db (andThen (rt_on_hedera (mint_or_error sdk message env seq)) (\<lambda>(nft, mintError).
          andThen (rt_on_db (fulfill_write env now fault (sr_id r) txId seq nft)) (\<lambda>updated.
          ret (fulfilled env now txId seq nft mintError updated))))"
        by (intro recording_intros f)
      from recording_at [OF this, of ?w] Inr x h show ?thesis
        by (simp add: fulfill_existing_def rt_on_hedera_def)
    qed
  qed
  then show "R (rt_db w) (rt_db (snd (fulfill_POST sdk message shown env now fault cs req w)))"
    by (auto simp: fulfill_POST_def ret_def throw_def split: sum.split)
qed

end

subsection \<open>The record of the program\<close>

interpretation history: tracked evolves
  by unfold_locales
    (auto intro: evolves_trans evolves_sr_map evolves_sr_insert evolves_skip simp: quiet_def advances_def)

text \<open>The worker claims, broadcasts and confirms: it advances the requests, not quietly.\<close>

lemma evolves_sr_update: "(\<And>r. advances r (f r)) \<Longrightarrow> steps evolves id (sr_update k f)"
  by (auto simp: steps_def sr_update_def evolves_sr_modify split: option.split)

lemma evolves_sr_update_many:
  assumes "\<And>r. P r \<Longrightarrow> advances r (f r)"
  shows "steps evolves id (sr_update_many P f)"
proof (rule history.recordingI)
  fix d
  have "evolves d (d\<lparr>serviceRequests := map (\<lambda>r. if P r then f r else r) (serviceRequests d)\<rparr>)"
    by (rule evolves_sr_map) (use assms in \<open>auto simp: advances_def\<close>)
  then show "evolves (id d) (id (snd (sr_update_many P f d)))"
    by (simp add: sr_update_many_def row_update_many_def)
qed

lemma evolves_claimNext [recording_intros]: "steps evolves id claimNext"
proof -
  have c: "steps evolves id (claim_commit cand)" for cand
    unfolding claim_commit_def
    by (intro recording_intros evolves_sr_update_many) (auto simp: is_settled_def CLAIMABLE_def)
  show ?thesis using history.recording_at [OF c] by (auto simp: steps_def claimNext_def ret_def split: option.split)
qed

lemma evolves_process [recording_intros]: "steps evolves ws_db (processServiceRequest deps io row)"
  unfolding processServiceRequest_def send_and_persist_def confirm_and_verify_def
  by (intro history.recording_andThen history.recording_if history.recording_cases history.recording_on_db
      history.recording_faulty evolves_sr_update recording_intros) simp_all

lemma evolves_runOnce: "steps evolves ws_db (runOnce deps io)"
  unfolding runOnce_def run_fail_def by (intro recording_intros)

subsection \<open>What the worker relies on\<close>

text \<open>\<open>others_write\<close> is what the steps of a delivery allow the rest of the program between them.\<close>

definition keeps_signatures :: "db \<Rightarrow> db \<Rightarrow> bool" where
  "keeps_signatures d d' \<longleftrightarrow> (sr_valid d \<longrightarrow> others_write d d')"

lemma others_write_iff:
  "others_write d d' \<longleftrightarrow> sr_valid d' \<and>
     (\<forall>k. if sig_of k d = None then sig_of k d' = None \<or> sig_of k d' = Some None else sig_of k d' = sig_of k d)"
proof -
  have "map_option txSignature (sr_find k d') =
      (case sr_find k d of Some r \<Rightarrow> Some (txSignature r) | None \<Rightarrow> (case sr_find k d' of None \<Rightarrow> None | Some _ \<Rightarrow> Some None)) \<longleftrightarrow>
    (if sig_of k d = None then sig_of k d' = None \<or> sig_of k d' = Some None else sig_of k d' = sig_of k d)" for k
    by (cases "sr_find k d"; cases "sr_find k d'") (simp_all add: sig_of_def)
  then show ?thesis by (simp add: others_write_def)
qed

lemma others_write_refl: "sr_valid d \<Longrightarrow> others_write d d"
  by (simp add: others_write_iff)

lemma others_write_trans:
  assumes "others_write d d1" "others_write d1 d2"
  shows "others_write d d2"
  unfolding others_write_iff
proof (intro conjI allI)
  show "sr_valid d2" using assms(2) by (simp add: others_write_iff)
  fix k
  have "if sig_of k d = None then sig_of k d1 = None \<or> sig_of k d1 = Some None else sig_of k d1 = sig_of k d"
    and "if sig_of k d1 = None then sig_of k d2 = None \<or> sig_of k d2 = Some None else sig_of k d2 = sig_of k d1"
    using assms unfolding others_write_iff by blast+
  then show "if sig_of k d = None then sig_of k d2 = None \<or> sig_of k d2 = Some None else sig_of k d2 = sig_of k d"
    by (auto split: if_splits)
qed

lemma others_write_same: "sr_valid d \<Longrightarrow> serviceRequests d' = serviceRequests d \<Longrightarrow> others_write d d'"
  using sig_of_serviceRequests [of d' d] by (simp add: others_write_iff sr_valid_def)

lemma row_find_map:
  "(\<And>r. key (f r) = key r) \<Longrightarrow> row_find key k (map f rs) = map_option f (row_find key k rs)"
  by (induction rs) auto

lemma others_write_rows:
  assumes "\<And>r. sr_id (f r) = sr_id r" "\<And>r. txSignature (f r) = txSignature r" "sr_valid d"
  shows "others_write d (d\<lparr>serviceRequests := map f (serviceRequests d)\<rparr>)"
  using assms
  by (simp add: others_write_iff sig_of_def sr_find_def sr_valid_def row_find_map comp_def option.map_comp)

lemma quiet_columns: "quiet r r' \<Longrightarrow> sr_id r' = sr_id r \<and> txSignature r' = txSignature r"
  unfolding quiet_def advances_def by (metis filing_of_sel(1))

interpretation rest: tracked keeps_signatures
proof unfold_locales
  fix d d1 d2 :: db and r :: service_request and f :: "service_request \<Rightarrow> service_request"
  show "keeps_signatures d d" by (simp add: keeps_signatures_def others_write_refl)
  show "keeps_signatures d d1 \<Longrightarrow> keeps_signatures d1 d2 \<Longrightarrow> keeps_signatures d d2"
    by (auto simp: keeps_signatures_def intro: others_write_trans) (simp add: others_write_iff)
  show "serviceRequests d1 = serviceRequests d \<Longrightarrow> keeps_signatures d d1"
    by (simp add: keeps_signatures_def others_write_same)
  show "(\<And>r. quiet r (f r)) \<Longrightarrow> keeps_signatures d (d\<lparr>serviceRequests := map f (serviceRequests d)\<rparr>)"
    using quiet_columns by (simp add: keeps_signatures_def others_write_rows)
  show "keeps_signatures d (sr_insert r d)" if r: "sr_find (sr_id r) d = None" "txSignature r = None"
  proof -
    have "sig_of k (sr_insert r d) = (if k = sr_id r then Some None else sig_of k d)" for k
      using r sr.find_insert [of r d k] by (simp add: sig_of_def)
    moreover have "sig_of (sr_id r) d = None" using r(1) by (simp add: sig_of_def)
    moreover have "sr_valid d \<Longrightarrow> sr_valid (sr_insert r d)"
      using r(1) by (auto simp: sr_valid_def sr_insert_def sr_find_def row_find_None_iff)
    ultimately show ?thesis by (simp add: keeps_signatures_def others_write_iff)
  qed
  show "keeps_signatures d (sr_modify (sr_id r) (\<lambda>r. r\<lparr>sr_status := IN_PROGRESS\<rparr>) d)"
    unfolding sr_modify_def row_modify_def keeps_signatures_def by (intro impI others_write_rows) simp_all
qed

end
