(* ===== verification/Worker_Limits.thy ===== *)
theory Worker_Limits
  imports Fulfilment
begin

text \<open>
  The long-running loop of the worker and its detached Hedera tasks: what can block the queue, what
  a confirmation does not look at, and what the tasks cannot change.
\<close>

fun ticks :: "'c worker_deps \<Rightarrow> (nat \<Rightarrow> job_io) \<Rightarrow> nat \<Rightarrow> ('c, 'h) worker_state \<Rightarrow> ('c, 'h) worker_state" where
  "ticks deps ios 0 w = w"
| "ticks deps ios (Suc n) w = snd (poll_tick deps (ios n) (ticks deps ios n w))"

lemma process_bad_recipient:
  assumes "cl_txSignature row = None" "assertValidRecipient (wd_sdk deps) (cl_recipientWallet row) = Inl e0"
  shows "\<exists>e w'. processServiceRequest deps io row w = (Inl e, w') \<and> ws_db w' = ws_db w"
proof (cases "getSolanaAdapter (wd_sdk deps) (wd_env deps)")
  case (Inl e)
  then show ?thesis by (simp add: processServiceRequest_def throw_def)
next
  case (Inr ad)
  obtain l c1 where rent: "getRentExemptMinimum (wd_sdk deps) (wd_env deps) (ws_chain w) = (l, c1)" by (meson surj_pair)
  have "\<exists>e w'. send_and_persist deps io ad row w = (Inl e, w') \<and> ws_db w' = ws_db w"
    using assms rent
    by (cases l) (simp_all add: send_and_persist_def andThen_def worker_on_chain_def adapter_send_def throw_def)
  with Inr show ?thesis by (auto simp: processServiceRequest_def andThen_def)
qed

lemma run_fail_orgless:
  assumes "cl_orgId row = None"
  shows "\<exists>e w'. run_fail io row reason w = (Inl e, w') \<and> ws_db w' = ws_db w"
proof -
  have "\<exists>e. failServiceRequest (ji_fail_faults io) (ji_stamp io)
        \<lparr>fi_serviceRequestId = cl_id row, fi_orgId = cl_orgId row, fi_reason = reason,
         fi_txSignature = cl_txSignature row\<rparr> (ws_db w) = (Inl e, ws_db w)"
  proof -
    obtain r d' where f: "failServiceRequest (ji_fail_faults io) (ji_stamp io)
        \<lparr>fi_serviceRequestId = cl_id row, fi_orgId = cl_orgId row, fi_reason = reason,
         fi_txSignature = cl_txSignature row\<rparr> (ws_db w) = (r, d')" by (meson surj_pair)
    show ?thesis
    proof (cases r)
      case (Inl e)
      with f failServiceRequest_Inl show ?thesis by metis
    next
      case (Inr b)
      with f have "failServiceRequest (ji_fail_faults io) (ji_stamp io)
        \<lparr>fi_serviceRequestId = cl_id row, fi_orgId = cl_orgId row, fi_reason = reason,
         fi_txSignature = cl_txSignature row\<rparr> (ws_db w) = (Inr b, d')" by simp
      then show ?thesis
        by (rule failServiceRequest_Inr) (simp add: assms restoreQuota_def throw_def)
    qed
  qed
  then show ?thesis by (auto simp: run_fail_def andThen_def worker_on_db_def)
qed

text \<open>The oldest claimable row, filed without an organization, to an unusable recipient.\<close>

definition stuck_head :: "'c worker_deps \<Rightarrow> service_request \<Rightarrow> db \<Rightarrow> bool" where
  "stuck_head deps r d =
     (r \<in> set (serviceRequests d) \<and> is_claimable r \<and> sr_orgId r = None \<and> txSignature r = None \<and>
      (\<exists>e. assertValidRecipient (wd_sdk deps) (recipientWallet r) = Inl e) \<and>
      (\<forall>q\<in>set (serviceRequests d). is_claimable q \<and> q \<noteq> r \<longrightarrow> sr_createdAt r < sr_createdAt q))"

lemma stuck_tick:
  assumes v: "sr_valid (ws_db w)" and h: "stuck_head deps r (ws_db w)"
  shows "ws_db (snd (poll_tick deps io w)) = sr_modify (sr_id r) (set_status IN_PROGRESS) (ws_db w)"
  using v
proof (cases rule: claimNext_cases)
  case empty
  with h show ?thesis by (auto simp: claim_find_None stuck_head_def)
next
  case (claimed q)
  have "q = r"
    using claimed(2) claimed(3) [of r] h claimed(1) unfolding stuck_head_def by fastforce
  note claimed = claimed [unfolded this]
  let ?row = "(claimable_of r)\<lparr>cl_status := IN_PROGRESS\<rparr>"
  let ?w0 = "w\<lparr>ws_db := sr_modify (sr_id r) (set_status IN_PROGRESS) (ws_db w)\<rparr>"
  have row: "cl_orgId ?row = None" "cl_txSignature ?row = None" "cl_recipientWallet ?row = recipientWallet r"
    using h by (simp_all add: claimable_of_def stuck_head_def)
  from h row(3) obtain e0 where "assertValidRecipient (wd_sdk deps) (cl_recipientWallet ?row) = Inl e0"
    by (auto simp: stuck_head_def)
  from process_bad_recipient [OF row(2) this, of io ?w0] obtain e1 w1 where
    p: "processServiceRequest deps io ?row ?w0 = (Inl e1, w1)" "ws_db w1 = ws_db ?w0" by blast
  let ?w1 = "w1\<lparr>ws_log := ws_log w1 @ [''delivery failed for '' @ cl_id ?row @ '': '' @
          error_message (wd_prismaMessage deps) e1]\<rparr>"
  from run_fail_orgless [OF row(1), of io "error_message (wd_prismaMessage deps) e1" ?w1] obtain e2 w2 where
    f: "run_fail io ?row (error_message (wd_prismaMessage deps) e1) ?w1 = (Inl e2, w2)" "ws_db w2 = ws_db w1"
    by auto
  have "runOnce deps io w = (Inl e2, w2)"
    unfolding runOnce_unfold [OF v claimed(1,4)] using p(1) f(1)
    by (simp add: andThen_def catch_def worker_log_def)
  with f(2) p(2) show ?thesis
    by (simp add: poll_tick_def andThen_def catch_def worker_log_def)
qed

lemma stuck_head_again:
  assumes v: "sr_valid d" and h: "stuck_head deps r d"
  shows "stuck_head deps (set_status IN_PROGRESS r) (sr_modify (sr_id r) (set_status IN_PROGRESS) d)"
proof -
  have "q = set_status IN_PROGRESS r \<or> q \<in> set (serviceRequests d) \<and> q \<noteq> r"
    if q: "q \<in> set (serviceRequests (sr_modify (sr_id r) (set_status IN_PROGRESS) d))" for q
  proof -
    obtain p where p: "p \<in> set (serviceRequests d)" "q = (if sr_id p = sr_id r then set_status IN_PROGRESS p else p)"
      using q unfolding sr_modify_def by (auto simp: row_modify_def)
    show ?thesis
    proof (cases "sr_id p = sr_id r")
      case True
      have "p = r" by (rule sr_valid_unique [OF v p(1) _ True]) (use h in \<open>simp add: stuck_head_def\<close>)
      with p(2) show ?thesis by simp
    next
      case False
      with p show ?thesis by auto
    qed
  qed
  moreover have "set_status IN_PROGRESS r \<in> set (serviceRequests (sr_modify (sr_id r) (set_status IN_PROGRESS) d))"
    using h by (auto simp: stuck_head_def sr_modify_def row_modify_def)
  ultimately show ?thesis
    using h by (auto simp: stuck_head_def set_status_def is_claimable_def)
qed

lemma ticks_stuck:
  assumes "sr_valid (ws_db w)" "stuck_head deps r (ws_db w)"
  shows "sr_valid (ws_db (ticks deps ios n w)) \<and>
    (\<exists>r'. stuck_head deps r' (ws_db (ticks deps ios n w)) \<and> sr_id r' = sr_id r) \<and>
    (\<forall>k. k \<noteq> sr_id r \<longrightarrow> sr_find k (ws_db (ticks deps ios n w)) = sr_find k (ws_db w))"
proof (induction n)
  case 0
  with assms show ?case by auto
next
  case (Suc n)
  then obtain r' where v: "sr_valid (ws_db (ticks deps ios n w))"
    and h: "stuck_head deps r' (ws_db (ticks deps ios n w))" and i: "sr_id r' = sr_id r"
    and o': "\<And>k. k \<noteq> sr_id r \<Longrightarrow> sr_find k (ws_db (ticks deps ios n w)) = sr_find k (ws_db w)" by blast
  have t: "ws_db (ticks deps ios (Suc n) w) =
      sr_modify (sr_id r') (set_status IN_PROGRESS) (ws_db (ticks deps ios n w))"
    using stuck_tick [OF v h] by simp
  have "sr_valid (ws_db (ticks deps ios (Suc n) w))"
    unfolding t by (rule sr.valid_modify [OF v]) simp
  moreover have "stuck_head deps (set_status IN_PROGRESS r') (ws_db (ticks deps ios (Suc n) w))"
    unfolding t by (rule stuck_head_again [OF v h])
  moreover have "sr_find k (ws_db (ticks deps ios (Suc n) w)) = sr_find k (ws_db w)" if "k \<noteq> sr_id r" for k
    unfolding t using sr.modify_other [of "set_status IN_PROGRESS" k "sr_id r'"] o' [OF that] that i by simp
  ultimately show ?case using i by (metis set_status_sel(1))
qed

subsection \<open>Properties\<close>

text \<open>C30. One request can block the queue for good: if the oldest claimable request has no organization
  and a recipient the chain rejects, then after any number of turns of the polling loop it is still
  claimable and no other request has been touched.\<close>

theorem orgless_request_blocks_queue:
  assumes "sr_valid (ws_db w)" "stuck_head deps r (ws_db w)"
  shows "(\<exists>r'. sr_find (sr_id r) (ws_db (ticks deps ios n w)) = Some r' \<and> is_claimable r') \<and>
    (\<forall>k. k \<noteq> sr_id r \<longrightarrow> sr_find k (ws_db (ticks deps ios n w)) = sr_find k (ws_db w))"
  using ticks_stuck [OF assms, of ios n] by (auto simp: stuck_head_def sr_find_iff)

definition stuck_request :: service_request where
  "stuck_request = sample_request\<lparr>sr_orgId := None, recipientWallet := ''0xabc''\<rparr>"

definition stuck_db :: db where
  "stuck_db = (sample_db 1)\<lparr>serviceRequests :=
     [stuck_request, sample_request\<lparr>sr_id := ''r2'', sr_createdAt := 5\<rparr>]\<rparr>"

lemma orgless_request_blocks_queue_witness:
  "sr_find ''r2'' (ws_db (ticks (sample_deps None) (\<lambda>_. sample_io) 1000 (sample_worker stuck_db))) =
     Some (sample_request\<lparr>sr_id := ''r2'', sr_createdAt := 5\<rparr>)"
proof -
  have "sr_valid (ws_db (sample_worker stuck_db))"
    by (simp add: sample_worker_def stuck_db_def stuck_request_def sr_valid_def sample_request_def)
  moreover have "stuck_head (sample_deps None) stuck_request (ws_db (sample_worker stuck_db))"
    by (simp add: stuck_head_def sample_worker_def stuck_db_def stuck_request_def is_claimable_def
        sample_request_def sample_deps_def assertValidRecipient_def sample_sdk_def)
  ultimately show ?thesis
    using orgless_request_blocks_queue [of "sample_worker stuck_db" "sample_deps None" stuck_request "\<lambda>_. sample_io" 1000]
    by (simp add: sample_worker_def stuck_db_def stuck_request_def sr_find_def sample_request_def)
qed

text \<open>A confirmation does not look at the outcome of the transaction: on a cluster that reports for
  the landed transaction an execution error, in the confirmation and in the transaction's
  metadata, the delivery is still CONFIRMED.\<close>

theorem failed_transaction_confirmed:
  "\<exists>w' r. processServiceRequest (sample_deps (Some ''InstructionError'')) sample_io sample_row
       (sample_worker (sample_db 1)) = (Inr (), w') \<and>
     map ct_err (map snd (ws_chain w')) = [Some ''InstructionError''] \<and>
     sr_find ''r1'' (ws_db w') = Some r \<and> sr_status r = CONFIRMED"
proof -
  from sample_process [of "Some ''InstructionError''" 1] obtain w' where
    "processServiceRequest (sample_deps (Some ''InstructionError'')) sample_io sample_row
       (sample_worker (sample_db 1)) = (Inr (), w')"
    "ws_chain w' = [(''s'', sample_landed (Some ''InstructionError'') (expected_memo sample_row))]"
    "serviceRequests (ws_db w') = [delivered_request]" by blast
  then show ?thesis
    by (intro exI [of _ w'] exI [of _ delivered_request])
       (simp add: sample_landed_def sr_find_def delivered_request_def put_confirmed_def put_signature_def
         sample_request_def)
qed

subsection \<open>The Hedera tasks\<close>

definition put_hedera_column :: "(hedera_fields \<Rightarrow> hedera_fields) \<Rightarrow> service_request \<Rightarrow> service_request" where
  "put_hedera_column h r = r\<lparr>sr_hedera := h (sr_hedera r)\<rparr>"

definition hedera_local :: "string \<Rightarrow> (('c, 'h) worker_state, 'a) act \<Rightarrow> bool" where
  "hedera_local i m =
     (\<forall>w. ws_chain (snd (m w)) = ws_chain w \<and>
          (\<exists>h. ws_db (snd (m w)) = sr_modify i (put_hedera_column h) (ws_db w)))"

lemma sr_modify_hedera_id: "sr_modify i (put_hedera_column (\<lambda>x. x)) d = d"
proof -
  have "put_hedera_column (\<lambda>x. x) = (\<lambda>r. r)" by (rule ext) (simp add: put_hedera_column_def)
  then show ?thesis by (simp add: sr_modify_def row_modify_same)
qed

lemma sr_modify_hedera_comp:
  "sr_modify i (put_hedera_column g) (sr_modify i (put_hedera_column h) d) = sr_modify i (put_hedera_column (g \<circ> h)) d"
  by (simp add: sr_modify_def row_modify_def put_hedera_column_def)

lemma hedera_local_same_db:
  "(\<And>w. ws_chain (snd (m w)) = ws_chain w \<and> ws_db (snd (m w)) = ws_db w) \<Longrightarrow> hedera_local i m"
  unfolding hedera_local_def using sr_modify_hedera_id by metis

lemma hedera_local_basic [simp]:
  "hedera_local i (ret x)" "hedera_local i (throw e)" "hedera_local i (worker_log l)" "hedera_local i (worker_on_hedera m)"
  by (rule hedera_local_same_db, simp add: ret_def throw_def worker_log_def worker_on_hedera_def split: prod.split)+

lemma hedera_local_compose:
  assumes "ws_chain w1 = ws_chain w \<and> (\<exists>h. ws_db w1 = sr_modify i (put_hedera_column h) (ws_db w))"
    and "ws_chain w2 = ws_chain w1 \<and> (\<exists>h. ws_db w2 = sr_modify i (put_hedera_column h) (ws_db w1))"
  shows "ws_chain w2 = ws_chain w \<and> (\<exists>h. ws_db w2 = sr_modify i (put_hedera_column h) (ws_db w))"
  using assms sr_modify_hedera_comp by auto

lemma hedera_local_andThen:
  assumes "hedera_local i m" "\<And>x. hedera_local i (f x)"
  shows "hedera_local i (andThen m f)"
  unfolding hedera_local_def
proof (rule allI)
  fix w
  obtain r w1 where m: "m w = (r, w1)" by (cases "m w")
  have 1: "ws_chain w1 = ws_chain w \<and> (\<exists>h. ws_db w1 = sr_modify i (put_hedera_column h) (ws_db w))"
    using assms(1) m unfolding hedera_local_def by (metis snd_conv)
  show "ws_chain (snd (andThen m f w)) = ws_chain w \<and>
      (\<exists>h. ws_db (snd (andThen m f w)) = sr_modify i (put_hedera_column h) (ws_db w))"
  proof (cases r)
    case (Inl e)
    with m 1 show ?thesis by (simp add: andThen_def)
  next
    case (Inr x)
    have "ws_chain (snd (f x w1)) = ws_chain w1 \<and>
        (\<exists>h. ws_db (snd (f x w1)) = sr_modify i (put_hedera_column h) (ws_db w1))"
      using assms(2) unfolding hedera_local_def by blast
    from hedera_local_compose [OF 1 this] Inr m show ?thesis by (simp add: andThen_def)
  qed
qed

lemma hedera_local_update: "hedera_local i (worker_on_db (faulty fault (sr_update i (put_hedera_column h))))"
  unfolding hedera_local_def
proof (intro allI conjI)
  fix w :: "('a, 'b) worker_state"
  let ?m = "worker_on_db (faulty fault (sr_update i (put_hedera_column h)))"
  show "ws_chain (snd (?m w)) = ws_chain w" by (simp add: worker_on_db_def split: prod.split)
  have "ws_db (snd (?m w)) = ws_db w \<or> ws_db (snd (?m w)) = sr_modify i (put_hedera_column h) (ws_db w)"
    by (auto simp: worker_on_db_def faulty_def sr_update_def throw_def split: option.split)
  then show "\<exists>h. ws_db (snd (?m w)) = sr_modify i (put_hedera_column h) (ws_db w)"
    using sr_modify_hedera_id by metis
qed

definition task_request :: "hedera_task \<Rightarrow> string" where
  "task_request t = (case t of Record_On_Hedera i p \<Rightarrow> i | Mint_And_Transfer i \<Rightarrow> i)"

lemma task_body_local: "hedera_local (task_request t) (task_body hsdk env now fault t)"
proof (cases t)
  case (Record_On_Hedera i p)
  have "(\<lambda>r. r\<lparr>sr_hedera := put_hedera res (sr_hedera r)\<rparr>) = put_hedera_column (put_hedera res)" for res
    by (rule ext) (simp add: put_hedera_column_def)
  with Record_On_Hedera show ?thesis
    by (auto simp: task_body_def task_request_def intro!: hedera_local_andThen hedera_local_update)
next
  case (Mint_And_Transfer i)
  have "(\<lambda>r. r\<lparr>sr_hedera := (sr_hedera r)\<lparr>htsTokenId := a, htsNftSerial := b, htsTransferTx := c\<rparr>\<rparr>) =
      put_hedera_column (\<lambda>h. h\<lparr>htsTokenId := a, htsNftSerial := b, htsTransferTx := c\<rparr>)" for a b c
    by (rule ext) (simp add: put_hedera_column_def)
  with Mint_And_Transfer show ?thesis
    by (auto simp: task_body_def task_request_def split: option.split intro!: hedera_local_andThen hedera_local_update)
qed

lemma run_task_Inr: "fst (run_task hsdk env now fault t w) = Inr ()"
  by (auto simp: run_task_def catch_def worker_log_def split: prod.split sum.split)

text \<open>The detached Hedera tasks cannot disturb a delivery: a task never throws, and whatever the
  network answers it changes nothing in the database but the Hedera columns of its own request.\<close>

theorem hedera_task_harmless:
  "\<exists>w' h. run_task hsdk env now fault t w = (Inr (), w') \<and> ws_chain w' = ws_chain w \<and>
     ws_db w' = sr_modify (task_request t) (\<lambda>r. r\<lparr>sr_hedera := h (sr_hedera r)\<rparr>) (ws_db w)"
proof -
  obtain w' where w': "run_task hsdk env now fault t w = (Inr (), w')"
    using run_task_Inr by (metis prod.collapse)
  have "hedera_local (task_request t) (task_body hsdk env now fault t)" by (rule task_body_local)
  obtain r w1 where b: "task_body hsdk env now fault t w = (r, w1)" by (meson surj_pair)
  with task_body_local [of t hsdk env now fault] obtain h where
    "ws_chain w1 = ws_chain w" "ws_db w1 = sr_modify (task_request t) (put_hedera_column h) (ws_db w)"
    unfolding hedera_local_def by (metis snd_conv)
  moreover have "ws_chain w' = ws_chain w1" "ws_db w' = ws_db w1"
    using w' b by (auto simp: run_task_def catch_def worker_log_def split: sum.splits)
  ultimately show ?thesis
    using w' unfolding put_hedera_column_def [abs_def] by auto
qed

end
