(* ===== verification/Worker_Main.thy ===== *)
theory Worker_Main
  imports Worker_Limits
begin

text \<open>
  The entry point of the worker (worker/index.ts): it drains the queue and exits, or polls until it is
  killed. A run of the polling loop is looked at after any number \<open>n\<close> of turns; the wait between two
  turns changes nothing.
\<close>

definition pollForever ::
  "'c worker_deps \<Rightarrow> (nat \<Rightarrow> job_io) \<Rightarrow> nat \<Rightarrow> ('c, 'h) worker_state \<Rightarrow> ('c, 'h) worker_state" where
  "pollForever deps ios n w = ticks deps ios n (snd (worker_log ''polling every 5000ms'' w))"

datatype worker_run = Exited int | Polling

text \<open>\<open>None\<close>: the drain has not ended within \<open>n\<close> turns.\<close>

definition worker_main ::
  "'c worker_deps \<Rightarrow> (nat \<Rightarrow> job_io) \<Rightarrow> nat \<Rightarrow> ('c, 'h) worker_state \<Rightarrow> (worker_run \<times> ('c, 'h) worker_state) option" where
  "worker_main deps ios n w =
     (if wd_env deps ''DRAIN_AND_EXIT'' = Some ''1'' then
        (case drain deps ios n 0 w of
           None \<Rightarrow> None
         | Some (Inl e, w') \<Rightarrow> Some (Exited 1, snd (worker_log ''[worker] fatal:'' w'))
         | Some (Inr processed, w') \<Rightarrow>
             Some (Exited 0, snd (worker_log (''drained '' @ string_of_nat processed @ '' job(s); exiting'') w')))
      else Some (Polling, pollForever deps ios n w))"

subsection \<open>One turn\<close>

lemma poll_tick_runOnce: "runOnce deps io w = (Inr b, w') \<Longrightarrow> snd (poll_tick deps io w) = w'"
  by (simp add: poll_tick_def catch_def andThen_def ret_def)

lemma tick_serves:
  fixes deps :: "'c worker_deps" and w :: "('c, 'h) worker_state"
  assumes "sr_valid (ws_db w)" "org_billed (ws_db w)" "\<And>k. ji_fail_faults io k = None"
  defines "w' \<equiv> snd (poll_tick deps io w)"
  shows "sr_valid (ws_db w') \<and> org_billed (ws_db w') \<and> backlog (ws_db w') = backlog (ws_db w) - 1 \<and>
    served (ws_db w) (ws_db w')"
proof -
  obtain res w1 where run: "runOnce deps io w = (res, w1)" by (meson surj_pair)
  from assms(1-3) run show ?thesis
  proof (cases rule: job_serves)
    case idle
    with run assms(1,2) poll_tick_runOnce [OF run [unfolded idle(1)]] show ?thesis by (simp add: w'_def served_refl)
  next
    case job
    with poll_tick_runOnce [OF run [unfolded job(1)]] show ?thesis by (simp add: w'_def)
  qed
qed

lemma ticks_serve:
  assumes "sr_valid (ws_db w)" "org_billed (ws_db w)" "\<And>n k. ji_fail_faults (ios n) k = None"
  shows "sr_valid (ws_db (ticks deps ios n w)) \<and> org_billed (ws_db (ticks deps ios n w)) \<and>
    backlog (ws_db (ticks deps ios n w)) = backlog (ws_db w) - n \<and> served (ws_db w) (ws_db (ticks deps ios n w))"
proof (induction n)
  case 0
  with assms(1,2) show ?case by (simp add: served_refl)
next
  case (Suc n)
  with tick_serves [of "ticks deps ios n w" "ios n" deps, OF _ _ assms(3)] served_trans show ?case by fastforce
qed

subsection \<open>Properties\<close>



end
