(* ===== verification/Worker_Steps.thy ===== *)
theory Worker_Steps
  imports Broadcast Worker_Main
begin

text \<open>
  The two models of the worker agree: every turn of its loop (\<open>runOnce\<close>, \<open>poll_tick\<close>) is a run of the step relation
  \<open>delivery_step\<close> of Broadcast, in which it is cut at its awaits. One lemma per phase takes the program counter
  on; the log and the detached tasks are not part of the relation.
\<close>

abbreviation worker_at ::
  "('c, 'h) worker_state \<Rightarrow> worker_pc \<Rightarrow> (string \<Rightarrow> nat) \<Rightarrow> (string \<Rightarrow> nat) \<Rightarrow> 'c delivery_system" where
  "worker_at w pc s l \<equiv> \<lparr>ds_db = ws_db w, ds_chain = ws_chain w, ds_pc = pc, ds_sends = s, ds_lost = l\<rparr>"

text \<open>The steps with a given outcome, the rest of the state written out.\<close>

lemma stepI:
  assumes "delivery_step deps ad others y y1" "y1 = y'"
  shows "(delivery_step deps ad others)\<^sup>*\<^sup>* y y'"
  using assms by auto

lemma sr_update_Inl: "sr_update k f d = (Inl e, d') \<Longrightarrow> d' = d \<and> sr_find k d = None"
  by (auto simp: sr_update_def throw_def split: option.splits)

lemma faulty_update_Inl:
  "faulty fault (sr_update k f) d = (Inl e, d') \<Longrightarrow> d' = d \<and> (fault \<noteq> None \<or> sr_find k d = None)"
  by (cases fault) (auto simp: faulty_simps throw_def dest: sr_update_Inl)

lemma send_and_persist_Inl:
  assumes "send_and_persist deps io ad row w = (Inl e, w')"
  obtains (unsent) "cl_txSignature row = None" "ws_db w' = ws_db w"
    | (unsaved) lamports c1 sig where "cl_txSignature row = None" "ws_db w' = ws_db w"
      "getRentExemptMinimum (wd_sdk deps) (wd_env deps) (ws_chain w) = (Inr lamports, c1)"
      "adapter_send (wd_sdk deps) ad \<lparr>dp_recipientWallet = cl_recipientWallet row, dp_lamports = lamports,
         dp_memoParts = [expected_memo row]\<rparr> c1 = (Inr sig, ws_chain w')"
      "ji_faults io 0 \<noteq> None \<or> sr_find (cl_id row) (ws_db w) = None"
  using assms
  by (cases "cl_txSignature row")
     (auto simp: send_and_persist_def act_simps andThen_Inl_iff worker_lifts ret_def dest!: faulty_update_Inl)

lemma send_steps:
  assumes "send_and_persist deps io ad row w = (r, w')"
  shows "\<exists>s' l'. (delivery_step deps ad others)\<^sup>*\<^sup>* (worker_at w (W_Claimed row) s l)
      (worker_at w' (case r of Inr sig \<Rightarrow> W_Ready row sig | Inl _ \<Rightarrow> W_Failing row m) s' l') \<and>
    (l' = l \<or> ji_faults io 0 \<noteq> None \<or> sr_find (cl_id row) (ws_db w) = None)"
proof (cases r)
  case (Inr sig)
  with assms have "send_and_persist deps io ad row w = (Inr sig, w')" by simp
  then show ?thesis
  proof (cases rule: send_and_persist_Inr)
    case resumed
    have "(delivery_step deps ad others)\<^sup>*\<^sup>* (worker_at w (W_Claimed row) s l) (worker_at w (W_Ready row sig) s l)"
      by (rule stepI [OF resume]) (use resumed in simp_all)
    with resumed Inr show ?thesis by auto
  next
    case (sent lamports c1 c2 r0)
    let ?w = "w\<lparr>ws_chain := c2\<rparr>"
    have "(delivery_step deps ad others)\<^sup>*\<^sup>* (worker_at w (W_Claimed row) s l) (worker_at ?w (W_Sent row sig) (bump (cl_id row) s) l)"
      by (rule stepI [OF send]) (use sent in simp_all)
    also have "(delivery_step deps ad others)\<^sup>*\<^sup>* \<dots> (worker_at w' (W_Ready row sig) (bump (cl_id row) s) l)"
      by (rule stepI [OF persist [where r = "put_signature sig r0"]]) (use sent in \<open>simp_all add: sr_update_Inr_iff\<close>)
    finally show ?thesis using Inr by auto
  qed
next
  case (Inl e)
  with assms have "send_and_persist deps io ad row w = (Inl e, w')" by simp
  then show ?thesis
  proof (cases rule: send_and_persist_Inl)
    case unsent
    have "(delivery_step deps ad others)\<^sup>*\<^sup>* (worker_at w (W_Claimed row) s l) (worker_at w' (W_Failing row m) s l)"
      by (rule stepI [OF send_error]) (use unsent in simp_all)
    with Inl show ?thesis by auto
  next
    case (unsaved lamports c1 sig)
    have "(delivery_step deps ad others)\<^sup>*\<^sup>* (worker_at w (W_Claimed row) s l) (worker_at w' (W_Sent row sig) (bump (cl_id row) s) l)"
      by (rule stepI [OF send]) (use unsaved in simp_all)
    also have "(delivery_step deps ad others)\<^sup>*\<^sup>* \<dots>
        (worker_at w' (W_Failing row m) (bump (cl_id row) s) (bump (cl_id row) l))"
      by (rule stepI [OF persist_error]) simp_all
    finally show ?thesis using Inl unsaved(5) by auto
  qed
qed

lemma confirm_and_verify_Inl:
  assumes "confirm_and_verify deps io ad row sig w = (Inl e, w')"
  shows "ws_db w' = ws_db w"
proof -
  obtain rc c1 where c: "adapter_confirm (wd_sdk deps) ad sig (ws_chain w) = (rc, c1)" by (meson surj_pair)
  obtain rm c2 where m: "adapter_getMemo (wd_sdk deps) ad sig c1 = (rm, c2)" by (meson surj_pair)
  obtain ru d where u: "faulty (ji_faults io 1) (sr_update (cl_id row) (put_confirmed (projr rc))) (ws_db w) = (ru, d)"
    by (meson surj_pair)
  have d: "d = ws_db w" if "ru = Inl e1" for e1 using faulty_update_Inl u that by blast
  show ?thesis
    using assms c m u d
    by (cases rc; cases rm; cases ru)
       (auto simp: confirm_and_verify_def andThen_def worker_on_db_def worker_on_chain_def throw_def start_tasks_def split: if_splits)
qed

lemma verify_steps:
  assumes "confirm_and_verify deps io ad row sig w = (r, w')"
  shows "(delivery_step deps ad others)\<^sup>*\<^sup>* (worker_at w (W_Ready row sig) s l)
    (worker_at w' (case r of Inr _ \<Rightarrow> W_Idle | Inl _ \<Rightarrow> W_Failing row m) s l)"
proof (cases r)
  case (Inr u)
  with assms have "confirm_and_verify deps io ad row sig w = (Inr u, w')" by simp
  then show ?thesis
  proof (cases rule: confirm_and_verify_Inr)
    case (1 cf c1 r0)
    let ?w = "w\<lparr>ws_chain := ws_chain w'\<rparr>"
    have "(delivery_step deps ad others)\<^sup>*\<^sup>* (worker_at w (W_Ready row sig) s l) (worker_at ?w (W_Verified row cf) s l)"
      by (rule stepI [OF verify]) (use 1 in simp_all)
    also have "(delivery_step deps ad others)\<^sup>*\<^sup>* \<dots> (worker_at w' W_Idle s l)"
      by (rule stepI [OF finish [where r = "put_confirmed cf r0"]]) (use 1 in \<open>auto simp: sr_update_Inr_iff\<close>)
    finally show ?thesis using Inr by simp
  qed
next
  case (Inl e)
  with assms have "ws_db w' = ws_db w" by (auto dest: confirm_and_verify_Inl)
  then have "(delivery_step deps ad others)\<^sup>*\<^sup>* (worker_at w (W_Ready row sig) s l) (worker_at w' (W_Failing row m) s l)"
    by (intro stepI [OF verify_error]) simp_all
  with Inl show ?thesis by simp
qed

text \<open>A job: from the claimed row to the end of the delivery, or to the failure handler.\<close>

lemma process_steps:
  assumes ad: "\<And>ad'. getSolanaAdapter (wd_sdk deps) (wd_env deps) = Inr ad' \<Longrightarrow> ad' = ad"
    and p: "processServiceRequest deps io row w = (r, w')"
  shows "\<exists>s' l'. (delivery_step deps ad others)\<^sup>*\<^sup>* (worker_at w (W_Claimed row) s l)
      (worker_at w' (case r of Inr _ \<Rightarrow> W_Idle | Inl _ \<Rightarrow> W_Failing row m) s' l') \<and>
    (l' = l \<or> ji_faults io 0 \<noteq> None \<or> sr_find (cl_id row) (ws_db w) = None)"
proof (cases "getSolanaAdapter (wd_sdk deps) (wd_env deps)")
  case (Inl e)
  with p have r: "r = Inl e" "w' = w" by (simp_all add: processServiceRequest_def throw_def)
  show ?thesis
  proof (cases "cl_txSignature row")
    case None
    have "(delivery_step deps ad others)\<^sup>*\<^sup>* (worker_at w (W_Claimed row) s l) (worker_at w (W_Failing row m) s l)"
      by (rule stepI [OF send_error]) (use None in simp_all)
    with r show ?thesis by auto
  next
    case (Some sig)
    have "(delivery_step deps ad others)\<^sup>*\<^sup>* (worker_at w (W_Claimed row) s l) (worker_at w (W_Ready row sig) s l)"
      by (rule stepI [OF resume]) (use Some in simp_all)
    also have "(delivery_step deps ad others)\<^sup>*\<^sup>* \<dots> (worker_at w (W_Failing row m) s l)"
      by (rule stepI [OF verify_error]) simp_all
    finally show ?thesis using r by auto
  qed
next
  case (Inr ad')
  obtain r1 w1 where send: "send_and_persist deps io ad row w = (r1, w1)" by (meson surj_pair)
  from send_steps [OF send, of others s l m] obtain s' l' where
    1: "(delivery_step deps ad others)\<^sup>*\<^sup>* (worker_at w (W_Claimed row) s l)
      (worker_at w1 (case r1 of Inr sig \<Rightarrow> W_Ready row sig | Inl _ \<Rightarrow> W_Failing row m) s' l')"
    and l: "l' = l \<or> ji_faults io 0 \<noteq> None \<or> sr_find (cl_id row) (ws_db w) = None" by blast
  show ?thesis
  proof (cases r1)
    case (Inl e)
    with p Inr ad [OF Inr] send have "r = Inl e" "w' = w1" by (simp_all add: processServiceRequest_def andThen_def)
    with 1 l Inl show ?thesis by auto
  next
    case r1: (Inr sig)
    with p Inr ad [OF Inr] send have "confirm_and_verify deps io ad row sig w1 = (r, w')"
      by (simp add: processServiceRequest_def andThen_def)
    from rtranclp_trans [OF 1 [unfolded r1 sum.case] verify_steps [OF this]] l show ?thesis by blast
  qed
qed

lemma fail_steps:
  assumes "run_fail io row m w = (r, w')"
  shows "(delivery_step deps ad others)\<^sup>*\<^sup>* (worker_at w (W_Failing row m) s l) (worker_at w' W_Idle s l)"
proof -
  obtain r1 d where f: "failServiceRequest (ji_fail_faults io) (ji_stamp io)
      \<lparr>fi_serviceRequestId = cl_id row, fi_orgId = cl_orgId row, fi_reason = m, fi_txSignature = cl_txSignature row\<rparr>
      (ws_db w) = (r1, d)" by (meson surj_pair)
  with assms have "w' = w\<lparr>ws_db := d\<rparr>"
    by (cases r1) (simp_all add: run_fail_def andThen_def worker_on_db_def ret_def)
  then show ?thesis by (intro stepI [OF fail]) (use f in simp_all)
qed

text \<open>A turn of the loop. A signature is lost only to a failed write.\<close>

lemma runOnce_steps:
  assumes ad: "\<And>ad'. getSolanaAdapter (wd_sdk deps) (wd_env deps) = Inr ad' \<Longrightarrow> ad' = ad"
    and v: "sr_valid (ws_db w)" and run: "runOnce deps io w = (r, w')"
  shows "\<exists>s' l'. (delivery_step deps ad others)\<^sup>*\<^sup>* (worker_at w W_Idle s l) (worker_at w' W_Idle s' l') \<and>
    (l' = l \<or> ji_faults io 0 \<noteq> None)"
  using v
proof (cases rule: claimNext_cases)
  case empty
  with run have "w' = w" by (auto simp: runOnce_def andThen_def worker_on_db_def ret_def)
  then show ?thesis by blast
next
  case (claimed r0)
  let ?row = "(claimable_of r0)\<lparr>cl_status := IN_PROGRESS\<rparr>"
  let ?w0 = "w\<lparr>ws_db := sr_modify (sr_id r0) (set_status IN_PROGRESS) (ws_db w)\<rparr>"
  let ?cand = "claimable_of r0"
  have cand: "claim_find (ws_db w) = Some ?cand" "claim_commit ?cand (ws_db w) = (Inr (Some ?row), ws_db ?w0)"
    using claimed(4,5) by (simp_all add: claimNext_def)
  have "(delivery_step deps ad others)\<^sup>*\<^sup>* (worker_at w W_Idle s l) (worker_at w (W_Found ?cand) s l)"
    by (rule stepI [OF find]) (use cand(1) in simp_all)
  also have "(delivery_step deps ad others)\<^sup>*\<^sup>* \<dots> (worker_at ?w0 (W_Claimed ?row) s l)"
    by (rule stepI [OF claim [where res = "Some ?row"]]) (use cand(2) in simp_all)
  finally have start: "(delivery_step deps ad others)\<^sup>*\<^sup>* (worker_at w W_Idle s l) (worker_at ?w0 (W_Claimed ?row) s l)" .
  have here: "sr_find (cl_id ?row) (ws_db ?w0) \<noteq> None"
    using snapshot_claimed [OF v claimed(1)] by (auto simp: snapshot_def split: option.splits)
  obtain pr w1 where pr: "processServiceRequest deps io ?row ?w0 = (pr, w1)" by (meson surj_pair)
  let ?m = "error_message (wd_prismaMessage deps) (projl pr)"
  from process_steps [OF ad pr, of others s l ?m] here obtain s' l' where
    job: "(delivery_step deps ad others)\<^sup>*\<^sup>* (worker_at ?w0 (W_Claimed ?row) s l)
      (worker_at w1 (case pr of Inr _ \<Rightarrow> W_Idle | Inl _ \<Rightarrow> W_Failing ?row ?m) s' l')"
    and l: "l' = l \<or> ji_faults io 0 \<noteq> None" by blast
  note run' = run [unfolded runOnce_unfold [OF v claimed(1,4)]]
  show ?thesis
  proof (cases pr)
    case (Inr u)
    with pr run' have "ws_db w' = ws_db w1" "ws_chain w' = ws_chain w1"
      by (auto simp: andThen_def catch_def worker_log_def ret_def)
    with rtranclp_trans [OF start job] Inr l show ?thesis by auto
  next
    case (Inl e1)
    let ?w2 = "w1\<lparr>ws_log := ws_log w1 @ [''delivery failed for '' @ cl_id ?row @ '': '' @ ?m]\<rparr>"
    obtain fr w3 where fr: "run_fail io ?row ?m ?w2 = (fr, w3)" by (meson surj_pair)
    with Inl pr run' have "w' = w3"
      by (cases fr) (auto simp: andThen_def catch_def worker_log_def ret_def)
    with fail_steps [OF fr, of deps ad others s' l']
    have "(delivery_step deps ad others)\<^sup>*\<^sup>* (worker_at w1 (W_Failing ?row ?m) s' l') (worker_at w' W_Idle s' l')" by simp
    with rtranclp_trans [OF start job] Inl l show ?thesis by (auto intro: rtranclp_trans)
  qed
qed

lemma runOnce_valid:
  assumes "sr_valid (ws_db w)"
  shows "sr_valid (ws_db (snd (runOnce deps io w)))"
proof -
  obtain r w' where run: "runOnce deps io w = (r, w')" by (meson surj_pair)
  from assms run show ?thesis
    by (cases rule: runOnce_cases) (use run assms in \<open>auto intro: touches_valid\<close>)
qed

lemma poll_tick_same: "ws_db (snd (poll_tick deps io w)) = ws_db (snd (runOnce deps io w))"
  "ws_chain (snd (poll_tick deps io w)) = ws_chain (snd (runOnce deps io w))"
  by (simp_all add: poll_tick_def catch_def andThen_def ret_def worker_log_def split: prod.split sum.split)

lemma ticks_steps:
  assumes ad: "\<And>ad'. getSolanaAdapter (wd_sdk deps) (wd_env deps) = Inr ad' \<Longrightarrow> ad' = ad"
    and v: "sr_valid (ws_db w)"
  shows "sr_valid (ws_db (ticks deps ios n w)) \<and>
    (\<exists>s' l'. (delivery_step deps ad others)\<^sup>*\<^sup>* (worker_at w W_Idle s l) (worker_at (ticks deps ios n w) W_Idle s' l') \<and>
      (l' = l \<or> (\<exists>k. ji_faults (ios k) 0 \<noteq> None)))"
proof (induction n)
  case 0
  with v show ?case by auto
next
  case (Suc n)
  let ?w = "ticks deps ios n w"
  obtain s' l' where run: "(delivery_step deps ad others)\<^sup>*\<^sup>* (worker_at w W_Idle s l) (worker_at ?w W_Idle s' l')"
    "l' = l \<or> (\<exists>k. ji_faults (ios k) 0 \<noteq> None)" and v: "sr_valid (ws_db ?w)" using Suc by blast
  obtain r w1 where r: "runOnce deps (ios n) ?w = (r, w1)" by (meson surj_pair)
  from runOnce_steps [OF ad v r, of others s' l'] obtain s'' l'' where
    turn: "(delivery_step deps ad others)\<^sup>*\<^sup>* (worker_at ?w W_Idle s' l') (worker_at w1 W_Idle s'' l'')"
    "l'' = l' \<or> ji_faults (ios n) 0 \<noteq> None" by blast
  from rtranclp_trans [OF run(1) turn(1)] run(2) turn(2) runOnce_valid [OF v, of deps "ios n"] r
  show ?case by (auto simp: poll_tick_same)
qed

subsection \<open>Properties\<close>



end
