(* ===== verification/Payments.thy ===== *)
theory Payments
  imports Hedera_Routes Auth
begin

text \<open>
  Payments outside Stripe: lib/payments/DynamicFlow.ts with its routes app/api/payments/flow-session and
  app/api/payments/dynamic-webhook, and lib/payments/UnlinkPrivacy.ts. The hosted checkout is a parameter:
  what \<open>fetch\<close> answers, or the error it throws, with the network as its state.
\<close>

subsection \<open>Conversions of a JSON value\<close>

definition json_truthy :: "json option \<Rightarrow> bool" where
  "json_truthy v =
     (case v of
        None \<Rightarrow> False
      | Some JNull \<Rightarrow> False
      | Some (JBool b) \<Rightarrow> b
      | Some (JNum n) \<Rightarrow> n \<noteq> 0
      | Some (JStr s) \<Rightarrow> s \<noteq> []
      | Some _ \<Rightarrow> True)"

text \<open>\<open>String(v)\<close>; an array joins its items, and a \<open>null\<close> item is empty.\<close>

primrec js_string :: "json \<Rightarrow> string" where
  "js_string JNull = ''null''"
| "js_string (JBool b) = (if b then ''true'' else ''false'')"
| "js_string (JNum n) = string_of_int n"
| "js_string (JStr s) = s"
| "js_string (JArr xs) =
     join_with '','' (map2 (\<lambda>x t. if x = JNull then [] else t) xs (map js_string xs))"
| "js_string (JObj ps) = ''[object Object]''"

text \<open>
  \<open>Number(v)\<close>, with \<open>None\<close> for a value that is not finite. Of the numerals only those of an integer in
  decimal are read: one with a fraction, an exponent or a radix prefix is outside the integers the
  development has for numbers, and reads as \<open>None\<close>.
\<close>

definition number_of_text :: "string \<Rightarrow> int option" where
  "number_of_text s =
     (case js_trim s of
        [] \<Rightarrow> Some 0
      | c # ds \<Rightarrow>
          if re_digits (c # ds) then Some (int (nat_of_digits 0 (c # ds)))
          else if c = CHR ''-'' \<and> re_digits ds then Some (- int (nat_of_digits 0 ds))
          else if c = CHR ''+'' \<and> re_digits ds then Some (int (nat_of_digits 0 ds))
          else None)"

definition js_number :: "json \<Rightarrow> int option" where
  "js_number v =
     (case v of
        JNull \<Rightarrow> Some 0
      | JBool b \<Rightarrow> Some (if b then 1 else 0)
      | JNum n \<Rightarrow> Some n
      | JStr s \<Rightarrow> number_of_text s
      | JArr xs \<Rightarrow> number_of_text (js_string v)
      | JObj ps \<Rightarrow> None)"

text \<open>\<open>amountCents / 100\<close> as \<open>JSON.stringify\<close> prints it: for an amount of at most fifteen digits the
  shortest numeral that reads back as the quotient is its exact decimal one.\<close>

definition dollars_text :: "int \<Rightarrow> string" where
  "dollars_text n =
     (let q = \<bar>n\<bar> div 100; c = \<bar>n\<bar> mod 100
      in (if n < 0 then ''-'' else []) @ string_of_int q @
         (if c = 0 then []
          else if c mod 10 = 0 then ''.'' @ string_of_int (c div 10)
          else ''.'' @ string_of_int (c div 10) @ string_of_int (c mod 10)))"

definition json_num :: "int option \<Rightarrow> json" where
  \<comment> \<open>a number that is not finite prints as \<open>null\<close>\<close>
  "json_num n = (case n of None \<Rightarrow> JNull | Some i \<Rightarrow> JNum i)"

subsection \<open>DynamicFlow.ts\<close>

record flow_params =
  fp_deliveryId :: string
  fp_amountCents :: "int option"
  fp_email :: string

record flow_session =
  fs_sessionId :: json
  fs_paymentUrl :: json
  fs_amountCents :: "int option"
  fs_deliveryId :: string

record flow_answer =
  fa_ok :: bool
  fa_json :: "json option" \<comment> \<open>\<open>None\<close> when the body does not parse\<close>

definition flow_body :: "flow_params \<Rightarrow> string" where
  "flow_body p =
     ''{'' @ json_quote ''amount'' @ '':'' @ (case fp_amountCents p of None \<Rightarrow> ''null'' | Some n \<Rightarrow> dollars_text n) @
     '','' @ json_quote ''currency'' @ '':'' @ json_quote ''USD'' @
     '','' @ json_quote ''metadata'' @ '':'' @
     json_stringify (JObj [(''deliveryId'', JStr (fp_deliveryId p)), (''email'', JStr (fp_email p))]) @ ''}''"

definition present :: "json option \<Rightarrow> json option" where
  \<comment> \<open>what \<open>??\<close> keeps\<close>
  "present v = (if v = Some JNull then None else v)"

definition read_session :: "date \<Rightarrow> flow_params \<Rightarrow> json \<Rightarrow> flow_session result" where
  "read_session now p data =
     (if data = JNull then Inl (TypeError ''Cannot read properties of null'')
      else
        (let sessionId = (case present (json_prop data ''id'') of Some v \<Rightarrow> v
               | None \<Rightarrow> JStr (''flow-'' @ string_of_int now));
             paymentUrl = (case present (json_prop data ''url'') of Some v \<Rightarrow> v
               | None \<Rightarrow> (case present (json_prop data ''checkoutUrl'') of Some v \<Rightarrow> v
                 | None \<Rightarrow> JStr (''https://app.dynamic.xyz/pay/'' @ js_string sessionId)))
         in Inr \<lparr>fs_sessionId = sessionId, fs_paymentUrl = paymentUrl, fs_amountCents = fp_amountCents p,
                 fs_deliveryId = fp_deliveryId p\<rparr>))"

type_synonym 'c fetch = "string \<Rightarrow> (string \<times> string) list \<Rightarrow> string \<Rightarrow> ('c, flow_answer) act"

definition createFlowSession :: "'c fetch \<Rightarrow> env \<Rightarrow> date \<Rightarrow> flow_params \<Rightarrow> ('c, flow_session option) act" where
  "createFlowSession fetch env now p =
     (if \<not> truthy (env ''NEXT_PUBLIC_DYNAMIC_ENVIRONMENT_ID'') \<or> \<not> truthy (env ''DYNAMIC_BEARER_TOKEN'') \<or>
         env ''DYNAMIC_BEARER_TOKEN'' = Some ''PLACEHOLDER'' then ret None
      else catch
        (andThen (fetch (''https://app.dynamic.xyz/api/v0/environments/'' @ the (env ''NEXT_PUBLIC_DYNAMIC_ENVIRONMENT_ID'') @
              ''/flow/sessions'')
            [(''Content-Type'', ''application/json''), (''Authorization'', ''Bearer '' @ the (env ''DYNAMIC_BEARER_TOKEN''))]
            (flow_body p)) (\<lambda>answer.
         if \<not> fa_ok answer then ret None
         else (case fa_json answer of
                 None \<Rightarrow> throw (PlainError ''Unexpected token in JSON'')
               | Some data \<Rightarrow>
                   (case read_session now p data of Inl e \<Rightarrow> throw e | Inr s \<Rightarrow> ret (Some s)))))
        (\<lambda>_. ret None))"

text \<open>\<open>JSON.parse\<close> of the text: \<open>req_body\<close> is the parsed text of a request.\<close>

definition parseFlowWebhook :: "request \<Rightarrow> json option" where
  "parseFlowWebhook req = req_body req"

subsection \<open>The routes\<close>

definition session_json :: "flow_session \<Rightarrow> json" where
  "session_json s =
     JObj [(''sessionId'', fs_sessionId s), (''paymentUrl'', fs_paymentUrl s),
       (''amountCents'', json_num (fs_amountCents s)), (''deliveryId'', JStr (fs_deliveryId s))]"

definition flow_session_POST ::
  "'c fetch \<Rightarrow> env \<Rightarrow> clerk_session \<Rightarrow> date \<Rightarrow> request \<Rightarrow> ('c, response) act" where
  "flow_session_POST fetch env cs now req =
     (if \<not> truthy (cs_userId cs) then ret (error_response 401 ''Unauthorized'')
      else
        (let body = (case req_body req of None \<Rightarrow> JObj [] | Some b \<Rightarrow> b);
             deliveryId = json_prop body ''deliveryId'';
             amountCents = json_prop body ''amountCents'';
             email = json_prop body ''email''
         in if body = JNull then throw (TypeError ''Cannot destructure null'')
            else if \<not> json_truthy deliveryId \<or> \<not> json_truthy amountCents \<or> \<not> json_truthy email then
              ret (error_response 400 ''deliveryId, amountCents, email required'')
            else
              andThen (createFlowSession fetch env now
                 \<lparr>fp_deliveryId = js_string (the deliveryId), fp_amountCents = js_number (the amountCents),
                  fp_email = js_string (the email)\<rparr>) (\<lambda>session.
              case session of
                None \<Rightarrow> ret (error_response 503 ''Flow not configured or session creation failed'')
              | Some s \<Rightarrow> ret (json_response 200 (session_json s)))))"

definition dynamic_webhook_POST :: "request \<Rightarrow> response" where
  "dynamic_webhook_POST req =
     (let payload = parseFlowWebhook req
      in if \<not> json_truthy payload then error_response 400 ''Invalid payload''
         else json_response 200 (JObj [(''received'', JBool True)]))"

subsection \<open>UnlinkPrivacy.ts\<close>

text \<open>The deposit that is not implemented: whether or not the package can be imported, the answer is
  \<open>null\<close>; the state is the console.\<close>

record deposit_params =
  dp_amount :: string
  dp_tokenSymbol :: string
  dp_chainId :: int
  dp_fromAddress :: string

definition depositToPrivateAccount ::
  "bool \<Rightarrow> deposit_params \<Rightarrow> (string list, (string \<times> string) option) act" where
  "depositToPrivateAccount loads p =
     (if \<not> loads then
        (\<lambda>console. (Inr None, console @
           [''[Unlink] @unlink-xyz/sdk not yet available in npm registry'',
            ''[Unlink] When published: will call deposit() to shield payment amounts on-chain'',
            ''[Unlink] Would call: sdk.deposit({ amount: '' @ dp_amount p @ '' , token: '' @ dp_tokenSymbol p @
              '' , chain: '' @ string_of_int (dp_chainId p) @ '' })'']))
      else
        (\<lambda>console. (Inr None, console @
           [''[Unlink] Package loaded but implementation pending docs at https://docs.unlink.xyz''])))"

subsection \<open>What they promise\<close>

lemma createFlowSession_Inr: "\<exists>x c'. createFlowSession fetch env now p c = (Inr x, c')"
  by (simp add: createFlowSession_def catch_def ret_def split: prod.split sum.split)

text \<open>A session that is returned keeps the amount and the delivery of the request.\<close>

lemma createFlowSession_keeps:
  assumes "createFlowSession fetch env now p c = (Inr (Some s), c')"
  shows "fs_amountCents s = fp_amountCents p \<and> fs_deliveryId s = fp_deliveryId p"
  using assms
  by (auto simp: createFlowSession_def catch_def andThen_def ret_def throw_def read_session_def Let_def
      split: if_splits prod.splits sum.splits option.splits)

lemma createFlowSession_unconfigured:
  "\<not> truthy (env ''DYNAMIC_BEARER_TOKEN'') \<or> env ''DYNAMIC_BEARER_TOKEN'' = Some ''PLACEHOLDER'' \<Longrightarrow>
   createFlowSession fetch env now p c = (Inr None, c)"
  by (auto simp: createFlowSession_def ret_def)

text \<open>The webhook takes every payload that parses to a truthy value for received, with no signature, and
  acts on none.\<close>

lemma dynamic_webhook_accepts: "req_body req = Some (JObj ps) \<Longrightarrow> res_status (dynamic_webhook_POST req) = 200"
  by (simp add: dynamic_webhook_POST_def parseFlowWebhook_def json_truthy_def)

end
