(* ===== verification/Startup.thy ===== *)
theory Startup
  imports Json_Http JS_Dates
begin

text \<open>
  What runs before and beside the handlers: the check of the environment when the server starts (lib/env.ts)
  and the health probe (app/api/health). \<open>load_env\<close> is the body of the module: it throws, or it leaves the
  lines it wrote to the console.
\<close>

subsection \<open>lib/env.ts\<close>

definition REQUIRED_ENV_VARS :: "string list" where
  "REQUIRED_ENV_VARS =
     [''DATABASE_URL'', ''RESEND_API_KEY'', ''NEXT_PUBLIC_CLERK_PUBLISHABLE_KEY'', ''CLERK_SECRET_KEY'',
      ''STRIPE_SECRET_KEY'', ''STRIPE_WEBHOOK_SECRET'']"

fun check_required :: "env \<Rightarrow> string list \<Rightarrow> unit result" where
  "check_required env [] = Inr ()"
| "check_required env (key # keys) =
     (if \<not> truthy (env key) then Inl (PlainError (''Missing required env var: '' @ key))
      else check_required env keys)"

text \<open>\<open>/<.*>/\<close>: a \<open><\<close> with a \<open>></\<close> after it on the same line.\<close>

fun re_angle :: "string \<Rightarrow> bool" where
  "re_angle [] = False"
| "re_angle (c # cs) =
     (c = CHR ''<'' \<and> CHR ''>'' \<in> set (takeWhile (\<lambda>x. code_unit x \<noteq> 10 \<and> code_unit x \<noteq> 13) cs) \<or> re_angle cs)"

definition re_placeholder :: "string \<Rightarrow> bool" where
  "re_placeholder url =
     (let s = js_lower url
      in sublist ''your_api_key'' s \<or> re_angle s \<or> sublist ''sepolia'' s \<or> sublist ''goerli'' s \<or> sublist ''holesky'' s)"

definition rpc_warning :: "env \<Rightarrow> string list" where
  "rpc_warning env =
     (let ethRpc = env ''EVM_RPC_ETH_MAINNET''
      in if \<not> truthy ethRpc then
           [''[env] EVM_RPC_ETH_MAINNET is not set '' @ map char_of [226::nat, 128, 148] @ '' ENS resolution will fall back to a '' @
            ''public RPC that may be rate-limited or unreliable.'']
         else if re_placeholder (the ethRpc) then
           [''[env] EVM_RPC_ETH_MAINNET looks like a placeholder or non-mainnet URL: '' @ [char_of (34::nat)] @
            the ethRpc @ [char_of (34::nat)] @ ''. ENS resolution requires a valid Ethereum mainnet RPC endpoint.'']
         else [])"

record eps_env =
  ee_DATABASE_URL :: "string option"
  ee_RESEND_API_KEY :: "string option"
  ee_CLERK_PUBLISHABLE_KEY :: "string option"
  ee_CLERK_SECRET_KEY :: "string option"
  ee_STRIPE_SECRET_KEY :: "string option"
  ee_STRIPE_WEBHOOK_SECRET :: "string option"

definition load_env :: "env \<Rightarrow> (string list, eps_env) act" where
  "load_env env console =
     (case check_required env REQUIRED_ENV_VARS of
        Inl e \<Rightarrow> (Inl e, console)
      | Inr _ \<Rightarrow>
          (Inr \<lparr>ee_DATABASE_URL = env ''DATABASE_URL'', ee_RESEND_API_KEY = env ''RESEND_API_KEY'',
                ee_CLERK_PUBLISHABLE_KEY = env ''NEXT_PUBLIC_CLERK_PUBLISHABLE_KEY'',
                ee_CLERK_SECRET_KEY = env ''CLERK_SECRET_KEY'', ee_STRIPE_SECRET_KEY = env ''STRIPE_SECRET_KEY'',
                ee_STRIPE_WEBHOOK_SECRET = env ''STRIPE_WEBHOOK_SECRET''\<rparr>,
           console @ rpc_warning env))"

subsection \<open>app/api/health\<close>

definition VERSION :: string where "VERSION = ''1.0.0''"

text \<open>The argument is the error of \<open>SELECT 1\<close>, by its message.\<close>

definition health_GET :: "string option \<Rightarrow> date \<Rightarrow> response" where
  "health_GET db_error now =
     json_response 200 (JObj
       ([(''status'', JStr ''ok''), (''db'', JStr (if db_error = None then ''connected'' else ''error'')),
         (''timestamp'', JStr (toISOString now)), (''version'', JStr VERSION)] @
        (if truthy db_error then [(''message'', json_of_str db_error)] else [])))"

subsection \<open>What they promise\<close>

lemma check_required_Inr: "check_required env keys = Inr u \<longleftrightarrow> (\<forall>k\<in>set keys. truthy (env k))"
  by (induction keys) auto

text \<open>The server does not start half configured: the error names a variable that is missing.\<close>

lemma check_required_Inl:
  "check_required env keys = Inl e \<Longrightarrow>
     \<exists>k\<in>set keys. \<not> truthy (env k) \<and> e = PlainError (''Missing required env var: '' @ k)"
  by (induction keys) (auto split: if_splits)

lemma load_env_configured:
  "load_env env console = (Inr cfg, console') \<Longrightarrow> truthy (ee_STRIPE_SECRET_KEY cfg) \<and> truthy (ee_DATABASE_URL cfg)"
  by (auto simp: load_env_def REQUIRED_ENV_VARS_def split: sum.splits if_splits)

lemma health_always_ok: "res_status (health_GET db_error now) = 200"
  by (simp add: health_GET_def)

end
