(* ===== verification/Dashboard.thy ===== *)
theory Dashboard
  imports Demo Billing Payments
begin

text \<open>
  The clients of the handlers: what the pages of the dashboard read and decide (app/dashboard/page.tsx,
  app/dashboard/[id]/page.tsx), the poller app/dashboard/[id]/LiveStatus.tsx, the upload form
  app/dashboard/[id]/ServiceActions.tsx, the intake form app/dashboard/new/page.tsx and the payment buttons
  of app/pricing/page.tsx. A client component is a function on its React state; the handlers it calls are
  those of the other theories. The markup is left out. A \<open>fetch\<close> that fails is \<open>Inl\<close>.
\<close>

definition res_ok :: "response \<Rightarrow> bool" where
  "res_ok resp = (200 \<le> res_status resp \<and> res_status resp < 300)"

definition client_request :: "(string \<times> string) list \<Rightarrow> json option \<Rightarrow> request" where
  "client_request query body =
     \<lparr>req_headers = [], req_origin = [], req_query = query, req_body = body, req_text = []\<rparr>"

definition error_or :: "string \<Rightarrow> json \<Rightarrow> string" where
  \<comment> \<open>\<open>data.error ?? fallback\<close>\<close>
  "error_or fallback data = (case json_str (json_prop data ''error'') of None \<Rightarrow> fallback | Some m \<Rightarrow> m)"

subsection \<open>The list of the services\<close>

definition banner :: "(string \<Rightarrow> string option) \<Rightarrow> string option" where
  "banner params =
     (if params ''staged'' = Some ''1'' then Some ''Service request staged successfully.''
      else if params ''subscribed'' = Some ''demo'' then
        Some (''Demo subscription activated '' @ em_dash @ '' no payment was taken.'')
      else if params ''paid'' = Some ''demo'' then
        Some (''Demo crypto payment confirmed '' @ em_dash @ '' no payment was taken.'')
      else None)"

record service_row =
  row_href :: string
  row_caption :: string
  row_caseRef :: "string option"
  row_status :: string
  row_recipient :: "string option"
  row_notice :: "string option"
  row_certificate :: "string option"

definition derived_status :: "db \<Rightarrow> service_request \<Rightarrow> string" where
  "derived_status d r =
     (if cp_find (sr_id r) d \<noteq> None then ''Certified''
      else if na_find (sr_id r) d \<noteq> None then ''Accessed'' else ''Pending'')"

definition service_row_of :: "db \<Rightarrow> service_request \<Rightarrow> service_row" where
  "service_row_of d r =
     \<lparr>row_href = ''/dashboard/'' @ sr_id r, row_caption = caseCaption r, row_caseRef = noticeToken r,
      row_status = derived_status d r,
      row_recipient = (if truthy (recipientEnsName r) then recipientEnsName r else None),
      row_notice = (if truthy (noticeToken r) then Some (''/n/'' @ the (noticeToken r)) else None),
      row_certificate = (if cp_find (sr_id r) d \<noteq> None then Some (''/api/certificate/'' @ sr_id r) else None)\<rparr>"

datatype 'a dashboard_page = Sign_In | Not_Found | Shown 'a

definition services_of :: "string \<Rightarrow> db \<Rightarrow> service_request list" where
  "services_of user d =
     sort_key (\<lambda>r. - sr_createdAt r) (filter (\<lambda>r. sr_userId r = Some user) (serviceRequests d))"

definition DashboardPage ::
  "clerk_session \<Rightarrow> (string \<Rightarrow> string option) \<Rightarrow> db \<Rightarrow> (string option \<times> service_row list) dashboard_page" where
  "DashboardPage cs params d =
     (if \<not> truthy (cs_userId cs) then Sign_In
      else Shown (banner params, map (service_row_of d) (services_of (the (cs_userId cs)) d)))"

subsection \<open>The page of one service\<close>

datatype action_area =
    Documents | Processing | Delivered string "string option" "string option" | Delivery_Failed string

record detail_view =
  dv_request :: service_request
  dv_area :: action_area

definition hedera_link :: "hedera_fields \<Rightarrow> string option" where
  "hedera_link h =
     (case hcsMirrorUrl h of
        Some u \<Rightarrow> Some u
      | None \<Rightarrow>
          if truthy (hcsTopicId h) then
            Some (''https://hashscan.io/testnet/topic/'' @ the (hcsTopicId h) @
              (case hcsSequenceNumber h of None \<Rightarrow> [] | Some n \<Rightarrow> ''/message/'' @ string_of_int n))
          else None)"

definition solana_link :: "service_request \<Rightarrow> string option" where
  "solana_link r =
     (if truthy (txSignature r) then
        Some (''https://explorer.solana.com/tx/'' @ the (txSignature r) @ ''?cluster=devnet'') else None)"

text \<open>An empty link is not rendered.\<close>

definition shown_link :: "string option \<Rightarrow> string option" where
  "shown_link l = (if truthy l then l else None)"

definition action_area_of :: "service_request \<Rightarrow> action_area" where
  "action_area_of r =
     (case sr_status r of
        STAGED \<Rightarrow> Documents
      | IN_PROGRESS \<Rightarrow> Processing
      | CONFIRMED \<Rightarrow> Delivered (''/api/certificate/'' @ sr_id r) (shown_link (solana_link r)) (shown_link (hedera_link (sr_hedera r)))
      | FAILED \<Rightarrow> Delivery_Failed
          (case failureReason r of None \<Rightarrow> ''This delivery could not be completed.'' | Some m \<Rightarrow> m))"

definition ServiceDetailPage :: "clerk_session \<Rightarrow> string \<Rightarrow> db \<Rightarrow> detail_view dashboard_page" where
  "ServiceDetailPage cs i d =
     (if \<not> truthy (cs_userId cs) then Sign_In
      else case service_of_user i (the (cs_userId cs)) d of
        None \<Rightarrow> Not_Found
      | Some r \<Rightarrow> Shown \<lparr>dv_request = r, dv_area = action_area_of r\<rparr>)"

subsection \<open>LiveStatus.tsx\<close>

definition TERMINAL :: "string list" where "TERMINAL = [''CONFIRMED'', ''FAILED'']"

definition POLL_INTERVAL_MS :: int where "POLL_INTERVAL_MS = 5000"

record live_status =
  lv_status :: string
  lv_refreshes :: nat

text \<open>One tick: no interval runs in a terminal state; what is not OK, or does not change the status, is ignored.\<close>

definition live_tick :: "response result \<Rightarrow> live_status \<Rightarrow> live_status" where
  "live_tick answer st =
     (if lv_status st \<in> set TERMINAL then st
      else case answer of
        Inl _ \<Rightarrow> st
      | Inr resp \<Rightarrow>
          if \<not> res_ok resp then st
          else (case json_str (json_prop (res_body resp) ''status'') of
                  None \<Rightarrow> st
                | Some s \<Rightarrow>
                    if s = [] \<or> s = lv_status st then st
                    else \<lparr>lv_status = s, lv_refreshes = Suc (lv_refreshes st)\<rparr>))"

definition live_poll ::
  "clerk_session \<Rightarrow> request \<Rightarrow> string \<Rightarrow> date \<Rightarrow> 'h route_state \<Rightarrow> live_status \<Rightarrow> live_status" where
  "live_poll cs req i now w st = live_tick (fst (service_request_GET cs now req i w)) st"

subsection \<open>ServiceActions.tsx\<close>

record upload_state =
  us_file :: "upload_file option"
  us_error :: "string option"
  us_done :: bool

text \<open>\<open>reason\<close> is the message of the exception the client sees when a call fails or its body does not parse.\<close>

definition onUpload ::
  "(eps_error \<Rightarrow> string) \<Rightarrow> (upload_form \<Rightarrow> ('s, response) act) \<Rightarrow> upload_state \<Rightarrow> 's \<Rightarrow> upload_state \<times> 's" where
  "onUpload reason post st s =
     (case us_file st of
        None \<Rightarrow> (st\<lparr>us_error := Some ''Choose a document to upload.''\<rparr>, s)
      | Some f \<Rightarrow>
          (case post (File_Part f) s of
             (Inl e, s') \<Rightarrow> (st\<lparr>us_error := Some (reason e), us_done := False\<rparr>, s')
           | (Inr resp, s') \<Rightarrow>
               if \<not> res_ok resp then
                 (st\<lparr>us_error := Some (error_or ''Upload failed.'' (res_body resp)), us_done := False\<rparr>, s')
               else (st\<lparr>us_error := None, us_done := True\<rparr>, s')))"

subsection \<open>The intake form\<close>

record intake_form =
  fo_caseCaption :: string
  fo_plaintiffName :: string
  fo_defendantName :: string
  fo_recipientWallet :: string
  fo_courtOrderFlag :: bool
  fo_attested :: bool
  fo_resolvedAddress :: "string option"
  fo_ensError :: "string option"

definition looksLikeENSName :: "string \<Rightarrow> bool" where
  "looksLikeENSName value =
     (let trimmed = js_trim value
      in if length trimmed < 3 \<or> re_evm_address trimmed then False else CHR ''.'' \<in> set trimmed)"

definition not_verified :: string where
  "not_verified = ''Could not verify this ENS name right now '' @ em_dash @
     '' you can still submit; the server will re-resolve it.''"

text \<open>What the effect on the recipient field leaves behind once its request, if it makes one, has settled;
  an aborted request leaves the state to the effect that replaced it.\<close>

definition ens_effect :: "(request \<Rightarrow> response result) \<Rightarrow> intake_form \<Rightarrow> intake_form" where
  "ens_effect resolve st =
     (let value = js_trim (fo_recipientWallet st)
      in if \<not> looksLikeENSName value then st\<lparr>fo_resolvedAddress := None, fo_ensError := None\<rparr>
         else case resolve (client_request [(''input'', value)] None) of
           Inl _ \<Rightarrow> st\<lparr>fo_resolvedAddress := None, fo_ensError := Some not_verified\<rparr>
         | Inr resp \<Rightarrow>
             (let address = json_str (json_prop (res_body resp) ''address'')
              in if \<not> res_ok resp \<or> \<not> truthy address then
                   st\<lparr>fo_resolvedAddress := None, fo_ensError := Some not_verified\<rparr>
                 else st\<lparr>fo_resolvedAddress := address, fo_ensError := None\<rparr>))"

definition intake_body :: "intake_form \<Rightarrow> json" where
  "intake_body st =
     JObj [(''caseCaption'', JStr (fo_caseCaption st)), (''plaintiffName'', JStr (fo_plaintiffName st)),
       (''defendantName'', JStr (fo_defendantName st)), (''recipientWallet'', JStr (fo_recipientWallet st)),
       (''recipientEnsName'', if looksLikeENSName (fo_recipientWallet st) then JStr (js_trim (fo_recipientWallet st)) else JNull),
       (''recipientResolvedAddress'', json_of_str (fo_resolvedAddress st)),
       (''courtOrderFlag'', JBool (fo_courtOrderFlag st)), (''attested'', JBool (fo_attested st))]"

text \<open>Submitting: the parts of the state the handler sets. After a success the button stays disabled while the
  browser moves on.\<close>

record submit_state =
  su_error :: "string option"
  su_fieldErrors :: json
  su_submitting :: bool
  su_location :: "string option"

definition onSubmit ::
  "(eps_error \<Rightarrow> string) \<Rightarrow> (request \<Rightarrow> ('s, response) act) \<Rightarrow> intake_form \<Rightarrow> submit_state \<Rightarrow> 's \<Rightarrow> submit_state \<times> 's" where
  "onSubmit reason post form st s =
     (let st0 = st\<lparr>su_error := None, su_fieldErrors := JObj []\<rparr>
      in case post (client_request [] (Some (intake_body form))) s of
           (Inl e, s') \<Rightarrow> (st0\<lparr>su_error := Some (reason e), su_submitting := False\<rparr>, s')
         | (Inr resp, s') \<Rightarrow>
             (let issues = json_prop (res_body resp) ''issues''
              in if \<not> res_ok resp then
                   (st0\<lparr>su_fieldErrors := (if json_truthy issues then the issues else JObj []),
                        su_error := Some (error_or ''Could not stage the service request.'' (res_body resp)),
                        su_submitting := False\<rparr>, s')
                 else (st0\<lparr>su_submitting := True, su_location := Some ''/dashboard?staged=1''\<rparr>, s')))"

subsection \<open>The payment buttons\<close>

record pricing_state =
  pr_error :: "string option"
  pr_cryptoError :: "string option"
  pr_cryptoUrl :: "string option"
  pr_location :: "string option" \<comment> \<open>where the browser is sent\<close>

definition amountMap :: "tier \<Rightarrow> int" where
  "amountMap t = (case t of Tier1 \<Rightarrow> 20000 | Tier2 \<Rightarrow> 60000 | Tier3 \<Rightarrow> 100000)"

definition subscribe ::
  "bool \<Rightarrow> (eps_error \<Rightarrow> string) \<Rightarrow> (request \<Rightarrow> ('s, response) act) \<Rightarrow> tier \<Rightarrow> pricing_state \<Rightarrow> 's \<Rightarrow> pricing_state \<times> 's" where
  "subscribe demo reason post t st s =
     (if demo then (st\<lparr>pr_location := Some ''/dashboard?subscribed=demo''\<rparr>, s)
      else case post (client_request [] (Some (JObj [(''tier'', JStr (tier_name t))]))) s of
        (Inl e, s') \<Rightarrow> (st\<lparr>pr_error := Some (reason e)\<rparr>, s')
      | (Inr resp, s') \<Rightarrow>
          (let url = json_str (json_prop (res_body resp) ''url'')
           in if \<not> res_ok resp then
                (st\<lparr>pr_error := Some (error_or ''Could not start checkout. Please try again.'' (res_body resp))\<rparr>, s')
              else if \<not> truthy url then (st\<lparr>pr_error := Some ''Checkout session did not return a URL.''\<rparr>, s')
              else (st\<lparr>pr_error := None, pr_location := url\<rparr>, s')))"

definition crypto_body :: "date \<Rightarrow> tier \<Rightarrow> json" where
  "crypto_body now t =
     JObj [(''deliveryId'', JStr (''pricing-'' @ tier_name t @ ''-'' @ string_of_int now)),
       (''amountCents'', JNum (amountMap t)), (''email'', JStr [])]"

definition getCryptoPaymentLink ::
  "(request \<Rightarrow> ('s, response) act) \<Rightarrow> date \<Rightarrow> tier \<Rightarrow> pricing_state \<Rightarrow> 's \<Rightarrow> pricing_state \<times> 's" where
  "getCryptoPaymentLink post now t st s =
     (let st0 = st\<lparr>pr_cryptoError := None, pr_cryptoUrl := None\<rparr>;
          unavailable = ''Crypto payments temporarily unavailable. Please pay with card.''
      in case post (client_request [] (Some (crypto_body now t))) s of
           (Inl _, s') \<Rightarrow> (st0\<lparr>pr_cryptoError := Some unavailable\<rparr>, s')
         | (Inr resp, s') \<Rightarrow>
             (let url = json_str (json_prop (res_body resp) ''paymentUrl'')
              in if res_status resp = 503 then (st0\<lparr>pr_cryptoError := Some unavailable\<rparr>, s')
                 else if \<not> res_ok resp \<or> \<not> truthy url then
                   (st0\<lparr>pr_cryptoError := Some (error_or
                      ''Could not create crypto payment link. Please pay with card.'' (res_body resp))\<rparr>, s')
                 else (st0\<lparr>pr_cryptoUrl := url, pr_location := url\<rparr>, s')))"

subsection \<open>What the pages show\<close>

lemma services_of_scoped: "r \<in> set (services_of user d) \<longleftrightarrow> r \<in> set (serviceRequests d) \<and> sr_userId r = Some user"
  by (simp add: services_of_def)

lemma services_of_newest_first: "sorted (map (\<lambda>r. - sr_createdAt r) (services_of user d))"
  by (simp add: services_of_def)

lemma detail_page_scoped:
  assumes "ServiceDetailPage cs i d = Shown v"
  shows "dv_request v \<in> set (serviceRequests d) \<and> sr_id (dv_request v) = i \<and> sr_userId (dv_request v) = cs_userId cs"
  using assms by (auto simp: ServiceDetailPage_def truthy_iff dest!: service_of_user_Some split: if_splits option.splits)

text \<open>The dashboard lists what it can open: the rows are the caller's own requests, the newest first, and the
  detail page of an id shows a request, the caller's own with that id, exactly when the list links to it.\<close>

theorem dashboard_lists_what_opens:
  assumes "DashboardPage cs params d = Shown (b, rows)"
  shows "rows = map (service_row_of d) (services_of (the (cs_userId cs)) d) \<and>
    sorted (map (\<lambda>r. - sr_createdAt r) (services_of (the (cs_userId cs)) d)) \<and>
    ((\<exists>v. ServiceDetailPage cs i d = Shown v \<and> sr_id (dv_request v) = i \<and> sr_userId (dv_request v) = cs_userId cs)
       \<longleftrightarrow> ''/dashboard/'' @ i \<in> row_href ` set rows)"
proof -
  have u: "truthy (cs_userId cs)" and r: "rows = map (service_row_of d) (services_of (the (cs_userId cs)) d)"
    using assms by (auto simp: DashboardPage_def split: if_splits)
  have "(\<exists>v. ServiceDetailPage cs i d = Shown v \<and> sr_id (dv_request v) = i \<and> sr_userId (dv_request v) = cs_userId cs)
      \<longleftrightarrow> (\<exists>v. ServiceDetailPage cs i d = Shown v)"
    using detail_page_scoped [of cs i d] by blast
  also have "\<dots> \<longleftrightarrow> service_of_user i (the (cs_userId cs)) d \<noteq> None"
    using u by (auto simp: ServiceDetailPage_def split: option.split)
  also have "\<dots> \<longleftrightarrow> (\<exists>q\<in>set (services_of (the (cs_userId cs)) d). sr_id q = i)"
    by (auto simp: service_of_user_def find_None_iff services_of_scoped)
  also have "\<dots> \<longleftrightarrow> ''/dashboard/'' @ i \<in> row_href ` set rows"
    by (auto simp: r service_row_of_def image_iff)
  finally show ?thesis using r services_of_newest_first by blast
qed

theorem dashboard_lists_what_opens_witness:
  "\<exists>v. ServiceDetailPage (filer None) ''r1'' (sample_db 0) = Shown v"
proof -
  have "DashboardPage (filer None) (\<lambda>_. None) (sample_db 0) =
      Shown (None, map (service_row_of (sample_db 0)) (services_of ''user_1'' (sample_db 0)))"
    by (simp add: DashboardPage_def filer_def banner_def)
  from dashboard_lists_what_opens [OF this, of "''r1''"] show ?thesis
    by (simp add: services_of_def service_row_of_def sample_defs) blast
qed

subsection \<open>The live status\<close>

lemma live_tick_terminal: "lv_status st \<in> set TERMINAL \<Longrightarrow> live_tick answer st = st"
  by (simp add: live_tick_def)

lemma service_GET_ok:
  assumes "service_request_GET cs now req i w = (Inr resp, w')" "res_ok resp"
  shows "\<exists>ctx r. requireAuth cs = Inr ctx \<and> r \<in> set (serviceRequests (rt_db w)) \<and> sr_id r = i \<and>
    owned_by (ac_orgId ctx) (rt_db w) r \<and>
    json_prop (res_body resp) ''status'' = Some (JStr (status_text (sr_status r)))"
  using service_GET_outcome [OF assms(1)] assms(2)
  by (elim conjE disjE exE) (auto simp: res_ok_def rejections service_json_def dest!: service_of_org_Some)

lemma service_GET_orgless:
  assumes "\<not> truthy (cs_orgId cs)"
  obtains resp where "fst (service_request_GET cs now req i w) = Inr resp" "\<not> res_ok resp"
proof -
  obtain resp where g: "fst (service_request_GET cs now req i w) = Inr resp" using service_GET_returns by metis
  then have "service_request_GET cs now req i w = (Inr resp, snd (service_request_GET cs now req i w))"
    by (metis prod.collapse)
  from service_GET_outcome [OF this] assms have "\<not> res_ok resp"
    by (auto simp: res_ok_def rejections requireAuth_def split: if_splits)
  with g show thesis by (rule that)
qed

text \<open>C31. What the poller shows is what the database says: when a tick changes the status shown, the caller has an
  organization that owns a request with this id, and the new status is the status of that row; a status
  that is final is never changed again. A filer without an organization, who files and opens requests all the
  same, never sees a change: whatever happens to the database between the ticks, the status stays the first one.\<close>

theorem live_status_follows:
  "(live_poll cs req i now w st \<noteq> st \<longrightarrow>
      lv_status st \<notin> set TERMINAL \<and>
      (\<exists>ctx r. requireAuth cs = Inr ctx \<and> r \<in> set (serviceRequests (rt_db w)) \<and> sr_id r = i \<and>
         owned_by (ac_orgId ctx) (rt_db w) r \<and> lv_status (live_poll cs req i now w st) = status_text (sr_status r))) \<and>
   (\<not> truthy (cs_orgId cs) \<longrightarrow>
      fold (\<lambda>(now, w) st. live_poll cs req i now w st) (ticks :: (date \<times> 'h route_state) list) st = st)"
proof (intro conjI impI)
  assume c: "live_poll cs req i now w st \<noteq> st"
  then show "lv_status st \<notin> set TERMINAL" using live_tick_terminal by (auto simp: live_poll_def)
next
  assume c: "live_poll cs req i now w st \<noteq> st"
  then obtain resp s where g: "fst (service_request_GET cs now req i w) = Inr resp" and ok: "res_ok resp"
      and s: "json_prop (res_body resp) ''status'' = Some (JStr s)" and n: "lv_status (live_poll cs req i now w st) = s"
    by (auto simp: live_poll_def live_tick_def json_str_Some_iff split: if_splits sum.splits option.splits)
  obtain w' where run: "service_request_GET cs now req i w = (Inr resp, w')" using g by (metis prod.collapse)
  show "\<exists>ctx r. requireAuth cs = Inr ctx \<and> r \<in> set (serviceRequests (rt_db w)) \<and> sr_id r = i \<and>
         owned_by (ac_orgId ctx) (rt_db w) r \<and> lv_status (live_poll cs req i now w st) = status_text (sr_status r)"
    using service_GET_ok [OF run ok] s n by auto
next
  assume o: "\<not> truthy (cs_orgId cs)"
  have "live_poll cs req i now w st = st" for now and w :: "'h route_state" and st
    by (rule service_GET_orgless [OF o, of now req i w]) (auto simp: live_poll_def live_tick_def)
  then show "fold (\<lambda>(now, w) st. live_poll cs req i now w st) ticks st = st"
    by (induction ticks) auto
qed

definition shown_status :: "string \<Rightarrow> live_status" where
  "shown_status s = \<lparr>lv_status = s, lv_refreshes = 0\<rparr>"

lemma sample_read:
  "fst (service_request_GET (filer (Some ''org_1'')) 0 sample_filing ''r1'' route_world) =
     Inr (json_response 200 (service_json sample_request None None))"
  by (simp add: service_request_GET_def andThen_def rt_limit_def api_rateLimit_def ret_def requireAuth_def filer_def
      service_of_org_def owned_by_def route_world_def na_find_def cp_find_def sample_defs)

theorem live_status_follows_witness:
  "lv_status (live_poll (filer (Some ''org_1'')) sample_filing ''r1'' 0 route_world (shown_status ''IN_PROGRESS'')) = ''STAGED'' \<and>
   fold (\<lambda>(now, w) st. live_poll (filer None) sample_filing ''r1'' now w st) [(0, route_world), (5000, route_world)]
     (shown_status ''IN_PROGRESS'') = shown_status ''IN_PROGRESS''"
proof
  let ?st = "live_poll (filer (Some ''org_1'')) sample_filing ''r1'' 0 route_world (shown_status ''IN_PROGRESS'')"
  have "json_prop (service_json sample_request None None) ''status'' = Some (JStr ''STAGED'')"
    by (simp add: service_json_def status_text_def sample_request_def)
  then have "lv_status ?st = ''STAGED''"
    by (simp add: live_poll_def sample_read live_tick_def res_ok_def shown_status_def TERMINAL_def)
  then have c: "?st \<noteq> shown_status ''IN_PROGRESS''" by (auto simp: shown_status_def)
  from conjunct1 [OF live_status_follows, THEN mp, OF c] \<open>lv_status ?st = ''STAGED''\<close>
  show "lv_status ?st = ''STAGED''" by blast
  have "\<not> truthy (cs_orgId (filer None))" by (simp add: filer_def)
  from conjunct2 [OF live_status_follows, THEN mp, OF this]
  show "fold (\<lambda>(now, w) st. live_poll (filer None) sample_filing ''r1'' now w st) [(0, route_world), (5000, route_world)]
     (shown_status ''IN_PROGRESS'') = shown_status ''IN_PROGRESS''" .
qed

subsection \<open>The form and the schema\<close>

lemma form_parses:
  assumes "0 < length (js_trim (fo_caseCaption st))" "length (js_trim (fo_caseCaption st)) \<le> 500"
    and "0 < length (js_trim (fo_plaintiffName st))" "length (js_trim (fo_plaintiffName st)) \<le> 300"
    and "0 < length (js_trim (fo_defendantName st))" "length (js_trim (fo_defendantName st)) \<le> 300"
    and "0 < length (js_trim (fo_recipientWallet st))" "length (js_trim (fo_recipientWallet st)) \<le> 255"
  shows "ServiceRequestInput (intake_body st) =
    (if fo_attested st then
       Some \<lparr>ri_caseCaption = js_trim (fo_caseCaption st), ri_plaintiffName = js_trim (fo_plaintiffName st),
         ri_defendantName = js_trim (fo_defendantName st), ri_recipientWallet = js_trim (fo_recipientWallet st),
         ri_recipientEnsName =
           (if looksLikeENSName (fo_recipientWallet st) then Some (js_trim (fo_recipientWallet st)) else None),
         ri_recipientResolvedAddress = map_option js_trim (fo_resolvedAddress st), ri_courtOrderFlag = fo_courtOrderFlag st\<rparr>
     else None)"
proof -
  have t: "z_text 1 (Some hi) (Some (JStr s)) = Some (js_trim s)" if "0 < length (js_trim s)" "length (js_trim s) \<le> hi" for s hi
    using that by (simp add: z_text_def Let_def Suc_le_eq not_less)
  have w: "z_text 1 None (Some (JStr s)) = Some (js_trim s)" if "0 < length (js_trim s)" for s
    using that by (simp add: z_text_def Let_def Suc_le_eq not_less)
  have e: "z_nullish (z_text 1 (Some 255)) (Some (if looksLikeENSName (fo_recipientWallet st)
        then JStr (js_trim (fo_recipientWallet st)) else JNull)) =
      Some (if looksLikeENSName (fo_recipientWallet st) then Some (js_trim (fo_recipientWallet st)) else None)"
    using assms(7,8) t [of "js_trim (fo_recipientWallet st)" 255] by (simp add: z_nullish_def)
  have a: "z_nullish (z_text 0 None) (Some (json_of_str r)) = Some (map_option js_trim r)" for r
    by (cases r) (simp_all add: z_nullish_def json_of_str_def z_text_def Let_def)
  show ?thesis
    unfolding ServiceRequestInput_def
    by (simp add: intake_body_def t [OF assms(1,2), simplified] t [OF assms(3,4), simplified] t [OF assms(5,6), simplified]
        w [OF assms(7), simplified] e [simplified] a z_flag_def)
qed

text \<open>What the form sends is what the schema takes: with the attestation given and the texts, once trimmed, not empty
  and within the limits, the body parses to the trimmed values, with the name the filer typed when
  the recipient looks like one; without the attestation it never parses.\<close>

theorem form_meets_schema:
  assumes "0 < length (js_trim (fo_caseCaption st))" "length (js_trim (fo_caseCaption st)) \<le> 500"
    and "0 < length (js_trim (fo_plaintiffName st))" "length (js_trim (fo_plaintiffName st)) \<le> 300"
    and "0 < length (js_trim (fo_defendantName st))" "length (js_trim (fo_defendantName st)) \<le> 300"
    and "0 < length (js_trim (fo_recipientWallet st))" "length (js_trim (fo_recipientWallet st)) \<le> 255"
  shows "ServiceRequestInput (intake_body st) =
    (if fo_attested st then
       Some \<lparr>ri_caseCaption = js_trim (fo_caseCaption st), ri_plaintiffName = js_trim (fo_plaintiffName st),
         ri_defendantName = js_trim (fo_defendantName st), ri_recipientWallet = js_trim (fo_recipientWallet st),
         ri_recipientEnsName =
           (if looksLikeENSName (fo_recipientWallet st) then Some (js_trim (fo_recipientWallet st)) else None),
         ri_recipientResolvedAddress = map_option js_trim (fo_resolvedAddress st), ri_courtOrderFlag = fo_courtOrderFlag st\<rparr>
     else None)"
  using assms by (rule form_parses)

definition sample_form :: "string \<Rightarrow> bool \<Rightarrow> intake_form" where
  "sample_form wallet attested =
     \<lparr>fo_caseCaption = ''A v. B'', fo_plaintiffName = ''A'', fo_defendantName = ''B'', fo_recipientWallet = wallet,
      fo_courtOrderFlag = False, fo_attested = attested, fo_resolvedAddress = None, fo_ensError = None\<rparr>"

lemma sample_name_trims: "js_trim ''b.eth'' = ''b.eth''"
  by (simp add: js_trim_def is_space_def code_unit_def)

theorem form_meets_schema_witness:
  "Option.bind (ServiceRequestInput (intake_body (sample_form ''b.eth'' True))) ri_recipientEnsName = Some ''b.eth'' \<and>
   ServiceRequestInput (intake_body (sample_form ''b.eth'' False)) = None"
proof -
  have n: "looksLikeENSName ''b.eth''" by (simp add: looksLikeENSName_def sample_name_trims re_evm_address_def)
  have l: "0 < length (js_trim (fo_caseCaption (sample_form ''b.eth'' x)))" "length (js_trim (fo_caseCaption (sample_form ''b.eth'' x))) \<le> 500"
      "0 < length (js_trim (fo_plaintiffName (sample_form ''b.eth'' x)))" "length (js_trim (fo_plaintiffName (sample_form ''b.eth'' x))) \<le> 300"
      "0 < length (js_trim (fo_defendantName (sample_form ''b.eth'' x)))" "length (js_trim (fo_defendantName (sample_form ''b.eth'' x))) \<le> 300"
      "0 < length (js_trim (fo_recipientWallet (sample_form ''b.eth'' x)))" "length (js_trim (fo_recipientWallet (sample_form ''b.eth'' x))) \<le> 255" for x
    by (simp_all add: sample_form_def sample_trims sample_name_trims)
  from form_meets_schema [OF l [of True]] form_meets_schema [OF l [of False]] n show ?thesis
    by (simp add: sample_form_def sample_name_trims)
qed

subsection \<open>From the form to the dashboard\<close>

lemma filed_is_listed:
  assumes "filed dr ctx inp wallet display d d'" "cs_userId cs = Some (uc_userId ctx)" "uc_userId ctx \<noteq> []"
  shows "\<exists>b rows row. DashboardPage cs params d' = Shown (b, rows) \<and> b = banner params \<and> row \<in> set rows \<and>
    row_href row = ''/dashboard/'' @ rd_requestId dr \<and> row_caption row = ri_caseCaption inp"
proof -
  obtain r where r: "sr_find (rd_requestId dr) d' = Some r" "sr_userId r = Some (uc_userId ctx)"
      "caseCaption r = ri_caseCaption inp"
    using assms(1) by (auto simp: filed_def)
  then have "service_row_of d' r \<in> set (map (service_row_of d') (services_of (uc_userId ctx) d'))" (is "?row \<in> set ?rows")
    by (simp add: services_of_scoped sr_find_def row_find_in)
  moreover have "DashboardPage cs params d' = Shown (banner params, ?rows)"
    using assms(2,3) by (simp add: DashboardPage_def)
  moreover have "sr_id r = rd_requestId dr" using r(1) by (auto simp: sr_find_def dest: row_find_key)
  then have "row_href ?row = ''/dashboard/'' @ rd_requestId dr" "row_caption ?row = ri_caseCaption inp"
    using r(3) by (simp_all add: service_row_of_def)
  ultimately show ?thesis by blast
qed

lemma parsed_form:
  assumes "ServiceRequestInput (intake_body form) = Some inp"
  shows "fo_attested form \<and> ri_caseCaption inp = js_trim (fo_caseCaption form)"
proof -
  have "json_prop (intake_body form) ''attested'' = Some (JBool (fo_attested form))"
      "json_prop (intake_body form) ''caseCaption'' = Some (JStr (fo_caseCaption form))"
    by (simp_all add: intake_body_def)
  with assms show ?thesis
    by (auto simp: ServiceRequestInput_def z_text_def Let_def split: option.splits if_splits)
qed

text \<open>C13. A submission does what it tells the filer. Either the browser is sent on to the dashboard, and then the
  request has been filed under a new id with the trimmed caption of the form, and the dashboard of the filer shows
  the banner of success and lists it with a link to its page; or the filer stays, sees an error, can submit
  again, and no request was filed. The attestation was given, and the session was signed in, whenever one was.\<close>

theorem submission_is_listed:
  assumes "onSubmit reason (service_requests_POST deps cs dr) form st w = (st', w')" "su_location st = None"
  shows "if su_location st' = None
    then su_error st' \<noteq> None \<and> \<not> su_submitting st' \<and> serviceRequests (rt_db w') = serviceRequests (rt_db w)
    else su_location st' = Some ''/dashboard?staged=1'' \<and> su_error st' = None \<and> fo_attested form \<and>
      sr_find (rd_requestId dr) (rt_db w) = None \<and>
      (\<exists>rows row. DashboardPage cs ((\<lambda>_. None)(''staged'' := Some ''1'')) (rt_db w') =
           Shown (Some ''Service request staged successfully.'', rows) \<and>
         row \<in> set rows \<and> row_href row = ''/dashboard/'' @ rd_requestId dr \<and>
         row_caption row = js_trim (fo_caseCaption form))"
proof -
  obtain r where run: "service_requests_POST deps cs dr (client_request [] (Some (intake_body form))) w = (r, w')"
      and st': "(st', w') = onSubmit reason (\<lambda>_ _. (r, w')) form st w"
    using assms(1) by (cases "service_requests_POST deps cs dr (client_request [] (Some (intake_body form))) w")
      (auto simp: onSubmit_def Let_def split: sum.splits if_splits)
  from run show ?thesis
  proof (cases rule: filing_cases)
    case (thrown e)
    with st' assms(2) show ?thesis by (simp add: onSubmit_def Let_def)
  next
    case (refused resp)
    with st' assms(2) show ?thesis by (simp add: onSubmit_def Let_def res_ok_def)
  next
    case (staged resp ctx inp wallet display)
    then have parsed: "ServiceRequestInput (intake_body form) = Some inp" by (simp add: client_request_def)
    have u: "cs_userId cs = Some (uc_userId ctx)" "uc_userId ctx \<noteq> []"
      using staged(3) by (auto simp: requireUser_def truthy_iff no_session_def split: if_splits)
    obtain b rows row where "DashboardPage cs ((\<lambda>_. None)(''staged'' := Some ''1'')) (rt_db w') = Shown (b, rows)"
        "b = banner ((\<lambda>_. None)(''staged'' := Some ''1''))" "row \<in> set rows"
        "row_href row = ''/dashboard/'' @ rd_requestId dr" "row_caption row = ri_caseCaption inp"
      using filed_is_listed [OF staged(6) u] by metis
    moreover have "banner ((\<lambda>_. None)(''staged'' := Some ''1'')) = Some ''Service request staged successfully.''"
      by (simp add: banner_def)
    ultimately show ?thesis
      using st' staged parsed_form [OF parsed] by (auto simp: onSubmit_def Let_def res_ok_def filed_def)
  qed
qed

lemma sample_form_parses: "ServiceRequestInput (intake_body (sample_form sample_wallet True)) = Some sample_input"
proof -
  have "length sample_wallet = 42" by (simp add: sample_wallet_def)
  moreover have "\<not> looksLikeENSName sample_wallet" by (simp add: looksLikeENSName_def sample_wallet_valid)
  ultimately show ?thesis
    by (subst form_parses) (simp_all add: sample_form_def sample_trims sample_wallet_valid sample_input_def)
qed

theorem submission_is_listed_witness:
  "\<exists>rows. DashboardPage (filer None) ((\<lambda>_. None)(''staged'' := Some ''1''))
      (rt_db (snd (onSubmit (\<lambda>_. []) (service_requests_POST route_sdk (filer None) (route_sample (\<lambda>_. None)))
        (sample_form sample_wallet True) \<lparr>su_error = None, su_fieldErrors = JObj [], su_submitting = False, su_location = None\<rparr>
        route_world))) = Shown (Some ''Service request staged successfully.'', rows) \<and> ''/dashboard/r2'' \<in> row_href ` set rows"
proof -
  let ?post = "service_requests_POST route_sdk (filer None) (route_sample (\<lambda>_. None))"
  let ?st = "\<lparr>su_error = None, su_fieldErrors = JObj [], su_submitting = False, su_location = None\<rparr>"
  let ?run = "onSubmit (\<lambda>_. []) ?post (sample_form sample_wallet True) ?st route_world"
  have "fst (?post (client_request [] (Some (intake_body (sample_form sample_wallet True)))) route_world) = Inr sample_staged"
    using sample_POST [of "client_request [] (Some (intake_body (sample_form sample_wallet True)))", OF _ sample_resolves]
      sample_form_parses
    by (metis bind.bind_lunit client_request_def fst_conv request.select_convs(4))
  then have "su_location (fst ?run) = Some ''/dashboard?staged=1''"
    by (auto simp: onSubmit_def Let_def sample_staged_def res_ok_def split: prod.split)
  with submission_is_listed [of "\<lambda>_. []" route_sdk "filer None" "route_sample (\<lambda>_. None)" "sample_form sample_wallet True"
      ?st route_world "fst ?run" "snd ?run"]
  obtain rows row where "DashboardPage (filer None) ((\<lambda>_. None)(''staged'' := Some ''1'')) (rt_db (snd ?run)) =
        Shown (Some ''Service request staged successfully.'', rows)" "row \<in> set rows" "row_href row = ''/dashboard/'' @ ''r2''"
    by (auto simp: route_sample_def)
  then show ?thesis by (intro exI [of _ rows] conjI) (auto intro: rev_image_eqI)
qed

subsection \<open>Two requests the handlers always refuse\<close>

lemma resolve_GET_input:
  "resolve_GET message lookup (client_request [(''input'', v)] None) = error_response 400 ''input required, min 3 chars''"
  by (simp add: resolve_GET_def query_get_def client_request_def js_trim_def js_lower_def)

lemma flow_session_without_email:
  "\<exists>resp. flow_session_POST fetch env cs now (client_request [] (Some (crypto_body now t))) s = (Inr resp, s) \<and>
     (res_status resp = 400 \<or> res_status resp = 401)"
  by (simp add: flow_session_POST_def client_request_def crypto_body_def json_truthy_def ret_def Let_def)

text \<open>C27. Two buttons of the pages never work, whatever the services behind them answer: the form asks the resolver with
  a parameter the route does not read, so no name is ever verified and every name is shown as one that could
  not be; and the crypto button sends an empty email, which the route takes for a missing one, so no payment link
  is ever made, nobody is sent to a checkout, and the payment provider is never called.\<close>

theorem refused_by_the_handlers:
  "fo_resolvedAddress (ens_effect (\<lambda>req. Inr (resolve_GET message lookup req)) st) = None \<and>
   fo_ensError (ens_effect (\<lambda>req. Inr (resolve_GET message lookup req)) st) =
     (if looksLikeENSName (js_trim (fo_recipientWallet st)) then Some not_verified else None) \<and>
   (\<exists>message. getCryptoPaymentLink (flow_session_POST fetch env cs now) now t p c =
     (p\<lparr>pr_cryptoError := Some message, pr_cryptoUrl := None\<rparr>, c))"
proof (intro conjI)
  obtain resp where f: "flow_session_POST fetch env cs now (client_request [] (Some (crypto_body now t))) c = (Inr resp, c)"
      and r: "res_status resp = 400 \<or> res_status resp = 401"
    using flow_session_without_email by metis
  from r have "\<not> res_ok resp" "res_status resp \<noteq> 503" by (auto simp: res_ok_def)
  then show "\<exists>message. getCryptoPaymentLink (flow_session_POST fetch env cs now) now t p c =
      (p\<lparr>pr_cryptoError := Some message, pr_cryptoUrl := None\<rparr>, c)"
    unfolding getCryptoPaymentLink_def Let_def f
    by (intro exI [of _ "error_or ''Could not create crypto payment link. Please pay with card.'' (res_body resp)"]) simp
qed (simp_all add: ens_effect_def resolve_GET_input res_ok_def Let_def)

end
