(* ===== verification/Pages.thy ===== *)
theory Pages
  imports Dashboard Notice
begin

text \<open>
  What the pages show beyond the lists and forms of Dashboard: the cover sheet of a notice
  (app/n/[token]/page.tsx), the panel of the Hedera proof (app/dashboard/[id]/page.tsx), the badge of
  LiveStatus.tsx, the identity of the agent (AgentIdentity.tsx) and the cards of app/pricing/page.tsx. A page is
  the record of the values and links it renders; layout and fixed texts are left out. The ellipsis and the arrow
  are written as their UTF-8 bytes.
\<close>

subsection \<open>The cover sheet\<close>

definition ellipsis :: string where "ellipsis = map char_of [226::nat, 128, 166]"

definition truncateWallet :: "string \<Rightarrow> string" where
  "truncateWallet addr =
     (if length addr \<le> 12 then addr else take 4 addr @ ellipsis @ drop (length addr - 4) addr)"

definition notice_date :: "date option \<Rightarrow> string" where
  "notice_date t = (case t of None \<Rightarrow> ''Pending confirmation''
     | Some x \<Rightarrow> replace_millis '' UTC'' (replace_first (CHR ''T'') '' '' (toISOString x)))"

record cover_sheet =
  cv_caption :: string
  cv_plaintiff :: string
  cv_defendant :: string
  cv_recipient :: string
  cv_recipientTitle :: string
  cv_serviceDate :: string
  cv_transaction :: "(string \<times> string) option" \<comment> \<open>the signature and its link\<close>
  cv_certificate :: string

definition cover_sheet_of :: "notice_view \<Rightarrow> cover_sheet" where
  "cover_sheet_of n =
     \<lparr>cv_caption = nv_caseCaption n, cv_plaintiff = nv_plaintiffName n, cv_defendant = nv_defendantName n,
      cv_recipient = truncateWallet (nv_recipientWallet n), cv_recipientTitle = nv_recipientWallet n,
      cv_serviceDate = notice_date (nv_blockTime n),
      cv_transaction = (if truthy (nv_txSignature n)
        then Some (the (nv_txSignature n), solscanTxUrl (the (nv_txSignature n))) else None),
      cv_certificate = ''/api/n/'' @ (case nv_noticeToken n of None \<Rightarrow> [] | Some t \<Rightarrow> t) @ ''/certificate''\<rparr>"

subsection \<open>The proof panel\<close>

text \<open>Each entry is what is shown and the link it has, if any.\<close>

datatype proof_panel =
    Not_Anchored
  | Anchored "string \<times> string" "int option" "(string \<times> string) option" "(int \<times> string) option"

definition hashscan :: "string \<Rightarrow> string \<Rightarrow> string" where
  "hashscan kind i = ''https://hashscan.io/testnet/'' @ kind @ ''/'' @ i"

definition proof_panel_of :: "hedera_fields \<Rightarrow> proof_panel" where
  "proof_panel_of h =
     (if truthy (hcsTopicId h) then
        Anchored (the (hcsTopicId h), hashscan ''topic'' (the (hcsTopicId h))) (hcsSequenceNumber h)
          (if truthy (htsTokenId h) then Some (the (htsTokenId h), hashscan ''token'' (the (htsTokenId h))) else None)
          (if htsNftSerial h \<noteq> None \<and> truthy (htsTransferTx h)
           then Some (the (htsNftSerial h), hashscan ''transaction'' (the (htsTransferTx h))) else None)
      else Not_Anchored)"

subsection \<open>The badge of the live status\<close>

definition STATUS_LABEL :: "service_status \<Rightarrow> string" where
  "STATUS_LABEL s =
     (case s of STAGED \<Rightarrow> ''Staged'' | IN_PROGRESS \<Rightarrow> ''Processing'' | CONFIRMED \<Rightarrow> ''Delivered'' | FAILED \<Rightarrow> ''Failed'')"

definition STATUS_BADGE :: "service_status \<Rightarrow> string" where
  "STATUS_BADGE s =
     (case s of STAGED \<Rightarrow> ''bg-amber-100 text-amber-800'' | IN_PROGRESS \<Rightarrow> ''bg-blue-100 text-blue-800''
      | CONFIRMED \<Rightarrow> ''bg-green-100 text-green-800'' | FAILED \<Rightarrow> ''bg-red-100 text-red-800'')"

definition live_badge :: "service_status \<Rightarrow> bool \<times> string \<times> string" where
  "live_badge s = (status_text s \<notin> set TERMINAL, STATUS_BADGE s, STATUS_LABEL s)"

subsection \<open>The identity of the agent\<close>

record agent_identity =
  ai_address :: string
  ai_description :: "string option"
  ai_url :: "string option"
  ai_badge :: string

definition json_at :: "json option \<Rightarrow> string \<Rightarrow> json option" where
  \<comment> \<open>\<open>a?.key\<close>\<close>
  "json_at a key = Option.bind a (\<lambda>v. json_prop v key)"

definition agent_identity_of :: "json option \<Rightarrow> agent_identity" where
  "agent_identity_of agent =
     \<lparr>ai_address = (case json_str (json_at agent ''agentAddress'') of
        None \<Rightarrow> ''0xd116A147A95f406a4A4F589c44d588cfE58ef6E0'' | Some a \<Rightarrow> a),
      ai_description = shown_link (json_str (json_at (json_at agent ''textRecords'') ''description'')),
      ai_url = shown_link (json_str (json_at (json_at agent ''textRecords'') ''url'')),
      ai_badge = (if json_truthy (json_at agent ''ensip26Compliant'') then ''ENSIP-26 '' @ map char_of [226::nat, 156, 147]
        else ''ENSIP-26 pending'')\<rparr>"

text \<open>The effect keeps whatever body parses, also that of an error.\<close>

definition agent_effect :: "response result \<Rightarrow> json option" where
  "agent_effect answer = (case answer of Inl _ \<Rightarrow> None | Inr resp \<Rightarrow> Some (res_body resp))"

subsection \<open>The cards of the pricing page\<close>

record tier_card =
  tc_id :: tier
  tc_name :: string
  tc_price :: string
  tc_cadence :: string
  tc_blurb :: string
  tc_features :: "string list"
  tc_highlighted :: bool

definition TIER_CARDS :: "tier_card list" where
  "TIER_CARDS =
     [\<lparr>tc_id = Tier1, tc_name = ''Tier 1'', tc_price = ''$200'', tc_cadence = ''/month'', tc_blurb = ''For occasional filers.'',
       tc_features = [''1 service per month'', ''Court-ready proof certificate'', ''On-chain delivery record''],
       tc_highlighted = False\<rparr>,
      \<lparr>tc_id = Tier2, tc_name = ''Tier 2'', tc_price = ''$600'', tc_cadence = ''/month'', tc_blurb = ''For active practices.'',
       tc_features = [''9 services per month'', ''Court-ready proof certificate'', ''On-chain delivery record''],
       tc_highlighted = True\<rparr>,
      \<lparr>tc_id = Tier3, tc_name = ''Tier 3'', tc_price = ''$1000'', tc_cadence = ''/month'', tc_blurb = ''For high-volume firms.'',
       tc_features = [''999 services per month'', ''Court-ready proof certificate'', ''On-chain delivery record''],
       tc_highlighted = False\<rparr>]"

datatype payment_button = Subscribe | Demo_Continue string | Crypto_Link

definition button_of :: "bool \<Rightarrow> string \<Rightarrow> payment_button" where
  \<comment> \<open>the tab that is open\<close>
  "button_of demo tab =
     (if tab = ''card'' then Subscribe else if demo then Demo_Continue ''/dashboard?paid=demo'' else Crypto_Link)"

text \<open>The tabs: going back to the card forgets the crypto link, going to crypto keeps an earlier one.\<close>

definition choose_card :: "pricing_state \<Rightarrow> pricing_state" where
  "choose_card st = st\<lparr>pr_error := None, pr_cryptoError := None, pr_cryptoUrl := None\<rparr>"

definition choose_crypto :: "pricing_state \<Rightarrow> pricing_state" where
  "choose_crypto st = st\<lparr>pr_error := None\<rparr>"

subsection \<open>The fields of the intake form\<close>

definition setRecipientWallet :: "string \<Rightarrow> intake_form \<Rightarrow> intake_form" where
  "setRecipientWallet v st = st\<lparr>fo_recipientWallet := v\<rparr>"

text \<open>What stands under the recipient: a spinner, the address with the avatar of the name, or a warning.\<close>

datatype ens_hint = No_Hint | Resolving | Resolves_To string string | Warning string

definition ens_hint_of :: "bool \<Rightarrow> intake_form \<Rightarrow> ens_hint" where
  "ens_hint_of ensResolving st =
     (if ensResolving then Resolving
      else if truthy (fo_resolvedAddress st) then
        Resolves_To (''https://metadata.ens.domains/mainnet/avatar/'' @ js_trim (fo_recipientWallet st))
          (the (fo_resolvedAddress st))
      else if truthy (fo_ensError st) then Warning (the (fo_ensError st)) else No_Hint)"

definition submit_enabled :: "intake_form \<Rightarrow> submit_state \<Rightarrow> bool" where
  "submit_enabled form st \<longleftrightarrow> \<not> (su_submitting st \<or> \<not> fo_attested form)"

definition field_message :: "string list option \<Rightarrow> string option" where
  \<comment> \<open>\<open>errors?.length ? errors.join(" ") : null\<close>\<close>
  "field_message errors =
     (case errors of None \<Rightarrow> None | Some es \<Rightarrow> if es = [] then None else Some (join_with '' '' es))"

subsection \<open>The fields of the upload form and of the page of a service\<close>

definition choose_file :: "upload_file option \<Rightarrow> upload_state \<Rightarrow> upload_state" where
  "choose_file f st = st\<lparr>us_file := f, us_done := False, us_error := None\<rparr>"

text \<open>Label and value; the name a request was served under stands before the wallet. \<open>to_locale\<close> formats a date.\<close>

definition detail_rows :: "(date \<Rightarrow> string) \<Rightarrow> service_request \<Rightarrow> (string \<times> string) list" where
  "detail_rows to_locale r =
     [(''Plaintiff'', plaintiffName r), (''Defendant'', defendantName r)] @
     (if truthy (recipientEnsName r) then [(''Served to'', the (recipientEnsName r)), ([], recipientWallet r)]
      else [(''Recipient wallet'', recipientWallet r)]) @
     [(''Created'', to_locale (sr_createdAt r))]"

subsection \<open>Lemmas\<close>

lemma cover_sheet_keeps_evidence:
  "cv_recipientTitle (cover_sheet_of (notice_view_of r)) = recipientWallet r"
  "cv_transaction (cover_sheet_of (notice_view_of r)) \<noteq> None \<longleftrightarrow> truthy (txSignature r)"
  by (simp_all add: cover_sheet_of_def notice_view_of_def)

lemma truncateWallet_length: "length (truncateWallet a) \<le> 12"
  by (simp add: truncateWallet_def ellipsis_def)

lemma live_badge_polls: "fst (live_badge s) \<longleftrightarrow> s = STAGED \<or> s = IN_PROGRESS"
  by (cases s) (simp_all add: live_badge_def status_text_def TERMINAL_def)

text \<open>Editing the recipient leaves the address of the previous name in the form until the next lookup has settled:
  submitted before, the request is filed under the new name with the old wallet, if the server finds none.\<close>

lemma stale_address_filed:
  assumes "ServiceRequestInput (intake_body (setRecipientWallet v st)) = Some inp"
    and "looks_like_name (js_trim v)" "\<not> truthy (er_address (resolveENS ens (js_trim v)))"
    and "fo_resolvedAddress st = Some a" "re_evm_address (js_trim a)"
  shows "resolve_recipient ens inp = Inr (js_trim a, Some (js_trim v))"
proof -
  have "json_prop (intake_body (setRecipientWallet v st)) ''recipientWallet'' = Some (JStr v)"
    "json_prop (intake_body (setRecipientWallet v st)) ''recipientResolvedAddress'' = Some (JStr a)"
    using assms(4) by (simp_all add: intake_body_def setRecipientWallet_def json_of_str_def)
  with assms(1) have "ri_recipientWallet inp = js_trim v" "ri_recipientResolvedAddress inp = Some (js_trim a)"
    by (auto simp: ServiceRequestInput_def z_text_def z_nullish_def Let_def split: option.splits if_splits)
  moreover have "js_trim a \<noteq> []" using assms(5) by (auto simp: re_evm_address_def)
  ultimately show ?thesis using assms(2,3,5) by (auto simp: resolve_recipient_def Let_def truthy_iff)
qed

end
