(* ===== verification/Provisioning.thy ===== *)
theory Provisioning
  imports Pages
begin

text \<open>
  scripts/stripe-bootstrap.ts: the catalogue of products, prices and the coupon that the billing of the
  program sells from, created in an account of the payment provider or found there. The account is a state
  of any type; the calls of the provider's client are the record \<open>catalog_sdk\<close>. What the script prints is left out.
\<close>

record product =
  pd_id :: string
  pd_default_price :: "string option"

record price =
  pc_id :: string
  pc_bootstrapKey :: "string option"
  pc_unit_amount :: "int option"
  pc_currency :: string
  pc_interval :: "string option"

record coupon =
  co_id :: string
  co_bootstrapKey :: "string option"

record new_price =
  np_product :: string
  np_currency :: string
  np_unit_amount :: int
  np_interval :: string
  np_bootstrapKey :: string

record new_coupon =
  nc_id :: string
  nc_name :: string
  nc_percent_off :: int
  nc_duration_in_months :: int
  nc_bootstrapKey :: string

record 's catalog_sdk =
  products_search :: "string \<Rightarrow> ('s, product list) act"
  products_create :: "string \<Rightarrow> string \<Rightarrow> ('s, product) act" \<comment> \<open>name and bootstrapKey\<close>
  products_set_default :: "string \<Rightarrow> string \<Rightarrow> ('s, unit) act"
  prices_list :: "string \<Rightarrow> ('s, price list) act" \<comment> \<open>the active ones of a product, all pages\<close>
  prices_create :: "new_price \<Rightarrow> ('s, price) act"
  coupons_list :: "('s, coupon list) act"
  coupons_create :: "new_coupon \<Rightarrow> ('s, coupon) act"

subsection \<open>The script\<close>

record catalog_tier =
  ct_key :: string
  ct_name :: string
  ct_unitAmount :: int
  ct_envVar :: string

definition TIERS :: "catalog_tier list" where
  "TIERS =
     [\<lparr>ct_key = ''eps_tier1'', ct_name = ''EPS Tier 1'', ct_unitAmount = 20000, ct_envVar = ''STRIPE_TIER1_PRICE_ID''\<rparr>,
      \<lparr>ct_key = ''eps_tier2'', ct_name = ''EPS Tier 2'', ct_unitAmount = 60000, ct_envVar = ''STRIPE_TIER2_PRICE_ID''\<rparr>,
      \<lparr>ct_key = ''eps_tier3'', ct_name = ''EPS Tier 3'', ct_unitAmount = 100000, ct_envVar = ''STRIPE_TIER3_PRICE_ID''\<rparr>]"

definition COUPON :: new_coupon where
  "COUPON =
     \<lparr>nc_id = ''EARLYADOPTER50'', nc_name = ''Early Adopter 50% Off'', nc_percent_off = 50, nc_duration_in_months = 12,
      nc_bootstrapKey = ''eps_earlyadopter50''\<rparr>"

definition CURRENCY :: string where "CURRENCY = ''usd''"

definition assertTestMode :: "string \<Rightarrow> unit result" where
  "assertTestMode key =
     (if key = [] then Inl (PlainError ''STRIPE_SECRET_KEY is not set. Use a test-mode key (sk_test_...).'')
      else if prefix ''sk_live_'' key \<or> prefix ''rk_live_'' key then
        Inl (PlainError ''Refusing to run against a LIVE Stripe key. EPS bootstrap is test-mode only (CLAUDE.md hard rule #7).'')
      else Inr ())"

definition search_query :: "string \<Rightarrow> string" where
  "search_query key =
     ''metadata['' @ [char_of (39::nat)] @ ''bootstrapKey'' @ [char_of (39::nat)] @ '']:'' @ [char_of (39::nat)] @ key @ [char_of (39::nat)]"

definition findProductByKey :: "'s catalog_sdk \<Rightarrow> string \<Rightarrow> ('s, product option) act" where
  "findProductByKey sdk key =
     andThen (products_search sdk (search_query key)) (\<lambda>found.
     ret (case found of [] \<Rightarrow> None | p # _ \<Rightarrow> Some p))"

definition price_matches :: "string \<Rightarrow> int \<Rightarrow> price \<Rightarrow> bool" where
  "price_matches key amount p =
     (pc_bootstrapKey p = Some key \<and> pc_unit_amount p = Some amount \<and> pc_currency p = CURRENCY \<and>
      pc_interval p = Some ''month'')"

definition findPriceByKey :: "'s catalog_sdk \<Rightarrow> string \<Rightarrow> string \<Rightarrow> int \<Rightarrow> ('s, price option) act" where
  "findPriceByKey sdk productId key amount =
     andThen (prices_list sdk productId) (\<lambda>ps. ret (List.find (price_matches key amount) ps))"

definition findCouponByKey :: "'s catalog_sdk \<Rightarrow> string \<Rightarrow> ('s, coupon option) act" where
  "findCouponByKey sdk key =
     andThen (coupons_list sdk) (\<lambda>cs. ret (List.find (\<lambda>c. co_bootstrapKey c = Some key) cs))"

definition upsertTier :: "'s catalog_sdk \<Rightarrow> catalog_tier \<Rightarrow> ('s, string) act" where
  "upsertTier sdk tier =
     andThen (findProductByKey sdk (ct_key tier)) (\<lambda>existing.
     andThen (case existing of Some p \<Rightarrow> ret p | None \<Rightarrow> products_create sdk (ct_name tier) (ct_key tier)) (\<lambda>product.
     andThen (findPriceByKey sdk (pd_id product) (ct_key tier) (ct_unitAmount tier)) (\<lambda>known.
     andThen (case known of Some p \<Rightarrow> ret p
        | None \<Rightarrow> prices_create sdk
            \<lparr>np_product = pd_id product, np_currency = CURRENCY, np_unit_amount = ct_unitAmount tier,
             np_interval = ''month'', np_bootstrapKey = ct_key tier\<rparr>) (\<lambda>price.
     andThen (if pd_default_price product \<noteq> Some (pc_id price) then products_set_default sdk (pd_id product) (pc_id price)
              else ret ()) (\<lambda>_.
     ret (pc_id price))))))"

definition upsertCoupon :: "'s catalog_sdk \<Rightarrow> ('s, unit) act" where
  "upsertCoupon sdk =
     andThen (findCouponByKey sdk (nc_bootstrapKey COUPON)) (\<lambda>existing.
     case existing of
       Some _ \<Rightarrow> ret ()
     | None \<Rightarrow> andThen (coupons_create sdk COUPON) (\<lambda>_. ret ()))"

text \<open>The loop over the tiers; the ids are collected by the name of the variable they go to.\<close>

fun upsert_all :: "'s catalog_sdk \<Rightarrow> catalog_tier list \<Rightarrow> ('s, (string \<times> string) list) act" where
  "upsert_all sdk [] = ret []"
| "upsert_all sdk (t # ts) =
     andThen (upsertTier sdk t) (\<lambda>i. andThen (upsert_all sdk ts) (\<lambda>is. ret ((ct_envVar t, i) # is)))"

definition bootstrap_main :: "'s catalog_sdk \<Rightarrow> env \<Rightarrow> ('s, (string \<times> string) list) act" where
  "bootstrap_main sdk env =
     (case assertTestMode (case env ''STRIPE_SECRET_KEY'' of None \<Rightarrow> [] | Some k \<Rightarrow> k) of
        Inl e \<Rightarrow> throw e
      | Inr _ \<Rightarrow> andThen (upsert_all sdk TIERS) (\<lambda>priceIds. andThen (upsertCoupon sdk) (\<lambda>_. ret priceIds)))"

subsection \<open>What the provider documents\<close>

text \<open>
  The views of an account: the products a query finds, the active prices of a product and the coupons. A read
  answers its view and changes nothing. A created object carries what it was created with, is the first of the
  views that list it (they are newest first) and changes no other; setting the default price changes that of one
  product. Products found by different queries are different objects. The search is taken to have caught
  up with what was created before: the provider promises that only after some seconds.
\<close>

record 's catalog_view =
  vw_products :: "'s \<Rightarrow> string \<Rightarrow> product list"
  vw_prices :: "'s \<Rightarrow> string \<Rightarrow> price list"
  vw_coupons :: "'s \<Rightarrow> coupon list"

definition catalog_reads :: "'s catalog_sdk \<Rightarrow> 's catalog_view \<Rightarrow> bool" where
  "catalog_reads sdk v \<longleftrightarrow>
     (\<forall>q s. products_search sdk q s = (Inr (vw_products v s q), s)) \<and>
     (\<forall>i s. prices_list sdk i s = (Inr (vw_prices v s i), s)) \<and>
     (\<forall>s. coupons_list sdk s = (Inr (vw_coupons v s), s))"

definition catalog_apart :: "'s catalog_view \<Rightarrow> bool" where
  "catalog_apart v \<longleftrightarrow>
     (\<forall>s key key' p p'. p \<in> set (vw_products v s (search_query key)) \<and> p' \<in> set (vw_products v s (search_query key')) \<and>
        pd_id p = pd_id p' \<longrightarrow> key = key')"

definition catalog_writes :: "'s catalog_sdk \<Rightarrow> 's catalog_view \<Rightarrow> bool" where
  "catalog_writes sdk v \<longleftrightarrow>
     (\<forall>name key s p s'. products_create sdk name key s = (Inr p, s') \<longrightarrow>
        vw_products v s' = (vw_products v s)(search_query key := p # vw_products v s (search_query key)) \<and>
        vw_prices v s' = vw_prices v s \<and> vw_coupons v s' = vw_coupons v s) \<and>
     (\<forall>np s p s'. prices_create sdk np s = (Inr p, s') \<longrightarrow>
        vw_products v s' = vw_products v s \<and>
        vw_prices v s' = (vw_prices v s)(np_product np := p # vw_prices v s (np_product np)) \<and>
        vw_coupons v s' = vw_coupons v s \<and>
        pc_bootstrapKey p = Some (np_bootstrapKey np) \<and> pc_unit_amount p = Some (np_unit_amount np) \<and>
        pc_currency p = np_currency np \<and> pc_interval p = Some (np_interval np)) \<and>
     (\<forall>i d s s'. products_set_default sdk i d s = (Inr (), s') \<longrightarrow>
        vw_products v s' = (\<lambda>q. map (\<lambda>p. if pd_id p = i then p\<lparr>pd_default_price := Some d\<rparr> else p) (vw_products v s q)) \<and>
        vw_prices v s' = vw_prices v s \<and> vw_coupons v s' = vw_coupons v s) \<and>
     (\<forall>nc s c s'. coupons_create sdk nc s = (Inr c, s') \<longrightarrow>
        vw_products v s' = vw_products v s \<and> vw_prices v s' = vw_prices v s \<and>
        vw_coupons v s' = c # vw_coupons v s \<and> co_bootstrapKey c = Some (nc_bootstrapKey nc))"

definition catalog_contract :: "'s catalog_sdk \<Rightarrow> 's catalog_view \<Rightarrow> bool" where
  "catalog_contract sdk v \<longleftrightarrow> catalog_reads sdk v \<and> catalog_apart v \<and> catalog_writes sdk v"

subsection \<open>Running the script again\<close>

lemma search_query_eq [simp]: "search_query key = search_query key' \<longleftrightarrow> key = key'"
  by (simp add: search_query_def)

definition provisioned :: "'s catalog_view \<Rightarrow> catalog_tier \<Rightarrow> string \<Rightarrow> 's \<Rightarrow> bool" where
  "provisioned v t i s \<longleftrightarrow>
     (\<exists>p ps pr. vw_products v s (search_query (ct_key t)) = p # ps \<and> pd_default_price p = Some i \<and>
        List.find (price_matches (ct_key t) (ct_unitAmount t)) (vw_prices v s (pd_id p)) = Some pr \<and> pc_id pr = i)"

text \<open>What the objects of one key leave alone: those of every other key, with their prices, and the coupons.\<close>

definition others_kept :: "'s catalog_view \<Rightarrow> string \<Rightarrow> 's \<Rightarrow> 's \<Rightarrow> bool" where
  "others_kept v key s s' \<longleftrightarrow>
     vw_coupons v s' = vw_coupons v s \<and>
     (\<forall>k. k \<noteq> key \<longrightarrow> vw_products v s' (search_query k) = vw_products v s (search_query k) \<and>
        (\<forall>p\<in>set (vw_products v s (search_query k)). vw_prices v s' (pd_id p) = vw_prices v s (pd_id p)))"

lemma others_kept_refl [simp]: "others_kept v key s s"
  by (simp add: others_kept_def)

lemma others_kept_trans: "others_kept v key s s1 \<Longrightarrow> others_kept v key s1 s2 \<Longrightarrow> others_kept v key s s2"
  by (simp add: others_kept_def)

lemma provisioned_kept:
  assumes "others_kept v key s s'" "ct_key t \<noteq> key" "provisioned v t i s"
  shows "provisioned v t i s'"
proof -
  obtain p ps where p: "vw_products v s (search_query (ct_key t)) = p # ps" using assms(3) by (auto simp: provisioned_def)
  with assms(1,2) have "vw_products v s' (search_query (ct_key t)) = p # ps" "vw_prices v s' (pd_id p) = vw_prices v s (pd_id p)"
    by (auto simp: others_kept_def)
  with p assms(3) show ?thesis by (simp add: provisioned_def)
qed

text \<open>Each write of \<open>upsertTier\<close> concerns its own key.\<close>

lemma product_found_or_created:
  assumes "catalog_contract sdk v"
    and "(case existing of Some p \<Rightarrow> ret p | None \<Rightarrow> products_create sdk name key) s = (Inr p, s1)"
    and "existing = (case vw_products v s (search_query key) of [] \<Rightarrow> None | p # _ \<Rightarrow> Some p)"
  shows "others_kept v key s s1 \<and> (\<exists>ps. vw_products v s1 (search_query key) = p # ps)"
proof (cases "vw_products v s (search_query key)")
  case Nil
  with assms(2,3) have "products_create sdk name key s = (Inr p, s1)" by simp
  with assms(1) have "vw_products v s1 = (vw_products v s)(search_query key := p # vw_products v s (search_query key))"
      "vw_prices v s1 = vw_prices v s" "vw_coupons v s1 = vw_coupons v s"
    unfolding catalog_contract_def catalog_writes_def by blast+
  then show ?thesis by (simp add: others_kept_def)
next
  case (Cons q qs)
  with assms(2,3) show ?thesis by (simp add: ret_def)
qed

lemma apart_ids:
  assumes "catalog_contract sdk v" "p \<in> set (vw_products v s (search_query key))" "q \<in> set (vw_products v s (search_query k))" "k \<noteq> key"
  shows "pd_id q \<noteq> pd_id p"
  using assms unfolding catalog_contract_def catalog_apart_def by blast

lemma price_found_or_created:
  assumes "catalog_contract sdk v" "vw_products v s (search_query key) = p # ps"
    and "(case known of Some q \<Rightarrow> ret q
        | None \<Rightarrow> prices_create sdk \<lparr>np_product = pd_id p, np_currency = CURRENCY, np_unit_amount = amount,
            np_interval = ''month'', np_bootstrapKey = key\<rparr>) s = (Inr pr, s1)"
    and "known = List.find (price_matches key amount) (vw_prices v s (pd_id p))"
  shows "others_kept v key s s1 \<and> vw_products v s1 = vw_products v s \<and>
    List.find (price_matches key amount) (vw_prices v s1 (pd_id p)) = Some pr"
proof (cases known)
  case None
  let ?np = "\<lparr>np_product = pd_id p, np_currency = CURRENCY, np_unit_amount = amount, np_interval = ''month'', np_bootstrapKey = key\<rparr>"
  from None assms(3) have "prices_create sdk ?np s = (Inr pr, s1)" by simp
  with assms(1) have w: "vw_products v s1 = vw_products v s" "vw_coupons v s1 = vw_coupons v s"
      "vw_prices v s1 = (vw_prices v s)(np_product ?np := pr # vw_prices v s (np_product ?np))"
      "pc_bootstrapKey pr = Some (np_bootstrapKey ?np)" "pc_unit_amount pr = Some (np_unit_amount ?np)"
      "pc_currency pr = np_currency ?np" "pc_interval pr = Some (np_interval ?np)"
    unfolding catalog_contract_def catalog_writes_def by blast+
  have "pd_id q \<noteq> pd_id p" if "q \<in> set (vw_products v s (search_query k))" "k \<noteq> key" for q k
    by (rule apart_ids [OF assms(1) _ that]) (simp add: assms(2))
  with w show ?thesis by (auto simp: others_kept_def price_matches_def)
next
  case (Some q)
  with assms(3) have "pr = q" "s1 = s" by (simp_all add: ret_def)
  with Some assms(4) show ?thesis by simp
qed

lemma default_price_set:
  assumes "catalog_contract sdk v" "vw_products v s (search_query key) = p # ps"
    and "(if pd_default_price p \<noteq> Some d then products_set_default sdk (pd_id p) d else ret ()) s = (Inr (), s1)"
  shows "others_kept v key s s1 \<and> vw_prices v s1 = vw_prices v s \<and>
    (\<exists>q qs. vw_products v s1 (search_query key) = q # qs \<and> pd_id q = pd_id p \<and> pd_default_price q = Some d)"
proof (cases "pd_default_price p = Some d")
  case False
  with assms(3) have "products_set_default sdk (pd_id p) d s = (Inr (), s1)" by simp
  with assms(1) have w: "vw_products v s1 =
        (\<lambda>q. map (\<lambda>r. if pd_id r = pd_id p then r\<lparr>pd_default_price := Some d\<rparr> else r) (vw_products v s q))"
      "vw_prices v s1 = vw_prices v s" "vw_coupons v s1 = vw_coupons v s"
    unfolding catalog_contract_def catalog_writes_def by blast+
  have "pd_id q \<noteq> pd_id p" if "q \<in> set (vw_products v s (search_query k))" "k \<noteq> key" for q k
    by (rule apart_ids [OF assms(1) _ that]) (simp add: assms(2))
  with w assms(2) show ?thesis by (auto simp: others_kept_def intro!: map_idI)
next
  case True
  with assms(2,3) show ?thesis by (simp add: ret_def)
qed

lemma reads:
  assumes "catalog_contract sdk v"
  shows "findProductByKey sdk key s = (Inr (case vw_products v s (search_query key) of [] \<Rightarrow> None | p # _ \<Rightarrow> Some p), s)"
    and "findPriceByKey sdk i key amount s = (Inr (List.find (price_matches key amount) (vw_prices v s i)), s)"
    and "findCouponByKey sdk key s = (Inr (List.find (\<lambda>c. co_bootstrapKey c = Some key) (vw_coupons v s)), s)"
  using assms
  by (simp_all add: catalog_contract_def catalog_reads_def findProductByKey_def findPriceByKey_def findCouponByKey_def andThen_def ret_def)

lemma upsertTier_provisions:
  assumes c: "catalog_contract sdk v" and run: "upsertTier sdk t s = (Inr i, s')"
  shows "others_kept v (ct_key t) s s' \<and> provisioned v t i s'"
proof -
  obtain p s1 pr s2 where
      1: "(case (case vw_products v s (search_query (ct_key t)) of [] \<Rightarrow> None | p # _ \<Rightarrow> Some p) of Some p \<Rightarrow> ret p
          | None \<Rightarrow> products_create sdk (ct_name t) (ct_key t)) s = (Inr p, s1)"
    and 2: "(case List.find (price_matches (ct_key t) (ct_unitAmount t)) (vw_prices v s1 (pd_id p)) of Some q \<Rightarrow> ret q
          | None \<Rightarrow> prices_create sdk \<lparr>np_product = pd_id p, np_currency = CURRENCY, np_unit_amount = ct_unitAmount t,
            np_interval = ''month'', np_bootstrapKey = ct_key t\<rparr>) s1 = (Inr pr, s2)"
    and 3: "(if pd_default_price p \<noteq> Some (pc_id pr) then products_set_default sdk (pd_id p) (pc_id pr) else ret ()) s2 = (Inr (), s')"
    and i: "i = pc_id pr"
    using run by (auto simp: upsertTier_def andThen_Inr_iff reads [OF c] ret_def)
  from product_found_or_created [OF c 1 refl] obtain ps where
    k1: "others_kept v (ct_key t) s s1" "vw_products v s1 (search_query (ct_key t)) = p # ps" by blast
  from price_found_or_created [OF c k1(2) 2 refl] have
    k2: "others_kept v (ct_key t) s1 s2" "vw_products v s2 (search_query (ct_key t)) = p # ps"
      "List.find (price_matches (ct_key t) (ct_unitAmount t)) (vw_prices v s2 (pd_id p)) = Some pr" using k1(2) by auto
  from default_price_set [OF c k2(2) 3] k1 k2 i show ?thesis
    by (auto simp: provisioned_def intro: others_kept_trans)
qed

lemma provisioned_upsertTier:
  assumes "catalog_contract sdk v" "provisioned v t i s"
  shows "upsertTier sdk t s = (Inr i, s)"
  using assms(2) by (auto simp: upsertTier_def provisioned_def andThen_def reads [OF assms(1)] ret_def)

lemma upsert_all_provisions:
  assumes c: "catalog_contract sdk v"
  shows "distinct (map ct_key ts) \<Longrightarrow> upsert_all sdk ts s = (Inr ids, s') \<Longrightarrow>
    list_all2 (\<lambda>t (var, i). var = ct_envVar t \<and> provisioned v t i s') ts ids \<and>
    (\<forall>t i. ct_key t \<notin> ct_key ` set ts \<longrightarrow> provisioned v t i s \<longrightarrow> provisioned v t i s')"
proof (induction ts arbitrary: s ids)
  case Nil
  then show ?case by (simp add: ret_def)
next
  case (Cons t ts)
  then obtain i s1 ids' where t: "upsertTier sdk t s = (Inr i, s1)" and ts: "upsert_all sdk ts s1 = (Inr ids', s')"
      and ids: "ids = (ct_envVar t, i) # ids'"
    by (auto simp: andThen_Inr_iff ret_def)
  from upsertTier_provisions [OF c t] have k: "others_kept v (ct_key t) s s1" and p: "provisioned v t i s1" by blast+
  from Cons.IH [OF _ ts] Cons.prems(1)
  have IH: "list_all2 (\<lambda>t (var, i). var = ct_envVar t \<and> provisioned v t i s') ts ids'"
      "\<And>u j. ct_key u \<notin> ct_key ` set ts \<Longrightarrow> provisioned v u j s1 \<Longrightarrow> provisioned v u j s'" by auto
  have "provisioned v t i s'" using IH(2) [OF _ p] Cons.prems(1) by simp
  moreover have "provisioned v u j s'" if "ct_key u \<notin> ct_key ` set (t # ts)" "provisioned v u j s" for u j
    using IH(2) provisioned_kept [OF k _ that(2)] that(1) by simp
  ultimately show ?case using IH(1) ids by simp
qed

lemma provisioned_upsert_all:
  assumes "catalog_contract sdk v" "list_all2 (\<lambda>t (var, i). var = ct_envVar t \<and> provisioned v t i s) ts ids"
  shows "upsert_all sdk ts s = (Inr ids, s)"
  using assms(2)
  by (induction ts ids rule: list_all2_induct)
    (auto simp: andThen_def ret_def provisioned_upsertTier [OF assms(1)])

lemma provisioned_coupons:
  assumes "vw_products v s' = vw_products v s" "vw_prices v s' = vw_prices v s"
  shows "provisioned v t i s' = provisioned v t i s"
  using assms by (simp add: provisioned_def)

lemma upsertCoupon_run:
  assumes c: "catalog_contract sdk v" and run: "upsertCoupon sdk s = (Inr (), s')"
  shows "vw_products v s' = vw_products v s \<and> vw_prices v s' = vw_prices v s \<and> upsertCoupon sdk s' = (Inr (), s')"
proof (cases "List.find (\<lambda>c. co_bootstrapKey c = Some (nc_bootstrapKey COUPON)) (vw_coupons v s)")
  case None
  with run obtain co where "coupons_create sdk COUPON s = (Inr co, s')"
    by (auto simp: upsertCoupon_def andThen_Inr_iff reads [OF c] ret_def)
  with c have "vw_products v s' = vw_products v s \<and> vw_prices v s' = vw_prices v s \<and>
      vw_coupons v s' = co # vw_coupons v s \<and> co_bootstrapKey co = Some (nc_bootstrapKey COUPON)"
    unfolding catalog_contract_def catalog_writes_def by blast
  then show ?thesis by (simp add: upsertCoupon_def andThen_def reads [OF c] ret_def)
next
  case (Some co)
  with run have "s' = s" by (simp add: upsertCoupon_def andThen_def reads [OF c] ret_def)
  with run show ?thesis by simp
qed


subsection \<open>An account that keeps the contract\<close>

record shop =
  sh_products :: "(string \<times> string option) list" \<comment> \<open>key, which is also the id, and default price\<close>
  sh_prices :: "(string \<times> price) list"
  sh_coupons :: "coupon list"

definition shop_view :: "shop catalog_view" where
  "shop_view =
     \<lparr>vw_products = (\<lambda>s q. map (\<lambda>(k, d). \<lparr>pd_id = k, pd_default_price = d\<rparr>) (filter (\<lambda>(k, d). search_query k = q) (sh_products s))),
      vw_prices = (\<lambda>s i. map snd (filter (\<lambda>(j, p). j = i) (sh_prices s))),
      vw_coupons = sh_coupons\<rparr>"

definition shop_sdk :: "shop catalog_sdk" where
  "shop_sdk =
     \<lparr>products_search = (\<lambda>q s. (Inr (vw_products shop_view s q), s)),
      products_create = (\<lambda>name key s. (Inr \<lparr>pd_id = key, pd_default_price = None\<rparr>, s\<lparr>sh_products := (key, None) # sh_products s\<rparr>)),
      products_set_default = (\<lambda>i d s. (Inr (), s\<lparr>sh_products := map (\<lambda>(k, x). (k, if k = i then Some d else x)) (sh_products s)\<rparr>)),
      prices_list = (\<lambda>i s. (Inr (vw_prices shop_view s i), s)),
      prices_create = (\<lambda>np s.
        (let p = \<lparr>pc_id = ''price_'' @ np_product np, pc_bootstrapKey = Some (np_bootstrapKey np),
               pc_unit_amount = Some (np_unit_amount np), pc_currency = np_currency np, pc_interval = Some (np_interval np)\<rparr>
         in (Inr p, s\<lparr>sh_prices := (np_product np, p) # sh_prices s\<rparr>))),
      coupons_list = (\<lambda>s. (Inr (sh_coupons s), s)),
      coupons_create = (\<lambda>nc s.
        (let c = \<lparr>co_id = nc_id nc, co_bootstrapKey = Some (nc_bootstrapKey nc)\<rparr>
         in (Inr c, s\<lparr>sh_coupons := c # sh_coupons s\<rparr>)))\<rparr>"

lemma shop_defaults:
  "map (\<lambda>(k, d). \<lparr>pd_id = k, pd_default_price = d\<rparr>)
     (filter (\<lambda>(k, d). search_query k = q) (map (\<lambda>(k, x). (k, if k = i then Some d else x)) ps)) =
   map (\<lambda>p. if pd_id p = i then p\<lparr>pd_default_price := Some d\<rparr> else p)
     (map (\<lambda>(k, d). \<lparr>pd_id = k, pd_default_price = d\<rparr>) (filter (\<lambda>(k, d). search_query k = q) ps))"
  by (induction ps) auto

lemma shop_contract: "catalog_contract shop_sdk shop_view"
proof -
  have "catalog_reads shop_sdk shop_view" by (simp add: catalog_reads_def shop_sdk_def shop_view_def)
  moreover have "catalog_apart shop_view" by (auto simp: catalog_apart_def shop_view_def)
  moreover have "catalog_writes shop_sdk shop_view"
    unfolding catalog_writes_def
    by (intro conjI allI impI) (auto simp: shop_sdk_def shop_view_def Let_def shop_defaults simp del: map_map)
  ultimately show ?thesis by (simp add: catalog_contract_def)
qed

definition answers :: "('s, 'a) act \<Rightarrow> bool" where
  "answers m \<longleftrightarrow> (\<forall>s. \<exists>x s'. m s = (Inr x, s'))"

lemma answers_intros:
  "answers (ret x)" "answers m \<Longrightarrow> (\<And>x. answers (f x)) \<Longrightarrow> answers (andThen m f)"
  "answers m \<Longrightarrow> (\<And>x. answers (g x)) \<Longrightarrow> answers (case q of None \<Rightarrow> m | Some x \<Rightarrow> g x)"
  "answers m \<Longrightarrow> answers n \<Longrightarrow> answers (if b then m else n)"
  by (auto simp: answers_def ret_def andThen_def split: option.split) (metis (no_types, lifting) case_prod_conv sum.simps(6))

lemma shop_answers:
  "answers (products_search shop_sdk q)" "answers (products_create shop_sdk name key)" "answers (products_set_default shop_sdk i d)"
  "answers (prices_list shop_sdk i)" "answers (prices_create shop_sdk np)" "answers (coupons_list shop_sdk)"
  "answers (coupons_create shop_sdk nc)"
  by (simp_all add: answers_def shop_sdk_def Let_def)

lemma shop_runs: "answers (upsert_all shop_sdk ts)" "answers (upsertCoupon shop_sdk)"
proof -
  have "answers (upsertTier shop_sdk t)" for t
    unfolding upsertTier_def findProductByKey_def findPriceByKey_def by (intro answers_intros shop_answers)
  then show "answers (upsert_all shop_sdk ts)" by (induction ts) (simp_all add: answers_intros)
  show "answers (upsertCoupon shop_sdk)"
    unfolding upsertCoupon_def findCouponByKey_def by (intro answers_intros shop_answers)
qed


subsection \<open>What is offered is what is sold and metered\<close>

text \<open>For every tier the card of the pricing page names the amount the crypto button asks for and the price the
  catalogue holds under the variable the checkout reads, and promises the volume the meter allows.\<close>

lemma offered_terms:
  "\<exists>card\<in>set TIER_CARDS. \<exists>c\<in>set TIERS. \<exists>l. tc_id card = t \<and> ct_envVar c = TIER_PRICE_ENV t \<and>
     tc_price card = ''$'' @ string_of_int (amountMap t div 100) \<and> ct_unitAmount c = amountMap t \<and>
     map_of TIER_QUOTA (tier_name t) = Some l \<and>
     hd (tc_features card) = string_of_int l @ (if l = 1 then '' service'' else '' services'') @ '' per month''"
  unfolding TIER_CARDS_def TIERS_def
  by (cases t)
    (simp_all add: TIER_PRICE_ENV_def amountMap_def TIER_QUOTA_def tier_name_def string_of_int_def string_of_nat.simps digit_char_def char_of_def bit_Suc_0_iff)

end
