(* ===== verification/Scripts.thy ===== *)
theory Scripts
  imports Pages
begin

text \<open>
  The scripts an operator runs once: scripts/seed-demo.ts, scripts/set-ens-text-records.ts,
  scripts/create-hedera-nft.ts and scripts/create-agent-wallet.ts with lib/agents/DynamicServerWallet.ts. A
  script that ends the process returns its exit code. What is printed is left out, except where a secret is.
\<close>

subsection \<open>seed-demo.ts\<close>

definition PLACEHOLDER_USER_ID :: string where "PLACEHOLDER_USER_ID = ''user_REPLACE_ME''"

definition resolveUserId :: "string list \<Rightarrow> env \<Rightarrow> string" where
  "resolveUserId argv env =
     (case List.find (\<lambda>a. prefix ''--userId='' a) argv of
        Some a \<Rightarrow> drop (length ''--userId='') a
      | None \<Rightarrow>
          if truthy (env ''SEED_USER_ID'') then the (env ''SEED_USER_ID'')
          else if truthy (env ''DEMO_USER_ID'') then the (env ''DEMO_USER_ID'')
          else PLACEHOLDER_USER_ID)"

text \<open>A request of the demo, and the row it becomes: the columns it does not give have their defaults.\<close>

definition demo_request_of ::
  "string \<Rightarrow> string \<Rightarrow> string \<Rightarrow> string \<Rightarrow> service_status \<Rightarrow> date \<Rightarrow> service_request" where
  "demo_request_of caption plaintiff defendant wallet status attested =
     \<lparr>sr_id = [], sr_userId = None, sr_orgId = None, caseCaption = caption, plaintiffName = plaintiff,
      defendantName = defendant, recipientWallet = wallet, recipientEnsName = None, courtOrderFlag = False,
      attestedAt = attested, noticeToken = None, documentSha256 = None, sr_status = status, txSignature = None,
      sr_slot = None, blockTime = None, failureReason = None, sr_createdAt = 0, ensDisplayName = None,
      agentENSName = None, sr_hedera = no_hedera\<rparr>"

definition demo_hedera :: hedera_fields where
  "demo_hedera =
     \<lparr>hcsTopicId = Some ''0.0.9225885'', hcsSequenceNumber = Some 1, hcsConsensusTime = Some ''2026-06-13T18:00:01.000Z'',
      hcsTxId = Some ''0.0.9225885@1718340000.000000000'',
      hcsMirrorUrl = Some ''https://hashscan.io/testnet/topic/0.0.9225885/message/1'',
      htsTokenId = Some ''0.0.9225999'', htsSerialNumber = Some 1, htsTxId = None,
      htsMirrorUrl = Some ''https://hashscan.io/testnet/token/0.0.9225999'', htsNftSerial = Some 1,
      htsTransferTx = Some ''0.0.9225885@1718340002.000000000''\<rparr>"

definition demoRequests :: "service_request list" where
  "demoRequests =
     [(demo_request_of ''Doe v. Buterin'' ''Jane Doe'' ''Vitalik Buterin''
         ''0xd8dA6BF26964aF9D7eEd9e03E53415D37aA96045'' CONFIRMED 1781373300000)
        \<lparr>recipientEnsName := Some ''vitalik.eth'',
         txSignature := Some ''5Vfd8mWm9Q3kq2cZ8sJpN7yR1tT4uX6wY9bC2dE3fG4hJ5kL6mN7pQ8rS9tU1vW2xY3z'',
         sr_slot := Some 287654321, blockTime := Some 1781373600000,
         documentSha256 := Some ''a1b2c3d4e5f6a7b8c9d0e1f2a3b4c5d6e7f8a9b0c1d2e3f4a5b6c7d8e9f0a1b2'',
         sr_hedera := demo_hedera, ensDisplayName := Some ''vitalik.eth''\<rparr>,
      demo_request_of ''Acme Corp v. Defendant'' ''Acme Corp'' ''Defendant''
        ''7ygrkX9z8mP2vQ4nR6tT3uX1wY5bC8dE2fG7hJ9kL3mN'' IN_PROGRESS 1781407800000,
      demo_request_of ''Demo Case v. Test Recipient'' ''Demo Plaintiff'' ''Test Recipient''
        ''C8dE2fG7hJ9kL3mN7yQ4rS9tU1vW2xY3z5aB6cD8eF1g'' STAGED 1781410500000]"

text \<open>What the calls draw: the id and the time of each row, and the fault of each call.\<close>

record seed_draws =
  ss_ids :: "nat \<Rightarrow> string"
  ss_now :: "nat \<Rightarrow> date"
  ss_faults :: "nat \<Rightarrow> eps_error option"

definition seeded_row :: "seed_draws \<Rightarrow> string \<Rightarrow> nat \<Rightarrow> service_request \<Rightarrow> service_request" where
  "seeded_row dr user n r = r\<lparr>sr_id := ss_ids dr n, sr_userId := Some user, sr_createdAt := ss_now dr n\<rparr>"

fun seed_rows :: "seed_draws \<Rightarrow> string \<Rightarrow> nat \<Rightarrow> service_request list \<Rightarrow> (db, unit) act" where
  "seed_rows dr user n [] = ret ()"
| "seed_rows dr user n (r # rs) =
     andThen (faulty (ss_faults dr n) (sr_create (seeded_row dr user n r))) (\<lambda>_. seed_rows dr user (Suc n) rs)"

definition seed_main :: "string list \<Rightarrow> env \<Rightarrow> seed_draws \<Rightarrow> (db, nat) act" where
  "seed_main argv env dr =
     (let userId = resolveUserId argv env
      in if userId = PLACEHOLDER_USER_ID then ret 1
         else catch (andThen (seed_rows dr userId 0 demoRequests) (\<lambda>_. ret 0)) (\<lambda>_. ret 1))"

subsection \<open>set-ens-text-records.ts\<close>

record 'c ens_writer =
  ew_account :: "string \<Rightarrow> string result"
  ew_namehash :: "string \<Rightarrow> string"
  ew_resolver :: "string \<Rightarrow> ('c, string) act"
  ew_setText :: "string \<Rightarrow> string \<Rightarrow> string \<Rightarrow> string \<Rightarrow> string \<Rightarrow> ('c, string) act" \<comment> \<open>sender, resolver, node, key, value\<close>
  ew_succeeded :: "string \<Rightarrow> ('c, bool) act"

definition ENS_NAME :: "env \<Rightarrow> string" where
  "ENS_NAME env = (case env ''ENS_AGENT_NAME'' of None \<Rightarrow> ''youhavebeenserved.eth'' | Some n \<Rightarrow> n)"

definition AGENT_RECORDS :: "string \<Rightarrow> (string \<times> string) list" where
  "AGENT_RECORDS name =
     [(''description'', ''EPS '' @ map char_of [226::nat, 128, 147] @ '' AI-powered legal process server with Hedera HCS proof and ENS identity''),
      (''url'', ''https://eps-dapp.vercel.app''),
      (''agent.category'', ''legal''),
      (''agent.version'', ''1.0.0''),
      (''agent.did'', ''did:ens:'' @ name),
      (''agent.endpoint'', ''https://eps-dapp.vercel.app/api/agent'')]"

definition re_zero_address :: "string \<Rightarrow> bool" where
  "re_zero_address r = (prefix ''0x'' r \<and> 2 < length r \<and> list_all (\<lambda>c. c = CHR ''0'') (drop 2 r))"

fun publish :: "'c ens_writer \<Rightarrow> string \<Rightarrow> string \<Rightarrow> string \<Rightarrow> (string \<times> string) list \<Rightarrow> ('c, (string \<times> bool) list) act" where
  "publish ew pk resolver node [] = ret []"
| "publish ew pk resolver node ((key, value) # rs) =
     andThen (ew_setText ew pk resolver node key value) (\<lambda>hash.
     andThen (ew_succeeded ew hash) (\<lambda>ok.
     andThen (publish ew pk resolver node rs) (\<lambda>done. ret ((hash, ok) # done))))"

definition set_text_main :: "'c ens_writer \<Rightarrow> env \<Rightarrow> ('c, (string \<times> bool) list) act" where
  "set_text_main ew env =
     (if \<not> truthy (env ''EVM_APP_WALLET_PRIVATE_KEY'') then throw (PlainError ''EVM_APP_WALLET_PRIVATE_KEY is not set.'')
      else if \<not> truthy (env ''EVM_RPC_ETH_MAINNET'') then throw (PlainError ''EVM_RPC_ETH_MAINNET is not set.'')
      else
        (let raw = the (env ''EVM_APP_WALLET_PRIVATE_KEY'');
             pk = (if prefix ''0x'' raw then raw else ''0x'' @ raw);
             node = ew_namehash ew (ENS_NAME env)
         in case ew_account ew pk of
              Inl e \<Rightarrow> throw e
            | Inr _ \<Rightarrow>
                andThen (ew_resolver ew node) (\<lambda>resolver.
                if resolver = [] \<or> re_zero_address resolver then
                  throw (PlainError (''No resolver set for '' @ ENS_NAME env @ ''. Set a public resolver first.''))
                else publish ew pk resolver node (AGENT_RECORDS (ENS_NAME env)))))"

subsection \<open>create-hedera-nft.ts\<close>

text \<open>The result is the content of bounty/hedera-proof.json.\<close>

definition create_nft_main :: "'c hedera_sdk \<Rightarrow> env \<Rightarrow> date \<Rightarrow> ('c, json) act" where
  "create_nft_main sdk env now =
     (if \<not> truthy (env ''HEDERA_OPERATOR_ID'') \<or> \<not> truthy (env ''HEDERA_OPERATOR_KEY'') then
        throw (PlainError ''HEDERA_OPERATOR_ID and HEDERA_OPERATOR_KEY must be set.'')
      else
        (let network = (if env ''HEDERA_NETWORK'' = Some ''mainnet'' then ''mainnet'' else ''testnet'');
             topic = (case env ''HEDERA_HCS_TOPIC_ID'' of Some t \<Rightarrow> t | None \<Rightarrow> ''0.0.9225885'');
             scan = (\<lambda>kind i. JStr (''https://hashscan.io/'' @ network @ ''/'' @ kind @ ''/'' @ i))
         in andThen (mintAndTransferProofNFT sdk env (Some topic) None) (\<lambda>result.
            case result of
              None \<Rightarrow> throw (PlainError (''mintAndTransferProofNFT returned null '' @ em_dash @ '' credentials missing.''))
            | Some n \<Rightarrow> ret (JObj
                [(''network'', JStr network), (''htsTokenId'', JStr (pn_tokenId n)), (''htsNftSerial'', JNum (pn_serial n)),
                 (''htsTransferTx'', JStr (pn_transferTx n)), (''defendantAccount'', JStr (pn_defendantId n)),
                 (''defendantCreated'', JBool (pn_defendantCreated n)), (''hcsTopicId'', JStr topic),
                 (''mintTimestamp'', JStr (toISOString now)), (''hashscanNFT'', scan ''token'' (pn_tokenId n)),
                 (''hashscanTransfer'', scan ''transaction'' (pn_transferTx n)), (''hashscanTopic'', scan ''topic'' topic),
                 (''hashscanDefendant'', scan ''account'' (pn_defendantId n))]))))"

subsection \<open>DynamicServerWallet.ts and create-agent-wallet.ts\<close>

text \<open>
  The package: whether it loads, the login, and the creation of a wallet with a password. The log is the console
  of the server; the text of a caught error and what the package itself reports are left out of it.
\<close>

record wallet_answer =
  wa_walletId :: "string option"
  wa_publicKeyHex :: "string option"
  wa_shares :: "json option"

record 'c dynamic_sdk =
  dy_loads :: bool
  dy_login :: "string \<Rightarrow> string \<Rightarrow> ('c, unit) act"
  dy_create :: "string \<Rightarrow> ('c, wallet_answer) act"

record 'c wallet_state =
  wl_net :: 'c
  wl_log :: "string list"

record wallet_info =
  wi_walletId :: string
  wi_address :: string

definition wl_on :: "('c, 'a) act \<Rightarrow> ('c wallet_state, 'a) act" where
  "wl_on m w = (case m (wl_net w) of (r, c) \<Rightarrow> (r, w\<lparr>wl_net := c\<rparr>))"

definition wl_print :: "string \<Rightarrow> ('c wallet_state, unit) act" where
  "wl_print line w = (Inr (), w\<lparr>wl_log := wl_log w @ [line]\<rparr>)"

definition default_wallet_password :: string where "default_wallet_password = ''eps-agent-secure-pw-2026''"

definition shares_text :: "json option \<Rightarrow> string" where
  "shares_text shares = (case shares of None \<Rightarrow> ''undefined'' | Some v \<Rightarrow> json_stringify v)"

definition new_wallet :: "'c dynamic_sdk \<Rightarrow> env \<Rightarrow> string \<Rightarrow> string \<Rightarrow> ('c wallet_state, wallet_info option) act" where
  "new_wallet sdk env authToken environmentId =
     andThen (wl_on (dy_login sdk authToken environmentId)) (\<lambda>_.
     andThen (wl_on (dy_create sdk
        (case env ''DYNAMIC_WALLET_PASSWORD'' of None \<Rightarrow> default_wallet_password | Some p \<Rightarrow> p))) (\<lambda>made.
     let walletId = (case wa_walletId made of None \<Rightarrow> ''unknown'' | Some i \<Rightarrow> i);
         address = (case wa_publicKeyHex made of None \<Rightarrow> ''unknown'' | Some a \<Rightarrow> a)
     in andThen (wl_print (''[DynamicAgent] Wallet created: '' @ walletId @ '' | Address: '' @ address)) (\<lambda>_.
        andThen (wl_print (''[DynamicAgent] Key shares (store securely): '' @ shares_text (wa_shares made))) (\<lambda>_.
        andThen (wl_print (''[DynamicAgent] ADD TO .env.local '' @ map char_of [226::nat, 134, 146] @
           '' EPS_AGENT_WALLET_ID='' @ walletId)) (\<lambda>_.
        ret (Some \<lparr>wi_walletId = walletId, wi_address = address\<rparr>))))))"

definition createAgentWallet :: "'c dynamic_sdk \<Rightarrow> env \<Rightarrow> ('c wallet_state, wallet_info option) act" where
  "createAgentWallet sdk env =
     (if \<not> truthy (env ''DYNAMIC_BEARER_TOKEN'') \<or> \<not> truthy (env ''NEXT_PUBLIC_DYNAMIC_ENVIRONMENT_ID'') then
        andThen (wl_print ''[DynamicAgent] Credentials not configured'') (\<lambda>_. ret None)
      else
        catch
          (if \<not> dy_loads sdk then andThen (wl_print ''[DynamicAgent] @dynamic-labs-wallet/node not available'') (\<lambda>_. ret None)
           else new_wallet sdk env (the (env ''DYNAMIC_BEARER_TOKEN'')) (the (env ''NEXT_PUBLIC_DYNAMIC_ENVIRONMENT_ID'')))
          (\<lambda>_. andThen (wl_print ''[DynamicAgent] createAgentWallet failed:'') (\<lambda>_. ret None)))"

definition create_wallet_main :: "'c dynamic_sdk \<Rightarrow> env \<Rightarrow> ('c wallet_state, nat) act" where
  "create_wallet_main sdk env =
     (if \<not> truthy (env ''DYNAMIC_WALLET_PASSWORD'') then ret 1 else andThen (createAgentWallet sdk env) (\<lambda>_. ret 0))"

subsection \<open>What the scripts do\<close>

definition seeded :: "seed_draws \<Rightarrow> string \<Rightarrow> nat \<Rightarrow> service_request list \<Rightarrow> service_request list" where
  "seeded dr user n rs = map (\<lambda>(i, r). seeded_row dr user i r) (enumerate n rs)"

lemma seed_rows_outcome:
  "seed_rows dr user k rs d = (r, d') \<Longrightarrow>
   \<exists>n\<le>length rs. d' = d\<lparr>serviceRequests := serviceRequests d @ seeded dr user k (take n rs)\<rparr> \<and>
     (r = Inr () \<longleftrightarrow> n = length rs)"
proof (induction rs arbitrary: k d)
  case Nil
  then show ?case by (simp add: ret_def seeded_def)
next
  case (Cons q qs)
  obtain x d1 where c: "faulty (ss_faults dr k) (sr_create (seeded_row dr user k q)) d = (x, d1)" by fastforce
  show ?case
  proof (cases x)
    case (Inl e)
    then have "d1 = d" using c by (auto simp: faulty_def throw_def sr_create_def split: option.splits if_splits)
    with Cons.prems c Inl show ?thesis
      by (intro exI [of _ 0]) (auto simp: andThen_def seeded_def)
  next
    case (Inr row)
    then have d1: "d1 = d\<lparr>serviceRequests := serviceRequests d @ [seeded_row dr user k q]\<rparr>"
      using c by (auto simp: faulty_Inr_iff sr_create_def sr_insert_def split: if_splits)
    from Cons.prems c Inr have "seed_rows dr user (Suc k) qs d1 = (r, d')" by (simp add: andThen_def)
    from Cons.IH [OF this] obtain n where n: "n \<le> length qs" "r = Inr () \<longleftrightarrow> n = length qs"
        "d' = d1\<lparr>serviceRequests := serviceRequests d1 @ seeded dr user (Suc k) (take n qs)\<rparr>" by blast
    then show ?thesis
      by (intro exI [of _ "Suc n"]) (simp add: d1 seeded_def)
  qed
qed

text \<open>Seeding: with no user id given the script touches nothing; otherwise it appends the demo requests of that user in
  their order, all three exactly when it exits with 0. A failure leaves those before it, and a second run
  adds them again.\<close>

theorem seed_outcome:
  assumes "seed_main argv env dr d = (r, d')"
  shows "\<exists>n\<le>3. d' = d\<lparr>serviceRequests := serviceRequests d @ seeded dr (resolveUserId argv env) 0 (take n demoRequests)\<rparr> \<and>
    (r = Inr (if n = 3 then 0 else 1)) \<and> (resolveUserId argv env = PLACEHOLDER_USER_ID \<longrightarrow> d' = d \<and> r = Inr 1)"
proof (cases "resolveUserId argv env = PLACEHOLDER_USER_ID")
  case True
  with assms show ?thesis by (intro exI [of _ 0]) (simp add: seed_main_def ret_def seeded_def)
next
  case False
  obtain x d1 where s: "seed_rows dr (resolveUserId argv env) 0 demoRequests d = (x, d1)" by fastforce
  with assms False have r: "d' = d1" "r = (case x of Inl _ \<Rightarrow> Inr 1 | Inr _ \<Rightarrow> Inr 0)"
    by (auto simp: seed_main_def catch_def andThen_def ret_def split: sum.splits)
  have l: "length demoRequests = 3" by (simp add: demoRequests_def)
  from seed_rows_outcome [OF s] l obtain n where "n \<le> 3" "x = Inr () \<longleftrightarrow> n = 3"
      "d1 = d\<lparr>serviceRequests := serviceRequests d @ seeded dr (resolveUserId argv env) 0 (take n demoRequests)\<rparr>" by auto
  then show ?thesis
    using False r by (intro exI [of _ n]) (auto split: sum.split)
qed

definition seed_sample :: "nat \<Rightarrow> seed_draws" where
  "seed_sample fails = \<lparr>ss_ids = (\<lambda>n. ''seed'' @ replicate n (CHR ''x'')), ss_now = int, ss_faults = (\<lambda>n. if n = fails then Some P2002 else None)\<rparr>"

theorem seed_outcome_witness:
  "map caseCaption (serviceRequests (snd (seed_main [''--userId=user_9''] (\<lambda>_. None) (seed_sample 1) (sample_db 0)))) =
     [''A v. B'', ''Doe v. Buterin''] \<and>
   snd (seed_main [] (\<lambda>_. None) (seed_sample 1) (sample_db 0)) = sample_db 0"
proof
  have u: "resolveUserId [''--userId=user_9''] (\<lambda>_. None) = ''user_9''" "resolveUserId [] (\<lambda>_. None) = PLACEHOLDER_USER_ID"
    by (simp_all add: resolveUserId_def)
  have f: "seed_rows (seed_sample 1) ''user_9'' 0 demoRequests (sample_db 0) =
      (Inl P2002, sr_insert (seeded_row (seed_sample 1) ''user_9'' 0 (hd demoRequests)) (sample_db 0))"
    by (simp add: demoRequests_def andThen_def faulty_def throw_def sr_create_def seeded_row_def demo_request_of_def
        token_taken_def sr_find_def seed_sample_def sample_defs)
  let ?run = "seed_main [''--userId=user_9''] (\<lambda>_. None) (seed_sample 1) (sample_db 0)"
  have run: "?run = (Inr 1, snd ?run)"
    by (simp add: seed_main_def u(1) PLACEHOLDER_USER_ID_def f [simplified] catch_def andThen_def ret_def)
  have one: "snd ?run = sr_insert (seeded_row (seed_sample 1) ''user_9'' 0 (hd demoRequests)) (sample_db 0)"
    by (simp add: seed_main_def u(1) PLACEHOLDER_USER_ID_def f [simplified] catch_def andThen_def ret_def)
  from seed_outcome [OF run] one
  show "map caseCaption (serviceRequests (snd ?run)) = [''A v. B'', ''Doe v. Buterin'']"
    by (simp add: sr_insert_def seeded_row_def demoRequests_def demo_request_of_def sample_defs)
  have "seed_main [] (\<lambda>_. None) (seed_sample 1) (sample_db 0) = (Inr 1, sample_db 0)"
    by (simp add: seed_main_def u(2) ret_def)
  from seed_outcome [OF this] show "snd (seed_main [] (\<lambda>_. None) (seed_sample 1) (sample_db 0)) = sample_db 0"
    by (simp add: seed_main_def u(2) ret_def)
qed

text \<open>The records the script publishes are not those the agent route asks for: a name that carries exactly them is never
  reported compliant with ENSIP-26, whatever address it resolves to, while one that carries the records of
  the route app/api/ens/set-records, and resolves to the agent, is.\<close>

theorem published_records_not_recognised:
  assumes "\<And>key. en_text ens AGENT_ENS key = Inr (map_of recs key)"
  shows "(recs = AGENT_RECORDS name \<longrightarrow> json_prop (res_body (agent_GET ens)) ''ensip26Compliant'' = Some (JBool False)) \<and>
    (recs = TEXT_RECORDS \<and> en_address ens AGENT_ENS = Inr (Some AGENT_ADDRESS) \<longrightarrow>
       json_prop (res_body (agent_GET ens)) ''ensip26Compliant'' = Some (JBool True))"
proof -
  have "js_lower AGENT_ADDRESS = AGENT_ADDRESS" by (simp add: AGENT_ADDRESS_def js_lower_def lower_char_def code_unit_def)
  then show ?thesis
    by (auto simp: agent_GET_def Let_def text_entry_def or_null_def assms AGENT_RECORDS_def TEXT_RECORDS_def json_of_str_def)
qed

definition carries :: "(string \<times> string) list \<Rightarrow> ens_sdk" where
  "carries recs =
     \<lparr>en_address = (\<lambda>_. Inr (Some AGENT_ADDRESS)), en_name = (\<lambda>_. Inr None), en_text = (\<lambda>_ key. Inr (map_of recs key))\<rparr>"

theorem published_records_not_recognised_witness:
  "json_prop (res_body (agent_GET (carries (AGENT_RECORDS AGENT_ENS)))) ''ensip26Compliant'' = Some (JBool False) \<and>
   json_prop (res_body (agent_GET (carries TEXT_RECORDS))) ''ensip26Compliant'' = Some (JBool True)"
proof -
  have t: "en_text (carries recs) AGENT_ENS key = Inr (map_of recs key)" for recs key by (simp add: carries_def)
  have a: "en_address (carries recs) AGENT_ENS = Inr (Some AGENT_ADDRESS)" for recs by (simp add: carries_def)
  from published_records_not_recognised [OF t, of "AGENT_RECORDS AGENT_ENS" AGENT_ENS]
    published_records_not_recognised [OF t, of TEXT_RECORDS] a show ?thesis by blast
qed

text \<open>The key shares of a wallet are secrets, and the function that creates one prints them: whenever it returns a
  wallet, the log has got the text of the shares, and without a password of its own the wallet was made with
  the one written in the source.\<close>

theorem wallet_shares_logged:
  assumes "createAgentWallet sdk env w = (Inr (Some info), w')"
  shows "\<exists>c c' made. dy_create sdk (case env ''DYNAMIC_WALLET_PASSWORD'' of None \<Rightarrow> ''eps-agent-secure-pw-2026'' | Some p \<Rightarrow> p) c = (Inr made, c') \<and>
    (\<exists>line\<in>set (wl_log w'). suffix (shares_text (wa_shares made)) line)"
proof -
  obtain made c c' where m: "dy_create sdk (case env ''DYNAMIC_WALLET_PASSWORD'' of None \<Rightarrow> default_wallet_password | Some p \<Rightarrow> p) c = (Inr made, c')"
      and l: "(''[DynamicAgent] Key shares (store securely): '' @ shares_text (wa_shares made)) \<in> set (wl_log w')"
    using assms
    by (auto simp: createAgentWallet_def new_wallet_def catch_def andThen_Inr_iff wl_on_def wl_print_def ret_def Let_def andThen_def
        split: if_splits prod.splits sum.splits)
  then show ?thesis
    unfolding default_wallet_password_def by (intro exI conjI bexI [OF _ l]) (auto simp: suffix_def)
qed

definition wallet_sample :: "unit dynamic_sdk" where
  "wallet_sample =
     \<lparr>dy_loads = True, dy_login = (\<lambda>_ _. ret ()),
      dy_create = (\<lambda>_. ret \<lparr>wa_walletId = Some ''w1'', wa_publicKeyHex = None, wa_shares = Some (JStr ''share'')\<rparr>)\<rparr>"

theorem wallet_shares_logged_witness:
  "\<exists>line\<in>set (wl_log (snd (createAgentWallet wallet_sample (\<lambda>_. Some ''x'') \<lparr>wl_net = (), wl_log = []\<rparr>))).
     suffix (json_stringify (JStr ''share'')) line"
proof -
  have "createAgentWallet wallet_sample (\<lambda>_. Some ''x'') \<lparr>wl_net = (), wl_log = []\<rparr> =
      (Inr (Some \<lparr>wi_walletId = ''w1'', wi_address = ''unknown''\<rparr>),
       snd (createAgentWallet wallet_sample (\<lambda>_. Some ''x'') \<lparr>wl_net = (), wl_log = []\<rparr>))"
    by (simp add: createAgentWallet_def new_wallet_def catch_def andThen_def wl_on_def wl_print_def ret_def Let_def wallet_sample_def)
  from wallet_shares_logged [OF this] show ?thesis
    by (auto simp: wallet_sample_def ret_def shares_text_def)
qed

end
