(* ===== verification/Site.thy ===== *)
theory Site
  imports Scripts ENS
begin

text \<open>
  Who gets to see the dashboard, and what its two informative pages state: the middleware (middleware.ts), the
  page of the agent (app/dashboard/agent/page.tsx), the standard (app/dashboard/standard/page.tsx), and the
  operator's check of the Hedera set-up (scripts/test-hedera.ts, lib/hedera/HederaAgentKit.ts). Clerk's
  \<open>createRouteMatcher\<close> and \<open>auth.protect()\<close> are parameters. Of the two pages, what is computed and the
  tables whose entries other code has to live up to are modelled; prose and layout are left out.
\<close>

subsection \<open>middleware.ts\<close>

definition PROTECTED_ROUTES :: string where "PROTECTED_ROUTES = ''/dashboard(.*)''"

definition middleware ::
  "(string \<Rightarrow> string \<Rightarrow> bool) \<Rightarrow> (clerk_session \<Rightarrow> unit result) \<Rightarrow> clerk_session \<Rightarrow> string \<Rightarrow> unit result" where
  "middleware matches protect cs path = (if matches PROTECTED_ROUTES path then protect cs else Inr ())"

text \<open>
  \<open>config.matcher\<close>: the paths the middleware runs on. The first pattern leaves out the internals of the framework
  and every path in which one of the listed endings follows a dot; the lookahead is not anchored, so an ending
  is any text that starts with it.
\<close>

definition asset_ending :: "string \<Rightarrow> bool" where
  "asset_ending s \<longleftrightarrow>
     list_ex (\<lambda>e. prefix e s)
       [''htm'', ''css'', ''jpg'', ''jpeg'', ''webp'', ''png'', ''gif'', ''svg'', ''ttf'', ''woff'', ''ico'', ''csv'',
        ''doc'', ''xls'', ''zip'', ''webmanifest''] \<or>
     prefix ''js'' s \<and> \<not> prefix ''json'' s"

fun names_asset :: "string \<Rightarrow> bool" where
  "names_asset [] = False"
| "names_asset (c # s) = (c \<noteq> CHR ''?'' \<and> (c = CHR ''.'' \<and> asset_ending s \<or> names_asset s))"

definition runs_on :: "string \<Rightarrow> bool" where
  "runs_on path \<longleftrightarrow>
     (prefix ''/'' path \<and> \<not> prefix ''_next'' (tl path) \<and> \<not> names_asset (tl path)) \<or>
     prefix ''/api'' path \<or> prefix ''/trpc'' path"

subsection \<open>The page of the agent\<close>

text \<open>\<open>fetch\<close> rejects, or gives a response whose \<open>json()\<close> rejects or gives a value.\<close>

type_synonym 's fetch_json = "string \<Rightarrow> ('s, json result) act"

text \<open>
  The promise of \<open>res.json()\<close> is returned without \<open>await\<close>, so its rejection is not the one the \<open>catch\<close> sees.
\<close>

definition getAgentData :: "env \<Rightarrow> 's fetch_json \<Rightarrow> ('s, json option) act" where
  "getAgentData env fetch s =
     (let base = (case env ''NEXT_PUBLIC_APP_URL'' of None \<Rightarrow> ''https://eps-dapp.vercel.app'' | Some u \<Rightarrow> u)
      in case fetch (base @ ''/api/ens/agent'') s of
           (Inl _, s') \<Rightarrow> (Inr None, s')
         | (Inr (Inl e), s') \<Rightarrow> (Inl e, s')
         | (Inr (Inr v), s') \<Rightarrow> (Inr (Some v), s'))"

definition or_shown :: "json option \<Rightarrow> string \<Rightarrow> json" where
  \<comment> \<open>\<open>v ?? text\<close>\<close>
  "or_shown v t = (case v of None \<Rightarrow> JStr t | Some JNull \<Rightarrow> JStr t | Some w \<Rightarrow> w)"

record agent_page =
  ag_ensip25 :: bool
  ag_ensip26 :: bool
  ag_address :: json
  ag_type :: json
  ag_version :: json
  ag_compliance :: "(string \<times> bool) list" \<comment> \<open>the standards and their check marks\<close>

definition agent_compliance :: "bool \<Rightarrow> bool \<Rightarrow> (string \<times> bool) list" where
  "agent_compliance ensip25 ensip26 =
     [(''ENSIP-25'', ensip25), (''ENSIP-26'', ensip26), (''EPS-1.0'', True), (''HCS'', True), (''HTS'', True)]"

definition agent_page_of :: "json option \<Rightarrow> agent_page" where
  "agent_page_of agent =
     (let ensip25 = json_truthy (json_at agent ''ensip25Compliant'');
          ensip26 = json_truthy (json_at agent ''ensip26Compliant'');
          credentials = json_at agent ''credentials''
      in \<lparr>ag_ensip25 = ensip25, ag_ensip26 = ensip26,
          ag_address = or_shown (json_at agent ''agentAddress'') ''0xd116A147A95f406a4A4F589c44d588cfE58ef6E0'',
          ag_type = or_shown (json_at credentials ''agentType'') ''process-server'',
          ag_version = or_shown (json_at credentials ''agentVersion'') ''1.0.0'',
          ag_compliance = agent_compliance ensip25 ensip26\<rparr>)"

definition AgentPage :: "clerk_session \<Rightarrow> env \<Rightarrow> 's fetch_json \<Rightarrow> ('s, agent_page dashboard_page) act" where
  "AgentPage cs env fetch =
     (if \<not> truthy (cs_userId cs) then ret Sign_In
      else andThen (getAgentData env fetch) (\<lambda>agent. ret (Shown (agent_page_of agent))))"

subsection \<open>The page of the standard\<close>

definition PSR_FIELDS :: "string list" where
  "PSR_FIELDS =
     [''psr_id'', ''eps_version'', ''service_status'', ''blockchain_network'', ''transaction_hash'', ''block_timestamp'',
      ''target_address'', ''document_hash'', ''explorer_url'', ''psr_signature'']"

definition STANDARD_CHECKLIST :: "(string \<times> bool) list" where
  "STANDARD_CHECKLIST =
     [(''Service Packet conforms to Section 6 schema'', True),
      (''packet_id is a valid UUID v4'', True),
      (''document_hash is SHA-256 of canonical document bundle'', True),
      (''Packet is signed with ES256K or Ed25519'', True),
      (''Service Transaction submitted to a conformant blockchain network'', True),
      (''Confirmation threshold per Section 7.3 enforced before PSR generation'', True),
      (''PSR contains all REQUIRED fields per Section 8.2'', True),
      (''PSR generated within 60 seconds of confirmation'', True),
      (''PSR available in JSON format'', True),
      (''PSR retained (HCS messages are permanent)'', True),
      (''Audit log is append-only and cryptographically chained'', True),
      (''Documents are NOT stored in full on-chain'', True),
      (''Transport uses TLS 1.3 minimum (Vercel default)'', True),
      (''Verification API endpoint publicly accessible'', True)]"

record standard_page =
  st_psrFields :: "string list"
  st_checklist :: "(string \<times> bool) list"

definition StandardPage :: "clerk_session \<Rightarrow> standard_page dashboard_page" where
  "StandardPage cs =
     (if \<not> truthy (cs_userId cs) then Sign_In
      else Shown \<lparr>st_psrFields = PSR_FIELDS, st_checklist = STANDARD_CHECKLIST\<rparr>)"

subsection \<open>test-hedera.ts\<close>

text \<open>
  The two modules of the kit, \<open>None\<close> when an import fails; of the first, whether \<open>HederaAgentAPI\<close> is a function,
  and of the second, whether \<open>coreTokenPlugin\<close> is truthy.
\<close>

definition verifyAgentKitAvailable :: "bool option \<Rightarrow> bool option \<Rightarrow> bool" where
  "verifyAgentKitAvailable core plugins =
     (case (core, plugins) of
        (Some has_api, Some has_plugin) \<Rightarrow> has_api \<and> has_plugin
      | _ \<Rightarrow> False)"

definition test_payload :: "date \<Rightarrow> hedera_payload" where
  "test_payload now =
     \<lparr>hp_deliveryId = ''test-'' @ string_of_int now, hp_documentHash = replicate 64 (CHR ''a''),
      hp_caseRef = ''2026-TEST-001'', hp_servedTo = ''0x0000000000000000000000000000000000000001'',
      hp_servedBy = ''eps-test-agent''\<rparr>"

text \<open>The exit code of the script; an error that reaches its end is only printed.\<close>

definition test_hedera :: "'c hedera_sdk \<Rightarrow> env \<Rightarrow> date \<Rightarrow> 'c \<Rightarrow> int \<times> 'c" where
  "test_hedera sdk env now c =
     (case recordOnHedera sdk env now (test_payload now) c of
        (Inl _, c') \<Rightarrow> (0, c')
      | (Inr res, c') \<Rightarrow> (if hx_bothSucceeded res then 0 else 1, c'))"

subsection \<open>Lemmas\<close>

text \<open>On the network of today, whose tokens cap their metadata, the check of the set-up never passes.\<close>

lemma test_hedera_fails: "metadata_capped sdk \<Longrightarrow> fst (test_hedera sdk env now c) = 1"
  by (rule recordOnHedera_capped [of sdk env now "test_payload now" c]) (auto simp: test_hedera_def)

text \<open>A consensus service that takes only messages without any of the fields the standard requires.\<close>

definition without_fields :: "string list \<Rightarrow> string \<Rightarrow> bool" where
  "without_fields fs m \<longleftrightarrow> (\<exists>ps. m = json_stringify (JObj ps) \<and> set (map fst ps) \<inter> set fs = {})"

definition refusing :: "string list \<Rightarrow> 'c hedera_sdk \<Rightarrow> 'c hedera_sdk" where
  "refusing fs sdk = sdk\<lparr>hs_submit := (\<lambda>net operator topic m.
     if without_fields fs m then hs_submit sdk net operator topic m else throw (PlainError ''INVALID_PSR''))\<rparr>"

lemma hcs_message_without: "without_fields PSR_FIELDS (hcs_message now p)"
  unfolding without_fields_def hcs_message_def by (intro exI conjI, rule refl) (simp add: PSR_FIELDS_def)

text \<open>So no proof record the program publishes has any of the required fields, which its own page ticks off.\<close>

lemma standard_not_met:
  assumes "StandardPage cs = Shown v"
  shows "(''PSR contains all REQUIRED fields per Section 8.2'', True) \<in> set (st_checklist v)"
    "submitToHCS (refusing (st_psrFields v) sdk) env now p = submitToHCS sdk env now p"
proof -
  have v: "st_psrFields v = PSR_FIELDS" "st_checklist v = STANDARD_CHECKLIST"
    using assms by (auto simp: StandardPage_def split: if_splits)
  show "(''PSR contains all REQUIRED fields per Section 8.2'', True) \<in> set (st_checklist v)"
    by (simp add: v STANDARD_CHECKLIST_def)
  have "buildClient (refusing PSR_FIELDS sdk) env = buildClient sdk env" by (simp add: buildClient_def refusing_def)
  moreover have "hs_submit (refusing PSR_FIELDS sdk) net operator topic (hcs_message now p) =
      hs_submit sdk net operator topic (hcs_message now p)" for net operator topic
    by (simp add: refusing_def hcs_message_without)
  ultimately show "submitToHCS (refusing (st_psrFields v) sdk) env now p = submitToHCS sdk env now p"
    by (simp add: submitToHCS_def v Let_def split: sum.split option.split)
qed

lemma names_asset_iff: "names_asset s \<Longrightarrow> CHR ''.'' \<in> set s"
  by (induction s) auto

lemma dashboard_covered: "CHR ''.'' \<notin> set path \<Longrightarrow> prefix ''/dashboard'' path \<Longrightarrow> runs_on path"
  using names_asset_iff [of "tl path"] by (cases path) (auto simp: runs_on_def prefix_def)

lemma json_at_agent:
  "json_at (Some (res_body (agent_GET ens))) key = json_prop (res_body (agent_GET ens)) key"
  by (simp add: json_at_def)

text \<open>Whether the route takes the name for resolved: also when the lookup failed.\<close>

definition name_accepted :: "ens_sdk \<Rightarrow> bool" where
  "name_accepted ens \<longleftrightarrow>
     (case en_address ens AGENT_ENS of Inl _ \<Rightarrow> True | Inr a \<Rightarrow> map_option js_lower a = Some AGENT_ADDRESS)"

lemma agent_address_lower: "js_lower AGENT_ADDRESS = AGENT_ADDRESS"
  by code_simp

lemma agent_GET_props:
  "json_prop (res_body (agent_GET ens)) ''ensip25Compliant'' = Some (JBool (name_accepted ens))"
  "json_prop (res_body (agent_GET ens)) ''agentAddress'' =
     Some (json_of_str (case en_address ens AGENT_ENS of Inl _ \<Rightarrow> Some AGENT_ADDRESS | Inr a \<Rightarrow> map_option js_lower a))"
  "json_prop (res_body (agent_GET ens)) ''ensip26Compliant'' =
     Some (JBool (name_accepted ens \<and> text_entry ens ''agentType'' @ text_entry ens ''agentVersion'' \<noteq> []))"
  by (auto simp: agent_GET_def Let_def json_response_def name_accepted_def agent_address_lower option.map_comp comp_def
      split: sum.split)

subsection \<open>Properties\<close>

text \<open>C16. Nobody without a session sees the dashboard: its server pages send such a visitor to the sign-in page
  whatever is stored, and the middleware stops the request for every page whose address has no dot, the intake
  form included, which has no check of its own. It lets every API request through: each handler has to check.\<close>

theorem dashboard_needs_session:
  assumes "\<And>rest. matches PROTECTED_ROUTES (''/dashboard'' @ rest)" "\<And>rest. \<not> matches PROTECTED_ROUTES (''/api'' @ rest)"
    and "\<And>cs. \<not> truthy (cs_userId cs) \<Longrightarrow> \<exists>e. protect cs = Inl e" "\<not> truthy (cs_userId cs)"
  shows "DashboardPage cs params d = Sign_In \<and> ServiceDetailPage cs i d = Sign_In \<and> StandardPage cs = Sign_In \<and>
    AgentPage cs env fetch s = (Inr Sign_In, s) \<and>
    (\<forall>rest. CHR ''.'' \<notin> set rest \<longrightarrow>
      runs_on (''/dashboard'' @ rest) \<and> (\<exists>e. middleware matches protect cs (''/dashboard'' @ rest) = Inl e)) \<and>
    (\<forall>rest. middleware matches protect cs (''/api'' @ rest) = Inr ())"
proof -
  have "runs_on (''/dashboard'' @ rest)" if "CHR ''.'' \<notin> set rest" for rest
    using that by (intro dashboard_covered) auto
  moreover have "\<exists>e. middleware matches protect cs (''/dashboard'' @ rest) = Inl e" for rest
    using assms(1) [of rest] assms(3) [OF assms(4)] by (simp add: middleware_def)
  ultimately show ?thesis
    using assms(2,4) unfolding DashboardPage_def ServiceDetailPage_def StandardPage_def AgentPage_def middleware_def
    by (simp add: ret_def)
qed

lemma dashboard_needs_session_witness:
  "\<exists>e. middleware (\<lambda>_ path. prefix ''/dashboard'' path) (\<lambda>cs. map_sum id (\<lambda>_. ()) (requireUser cs))
     \<lparr>cs_userId = None, cs_orgId = None, cs_has_role = (\<lambda>_. False)\<rparr> ''/dashboard/new'' = Inl e"
proof -
  let ?matches = "(\<lambda>_ path. prefix ''/dashboard'' path) :: string \<Rightarrow> string \<Rightarrow> bool"
  let ?cs = "\<lparr>cs_userId = None, cs_orgId = None, cs_has_role = (\<lambda>_. False)\<rparr>"
  have p: "\<exists>e. map_sum id (\<lambda>_. ()) (requireUser cs) = Inl e" if "\<not> truthy (cs_userId cs)" for cs
    using that by (simp add: requireUser_def)
  have "CHR ''.'' \<notin> set ''/new''" by simp
  with dashboard_needs_session [where matches = ?matches and cs = ?cs and protect = "\<lambda>cs. map_sum id (\<lambda>_. ()) (requireUser cs)"
      and params = Map.empty and d = "sample_db 0" and i = "''r1''" and env = Map.empty and fetch = "\<lambda>_. ret (Inr JNull)"
      and s = "()", OF _ _ p]
  show ?thesis by fastforce
qed

text \<open>C28. What the page of the agent certifies. It ticks ENSIP-25 exactly when the name resolves to the address of
  the agent or cannot be looked up at all: during an outage of the ENS node the identity is shown as verified.
  ENSIP-26 needs one of the two published records besides. When the route cannot be reached the page shows
  nothing as verified; when its answer is no JSON the page fails instead, the \<open>catch\<close> not applying.\<close>

theorem agent_page_badge:
  assumes "truthy (cs_userId cs)" "env ''NEXT_PUBLIC_APP_URL'' = Some base"
  shows "(fetch (base @ ''/api/ens/agent'') s = (Inr (Inr (res_body (agent_GET ens))), s) \<longrightarrow>
      (\<exists>v. AgentPage cs env fetch s = (Inr (Shown v), s) \<and> (ag_ensip25 v \<longleftrightarrow> name_accepted ens) \<and>
        (ag_ensip26 v \<longleftrightarrow> name_accepted ens \<and> (truthy (or_null (en_text ens AGENT_ENS ''agentType'')) \<or>
          truthy (or_null (en_text ens AGENT_ENS ''agentVersion'')))) \<and>
        ((\<forall>n. \<exists>e. en_address ens n = Inl e) \<longrightarrow> ag_ensip25 v \<and> ag_address v = JStr AGENT_ADDRESS))) \<and>
    (\<forall>e. fetch (base @ ''/api/ens/agent'') s = (Inl e, s) \<longrightarrow>
      (\<exists>v. AgentPage cs env fetch s = (Inr (Shown v), s) \<and> \<not> ag_ensip25 v \<and> \<not> ag_ensip26 v)) \<and>
    (\<forall>e. fetch (base @ ''/api/ens/agent'') s = (Inr (Inl e), s) \<longrightarrow> AgentPage cs env fetch s = (Inl e, s))"
proof (intro conjI allI impI)
  assume f: "fetch (base @ ''/api/ens/agent'') s = (Inr (Inr (res_body (agent_GET ens))), s)"
  let ?v = "agent_page_of (Some (res_body (agent_GET ens)))"
  have "AgentPage cs env fetch s = (Inr (Shown ?v), s)"
    using assms f by (simp add: AgentPage_def getAgentData_def andThen_def ret_def)
  moreover have "ag_ensip25 ?v \<longleftrightarrow> name_accepted ens"
    by (simp add: agent_page_of_def Let_def json_at_agent agent_GET_props json_truthy_def)
  moreover have "ag_ensip26 ?v \<longleftrightarrow> name_accepted ens \<and> (truthy (or_null (en_text ens AGENT_ENS ''agentType'')) \<or>
      truthy (or_null (en_text ens AGENT_ENS ''agentVersion'')))"
    by (simp add: agent_page_of_def Let_def json_at_agent agent_GET_props json_truthy_def text_entry_def)
  moreover have "ag_address ?v = JStr AGENT_ADDRESS \<and> name_accepted ens" if "\<forall>n. \<exists>e. en_address ens n = Inl e"
    using that [rule_format, of AGENT_ENS]
    by (auto simp: agent_page_of_def Let_def json_at_agent agent_GET_props or_shown_def json_of_str_def name_accepted_def)
  ultimately show "\<exists>v. AgentPage cs env fetch s = (Inr (Shown v), s) \<and> (ag_ensip25 v \<longleftrightarrow> name_accepted ens) \<and>
        (ag_ensip26 v \<longleftrightarrow> name_accepted ens \<and> (truthy (or_null (en_text ens AGENT_ENS ''agentType'')) \<or>
          truthy (or_null (en_text ens AGENT_ENS ''agentVersion'')))) \<and>
        ((\<forall>n. \<exists>e. en_address ens n = Inl e) \<longrightarrow> ag_ensip25 v \<and> ag_address v = JStr AGENT_ADDRESS)" by blast
qed (use assms in \<open>simp_all add: AgentPage_def getAgentData_def andThen_def ret_def agent_page_of_def json_at_def json_truthy_def\<close>)

definition outage :: ens_sdk where
  "outage = \<lparr>en_address = (\<lambda>_. Inl (PlainError ''HttpRequestError'')), en_name = (\<lambda>_. Inl (PlainError ''HttpRequestError'')),
     en_text = (\<lambda>_ _. Inl (PlainError ''HttpRequestError''))\<rparr>"

lemma agent_page_badge_witness:
  "\<exists>v. AgentPage \<lparr>cs_userId = Some ''u1'', cs_orgId = None, cs_has_role = (\<lambda>_. False)\<rparr>
       (map_of [(''NEXT_PUBLIC_APP_URL'', ''http://localhost'')]) (\<lambda>_. ret (Inr (res_body (agent_GET outage)))) () =
         (Inr (Shown v), ()) \<and> ag_ensip25 v \<and> \<not> ag_ensip26 v \<and> ag_address v = JStr AGENT_ADDRESS"
proof -
  let ?cs = "\<lparr>cs_userId = Some ''u1'', cs_orgId = None, cs_has_role = (\<lambda>_. False)\<rparr>"
    and ?env = "map_of [(''NEXT_PUBLIC_APP_URL'', ''http://localhost'')]"
    and ?fetch = "(\<lambda>_. ret (Inr (res_body (agent_GET outage)))) :: unit fetch_json"
  have "truthy (cs_userId ?cs)" "?env ''NEXT_PUBLIC_APP_URL'' = Some ''http://localhost''" by simp_all
  note badge = agent_page_badge [of ?cs ?env "''http://localhost''" ?fetch "()" outage, OF this]
  have "?fetch url () = (Inr (Inr (res_body (agent_GET outage))), ())" for url by (simp add: ret_def)
  with badge obtain v where v: "AgentPage ?cs ?env ?fetch () = (Inr (Shown v), ())"
    "ag_ensip26 v \<longleftrightarrow> name_accepted outage \<and> (truthy (or_null (en_text outage AGENT_ENS ''agentType'')) \<or>
          truthy (or_null (en_text outage AGENT_ENS ''agentVersion'')))"
    "(\<forall>n. \<exists>e. en_address outage n = Inl e) \<longrightarrow> ag_ensip25 v \<and> ag_address v = JStr AGENT_ADDRESS" by blast
  moreover have "\<forall>n. \<exists>e. en_address outage n = Inl e" by (simp add: outage_def)
  ultimately show ?thesis by (auto simp: outage_def or_null_def)
qed

end
