(* ===== verification/EPS_System.thy ===== *)
theory EPS_System
  imports Tracking Worker_Steps Payments Startup Provisioning Site
begin

text \<open>
  The program as one system: every part of the state that some operation reads or writes, and a step for every
  operation that changes it, run on its part of the state. A detached promise (a Hedera task, the alert of
  a first view) is a step of its own that takes one pending item.
\<close>

record ('c, 'h, 'b) eps_system =
  sy_db :: db
  sy_objects :: "put_object list"
  sy_chain :: 'c
  sy_hedera :: 'h
  sy_stripe :: 'b
  sy_client :: "string option"
  sy_api_buckets :: "window_counter js_map"
  sy_page_buckets :: "window_counter js_map"
  sy_alerts :: "string list"
  sy_mails :: "mail list"
  sy_log :: "string list"
  sy_tasks :: "hedera_task list"

definition intake_state :: "('c, 'h, 'b) eps_system \<Rightarrow> world" where
  "intake_state y = \<lparr>w_db = sy_db y, w_objects = sy_objects y\<rparr>"

definition route_state_of :: "('c, 'h, 'b) eps_system \<Rightarrow> 'h route_state" where
  "route_state_of y = \<lparr>rt_buckets = sy_api_buckets y, rt_db = sy_db y, rt_hedera = sy_hedera y\<rparr>"

definition put_route :: "'h route_state \<Rightarrow> ('c, 'h, 'b) eps_system \<Rightarrow> ('c, 'h, 'b) eps_system" where
  "put_route w y = y\<lparr>sy_api_buckets := rt_buckets w, sy_db := rt_db w, sy_hedera := rt_hedera w\<rparr>"

definition worker_state_of :: "('c, 'h, 'b) eps_system \<Rightarrow> hedera_task list \<Rightarrow> ('c, 'h) worker_state" where
  "worker_state_of y ts =
     \<lparr>ws_db = sy_db y, ws_chain = sy_chain y, ws_hedera = sy_hedera y, ws_log = sy_log y, ws_tasks = ts\<rparr>"

definition put_worker :: "('c, 'h) worker_state \<Rightarrow> ('c, 'h, 'b) eps_system \<Rightarrow> ('c, 'h, 'b) eps_system" where
  "put_worker w y =
     y\<lparr>sy_db := ws_db w, sy_chain := ws_chain w, sy_hedera := ws_hedera w, sy_log := ws_log w, sy_tasks := ws_tasks w\<rparr>"

definition notice_state_of :: "('c, 'h, 'b) eps_system \<Rightarrow> string list \<Rightarrow> notice_state" where
  "notice_state_of y alerts =
     \<lparr>ns_db = sy_db y, ns_buckets = sy_page_buckets y, ns_alerts = alerts, ns_mails = sy_mails y\<rparr>"

definition put_notice :: "notice_state \<Rightarrow> ('c, 'h, 'b) eps_system \<Rightarrow> ('c, 'h, 'b) eps_system" where
  "put_notice w y =
     y\<lparr>sy_db := ns_db w, sy_page_buckets := ns_buckets w, sy_alerts := ns_alerts w, sy_mails := ns_mails w\<rparr>"

definition billing_state_of :: "('c, 'h, 'b) eps_system \<Rightarrow> 'b billing" where
  "billing_state_of y = \<lparr>bi_client = sy_client y, bi_sdk = sy_stripe y, bi_db = sy_db y\<rparr>"

definition put_billing :: "'b billing \<Rightarrow> ('c, 'h, 'b) eps_system \<Rightarrow> ('c, 'h, 'b) eps_system" where
  "put_billing w y = y\<lparr>sy_client := bi_client w, sy_stripe := bi_sdk w, sy_db := bi_db w\<rparr>"

lemmas system_parts =
  intake_state_def route_state_of_def put_route_def worker_state_of_def put_worker_def notice_state_of_def put_notice_def
  billing_state_of_def put_billing_def

subsection \<open>Steps\<close>

text \<open>
  The steps of the application around the worker. Between the lookup and the insertion of a certificate other requests
  may run: \<open>between\<close> says what they may do to the database.
\<close>

inductive app_step ::
  "(db \<Rightarrow> db \<Rightarrow> bool) \<Rightarrow> ('c, 'h, 'b) eps_system \<Rightarrow> ('c, 'h, 'b) eps_system \<Rightarrow> bool" for between where
  intake: "createServiceRequest cr env hc cd inp (intake_state y) = (r1, w) \<Longrightarrow>
    app_step between y (y\<lparr>sy_db := w_db w, sy_objects := w_objects w\<rparr>)"
| filing: "service_requests_POST (deps :: ('c, 'h) route_deps) cs dr req (route_state_of y) = (r2, rw) \<Longrightarrow>
    app_step between y (put_route rw y)"
| reading: "service_request_GET cs now req i (route_state_of y) = (r2, rw) \<Longrightarrow> app_step between y (put_route rw y)"
| upload: "upload_POST sniff cr env hc si form (sy_objects y) = (r2, objs) \<Longrightarrow> app_step between y (y\<lparr>sy_objects := objs\<rparr>)"
| detached: "sy_tasks y = ts @ t # us \<Longrightarrow>
    run_task hsdk env now fault t (worker_state_of y (ts @ us)) = (r4, ww) \<Longrightarrow> app_step between y (put_worker ww y)"
| page_view: "NoticePage env adr fault accepted headers token (notice_state_of y (sy_alerts y)) = (r5, nw) \<Longrightarrow>
    app_step between y (put_notice nw y)"
| alert: "sy_alerts y = ids @ i # js \<Longrightarrow>
    sendFirstAccessAlert fault i (notice_state_of y (ids @ js)) = (r6, nw) \<Longrightarrow> app_step between y (put_notice nw y)"
| certificate: "(\<And>d. between d (interference d)) \<Longrightarrow>
    certificate_GET lib cs uuid now fault interference req i (notice_state_of y (sy_alerts y)) = (r7, nw) \<Longrightarrow>
    app_step between y (put_notice nw y)"
| checkout: "checkout_POST sdk env cs req (billing_state_of y) = (r2, bw) \<Longrightarrow> app_step between y (put_billing bw y)"
| webhook: "webhook_POST sdk env wdr req (billing_state_of y) = (r2, bw) \<Longrightarrow> app_step between y (put_billing bw y)"
| grant: "comp_grant_POST cs gdr req (sy_db y) = (r2, d) \<Longrightarrow> app_step between y (y\<lparr>sy_db := d\<rparr>)"
| skip: "skip_payment_POST env fault cs req (sy_db y) = (r2, d) \<Longrightarrow> app_step between y (y\<lparr>sy_db := d\<rparr>)"
| fulfill: "fulfill_POST hsdk message shown env now fault cs req (route_state_of y) = (r2, rw) \<Longrightarrow>
    app_step between y (put_route rw y)"

text \<open>Nothing, or one step of a given kind, on the database it finds.\<close>

definition at_most_one ::
  "(('c, 'h, 'b) eps_system \<Rightarrow> ('c, 'h, 'b) eps_system \<Rightarrow> bool) \<Rightarrow> db \<Rightarrow> db \<Rightarrow> bool" where
  "at_most_one step d d' \<longleftrightarrow> d' = d \<or> (\<exists>z z'. sy_db z = d \<and> step z z' \<and> sy_db z' = d')"

lemma app_step_mono [mono]: "(\<And>d d'. I d d' \<longrightarrow> J d d') \<Longrightarrow> app_step I y y' \<longrightarrow> app_step J y y'"
  by (rule impI, erule app_step.cases) (simp_all, (blast intro: app_step.intros)+)

lemma at_most_one_mono [mono]: "(\<And>z z'. P z z' \<longrightarrow> Q z z') \<Longrightarrow> at_most_one P d d' \<longrightarrow> at_most_one Q d d'"
  unfolding at_most_one_def by blast

text \<open>The rest of the application, without the worker and the seeding of a demo; and the whole program.\<close>

inductive rest_step :: "('c, 'h, 'b) eps_system \<Rightarrow> ('c, 'h, 'b) eps_system \<Rightarrow> bool" where
  "app_step (at_most_one rest_step) y y' \<Longrightarrow> rest_step y y'"

inductive eps_step :: "('c, 'h, 'b) eps_system \<Rightarrow> ('c, 'h, 'b) eps_system \<Rightarrow> bool" where
  app: "app_step (at_most_one eps_step) y y' \<Longrightarrow> eps_step y y'"
| job: "runOnce wdeps io (worker_state_of y (sy_tasks y)) = (r3, ww) \<Longrightarrow> eps_step y (put_worker ww y)"
| seed: "seed_main argv env sdr (sy_db y) = (r8, d) \<Longrightarrow> eps_step y (y\<lparr>sy_db := d\<rparr>)"

context tracked
begin

lemma app_step_R:
  assumes "app_step I y y'" "\<And>d d'. I d d' \<Longrightarrow> R d d'"
  shows "R (sy_db y) (sy_db y')"
  using assms(1)
proof cases
  case (certificate interference lib cs uuid now fault req i r7 nw)
  have "R d (interference d)" for d using certificate(2) assms(2) by blast
  from recordingD [OF recording_certificate [OF this] certificate(3)] certificate(1) show ?thesis by (simp add: system_parts)
qed (auto simp: system_parts
      dest!: recordingD [OF recording_createServiceRequest] recordingD [OF recording_filing]
        recordingD [OF recording_reading] recordingD [OF recording_run_task]
        recordingD [OF recording_NoticePage] recordingD [OF recording_mails(1)] recordingD [OF recording_checkout]
        recordingD [OF recording_webhook] recordingD [OF recording_comp_grant] recordingD [OF recording_skip_payment]
        recordingD [OF recording_fulfill])

lemma at_most_one_R: "at_most_one (\<lambda>z z'. P z z' \<and> R (sy_db z) (sy_db z')) d d' \<Longrightarrow> R d d'"
  by (auto simp: at_most_one_def)

end

lemma evolves_seed: "steps evolves id (seed_main argv env dr)"
proof -
  have c: "steps evolves id (sr_create r)" for r
    by (simp add: steps_def sr_create_def evolves_sr_insert)
  have "steps evolves id (seed_rows dr user n rs)" for user n rs
    by (induction rs arbitrary: n) (simp_all add: recording_intros c)
  then show ?thesis unfolding seed_main_def Let_def by (intro recording_intros)
qed

text \<open>Every step moves the database forward, and the steps of the rest leave the worker what it relies on.\<close>

lemma eps_step_evolves: "eps_step y y' \<Longrightarrow> evolves (sy_db y) (sy_db y')"
proof (induction rule: eps_step.induct)
  case (app y y')
  then show ?case by (rule history.app_step_R) (rule history.at_most_one_R)
qed (auto simp: system_parts dest!: history.recordingD [OF evolves_runOnce] history.recordingD [OF evolves_seed])

lemma eps_run_evolves: "eps_step\<^sup>*\<^sup>* y y' \<Longrightarrow> evolves (sy_db y) (sy_db y')"
  by (induction rule: rtranclp_induct) (auto intro: evolves_trans eps_step_evolves)

lemma rest_step_keeps: "rest_step y y' \<Longrightarrow> keeps_signatures (sy_db y) (sy_db y')"
proof (induction rule: rest_step.induct)
  case (1 y y')
  then show ?case by (rule rest.app_step_R) (rule rest.at_most_one_R)
qed

lemma rest_run_keeps: "rest_step\<^sup>*\<^sup>* y y' \<Longrightarrow> keeps_signatures (sy_db y) (sy_db y')"
  by (induction rule: rtranclp_induct) (auto intro: rest.R_trans rest_step_keeps)

subsection \<open>A system to run\<close>

definition sample_system :: "(unit, unit, unit) eps_system" where
  "sample_system =
     \<lparr>sy_db = sample_db 0, sy_objects = [], sy_chain = (), sy_hedera = (), sy_stripe = (), sy_client = None,
      sy_api_buckets = [], sy_page_buckets = [], sy_alerts = [], sy_mails = [], sy_log = [], sy_tasks = []\<rparr>"

definition skipped_db :: db where
  "skipped_db = sr_modify ''r1'' (\<lambda>r. r\<lparr>sr_status := IN_PROGRESS\<rparr>) (sample_db 0)"

lemma sample_run: "eps_step\<^sup>*\<^sup>* sample_system (sample_system\<lparr>sy_db := skipped_db\<rparr>)"
proof (rule r_into_rtranclp, rule eps_step.app, rule app_step.skip)
  have "sr_find ''r1'' (sample_db 0) = Some sample_request" by (simp add: sr_find_def sample_defs)
  moreover have "sr_status sample_request = STAGED" "sr_id sample_request = ''r1''" by (simp_all add: sample_request_def)
  moreover have "sy_db sample_system = sample_db 0" by (simp add: sample_system_def)
  ultimately show "skip_payment_POST demo_env None (filer None) demo_request (sy_db sample_system) =
      (fst (skip_write None sample_request (sample_db 0)), skipped_db)"
    by (simp add: skip_payment_POST_def demo_guard_sample skip_write_def faulty_def sr_update_def andThen_def ret_def
        skipped_db_def)
qed

lemma sample_well_formed: "well_formed (sample_db 0)"
  by (simp add: well_formed_def valid_defs tokens_distinct_def metered_def metered_row_def tier_limit_def
      TIER_QUOTA_def sample_defs)

end
