(* ===== verification/Spec2Isabelle.thy ===== *)
theory Spec2Isabelle
  imports EPS_System
begin

text \<open>
  A verification of EPS, a service of process over blockchains: a filer stages a service request, a worker
  delivers it as a memo transaction on Solana, the delivery is anchored on Hedera, the recipient reads a public
  notice, and the filer downloads a certificate. All paths below are relative to \<open>src/\<close>.

  \<^bold>\<open>Conventions.\<close> An async function of the code is an \<open>act\<close>: a function from the state it works on to the
  value it returns or the error it throws, and the state it leaves (EPS_Prelude). A throw keeps the writes made before
  it; \<open>transaction\<close> undoes them. Errors are the constructors of \<open>eps_error\<close>. What a call draws from outside
  (the clock, random bytes, generated ids, the faults its database calls meet, by their order) is an
  argument. Packages outside src/ (Prisma, Clerk, Stripe, web3.js, viem, the Hedera SDK, pdf-lib, zod,
  file-type) are records of the operations the code calls, arguments of the definitions that use them;
  what a property relies on is a named hypothesis (\<open>metadata_capped\<close>, \<open>opens_sealed\<close>, \<open>keeps_input\<close>,
  \<open>catalog_contract\<close>).
  Handlers return a \<open>response\<close>; a handler that throws is answered 500 by the framework.

  \<^bold>\<open>Libraries.\<close> EPS_Prelude (errors, \<open>act\<close> and its laws, the locale \<open>guarded_op\<close> of operations that refuse a
  main network, lookups in object literals with their inherited keys), JS_Strings, JS_Dates (dates are
  milliseconds; \<open>setMonth\<close>, \<open>toISOString\<close>), Encodings (hex, base64 and UTF-8 on \<^typ>\<open>8 word\<close>, the locale \<open>codec\<close>),
  Json_Http (JSON, requests, responses), Tables (the locales \<open>record_store\<close> and \<open>table_access\<close>).

  \<^bold>\<open>Data.\<close> Database: prisma/schema.prisma as records, the database as a record of lists of rows, the client operations
  with the constraint errors P2002, P2003 and P2025; each table interprets \<open>record_store\<close>.

  \<^bold>\<open>Components.\<close> Quota (lib/quota.ts; the lookup and the write of concurrent calls interleave in
  \<open>quota_step\<close>), Storage_Docs (lib/storage.ts), Intake (lib/intake.ts, lib/failure.ts), Chain_Solana (lib/chain/solana.ts,
  tx-builder.ts, types.ts, lib/solana), Hedera (lib/hedera), Worker, Worker_Lemmas, Fulfilment, Broadcast, Worker_Limits,
  Worker_Main and Worker_Steps (worker/index.ts, worker/process.ts: the operations, what each touches, the queue, the entry point, a worker that may crash
  between any two calls as the step relation \<open>delivery_step\<close>, the proof that the loop is a run of it, and what goes wrong), Rate_Limits (lib/rate-limit.ts
  and lib/rateLimit.ts, two providers of one locale), Certificate (lib/certificate*.ts; the PDF is the list of its drawing
  calls), Auth (lib/auth.ts), Notice (lib/notice.ts, lib/noticeAccess.ts, lib/email*, app/n, app/api/certificate), Billing
  (lib/stripe.ts, app/api/checkout, webhooks/stripe, admin/comp-grant), Chain_EVM (the other files of lib/chain), ENS
  (lib/ens, app/api/ens), Intake_Routes (app/api/service-requests, app/api/upload), Hedera_Routes (app/api/hedera,
  agent, nft), Payments (lib/payments, app/api/payments), Demo (app/api/demo), Startup (lib/env.ts, app/api/health),
  Dashboard and Pages (what the pages and client components of app/dashboard, app/pricing and app/n read, decide,
  show and send), Provisioning (scripts/stripe-bootstrap.ts), Scripts (the other scripts, lib/agents/DynamicServerWallet.ts),
  Site (middleware.ts, app/dashboard/agent, app/dashboard/standard, scripts/test-hedera.ts).

  \<^bold>\<open>Composition.\<close> History relates a database to a later one (\<open>evolves\<close>: what is never taken back, what stays well
  formed, how a request may advance) and shows it of the writes of rows. Tracking states in the locale \<open>tracked\<close> what such
  a relation must allow and carries it to every operation by rules for the combinators (\<open>recording_intros\<close>), through the
  locale \<open>db_view\<close> that each component's state interprets; \<open>evolves\<close> and \<open>keeps_signatures\<close>, what the worker relies on,
  interpret it. EPS_System puts the states together: \<open>app_step\<close> has one step per operation that changes state,
  \<open>rest_step\<close> and \<open>eps_step\<close> are the application without and with the worker. This theory holds the properties of
  all runs, among them those of a worker whose awaits interleave with the steps of the rest.

  \<^bold>\<open>What the lemmas show.\<close> Safety: no fulfilment beyond the tier's limit under any interleaving, at most one
  broadcast per request outside the crash window, a confirmed request's memo was read back, no mainnet without
  the override, replayed webhooks change nothing, tenants do not read each other's filings, filings and evidence are
  append-only, requests only move forward. Errors: which failures roll back and which do not (both intakes, the failure transaction).
  Round trips: sealed documents, memos on Solana and EVM chains, the quota unit. Bounds: both limiters (equal to one reference), the page of
  the certificate, the metadata of the tokens. Liveness: the worker, draining or polling, settles every
  pending request (\<open>served\<close>, \<open>job_serves\<close>); the drain loop always ends. Several theorems state a defect
  of the code exactly as it is: the rollover race, the shared claim, the crash window, the frozen certificate, the
  recipient taken from the client (\<open>filed_recipient\<close>), the request without an organization that blocks the queue, the demo that confirms what was not delivered.

  \<^bold>\<open>Bounds and fuel.\<close> The drain loop counts down fuel; \<open>drain_terminates\<close> shows that one more than the number of claimable
  requests is enough, whatever fails; the endless poll loop is looked at after any number of turns. All other recursions are structural. Numbers of JSON are integers; \<^typ>\<open>char\<close> holds the code units below
  256, a literal with an em dash is written as its UTF-8 bytes.

  \<^bold>\<open>Not modelled.\<close> The markup of the pages, the static pages (home, legal) and the prose of the standard,
  fonts and the serialisation of the PDF.
\<close>

section \<open>Properties of the whole system\<close>

text \<open>C2. With a single worker, a request is broadcast at most once more than its signature was lost: over any number
  of crashes, restarts and failed calls, and whatever steps the rest of the program takes between any two
  steps of the worker (filings, views, certificates, payments, grants and the demo routes), a second broadcast of the
  same request needs a crash or a database error between the send and the write that persists its signature.\<close>

theorem broadcast_at_most_once:
  assumes "(delivery_step deps ad (\<lambda>d d'. \<exists>z z'. sy_db z = d \<and> rest_step z z' \<and> sy_db z' = d'))\<^sup>*\<^sup>* y y'" "delivery_start y"
  shows "ds_sends y' k \<le> ds_lost y' k + 1"
proof (rule delivery_bound [OF assms])
  fix d d'
  assume "\<exists>z z'. sy_db z = d \<and> rest_step z z' \<and> sy_db z' = d'" "sr_valid d"
  then show "others_write d d'" using rest_step_keeps by (auto simp: keeps_signatures_def)
qed

theorem broadcast_at_most_once_witness:
  "\<exists>y'. ds_sends y' ''r1'' = 1 \<and> ds_lost y' ''r1'' + 1 \<ge> ds_sends y' ''r1'' \<and> (delivery_step (sample_deps None) sample_ad
     (\<lambda>d d'. \<exists>(z :: (unit, unit, unit) eps_system) z'. sy_db z = d \<and> rest_step z z' \<and> sy_db z' = d'))\<^sup>*\<^sup>* Broadcast.sample_system y'"
proof -
  let ?others = "\<lambda>d d'. \<exists>(z :: (unit, unit, unit) eps_system) z'. sy_db z = d \<and> rest_step z z' \<and> sy_db z' = d'"
  obtain y' where y': "(delivery_step (sample_deps None) sample_ad ?others)\<^sup>*\<^sup>* Broadcast.sample_system y'" "ds_sends y' ''r1'' = 1"
    using sample_sends_once [of ?others] by blast
  from broadcast_at_most_once [OF y'(1) sample_starts, of "''r1''"] y' show ?thesis by (intro exI [of _ y']) simp
qed

text \<open>C3. The record of a filing is append-only: whatever operations of the program run, in whatever order, on
  the system, the columns a service request was filed with keep their values and their order, no request
  disappears, and no audit row, recorded view, addendum, certificate or webhook event is changed or
  removed; each of these tables only grows at its end.\<close>

theorem history_is_append_only:
  assumes "eps_step\<^sup>*\<^sup>* y y'"
  shows "evidence_kept (sy_db y) (sy_db y')"
  using eps_run_evolves [OF assms] by (simp add: evolves_def)

theorem history_is_append_only_witness: "evidence_kept (sample_db 0) skipped_db \<and> skipped_db \<noteq> sample_db 0"
proof -
  have "skipped_db \<noteq> sample_db 0"
    by (simp add: skipped_db_def sr_modify_def row_modify_def sample_defs)
  with history_is_append_only [OF sample_run] show ?thesis by (simp add: sample_system_def)
qed

text \<open>C4. Every reachable database is well formed: from the empty one, or from any well-formed one, every run of
  operations leads to a database whose unique columns (organization, subscription, event and request ids,
  notice tokens, one view, one addendum and one certificate per request) are unique, whose views,
  addenda and certificates belong to existing requests, and in which no subscription counts less than zero or more
  than the limit of its tier.\<close>

theorem database_stays_well_formed:
  assumes "well_formed (sy_db y) \<or> sy_db y = empty_db" "eps_step\<^sup>*\<^sup>* y y'"
  shows "well_formed (sy_db y')"
proof -
  have "well_formed empty_db" by (simp add: well_formed_def valid_defs tokens_distinct_def metered_def empty_db_def)
  with assms eps_run_evolves [OF assms(2)] show ?thesis by (auto simp: evolves_def)
qed

theorem database_stays_well_formed_witness: "well_formed skipped_db"
proof -
  have "well_formed (sy_db sample_system)" by (simp add: sample_system_def sample_well_formed)
  from database_stays_well_formed [OF disjI1 [OF this] sample_run] show ?thesis by simp
qed



end
